(* ===== verification/Prelude.thy ===== *)
theory Prelude imports Main "HOL-Library.Finite_Map" "HOL-Library.Word" "HOL-Library.Char_ord" "HOL-Library.List_Lexorder" "HOL-Library.Sublist" "HOL-Library.Multiset" begin

text \<open>
  What every component shares: Go's machine integers, its error values, the functions of the
  packages \<open>strings\<close> and \<open>strconv\<close> that the repository calls, and Go maps.

  A Go map is a finite map (\<open>fmap\<close>). The order in which \<open>range\<close> visits a map is not
  determined by the language, so a loop over a map is a recursion over an explicit list of
  entries, and \<open>ranges_over es m\<close> says that \<open>es\<close> visits every entry of \<open>m\<close> once.
\<close>

section \<open>Collections of facts\<close>

named_theorems go_simps \<open>equations of the modelled standard library\<close>
named_theorems codec_simps \<open>equations of the JSON field readers and writers\<close>
named_theorems io_simps \<open>equations of state-passing programs with errors\<close>

section \<open>Integers\<close>

type_synonym goint = "64 word"
type_synonym goint32 = "32 word"

lemma goint32_sint_range: "- (2 ^ 31) \<le> sint (x :: goint32) \<and> sint x < 2 ^ 31"
  using sint_range_size [of x] by (simp add: word_size)

lemma goint_sint_range: "- (2 ^ 63) \<le> sint (x :: goint) \<and> sint x < 2 ^ 63"
  using sint_range_size [of x] by (simp add: word_size)

section \<open>Errors\<close>

text \<open>
  \<open>errors.New\<close> and \<open>fmt.Errorf\<close> without a wrapped error give \<open>Err\<close>; \<open>fmt.Errorf\<close> with a
  final \<open>: %w\<close> gives \<open>Wrap\<close>. \<open>Panic\<close> is a run-time panic (an index out of range or a nil
  pointer), which ends the program.
\<close>

datatype error = Err string | Wrap string error | Panic string

type_synonym 'a result = "error + 'a"

definition rbind :: "'a result \<Rightarrow> ('a \<Rightarrow> 'b result) \<Rightarrow> 'b result" where
  "rbind r f = (case r of Inl e \<Rightarrow> Inl e | Inr x \<Rightarrow> f x)"

text \<open>A panic is not a value an operation can wrap.\<close>

fun wrap_error :: "string \<Rightarrow> error \<Rightarrow> error" where
  "wrap_error msg (Panic s) = Panic s"
| "wrap_error msg e = Wrap msg e"

definition rwrap :: "string \<Rightarrow> 'a result \<Rightarrow> 'a result" where
  "rwrap msg r = (case r of Inl e \<Rightarrow> Inl (wrap_error msg e) | Inr x \<Rightarrow> Inr x)"

lemma rbind_simps [simp]: "rbind (Inl e) f = Inl e" "rbind (Inr x) f = f x"
  by (simp_all add: rbind_def)

lemma rwrap_simps [simp]: "rwrap m (Inl e) = Inl (wrap_error m e)" "rwrap m (Inr x) = Inr x"
  by (simp_all add: rwrap_def)

lemma rbind_eq_Inr [simp]: "rbind r f = Inr y \<longleftrightarrow> (\<exists>x. r = Inr x \<and> f x = Inr y)"
  by (cases r) auto

lemma rwrap_eq_Inr [simp]: "rwrap m r = Inr x \<longleftrightarrow> r = Inr x"
  by (cases r) auto

section \<open>The package strings\<close>

definition HasPrefix :: "string \<Rightarrow> string \<Rightarrow> bool" where
  "HasPrefix s p \<longleftrightarrow> take (length p) s = p"

definition TrimPrefix :: "string \<Rightarrow> string \<Rightarrow> string" where
  "TrimPrefix s p = (if HasPrefix s p then drop (length p) s else s)"

definition HasSuffix :: "string \<Rightarrow> string \<Rightarrow> bool" where
  "HasSuffix s p \<longleftrightarrow> HasPrefix (rev s) (rev p)"

definition TrimSuffix :: "string \<Rightarrow> string \<Rightarrow> string" where
  "TrimSuffix s p = (if HasSuffix s p then take (length s - length p) s else s)"

fun Contains :: "string \<Rightarrow> string \<Rightarrow> bool" where
  "Contains [] p = (p = [])"
| "Contains (c # s) p = (HasPrefix (c # s) p \<or> Contains s p)"

text \<open>\<open>strings.Split\<close> for a separator of one character.\<close>

fun Split :: "string \<Rightarrow> char \<Rightarrow> string list" where
  "Split [] c = [[]]"
| "Split (x # s) c =
     (if x = c then [] # Split s c
      else (case Split s c of [] \<Rightarrow> [[x]] | w # ws \<Rightarrow> (x # w) # ws))"

text \<open>\<open>strings.SplitN(s, sep, 2)\<close> for a separator of one character.\<close>

definition SplitN2 :: "string \<Rightarrow> char \<Rightarrow> string list" where
  "SplitN2 s c = (if c \<in> set s
     then [takeWhile (\<lambda>x. x \<noteq> c) s, tl (dropWhile (\<lambda>x. x \<noteq> c) s)] else [s])"

lemma HasPrefix_append [simp]: "HasPrefix (p @ s) p"
  by (simp add: HasPrefix_def)

lemma HasPrefix_iff: "HasPrefix s p \<longleftrightarrow> (\<exists>t. s = p @ t)"
  by (metis HasPrefix_append HasPrefix_def append_take_drop_id)

lemma HasPrefix_Nil [simp]: "HasPrefix s []"
  by (simp add: HasPrefix_def)

lemma HasPrefix_Cons [simp]:
  "HasPrefix (x # s) (y # p) \<longleftrightarrow> x = y \<and> HasPrefix s p"
  "\<not> HasPrefix [] (y # p)"
  by (auto simp: HasPrefix_def)

lemma TrimPrefix_append [simp]: "TrimPrefix (p @ s) p = s"
  by (simp add: TrimPrefix_def)

lemma HasSuffix_append [simp]: "HasSuffix (s @ p) p"
  by (simp add: HasSuffix_def)

lemma TrimSuffix_append [simp]: "TrimSuffix (s @ p) p = s"
  by (simp add: TrimSuffix_def)

lemma Contains_iff: "Contains s p \<longleftrightarrow> (\<exists>a b. s = a @ p @ b)"
proof (induction s)
  case Nil
  then show ?case by auto
next
  case (Cons c s)
  show ?case
  proof
    assume "Contains (c # s) p"
    then consider "HasPrefix (c # s) p" | "Contains s p" by auto
    then show "\<exists>a b. c # s = a @ p @ b"
    proof cases
      case 1
      then show ?thesis by (metis HasPrefix_iff append_Nil)
    next
      case 2
      then show ?thesis by (metis Cons.IH append_Cons)
    qed
  next
    assume "\<exists>a b. c # s = a @ p @ b"
    then obtain a b where ab: "c # s = a @ p @ b" by blast
    show "Contains (c # s) p"
    proof (cases a)
      case Nil
      with ab show ?thesis by (metis Contains.simps(2) HasPrefix_append append_Nil)
    next
      case (Cons d a')
      with ab have "s = a' @ p @ b" by simp
      with Cons.IH have "Contains s p" by blast
      then show ?thesis by simp
    qed
  qed
qed

lemma Contains_char: "Contains s [c] \<longleftrightarrow> c \<in> set s"
  by (induction s) auto

lemma Split_ne [simp]: "Split s c \<noteq> []"
  by (cases s) (auto split: list.splits)

lemma hd_Split: "hd (Split s c) = takeWhile (\<lambda>x. x \<noteq> c) s"
  by (induction s) (auto split: list.splits)

lemma length_Split: "length (Split s c) = Suc (count_list s c)"
  by (induction s) (auto split: list.splits)

lemma SplitN2_length: "length (SplitN2 s c) = (if c \<in> set s then 2 else 1)"
  by (simp add: SplitN2_def)

section \<open>The package strconv\<close>

fun nat_digits :: "nat \<Rightarrow> string" where
  "nat_digits n = (if n < 10 then [char_of (48 + n)]
     else nat_digits (n div 10) @ [char_of (48 + n mod 10)])"

declare nat_digits.simps [simp del]

definition Itoa :: "int \<Rightarrow> string" where
  "Itoa n = (if n < 0 then CHR ''-'' # nat_digits (nat (- n)) else nat_digits (nat n))"

definition is_digit :: "char \<Rightarrow> bool" where
  "is_digit c \<longleftrightarrow> 48 \<le> (of_char c :: nat) \<and> (of_char c :: nat) \<le> 57"

definition digit_value :: "char \<Rightarrow> nat" where
  "digit_value c = of_char c - 48"

definition digits_value :: "string \<Rightarrow> nat" where
  "digits_value ds = foldl (\<lambda>n c. 10 * n + digit_value c) 0 ds"

text \<open>\<open>strconv.Atoi\<close>: an optional sign and one or more digits, in the range of \<open>int\<close>.\<close>

definition Atoi :: "string \<Rightarrow> int option" where
  "Atoi s = (case s of [] \<Rightarrow> None | c # t \<Rightarrow>
     (let ds = (if c = CHR ''-'' \<or> c = CHR ''+'' then t else s);
          n = (if c = CHR ''-'' then - int (digits_value ds) else int (digits_value ds))
      in if ds \<noteq> [] \<and> list_all is_digit ds \<and> - (2 ^ 63) \<le> n \<and> n < 2 ^ 63 then Some n else None))"

lemma nat_digits_ne [simp]: "nat_digits n \<noteq> []"
  by (subst nat_digits.simps) simp

lemma of_char_digit: "d < 10 \<Longrightarrow> (of_char (char_of (48 + d) :: char) :: nat) = 48 + d"
  by simp

lemma nat_digits_all_digits: "list_all is_digit (nat_digits n)"
proof (induction n rule: nat_digits.induct)
  case (1 n)
  have d: "is_digit (char_of (48 + n mod 10))"
    by (simp add: is_digit_def)
  show ?case
  proof (cases "n < 10")
    case True
    then show ?thesis by (subst nat_digits.simps) (simp add: is_digit_def)
  next
    case False
    with "1" d show ?thesis by (subst nat_digits.simps) simp
  qed
qed

lemma digits_value_snoc: "digits_value (ds @ [c]) = 10 * digits_value ds + digit_value c"
  by (simp add: digits_value_def)

lemma digits_value_nat_digits: "digits_value (nat_digits n) = n"
proof (induction n rule: nat_digits.induct)
  case (1 n)
  show ?case
  proof (cases "n < 10")
    case True
    then show ?thesis
      by (subst nat_digits.simps) (simp add: digits_value_def digit_value_def)
  next
    case False
    with "1" show ?thesis
      by (subst nat_digits.simps) (simp add: digits_value_snoc digit_value_def)
  qed
qed

lemma nat_digits_first_digit: "nat_digits n = c # cs \<Longrightarrow> is_digit c"
  using nat_digits_all_digits [of n] by simp

lemma Atoi_Itoa:
  assumes "- (2 ^ 63) \<le> n" and "n < 2 ^ 63"
  shows "Atoi (Itoa n) = Some n"
proof (cases "n < 0")
  case True
  with assms show ?thesis
    by (simp add: Atoi_def Itoa_def nat_digits_all_digits digits_value_nat_digits)
next
  case False
  obtain c cs where c: "nat_digits (nat n) = c # cs"
    by (cases "nat_digits (nat n)") auto
  have "is_digit c" using nat_digits_first_digit [OF c] .
  then have "c \<noteq> CHR ''-''" "c \<noteq> CHR ''+''" by (auto simp: is_digit_def)
  with c have "Atoi (nat_digits (nat n)) =
      (if list_all is_digit (nat_digits (nat n)) \<and> int (digits_value (nat_digits (nat n))) < 2 ^ 63
       then Some (int (digits_value (nat_digits (nat n)))) else None)"
    unfolding Atoi_def by (simp add: Let_def)
  with False assms show ?thesis
    by (simp add: Itoa_def nat_digits_all_digits digits_value_nat_digits)
qed

section \<open>Lists\<close>

lemma distinct_filter_le: "distinct xs \<Longrightarrow> length (filter (\<lambda>x. x = a) xs) \<le> 1"
  by (induction xs) (auto simp: filter_empty_conv)

lemma subseq_distinct: "subseq xs ys \<Longrightarrow> distinct ys \<Longrightarrow> distinct xs"
  by (induction rule: list_emb.induct) (auto dest: list_emb_set)

lemma mset_eq_short: "mset xs = mset ys \<Longrightarrow> length ys \<le> 1 \<Longrightarrow> xs = ys"
  by (cases ys) (auto dest: mset_eq_length)

section \<open>Finite maps\<close>

lemma fmdrop_lookup_if [simp]: "fmlookup (fmdrop a m) b = (if a = b then None else fmlookup m b)"
  by (auto simp: fmfilter_alt_defs)

lemma fmdom_lookup: "k |\<in>| fmdom m \<longleftrightarrow> (\<exists>v. fmlookup m k = Some v)"
  by (auto simp: fmlookup_dom_iff)

lemma fmdrop_upd_fresh: "fmlookup m k = None \<Longrightarrow> fmdrop k (fmupd k v m) = m"
  by (rule fmap_ext) auto

text \<open>A map in which every value is stored under its own key.\<close>

definition keyed :: "('v \<Rightarrow> 'k) \<Rightarrow> ('k, 'v) fmap \<Rightarrow> bool" where
  "keyed key m \<longleftrightarrow> fmpred (\<lambda>k v. key v = k) m"

lemma keyed_iff: "keyed key m \<longleftrightarrow> (\<forall>k v. fmlookup m k = Some v \<longrightarrow> key v = k)"
  by (auto simp: keyed_def fmpred_iff)

lemma keyed_empty [intro, simp]: "keyed key fmempty"
  by (simp add: keyed_iff)

lemma keyed_upd [intro]: "keyed key m \<Longrightarrow> key v = k \<Longrightarrow> keyed key (fmupd k v m)"
  by (auto simp: keyed_iff)

lemma keyed_drop [intro]: "keyed key m \<Longrightarrow> keyed key (fmdrop k m)"
  by (auto simp: keyed_iff)

lemma keyed_filter [intro]: "keyed key m \<Longrightarrow> keyed key (fmfilter P m)"
  by (auto simp: keyed_iff)

section \<open>Ranging over a map\<close>

definition ranges_over :: "('k \<times> 'v) list \<Rightarrow> ('k, 'v) fmap \<Rightarrow> bool" where
  "ranges_over es m \<longleftrightarrow> distinct (map fst es) \<and> fmap_of_list es = m"

lemma ranges_over_lookup: "ranges_over es m \<Longrightarrow> fmlookup m k = map_of es k"
  by (auto simp: ranges_over_def fmlookup_of_list)

lemma ranges_over_distinct: "ranges_over es m \<Longrightarrow> distinct (map fst es)"
  by (simp add: ranges_over_def)

lemma ranges_over_mem: "ranges_over es m \<Longrightarrow> (k, v) \<in> set es \<longleftrightarrow> fmlookup m k = Some v"
  by (auto simp: ranges_over_def fmlookup_of_list)

lemma ranges_over_keys: "ranges_over es m \<Longrightarrow> set (map fst es) = fset (fmdom m)"
  by (force simp: ranges_over_def fset_of_list.rep_eq)

lemma ranges_over_sorted: "ranges_over (sorted_list_of_fmap m) m"
proof -
  have "map fst (sorted_list_of_fmap m) = sorted_list_of_fset (fmdom m)"
    by (simp add: sorted_list_of_fmap_def comp_def)
  then have "distinct (map fst (sorted_list_of_fmap m))"
    by (simp add: sorted_list_of_fset.rep_eq)
  then show ?thesis
    by (auto simp: ranges_over_def fmlookup_of_list intro!: fmap_ext)
qed

lemma ranges_over_empty [simp]: "ranges_over es fmempty \<longleftrightarrow> es = []"
proof
  assume r: "ranges_over es fmempty"
  show "es = []"
  proof (cases es)
    case (Cons e es')
    then have "fst e \<in> set (map fst es)" by simp
    then have "fst e \<in> fset (fmdom (fmempty :: ('a, 'b) fmap))"
      using ranges_over_keys [OF r] by blast
    then show ?thesis by simp
  qed simp
qed (simp add: ranges_over_def)

end
