(* ===== verification/Json.thy ===== *)
theory Json imports Prelude begin

text \<open>
  The package \<open>encoding/json\<close>, as far as the repository uses it. A document is its tree: the
  text of a file that \<open>json.Marshal\<close> wrote stands for the tree it was written from, and number
  literals are integers, as every number the repository writes is. Objects keep the order and
  the duplicates of their members.

  A struct is written member by member in the order of its fields, with \<open>omitempty\<close> leaving a
  zero value out, and a map in the order of its keys. A struct is read field by field: the
  members whose name is the field's, compared exactly or without case, are applied in their
  order, \<open>null\<close> leaves the field as it is, and a member of another type is an
  \<open>UnmarshalTypeError\<close>.
\<close>

section \<open>Documents\<close>

datatype json =
    JNull
  | JBool bool
  | JNum int
  | JStr string
  | JArr "json list"
  | JObj "(string \<times> json) list"

definition type_error :: error where
  "type_error = Err ''json: cannot unmarshal value into Go value''"

section \<open>Writing the fields of a struct\<close>

type_synonym members = "(string \<times> json) list"

definition put_str :: "string \<Rightarrow> string \<Rightarrow> members" where
  "put_str k v = [(k, JStr v)]"

definition opt_str :: "string \<Rightarrow> string \<Rightarrow> members" where
  "opt_str k v = (if v = [] then [] else [(k, JStr v)])"

definition put_bool :: "string \<Rightarrow> bool \<Rightarrow> members" where
  "put_bool k v = [(k, JBool v)]"

definition opt_bool :: "string \<Rightarrow> bool \<Rightarrow> members" where
  "opt_bool k v = (if v then [(k, JBool v)] else [])"

definition put_num :: "string \<Rightarrow> 'a::len word \<Rightarrow> members" where
  "put_num k v = [(k, JNum (sint v))]"

definition opt_num :: "string \<Rightarrow> 'a::len word \<Rightarrow> members" where
  "opt_num k v = (if v = 0 then [] else [(k, JNum (sint v))])"

section \<open>Reading the fields of a struct\<close>

text \<open>The comparison without case, on the ASCII letters.\<close>

definition fold_char :: "char \<Rightarrow> char" where
  "fold_char c = (let n = of_char c :: nat in if 65 \<le> n \<and> n \<le> 90 then char_of (n + 32) else c)"

definition equal_fold :: "string \<Rightarrow> string \<Rightarrow> bool" where
  "equal_fold s t \<longleftrightarrow> map fold_char s = map fold_char t"

definition members_of :: "string \<Rightarrow> members \<Rightarrow> json list" where
  "members_of k ms = map snd (filter (\<lambda>m. equal_fold k (fst m)) ms)"

fun read_with :: "(json \<Rightarrow> 'a result) \<Rightarrow> 'a \<Rightarrow> json list \<Rightarrow> 'a result" where
  "read_with f z [] = Inr z"
| "read_with f z (JNull # js) = read_with f z js"
| "read_with f z (j # js) = rbind (f j) (\<lambda>v. read_with f v js)"

fun as_str :: "json \<Rightarrow> string result" where
  "as_str (JStr s) = Inr s"
| "as_str _ = Inl type_error"

fun as_bool :: "json \<Rightarrow> bool result" where
  "as_bool (JBool b) = Inr b"
| "as_bool _ = Inl type_error"

text \<open>A number is read into a field of \<open>LENGTH('a)\<close> bits if the signed range holds it.\<close>

fun as_num :: "json \<Rightarrow> 'a::len word result" where
  "as_num (JNum n) =
     (if - (2 ^ (LENGTH('a) - 1)) \<le> n \<and> n < 2 ^ (LENGTH('a) - 1)
      then Inr (word_of_int n) else Inl type_error)"
| "as_num _ = Inl type_error"

definition get_str :: "string \<Rightarrow> members \<Rightarrow> string result" where
  "get_str k ms = read_with as_str [] (members_of k ms)"

definition get_bool :: "string \<Rightarrow> members \<Rightarrow> bool result" where
  "get_bool k ms = read_with as_bool False (members_of k ms)"

definition get_num :: "string \<Rightarrow> members \<Rightarrow> 'a::len word result" where
  "get_num k ms = read_with as_num 0 (members_of k ms)"

text \<open>A struct is read from an object; \<open>null\<close> leaves its zero value.\<close>

definition as_struct :: "'a \<Rightarrow> (members \<Rightarrow> 'a result) \<Rightarrow> json \<Rightarrow> 'a result" where
  "as_struct z f j = (case j of JObj ms \<Rightarrow> f ms | JNull \<Rightarrow> Inr z | _ \<Rightarrow> Inl type_error)"

text \<open>A slice; the nil slice and the empty one are not told apart.\<close>

fun read_all :: "(json \<Rightarrow> 'a result) \<Rightarrow> json list \<Rightarrow> 'a list result" where
  "read_all f [] = Inr []"
| "read_all f (j # js) = rbind (f j) (\<lambda>v. rbind (read_all f js) (\<lambda>vs. Inr (v # vs)))"

definition as_slice :: "(json \<Rightarrow> 'a result) \<Rightarrow> json \<Rightarrow> 'a list result" where
  "as_slice f j = (case j of JArr js \<Rightarrow> read_all f js | JNull \<Rightarrow> Inr [] | _ \<Rightarrow> Inl type_error)"

text \<open>A map with string keys: a later member replaces an earlier one of the same key.\<close>

fun read_entries :: "(json \<Rightarrow> 'a result) \<Rightarrow> members \<Rightarrow> (string, 'a) fmap \<Rightarrow> (string, 'a) fmap result" where
  "read_entries f [] m = Inr m"
| "read_entries f ((k, j) # ms) m = rbind (f j) (\<lambda>v. read_entries f ms (fmupd k v m))"

text \<open>A pointer to a struct: \<open>null\<close> is the nil pointer.\<close>

definition as_ptr :: "(json \<Rightarrow> 'a result) \<Rightarrow> json \<Rightarrow> 'a option result" where
  "as_ptr f j = (if j = JNull then Inr None else rbind (f j) (\<lambda>v. Inr (Some v)))"

text \<open>For a field that holds a slice, a pointer or a struct the last member counts.\<close>

fun read_last :: "(json \<Rightarrow> 'a result) \<Rightarrow> 'a \<Rightarrow> json list \<Rightarrow> 'a result" where
  "read_last f z [] = Inr z"
| "read_last f z (j # js) = rbind (f j) (\<lambda>v. read_last f v js)"

definition get_with :: "(json \<Rightarrow> 'a result) \<Rightarrow> 'a \<Rightarrow> string \<Rightarrow> members \<Rightarrow> 'a result" where
  "get_with f z k ms = read_last f z (members_of k ms)"

definition opt_ptr :: "string \<Rightarrow> ('a \<Rightarrow> json) \<Rightarrow> 'a option \<Rightarrow> members" where
  "opt_ptr k enc p = (case p of None \<Rightarrow> [] | Some x \<Rightarrow> [(k, enc x)])"

definition as_map :: "(json \<Rightarrow> 'a result) \<Rightarrow> json \<Rightarrow> (string, 'a) fmap result" where
  "as_map f j = (case j of JObj ms \<Rightarrow> read_entries f ms fmempty | JNull \<Rightarrow> Inr fmempty
     | _ \<Rightarrow> Inl type_error)"

definition put_map :: "('a \<Rightarrow> json) \<Rightarrow> (string, 'a) fmap \<Rightarrow> json" where
  "put_map enc m = JObj (map (map_prod id enc) (sorted_list_of_fmap m))"

section \<open>Lemmas on fields\<close>

lemma read_with_single [simp]:
  "j \<noteq> JNull \<Longrightarrow> read_with f z [j] = f j"
  by (cases j) (auto simp: rbind_def split: sum.splits)

lemma members_of_append [codec_simps]: "members_of k (xs @ ys) = members_of k xs @ members_of k ys"
  by (simp add: members_of_def)

lemma members_of_Nil [codec_simps]: "members_of k [] = []"
  by (simp add: members_of_def)

lemma members_of_put [codec_simps]:
  "members_of k (put_str k' v) = (if equal_fold k k' then [JStr v] else [])"
  "members_of k (opt_str k' v) = (if equal_fold k k' \<and> v \<noteq> [] then [JStr v] else [])"
  "members_of k (put_bool k' b) = (if equal_fold k k' then [JBool b] else [])"
  "members_of k (opt_bool k' b) = (if equal_fold k k' \<and> b then [JBool b] else [])"
  "members_of k (put_num k' w) = (if equal_fold k k' then [JNum (sint w)] else [])"
  "members_of k (opt_num k' w) = (if equal_fold k k' \<and> w \<noteq> 0 then [JNum (sint w)] else [])"
  "members_of k (opt_ptr k' enc p) =
     (if equal_fold k k' then (case p of None \<Rightarrow> [] | Some x \<Rightarrow> [enc x]) else [])"
  "members_of k ((k', j) # ms) = (if equal_fold k k' then j # members_of k ms else members_of k ms)"
  by (auto simp: members_of_def opt_ptr_def split: option.splits
      simp:  put_str_def opt_str_def put_bool_def opt_bool_def put_num_def opt_num_def)

lemma as_num_sint [simp]: "as_num (JNum (sint (w :: 'a::len word))) = Inr w"
proof -
  have "- (2 ^ (LENGTH('a) - 1)) \<le> sint w \<and> sint w < 2 ^ (LENGTH('a) - 1)"
    using sint_range_size [of w] by (simp add: word_size)
  then show ?thesis by simp
qed

declare as_num.simps(1) [simp del]

lemma read_opt [simp]:
  "read_with as_str [] (if v \<noteq> [] then [JStr v] else []) = Inr v"
  "read_with as_bool False (if b then [JBool b] else []) = Inr b"
  "read_with as_num 0 (if w \<noteq> 0 then [JNum (sint w)] else []) = Inr w"
  by auto

lemma equal_fold_refl [simp]: "equal_fold k k"
  by (simp add: equal_fold_def)

lemma equal_fold_sym: "equal_fold s t = equal_fold t s"
  by (auto simp: equal_fold_def)

text \<open>Two names with different lengths or a different letter are told apart by evaluation.\<close>

lemma equal_fold_Cons [simp]:
  "equal_fold (c # s) (d # t) \<longleftrightarrow> fold_char c = fold_char d \<and> equal_fold s t"
  "equal_fold [] []"
  "\<not> equal_fold (c # s) []"
  "\<not> equal_fold [] (d # t)"
  by (auto simp: equal_fold_def)

section \<open>Values without a type\<close>

text \<open>
  Unmarshalling into an \<open>interface{}\<close> turns an object into a map, and marshalling that map
  again writes its members once each, in the order of the keys. Integers of the sizes read
  here survive the \<open>float64\<close> in between: an \<open>int32\<close> is exact there, and a number that does
  not fit stays too large.
\<close>

definition sort_members :: "members \<Rightarrow> members" where
  "sort_members ms = sorted_list_of_fmap (fold (\<lambda>(k, v). fmupd k v) ms fmempty)"

primrec canon :: "json \<Rightarrow> json" where
  "canon JNull = JNull"
| "canon (JBool b) = JBool b"
| "canon (JNum n) = JNum n"
| "canon (JStr s) = JStr s"
| "canon (JArr js) = JArr (map canon js)"
| "canon (JObj ms) = JObj (sort_members (map (map_prod id canon) ms))"

fun atomic :: "json \<Rightarrow> bool" where
  "atomic (JArr _) = False"
| "atomic (JObj _) = False"
| "atomic _ = True"

lemma canon_atomic: "atomic j \<Longrightarrow> canon j = j"
  by (cases j) auto

lemma fold_fmupd_lookup:
  "fmlookup (fold (\<lambda>(k, v). fmupd k v) es m) k =
     (case map_of (rev es) k of None \<Rightarrow> fmlookup m k | Some v \<Rightarrow> Some v)"
  by (induction es arbitrary: m) (auto simp: map_add_def split: option.splits)

lemma map_of_rev_distinct: "distinct (map fst es) \<Longrightarrow> map_of (rev es) = map_of es"
proof (induction es)
  case (Cons e es)
  then have "map_of (rev es) = map_of es" and "map_of es (fst e) = None"
    by (simp_all add: map_of_eq_None_iff)
  then show ?case
    by (cases e) (auto simp: map_add_def fun_eq_iff split: option.splits)
qed simp

lemma fold_fmupd_ranges:
  assumes "ranges_over es m"
  shows "fold (\<lambda>(k, v). fmupd k v) es fmempty = m"
proof (rule fmap_ext)
  fix k
  from assms have "map_of (rev es) = map_of es"
    by (simp add: map_of_rev_distinct ranges_over_def)
  with assms show "fmlookup (fold (\<lambda>(k, v). fmupd k v) es fmempty) k = fmlookup m k"
    by (simp add: fold_fmupd_lookup ranges_over_lookup split: option.splits)
qed

lemma mset_sort_members:
  assumes d: "distinct (map fst ms)"
  shows "mset (sort_members ms) = mset ms"
proof -
  let ?m = "fmap_of_list ms"
  have r: "ranges_over ms ?m" using d by (simp add: ranges_over_def)
  have s: "sort_members ms = sorted_list_of_fmap ?m"
    by (simp add: sort_members_def fold_fmupd_ranges [OF r])
  have "set (sorted_list_of_fmap ?m) = set ms"
    using ranges_over_mem [OF r] ranges_over_mem [OF ranges_over_sorted [of ?m]] by auto
  moreover have "distinct (sorted_list_of_fmap ?m)" "distinct ms"
    using d ranges_over_distinct [OF ranges_over_sorted [of ?m]] by (auto simp: distinct_map)
  ultimately show ?thesis by (simp add: s set_eq_iff_mset_eq_distinct)
qed

text \<open>What a struct writer produces: names of its fields in order, each at most once.\<close>

definition written :: "string list \<Rightarrow> members \<Rightarrow> bool" where
  "written names ms \<longleftrightarrow> subseq (map fst ms) names \<and> list_all (\<lambda>m. atomic (snd m)) ms"

lemma written_Nil [intro!, simp]: "written [] []"
  by (simp add: written_def)

lemma written_append: "written as xs \<Longrightarrow> written bs ys \<Longrightarrow> written (as @ bs) (xs @ ys)"
  by (simp add: written_def list_emb_append_mono)

lemma written_fields:
  "written [k] (put_str k s)" "written [k] (opt_str k s)" "written [k] (put_bool k b)"
  "written [k] (opt_bool k b)" "written [k] (put_num k w)" "written [k] (opt_num k w)"
  by (auto simp: written_def put_str_def opt_str_def put_bool_def opt_bool_def put_num_def opt_num_def)

lemma written_cons: "written [a] xs \<Longrightarrow> written as ys \<Longrightarrow> written (a # as) (xs @ ys)"
  using written_append [of "[a]" xs as ys] by simp

lemma written_members_le:
  assumes "written names ms" and "distinct (map (map fold_char) names)"
  shows "length (members_of k ms) \<le> 1" and "distinct (map fst ms)"
proof -
  have sub: "subseq (map (map fold_char) (map fst ms)) (map (map fold_char) names)"
    using assms(1) subseq_map unfolding written_def by blast
  then have d: "distinct (map (map fold_char) (map fst ms))"
    using assms(2) by (rule subseq_distinct)
  then show "distinct (map fst ms)" by (auto simp: distinct_map dest: inj_on_imageI2)
  have "length (filter (\<lambda>x. x = map fold_char k) (map (map fold_char) (map fst ms))) \<le> 1"
    using d by (rule distinct_filter_le)
  then show "length (members_of k ms) \<le> 1"
    by (simp add: members_of_def equal_fold_def comp_def filter_map eq_commute)
qed

lemma canon_members_of:
  assumes w: "written names ms" and names: "distinct (map (map fold_char) names)"
  shows "members_of k (sort_members (map (map_prod id canon) ms)) = members_of k ms"
proof -
  have "map (map_prod id canon) ms = ms"
    using w by (auto simp: written_def list_all_iff canon_atomic intro!: map_idI)
  moreover have "mset (sort_members ms) = mset ms"
    using written_members_le(2) [OF w names] by (rule mset_sort_members)
  then have "mset (members_of k (sort_members ms)) = mset (members_of k ms)"
    by (simp add: members_of_def mset_filter)
  then have "members_of k (sort_members ms) = members_of k ms"
    using written_members_le(1) [OF w names] by (rule mset_eq_short)
  ultimately show ?thesis by simp
qed

section \<open>Codecs\<close>

text \<open>
  The contract of a type with a JSON form: reading what was written gives the value back.
  Its clients are the slices and the maps of the type.
\<close>

locale json_codec =
  fixes enc :: "'a \<Rightarrow> json"
    and dec :: "json \<Rightarrow> 'a result"
  assumes dec_enc: "dec (enc x) = Inr x"
begin

lemma read_all_enc: "read_all dec (map enc xs) = Inr xs"
  by (induction xs) (simp_all add: dec_enc)

lemma slice_round_trip: "as_slice dec (JArr (map enc xs)) = Inr xs"
  by (simp add: as_slice_def read_all_enc)

lemma read_entries_enc:
  "read_entries dec (map (map_prod id enc) es) m = Inr (fold (\<lambda>(k, v). fmupd k v) es m)"
  by (induction es arbitrary: m) (auto simp: dec_enc)

lemma enc_inj: "enc x = enc y \<Longrightarrow> x = y"
  by (metis dec_enc Inr_inject)

end

context json_codec begin

lemma ptr_round_trip: "enc x \<noteq> JNull \<Longrightarrow> as_ptr dec (enc x) = Inr (Some x)"
  by (simp add: as_ptr_def dec_enc)

lemma opt_ptr_round_trip:
  "(\<And>x. enc x \<noteq> JNull) \<Longrightarrow>
   read_last (as_ptr dec) None (case p of None \<Rightarrow> [] | Some x \<Rightarrow> [enc x]) = Inr p"
  by (cases p) (simp_all add: ptr_round_trip)

lemma map_round_trip: "as_map dec (put_map enc m) = Inr m"
  by (simp add: as_map_def put_map_def read_entries_enc fold_fmupd_ranges [OF ranges_over_sorted])

end

text \<open>
  A codec whose values also survive the way through an \<open>interface{}\<close>, as the sections of a
  router configuration do.
\<close>

locale canonical_codec = json_codec +
  assumes dec_canon_enc: "dec (canon (enc x)) = Inr x"

end
