(* ===== verification/Router_Config.thy ===== *)
theory Router_Config imports Json begin

text \<open>
  \<open>pkg/qdr/qdr.go\<close>, the router configuration: its entities with their JSON form, the initial
  configuration and the operations that add and remove entities.

  A section of the configuration is a Go map from an entity's name to the entity. The locale
  \<open>map_field\<close> is what a section is to its clients, a field with a getter and a setter; the
  operations that add an entity are the locale's \<open>insert\<close>. \<open>wf_RouterConfig\<close> is the invariant
  of the sections: every entity is stored under its own name.
\<close>

section \<open>Entities\<close>

definition ModeInterior :: string where "ModeInterior = ''interior''"
definition ModeEdge :: string where "ModeEdge = ''edge''"
definition RoleInterRouter :: string where "RoleInterRouter = ''inter-router''"
definition RoleEdge :: string where "RoleEdge = ''edge''"

record RouterMetadata =
  rm_Id :: string
  rm_Mode :: string
  rm_Metadata :: string

record SslProfile =
  sp_Name :: string
  sp_CertFile :: string
  sp_PrivateKeyFile :: string
  sp_CaCertFile :: string

record Listener =
  l_Name :: string
  l_Role :: string
  l_Host :: string
  l_Port :: goint32
  l_RouteContainer :: bool
  l_Http :: bool
  l_Cost :: goint32
  l_SslProfile :: string
  l_SaslMechanisms :: string
  l_AuthenticatePeer :: bool
  l_LinkCapacity :: goint32
  l_HttpRootDir :: string
  l_Websockets :: bool
  l_Healthz :: bool
  l_Metrics :: bool

record Connector =
  c_Name :: string
  c_Role :: string
  c_Host :: string
  c_Port :: string
  c_RouteContainer :: bool
  c_Cost :: goint32
  c_VerifyHostname :: bool
  c_SslProfile :: string
  c_LinkCapacity :: goint32

record Address =
  a_Prefix :: string
  a_Distribution :: string

record TcpEndpoint =
  te_Name :: string
  te_Host :: string
  te_Port :: string
  te_Address :: string
  te_SiteId :: string

record HttpEndpoint =
  he_Name :: string
  he_Host :: string
  he_Port :: string
  he_Address :: string
  he_SiteId :: string
  he_ProtocolVersion :: string
  he_Aggregation :: string
  he_EventChannel :: bool
  he_HostOverride :: string

record BridgeConfig =
  TcpListeners :: "(string, TcpEndpoint) fmap"
  TcpConnectors :: "(string, TcpEndpoint) fmap"
  HttpListeners :: "(string, HttpEndpoint) fmap"
  HttpConnectors :: "(string, HttpEndpoint) fmap"

record RouterConfig =
  Metadata :: RouterMetadata
  SslProfiles :: "(string, SslProfile) fmap"
  Listeners :: "(string, Listener) fmap"
  Connectors :: "(string, Connector) fmap"
  Addresses :: "(string, Address) fmap"
  Bridges :: BridgeConfig

text \<open>The zero values, which a composite literal gives to the fields it does not name.\<close>

definition zero_Listener :: Listener where
  "zero_Listener = \<lparr>l_Name = [], l_Role = [], l_Host = [], l_Port = 0, l_RouteContainer = False,
     l_Http = False, l_Cost = 0, l_SslProfile = [], l_SaslMechanisms = [], l_AuthenticatePeer = False,
     l_LinkCapacity = 0, l_HttpRootDir = [], l_Websockets = False, l_Healthz = False, l_Metrics = False\<rparr>"

definition zero_Connector :: Connector where
  "zero_Connector = \<lparr>c_Name = [], c_Role = [], c_Host = [], c_Port = [], c_RouteContainer = False,
     c_Cost = 0, c_VerifyHostname = False, c_SslProfile = [], c_LinkCapacity = 0\<rparr>"

definition zero_SslProfile :: SslProfile where
  "zero_SslProfile = \<lparr>sp_Name = [], sp_CertFile = [], sp_PrivateKeyFile = [], sp_CaCertFile = []\<rparr>"

definition zero_HttpEndpoint :: HttpEndpoint where
  "zero_HttpEndpoint = \<lparr>he_Name = [], he_Host = [], he_Port = [], he_Address = [], he_SiteId = [],
     he_ProtocolVersion = [], he_Aggregation = [], he_EventChannel = False, he_HostOverride = []\<rparr>"

section \<open>The configuration and its operations\<close>

definition NewBridgeConfig :: BridgeConfig where
  "NewBridgeConfig = \<lparr>TcpListeners = fmempty, TcpConnectors = fmempty,
     HttpListeners = fmempty, HttpConnectors = fmempty\<rparr>"

definition InitialConfig :: "string \<Rightarrow> string \<Rightarrow> bool \<Rightarrow> RouterConfig" where
  "InitialConfig rid metadata edge =
     \<lparr>Metadata = \<lparr>rm_Id = rid, rm_Mode = (if edge then ModeEdge else ModeInterior),
        rm_Metadata = metadata\<rparr>,
      SslProfiles = fmempty, Listeners = fmempty, Connectors = fmempty, Addresses = fmempty,
      Bridges = NewBridgeConfig\<rparr>"

definition AddListener :: "Listener \<Rightarrow> RouterConfig \<Rightarrow> RouterConfig" where
  "AddListener l r =
     (let l = (if l_Name l = [] then l\<lparr>l_Name := l_Host l @ ''@'' @ Itoa (sint (l_Port l))\<rparr> else l)
      in r\<lparr>Listeners := fmupd (l_Name l) l (Listeners r)\<rparr>)"

definition AddConnector :: "Connector \<Rightarrow> RouterConfig \<Rightarrow> RouterConfig" where
  "AddConnector c r = r\<lparr>Connectors := fmupd (c_Name c) c (Connectors r)\<rparr>"

definition RemoveConnector :: "string \<Rightarrow> RouterConfig \<Rightarrow> RouterConfig \<times> bool" where
  "RemoveConnector name r =
     (case fmlookup (Connectors r) name of
        Some _ \<Rightarrow> (r\<lparr>Connectors := fmdrop name (Connectors r)\<rparr>, True)
      | None \<Rightarrow> (r, False))"

definition IsEdge :: "RouterConfig \<Rightarrow> bool" where
  "IsEdge r \<longleftrightarrow> rm_Mode (Metadata r) = ModeEdge"

definition AddSslProfile :: "SslProfile \<Rightarrow> RouterConfig \<Rightarrow> RouterConfig" where
  "AddSslProfile s r =
     (let dir = ''/etc/qpid-dispatch-certs/'' @ sp_Name s;
          s = (if sp_CertFile s = [] \<and> sp_CaCertFile s = [] \<and> sp_PrivateKeyFile s = []
               then s\<lparr>sp_CertFile := dir @ ''/tls.crt'', sp_PrivateKeyFile := dir @ ''/tls.key'',
                      sp_CaCertFile := dir @ ''/ca.crt''\<rparr>
               else s)
      in r\<lparr>SslProfiles := fmupd (sp_Name s) s (SslProfiles r)\<rparr>)"

definition AddConnSslProfile :: "SslProfile \<Rightarrow> RouterConfig \<Rightarrow> RouterConfig" where
  "AddConnSslProfile s r =
     (let dir = ''/etc/qpid-dispatch/connections/'' @ TrimSuffix (sp_Name s) ''-profile'';
          s = (if sp_CertFile s = [] \<and> sp_CaCertFile s = [] \<and> sp_PrivateKeyFile s = []
               then s\<lparr>sp_CertFile := dir @ ''/tls.crt'', sp_PrivateKeyFile := dir @ ''/tls.key'',
                      sp_CaCertFile := dir @ ''/ca.crt''\<rparr>
               else s)
      in r\<lparr>SslProfiles := fmupd (sp_Name s) s (SslProfiles r)\<rparr>)"

definition RemoveConnSslProfile :: "string \<Rightarrow> RouterConfig \<Rightarrow> RouterConfig \<times> bool" where
  "RemoveConnSslProfile name r =
     (let profileName = name @ ''-profile''
      in case fmlookup (SslProfiles r) profileName of
           Some _ \<Rightarrow> (r\<lparr>SslProfiles := fmdrop profileName (SslProfiles r)\<rparr>, True)
         | None \<Rightarrow> (r, False))"

definition AddAddress :: "Address \<Rightarrow> RouterConfig \<Rightarrow> RouterConfig" where
  "AddAddress a r = r\<lparr>Addresses := fmupd (a_Prefix a) a (Addresses r)\<rparr>"

definition bc_AddTcpConnector :: "TcpEndpoint \<Rightarrow> BridgeConfig \<Rightarrow> BridgeConfig" where
  "bc_AddTcpConnector e bc = bc\<lparr>TcpConnectors := fmupd (te_Name e) e (TcpConnectors bc)\<rparr>"

definition bc_AddTcpListener :: "TcpEndpoint \<Rightarrow> BridgeConfig \<Rightarrow> BridgeConfig" where
  "bc_AddTcpListener e bc = bc\<lparr>TcpListeners := fmupd (te_Name e) e (TcpListeners bc)\<rparr>"

definition bc_AddHttpConnector :: "HttpEndpoint \<Rightarrow> BridgeConfig \<Rightarrow> BridgeConfig" where
  "bc_AddHttpConnector e bc = bc\<lparr>HttpConnectors := fmupd (he_Name e) e (HttpConnectors bc)\<rparr>"

definition bc_AddHttpListener :: "HttpEndpoint \<Rightarrow> BridgeConfig \<Rightarrow> BridgeConfig" where
  "bc_AddHttpListener e bc = bc\<lparr>HttpListeners := fmupd (he_Name e) e (HttpListeners bc)\<rparr>"

definition AddTcpConnector :: "TcpEndpoint \<Rightarrow> RouterConfig \<Rightarrow> RouterConfig" where
  "AddTcpConnector e r = r\<lparr>Bridges := bc_AddTcpConnector e (Bridges r)\<rparr>"

definition AddTcpListener :: "TcpEndpoint \<Rightarrow> RouterConfig \<Rightarrow> RouterConfig" where
  "AddTcpListener e r = r\<lparr>Bridges := bc_AddTcpListener e (Bridges r)\<rparr>"

definition AddHttpConnector :: "HttpEndpoint \<Rightarrow> RouterConfig \<Rightarrow> RouterConfig" where
  "AddHttpConnector e r = r\<lparr>Bridges := bc_AddHttpConnector e (Bridges r)\<rparr>"

definition AddHttpListener :: "HttpEndpoint \<Rightarrow> RouterConfig \<Rightarrow> RouterConfig" where
  "AddHttpListener e r = r\<lparr>Bridges := bc_AddHttpListener e (Bridges r)\<rparr>"

definition UpdateBridgeConfig :: "BridgeConfig \<Rightarrow> RouterConfig \<Rightarrow> RouterConfig \<times> bool" where
  "UpdateBridgeConfig desired r =
     (if Bridges r = desired then (r, False) else (r\<lparr>Bridges := desired\<rparr>, True))"

section \<open>The invariant of the sections\<close>

definition wf_BridgeConfig :: "BridgeConfig \<Rightarrow> bool" where
  "wf_BridgeConfig bc \<longleftrightarrow> keyed te_Name (TcpListeners bc) \<and> keyed te_Name (TcpConnectors bc)
     \<and> keyed he_Name (HttpListeners bc) \<and> keyed he_Name (HttpConnectors bc)"

definition wf_RouterConfig :: "RouterConfig \<Rightarrow> bool" where
  "wf_RouterConfig r \<longleftrightarrow> keyed sp_Name (SslProfiles r) \<and> keyed l_Name (Listeners r)
     \<and> keyed c_Name (Connectors r) \<and> keyed a_Prefix (Addresses r) \<and> wf_BridgeConfig (Bridges r)"

lemma wf_NewBridgeConfig: "wf_BridgeConfig NewBridgeConfig"
  by (simp add: wf_BridgeConfig_def NewBridgeConfig_def)

lemma wf_InitialConfig: "wf_RouterConfig (InitialConfig rid md edge)"
  by (simp add: wf_RouterConfig_def InitialConfig_def wf_NewBridgeConfig)

lemma wf_adds:
  assumes "wf_RouterConfig r"
  shows "wf_RouterConfig (AddListener l r)" "wf_RouterConfig (AddConnector c r)"
    "wf_RouterConfig (AddSslProfile s r)" "wf_RouterConfig (AddConnSslProfile s r)"
    "wf_RouterConfig (AddAddress a r)" "wf_RouterConfig (AddTcpConnector e r)"
    "wf_RouterConfig (AddTcpListener e r)" "wf_RouterConfig (AddHttpConnector h r)"
    "wf_RouterConfig (AddHttpListener h r)"
  using assms
  by (auto simp: wf_RouterConfig_def wf_BridgeConfig_def AddListener_def AddConnector_def
      AddSslProfile_def AddConnSslProfile_def AddAddress_def AddTcpConnector_def AddTcpListener_def
      AddHttpConnector_def AddHttpListener_def bc_AddTcpConnector_def bc_AddTcpListener_def
      bc_AddHttpConnector_def bc_AddHttpListener_def Let_def)

lemma wf_removes:
  assumes "wf_RouterConfig r"
  shows "wf_RouterConfig (fst (RemoveConnector n r))" "wf_RouterConfig (fst (RemoveConnSslProfile n r))"
  using assms
  by (auto simp: wf_RouterConfig_def RemoveConnector_def RemoveConnSslProfile_def Let_def
      split: option.splits)

lemma wf_UpdateBridgeConfig:
  "wf_RouterConfig r \<Longrightarrow> wf_BridgeConfig bc \<Longrightarrow> wf_RouterConfig (fst (UpdateBridgeConfig bc r))"
  by (auto simp: wf_RouterConfig_def UpdateBridgeConfig_def)

end
