(* ===== verification/Router_Codec.thy ===== *)
theory Router_Codec imports Router_Config begin

text \<open>
  The JSON form of the entities of a router configuration (\<open>pkg/qdr/qdr.go\<close>, the tags of the
  structs). Each is a \<open>canonical_codec\<close>: what was written is read back, also after the way
  through an \<open>interface{}\<close> that \<open>convert\<close> takes.
\<close>

lemmas get_defs = get_str_def get_bool_def get_num_def

definition ms_RouterMetadata :: "RouterMetadata \<Rightarrow> members" where
  "ms_RouterMetadata x = opt_str ''id'' (rm_Id x) @ opt_str ''mode'' (rm_Mode x)
     @ opt_str ''metadata'' (rm_Metadata x)"

definition enc_RouterMetadata :: "RouterMetadata \<Rightarrow> json" where
  "enc_RouterMetadata x = JObj (ms_RouterMetadata x)"

definition dec_RouterMetadata :: "json \<Rightarrow> RouterMetadata result" where
  "dec_RouterMetadata = as_struct \<lparr>rm_Id = [], rm_Mode = [], rm_Metadata = []\<rparr> (\<lambda>ms.
     rbind (get_str ''id'' ms) (\<lambda>x0.
     rbind (get_str ''mode'' ms) (\<lambda>x1.
     rbind (get_str ''metadata'' ms) (\<lambda>x2.
       Inr \<lparr>rm_Id = x0, rm_Mode = x1, rm_Metadata = x2\<rparr>))))"

lemma written_RouterMetadata: "written [''id'', ''mode'', ''metadata''] (ms_RouterMetadata x)"
  unfolding ms_RouterMetadata_def by (intro written_cons written_fields)

interpretation routermetadata_codec: canonical_codec enc_RouterMetadata dec_RouterMetadata
proof unfold_locales
  show rt: "dec_RouterMetadata (enc_RouterMetadata x) = Inr x" for x
    by (simp add: dec_RouterMetadata_def enc_RouterMetadata_def as_struct_def get_defs ms_RouterMetadata_def codec_simps fold_char_def)
  show "dec_RouterMetadata (canon (enc_RouterMetadata x)) = Inr x" for x
    using rt [of x] canon_members_of [OF written_RouterMetadata]
    by (simp add: dec_RouterMetadata_def enc_RouterMetadata_def as_struct_def get_defs fold_char_def)
qed

definition ms_SslProfile :: "SslProfile \<Rightarrow> members" where
  "ms_SslProfile x = opt_str ''name'' (sp_Name x) @ opt_str ''certFile'' (sp_CertFile x)
     @ opt_str ''privateKeyFile'' (sp_PrivateKeyFile x)
     @ opt_str ''caCertFile'' (sp_CaCertFile x)"

definition enc_SslProfile :: "SslProfile \<Rightarrow> json" where
  "enc_SslProfile x = JObj (ms_SslProfile x)"

definition dec_SslProfile :: "json \<Rightarrow> SslProfile result" where
  "dec_SslProfile = as_struct zero_SslProfile (\<lambda>ms.
     rbind (get_str ''name'' ms) (\<lambda>x0.
     rbind (get_str ''certFile'' ms) (\<lambda>x1.
     rbind (get_str ''privateKeyFile'' ms) (\<lambda>x2.
     rbind (get_str ''caCertFile'' ms) (\<lambda>x3.
       Inr \<lparr>sp_Name = x0, sp_CertFile = x1, sp_PrivateKeyFile = x2, sp_CaCertFile = x3\<rparr>)))))"

lemma written_SslProfile: "written [''name'', ''certFile'', ''privateKeyFile'', ''caCertFile''] (ms_SslProfile x)"
  unfolding ms_SslProfile_def by (intro written_cons written_fields)

interpretation sslprofile_codec: canonical_codec enc_SslProfile dec_SslProfile
proof unfold_locales
  show rt: "dec_SslProfile (enc_SslProfile x) = Inr x" for x
    by (simp add: dec_SslProfile_def enc_SslProfile_def as_struct_def get_defs ms_SslProfile_def codec_simps fold_char_def)
  show "dec_SslProfile (canon (enc_SslProfile x)) = Inr x" for x
    using rt [of x] canon_members_of [OF written_SslProfile]
    by (simp add: dec_SslProfile_def enc_SslProfile_def as_struct_def get_defs fold_char_def)
qed

definition ms_Listener :: "Listener \<Rightarrow> members" where
  "ms_Listener x = opt_str ''name'' (l_Name x) @ opt_str ''role'' (l_Role x) @ opt_str ''host'' (l_Host x)
     @ put_num ''port'' (l_Port x) @ opt_bool ''routeContainer'' (l_RouteContainer x)
     @ opt_bool ''http'' (l_Http x) @ opt_num ''cost'' (l_Cost x)
     @ opt_str ''sslProfile'' (l_SslProfile x) @ opt_str ''saslMechanisms'' (l_SaslMechanisms x)
     @ opt_bool ''authenticatePeer'' (l_AuthenticatePeer x)
     @ opt_num ''linkCapacity'' (l_LinkCapacity x) @ opt_str ''httpRootDir'' (l_HttpRootDir x)
     @ opt_bool ''websockets'' (l_Websockets x) @ opt_bool ''healthz'' (l_Healthz x)
     @ opt_bool ''metrics'' (l_Metrics x)"

definition enc_Listener :: "Listener \<Rightarrow> json" where
  "enc_Listener x = JObj (ms_Listener x)"

definition dec_Listener :: "json \<Rightarrow> Listener result" where
  "dec_Listener = as_struct zero_Listener (\<lambda>ms.
     rbind (get_str ''name'' ms) (\<lambda>x0.
     rbind (get_str ''role'' ms) (\<lambda>x1.
     rbind (get_str ''host'' ms) (\<lambda>x2.
     rbind (get_num ''port'' ms) (\<lambda>x3.
     rbind (get_bool ''routeContainer'' ms) (\<lambda>x4.
     rbind (get_bool ''http'' ms) (\<lambda>x5.
     rbind (get_num ''cost'' ms) (\<lambda>x6.
     rbind (get_str ''sslProfile'' ms) (\<lambda>x7.
     rbind (get_str ''saslMechanisms'' ms) (\<lambda>x8.
     rbind (get_bool ''authenticatePeer'' ms) (\<lambda>x9.
     rbind (get_num ''linkCapacity'' ms) (\<lambda>x10.
     rbind (get_str ''httpRootDir'' ms) (\<lambda>x11.
     rbind (get_bool ''websockets'' ms) (\<lambda>x12.
     rbind (get_bool ''healthz'' ms) (\<lambda>x13.
     rbind (get_bool ''metrics'' ms) (\<lambda>x14.
       Inr \<lparr>l_Name = x0, l_Role = x1, l_Host = x2, l_Port = x3, l_RouteContainer = x4,
         l_Http = x5, l_Cost = x6, l_SslProfile = x7, l_SaslMechanisms = x8,
         l_AuthenticatePeer = x9, l_LinkCapacity = x10, l_HttpRootDir = x11,
         l_Websockets = x12, l_Healthz = x13, l_Metrics = x14\<rparr>))))))))))))))))"

lemma written_Listener: "written [''name'', ''role'', ''host'', ''port'', ''routeContainer'', ''http'', ''cost'', ''sslProfile'', ''saslMechanisms'', ''authenticatePeer'', ''linkCapacity'', ''httpRootDir'', ''websockets'', ''healthz'', ''metrics''] (ms_Listener x)"
  unfolding ms_Listener_def by (intro written_cons written_fields)

interpretation listener_codec: canonical_codec enc_Listener dec_Listener
proof unfold_locales
  show rt: "dec_Listener (enc_Listener x) = Inr x" for x
    by (simp add: dec_Listener_def enc_Listener_def as_struct_def get_defs ms_Listener_def codec_simps fold_char_def)
  show "dec_Listener (canon (enc_Listener x)) = Inr x" for x
    using rt [of x] canon_members_of [OF written_Listener]
    by (simp add: dec_Listener_def enc_Listener_def as_struct_def get_defs fold_char_def)
qed

definition ms_Connector :: "Connector \<Rightarrow> members" where
  "ms_Connector x = opt_str ''name'' (c_Name x) @ opt_str ''role'' (c_Role x) @ put_str ''host'' (c_Host x)
     @ put_str ''port'' (c_Port x) @ opt_bool ''routeContainer'' (c_RouteContainer x)
     @ opt_num ''cost'' (c_Cost x) @ opt_bool ''verifyHostname'' (c_VerifyHostname x)
     @ opt_str ''sslProfile'' (c_SslProfile x) @ opt_num ''linkCapacity'' (c_LinkCapacity x)"

definition enc_Connector :: "Connector \<Rightarrow> json" where
  "enc_Connector x = JObj (ms_Connector x)"

definition dec_Connector :: "json \<Rightarrow> Connector result" where
  "dec_Connector = as_struct zero_Connector (\<lambda>ms.
     rbind (get_str ''name'' ms) (\<lambda>x0.
     rbind (get_str ''role'' ms) (\<lambda>x1.
     rbind (get_str ''host'' ms) (\<lambda>x2.
     rbind (get_str ''port'' ms) (\<lambda>x3.
     rbind (get_bool ''routeContainer'' ms) (\<lambda>x4.
     rbind (get_num ''cost'' ms) (\<lambda>x5.
     rbind (get_bool ''verifyHostname'' ms) (\<lambda>x6.
     rbind (get_str ''sslProfile'' ms) (\<lambda>x7.
     rbind (get_num ''linkCapacity'' ms) (\<lambda>x8.
       Inr \<lparr>c_Name = x0, c_Role = x1, c_Host = x2, c_Port = x3, c_RouteContainer = x4,
         c_Cost = x5, c_VerifyHostname = x6, c_SslProfile = x7, c_LinkCapacity = x8\<rparr>))))))))))"

lemma written_Connector: "written [''name'', ''role'', ''host'', ''port'', ''routeContainer'', ''cost'', ''verifyHostname'', ''sslProfile'', ''linkCapacity''] (ms_Connector x)"
  unfolding ms_Connector_def by (intro written_cons written_fields)

interpretation connector_codec: canonical_codec enc_Connector dec_Connector
proof unfold_locales
  show rt: "dec_Connector (enc_Connector x) = Inr x" for x
    by (simp add: dec_Connector_def enc_Connector_def as_struct_def get_defs ms_Connector_def codec_simps fold_char_def)
  show "dec_Connector (canon (enc_Connector x)) = Inr x" for x
    using rt [of x] canon_members_of [OF written_Connector]
    by (simp add: dec_Connector_def enc_Connector_def as_struct_def get_defs fold_char_def)
qed

definition ms_Address :: "Address \<Rightarrow> members" where
  "ms_Address x = opt_str ''prefix'' (a_Prefix x) @ opt_str ''distribution'' (a_Distribution x)"

definition enc_Address :: "Address \<Rightarrow> json" where
  "enc_Address x = JObj (ms_Address x)"

definition dec_Address :: "json \<Rightarrow> Address result" where
  "dec_Address = as_struct \<lparr>a_Prefix = [], a_Distribution = []\<rparr> (\<lambda>ms.
     rbind (get_str ''prefix'' ms) (\<lambda>x0.
     rbind (get_str ''distribution'' ms) (\<lambda>x1.
       Inr \<lparr>a_Prefix = x0, a_Distribution = x1\<rparr>)))"

lemma written_Address: "written [''prefix'', ''distribution''] (ms_Address x)"
  unfolding ms_Address_def by (intro written_cons written_fields)

interpretation address_codec: canonical_codec enc_Address dec_Address
proof unfold_locales
  show rt: "dec_Address (enc_Address x) = Inr x" for x
    by (simp add: dec_Address_def enc_Address_def as_struct_def get_defs ms_Address_def codec_simps fold_char_def)
  show "dec_Address (canon (enc_Address x)) = Inr x" for x
    using rt [of x] canon_members_of [OF written_Address]
    by (simp add: dec_Address_def enc_Address_def as_struct_def get_defs fold_char_def)
qed

definition ms_TcpEndpoint :: "TcpEndpoint \<Rightarrow> members" where
  "ms_TcpEndpoint x = opt_str ''name'' (te_Name x) @ opt_str ''host'' (te_Host x) @ opt_str ''port'' (te_Port x)
     @ opt_str ''address'' (te_Address x) @ opt_str ''siteId'' (te_SiteId x)"

definition enc_TcpEndpoint :: "TcpEndpoint \<Rightarrow> json" where
  "enc_TcpEndpoint x = JObj (ms_TcpEndpoint x)"

definition dec_TcpEndpoint :: "json \<Rightarrow> TcpEndpoint result" where
  "dec_TcpEndpoint = as_struct \<lparr>te_Name = [], te_Host = [], te_Port = [], te_Address = [], te_SiteId = []\<rparr> (\<lambda>ms.
     rbind (get_str ''name'' ms) (\<lambda>x0.
     rbind (get_str ''host'' ms) (\<lambda>x1.
     rbind (get_str ''port'' ms) (\<lambda>x2.
     rbind (get_str ''address'' ms) (\<lambda>x3.
     rbind (get_str ''siteId'' ms) (\<lambda>x4.
       Inr \<lparr>te_Name = x0, te_Host = x1, te_Port = x2, te_Address = x3, te_SiteId = x4\<rparr>))))))"

lemma written_TcpEndpoint: "written [''name'', ''host'', ''port'', ''address'', ''siteId''] (ms_TcpEndpoint x)"
  unfolding ms_TcpEndpoint_def by (intro written_cons written_fields)

interpretation tcpendpoint_codec: canonical_codec enc_TcpEndpoint dec_TcpEndpoint
proof unfold_locales
  show rt: "dec_TcpEndpoint (enc_TcpEndpoint x) = Inr x" for x
    by (simp add: dec_TcpEndpoint_def enc_TcpEndpoint_def as_struct_def get_defs ms_TcpEndpoint_def codec_simps fold_char_def)
  show "dec_TcpEndpoint (canon (enc_TcpEndpoint x)) = Inr x" for x
    using rt [of x] canon_members_of [OF written_TcpEndpoint]
    by (simp add: dec_TcpEndpoint_def enc_TcpEndpoint_def as_struct_def get_defs fold_char_def)
qed

definition ms_HttpEndpoint :: "HttpEndpoint \<Rightarrow> members" where
  "ms_HttpEndpoint x = opt_str ''name'' (he_Name x) @ opt_str ''host'' (he_Host x) @ opt_str ''port'' (he_Port x)
     @ opt_str ''address'' (he_Address x) @ opt_str ''siteId'' (he_SiteId x)
     @ opt_str ''protocolVersion'' (he_ProtocolVersion x)
     @ opt_str ''aggregation'' (he_Aggregation x)
     @ opt_bool ''eventChannel'' (he_EventChannel x)
     @ opt_str ''hostOverride'' (he_HostOverride x)"

definition enc_HttpEndpoint :: "HttpEndpoint \<Rightarrow> json" where
  "enc_HttpEndpoint x = JObj (ms_HttpEndpoint x)"

definition dec_HttpEndpoint :: "json \<Rightarrow> HttpEndpoint result" where
  "dec_HttpEndpoint = as_struct zero_HttpEndpoint (\<lambda>ms.
     rbind (get_str ''name'' ms) (\<lambda>x0.
     rbind (get_str ''host'' ms) (\<lambda>x1.
     rbind (get_str ''port'' ms) (\<lambda>x2.
     rbind (get_str ''address'' ms) (\<lambda>x3.
     rbind (get_str ''siteId'' ms) (\<lambda>x4.
     rbind (get_str ''protocolVersion'' ms) (\<lambda>x5.
     rbind (get_str ''aggregation'' ms) (\<lambda>x6.
     rbind (get_bool ''eventChannel'' ms) (\<lambda>x7.
     rbind (get_str ''hostOverride'' ms) (\<lambda>x8.
       Inr \<lparr>he_Name = x0, he_Host = x1, he_Port = x2, he_Address = x3, he_SiteId = x4,
         he_ProtocolVersion = x5, he_Aggregation = x6, he_EventChannel = x7,
         he_HostOverride = x8\<rparr>))))))))))"

lemma written_HttpEndpoint: "written [''name'', ''host'', ''port'', ''address'', ''siteId'', ''protocolVersion'', ''aggregation'', ''eventChannel'', ''hostOverride''] (ms_HttpEndpoint x)"
  unfolding ms_HttpEndpoint_def by (intro written_cons written_fields)

interpretation httpendpoint_codec: canonical_codec enc_HttpEndpoint dec_HttpEndpoint
proof unfold_locales
  show rt: "dec_HttpEndpoint (enc_HttpEndpoint x) = Inr x" for x
    by (simp add: dec_HttpEndpoint_def enc_HttpEndpoint_def as_struct_def get_defs ms_HttpEndpoint_def codec_simps fold_char_def)
  show "dec_HttpEndpoint (canon (enc_HttpEndpoint x)) = Inr x" for x
    using rt [of x] canon_members_of [OF written_HttpEndpoint]
    by (simp add: dec_HttpEndpoint_def enc_HttpEndpoint_def as_struct_def get_defs fold_char_def)
qed

end
