(* ===== verification/Api_Types.thy ===== *)
theory Api_Types imports Json begin

text \<open>
  The types of \<open>api/types/types.go\<close> and \<open>api/types/client.go\<close>: the constants, the paths under
  the site's directory, the service interfaces and the site configuration, with the JSON form
  that \<open>encoding/json\<close> gives them by their tags.

  Field names carry the initials of their struct. A Go \<open>int\<close> is a 64-bit word and an \<open>int32\<close>
  a 32-bit word, read with \<open>sint\<close>.
\<close>

section \<open>Constants\<close>

definition DefaultBridgeName :: string where "DefaultBridgeName = ''skupper0''"
definition TransportDeploymentName :: string where "TransportDeploymentName = ''skupper-router''"
definition TransportComponentName :: string where "TransportComponentName = ''router''"
definition DefaultTransportImage :: string where
  "DefaultTransportImage = ''quay.io/skupper/qdrouterd:0.4''"
definition TransportLivenessPort :: goint32 where "TransportLivenessPort = 9090"
definition TransportEnvConfig :: string where "TransportEnvConfig = ''QDROUTERD_CONF''"
definition TransportNetworkName :: string where "TransportNetworkName = ''skupper-network''"
definition TransportConfigFile :: string where "TransportConfigFile = ''qdrouterd.json''"
definition ControllerDeploymentName :: string where
  "ControllerDeploymentName = ''skupper-service-controller''"
definition ControllerComponentName :: string where "ControllerComponentName = ''controller''"
definition DefaultControllerImage :: string where
  "DefaultControllerImage = ''localhost:5000/skupper-exp-controller''"
definition TokenGeneratedBy :: string where "TokenGeneratedBy = ''skupper.io/generated-by''"
definition ConsolePortName :: string where "ConsolePortName = ''console''"
definition ConsoleDefaultServicePort :: goint32 where "ConsoleDefaultServicePort = 8080"
definition ConsoleAuthModeInternal :: string where "ConsoleAuthModeInternal = ''internal''"
definition ConsoleAuthModeUnsecured :: string where "ConsoleAuthModeUnsecured = ''unsecured''"
definition AmqpDefaultPort :: goint32 where "AmqpDefaultPort = 5672"
definition AmqpsDefaultPort :: goint32 where "AmqpsDefaultPort = 5671"
definition EdgeListenerPort :: goint32 where "EdgeListenerPort = 45671"
definition InterRouterListenerPort :: goint32 where "InterRouterListenerPort = 55671"
definition InterRouterProfile :: string where "InterRouterProfile = ''skupper-internal''"
definition ConnectorRoleInterRouter :: string where "ConnectorRoleInterRouter = ''inter-router''"
definition ConnectorRoleEdge :: string where "ConnectorRoleEdge = ''edge''"

text \<open>The selectors that the clients, the bindings and the router configuration agree on.\<close>

definition container_selector :: string where
  "container_selector = ''internal.skupper.io/container''"
definition host_selector :: string where
  "host_selector = ''internal.skupper.io/host-service''"

section \<open>Paths\<close>

datatype Path = HostPath | CertsPath | ConnectionsPath | ConfigPath | ConsoleUsersPath
  | SaslConfigPath | ServicesPath | SitesPath

fun skupperPaths :: "Path \<Rightarrow> string" where
  "skupperPaths HostPath = ''''"
| "skupperPaths CertsPath = ''qpid-dispatch-certs''"
| "skupperPaths ConnectionsPath = ''connections''"
| "skupperPaths ConfigPath = ''config''"
| "skupperPaths ConsoleUsersPath = ''console-users''"
| "skupperPaths SaslConfigPath = ''sasl-config''"
| "skupperPaths ServicesPath = ''services''"
| "skupperPaths SitesPath = ''sites''"

text \<open>
  \<open>filepath.Join\<close>: the non-empty elements joined with slashes and cleaned. \<open>clean_step\<close> is
  what \<open>filepath.Clean\<close> does with one element, on the stack of those kept so far.
\<close>

definition slash :: char where "slash = CHR ''/''"

fun join_with :: "string \<Rightarrow> string list \<Rightarrow> string" where
  "join_with sep [] = []"
| "join_with sep [x] = x"
| "join_with sep (x # y # ys) = x @ sep @ join_with sep (y # ys)"

definition clean_step :: "bool \<Rightarrow> string \<Rightarrow> string list \<Rightarrow> string list" where
  "clean_step rooted x st =
     (if x = [] \<or> x = ''.'' then st
      else if x = ''..'' then
        (case st of [] \<Rightarrow> (if rooted then [] else [x])
         | y # ys \<Rightarrow> (if y = ''..'' then x # st else ys))
      else x # st)"

definition Clean :: "string \<Rightarrow> string" where
  "Clean p = (let rooted = HasPrefix p ''/'';
                  st = fold (clean_step rooted) (Split p slash) [];
                  body = join_with ''/'' (rev st)
              in if rooted then ''/'' @ body else if body = [] then ''.'' else body)"

definition Join :: "string list \<Rightarrow> string" where
  "Join xs = (let ys = filter (\<lambda>x. x \<noteq> []) xs in if ys = [] then [] else Clean (join_with ''/'' ys))"

definition GetSkupperPath :: "string \<Rightarrow> Path \<Rightarrow> string" where
  "GetSkupperPath tmpdir p = Join [tmpdir, ''skupper'', skupperPaths p]"

lemma Split_append_sep:
  "c \<notin> set w \<Longrightarrow> Split (s @ c # w) c = Split s c @ [w]"
proof (induction s)
  case Nil
  have "Split w c = [w]" using Nil by (induction w) auto
  then show ?case by simp
next
  case (Cons x s)
  then show ?case by (auto split: list.splits)
qed

lemma join_with_snoc: "xs \<noteq> [] \<Longrightarrow> join_with sep (xs @ [x]) = join_with sep xs @ sep @ x"
  by (induction xs rule: induct_list012) auto

lemma join_with_ne: "xs \<noteq> [] \<Longrightarrow> list_all (\<lambda>x. x \<noteq> []) xs \<Longrightarrow> join_with sep xs \<noteq> []"
  by (induction xs rule: induct_list012) auto

lemma clean_step_ne: "list_all (\<lambda>x. x \<noteq> []) st \<Longrightarrow> list_all (\<lambda>x. x \<noteq> []) (clean_step r x st)"
  by (auto simp: clean_step_def split: list.splits)

lemma clean_steps_ne:
  "list_all (\<lambda>x. x \<noteq> []) st \<Longrightarrow> list_all (\<lambda>x. x \<noteq> []) (fold (clean_step r) xs st)"
  by (induction xs arbitrary: st) (simp_all add: clean_step_ne)

text \<open>
  Every directory of the site is a child of the site's directory, whatever \<open>SKUPPER_TMPDIR\<close> is.
\<close>

definition plain_name :: "string \<Rightarrow> bool" where
  "plain_name w \<longleftrightarrow> slash \<notin> set w \<and> w \<noteq> [] \<and> w \<noteq> ''.'' \<and> w \<noteq> ''..''"

lemma clean_step_plain [simp]: "plain_name w \<Longrightarrow> clean_step r w st = w # st"
  by (simp add: clean_step_def plain_name_def)

lemma Clean_snoc:
  assumes w: "plain_name w" and u: "Split s slash = us @ [u]" "plain_name u"
  shows "Clean (s @ ''/'' @ w) = Clean s @ ''/'' @ w"
proof -
  let ?st = "fold (clean_step (HasPrefix s ''/'')) (Split s slash) []"
  have s: "s \<noteq> []" using u by (auto simp: plain_name_def)
  then have r: "HasPrefix (s @ ''/'' @ w) ''/'' = HasPrefix s ''/''"
    by (cases s) auto
  have sp: "Split (s @ ''/'' @ w) slash = Split s slash @ [w]"
    using Split_append_sep [of slash w s] w by (simp add: slash_def plain_name_def)
  have st: "rev ?st \<noteq> []" "list_all (\<lambda>x. x \<noteq> []) (rev ?st)"
    using u clean_steps_ne [of "[]" "HasPrefix s ''/''" "Split s slash"] by (auto simp: list_all_iff)
  have j: "join_with ''/'' (rev (w # ?st)) = join_with ''/'' (rev ?st) @ ''/'' @ w"
    using join_with_snoc [OF st(1), of "''/''" w] by simp
  show ?thesis
    unfolding Clean_def r sp using j w join_with_ne [OF st, of "''/''"]
    by (cases "HasPrefix s ''/''") (simp_all add: Let_def)
qed

lemma plain_skupperPaths: "p \<noteq> HostPath \<Longrightarrow> plain_name (skupperPaths p)"
  by (cases p) (auto simp: plain_name_def slash_def)

lemma GetSkupperPath_child:
  assumes "p \<noteq> HostPath"
  shows "GetSkupperPath t p = GetSkupperPath t HostPath @ ''/'' @ skupperPaths p"
proof -
  have sk: "plain_name ''skupper''" by (simp add: plain_name_def slash_def)
  let ?s = "if t = [] then ''skupper'' else t @ ''/'' @ ''skupper''"
  have u: "\<exists>us. Split ?s slash = us @ [''skupper'']"
    using Split_append_sep [of slash "''skupper''" t] sk
    by (auto simp: plain_name_def slash_def)
  then obtain us where "Split ?s slash = us @ [''skupper'']" by blast
  from Clean_snoc [OF plain_skupperPaths [OF assms] this sk]
  have "Clean (?s @ ''/'' @ skupperPaths p) = Clean ?s @ ''/'' @ skupperPaths p" .
  moreover have "skupperPaths p \<noteq> []" using plain_skupperPaths [OF assms] by (simp add: plain_name_def)
  ultimately show ?thesis by (cases "t = []") (simp_all add: GetSkupperPath_def Join_def)
qed

lemma GetSkupperPath_inj: "GetSkupperPath t p = GetSkupperPath t q \<Longrightarrow> p = q"
  by (cases p; cases q) (simp_all add: GetSkupperPath_child)

section \<open>Service interfaces\<close>

record Headless =
  h_Name :: string
  h_Size :: goint
  h_TargetPort :: goint

record ServiceInterfaceTarget =
  t_Name :: string
  t_Selector :: string
  t_TargetPort :: goint
  t_Service :: string

record ServiceInterface =
  si_Address :: string
  si_Protocol :: string
  si_Port :: goint
  si_EventChannel :: bool
  si_Aggregate :: string
  si_Headless :: "Headless option"
  si_Targets :: "ServiceInterfaceTarget list"
  si_Origin :: string
  si_Alias :: string

definition zero_ServiceInterface :: ServiceInterface where
  "zero_ServiceInterface = \<lparr>si_Address = [], si_Protocol = [], si_Port = 0, si_EventChannel = False,
     si_Aggregate = [], si_Headless = None, si_Targets = [], si_Origin = [], si_Alias = []\<rparr>"

text \<open>
  \<open>ByServiceInterfaceAddress\<close>: the order given to \<open>sort.Sort\<close>. \<open>Less\<close> compares an element with
  itself.
\<close>

definition ByServiceInterfaceAddress_Len :: "ServiceInterface list \<Rightarrow> nat" where
  "ByServiceInterfaceAddress_Len a = length a"

definition ByServiceInterfaceAddress_Less :: "ServiceInterface list \<Rightarrow> nat \<Rightarrow> nat \<Rightarrow> bool result" where
  "ByServiceInterfaceAddress_Less a i j =
     (if i < length a then Inr (si_Address (a ! i) > si_Address (a ! i))
      else Inl (Panic ''index out of range''))"

definition ByServiceInterfaceAddress_Swap ::
  "ServiceInterface list \<Rightarrow> nat \<Rightarrow> nat \<Rightarrow> ServiceInterface list result" where
  "ByServiceInterfaceAddress_Swap a i j =
     (if i < length a \<and> j < length a then Inr (a[i := a ! j, j := a ! i])
      else Inl (Panic ''index out of range''))"

subsection \<open>Their JSON form\<close>

definition enc_Headless :: "Headless \<Rightarrow> json" where
  "enc_Headless h = JObj (put_str ''name'' (h_Name h) @ put_num ''size'' (h_Size h)
     @ opt_num ''targetPort'' (h_TargetPort h))"

definition dec_Headless :: "json \<Rightarrow> Headless result" where
  "dec_Headless = as_struct \<lparr>h_Name = [], h_Size = 0, h_TargetPort = 0\<rparr> (\<lambda>ms.
     rbind (get_str ''name'' ms) (\<lambda>name. rbind (get_num ''size'' ms) (\<lambda>size.
     rbind (get_num ''targetPort'' ms) (\<lambda>port.
       Inr \<lparr>h_Name = name, h_Size = size, h_TargetPort = port\<rparr>))))"

definition enc_Target :: "ServiceInterfaceTarget \<Rightarrow> json" where
  "enc_Target t = JObj (opt_str ''name'' (t_Name t) @ put_str ''selector'' (t_Selector t)
     @ opt_num ''targetPort'' (t_TargetPort t) @ opt_str ''service'' (t_Service t))"

definition dec_Target :: "json \<Rightarrow> ServiceInterfaceTarget result" where
  "dec_Target = as_struct \<lparr>t_Name = [], t_Selector = [], t_TargetPort = 0, t_Service = []\<rparr> (\<lambda>ms.
     rbind (get_str ''name'' ms) (\<lambda>name. rbind (get_str ''selector'' ms) (\<lambda>selector.
     rbind (get_num ''targetPort'' ms) (\<lambda>port. rbind (get_str ''service'' ms) (\<lambda>service.
       Inr \<lparr>t_Name = name, t_Selector = selector, t_TargetPort = port, t_Service = service\<rparr>)))))"

definition enc_ServiceInterface :: "ServiceInterface \<Rightarrow> json" where
  "enc_ServiceInterface s = JObj (put_str ''address'' (si_Address s)
     @ put_str ''protocol'' (si_Protocol s) @ put_num ''port'' (si_Port s)
     @ opt_bool ''eventchannel'' (si_EventChannel s) @ opt_str ''aggregate'' (si_Aggregate s)
     @ opt_ptr ''headless'' enc_Headless (si_Headless s)
     @ [(''targets'', JArr (map enc_Target (si_Targets s)))]
     @ opt_str ''origin'' (si_Origin s) @ opt_str ''alias'' (si_Alias s))"

definition dec_ServiceInterface :: "json \<Rightarrow> ServiceInterface result" where
  "dec_ServiceInterface = as_struct zero_ServiceInterface (\<lambda>ms.
     rbind (get_str ''address'' ms) (\<lambda>address. rbind (get_str ''protocol'' ms) (\<lambda>protocol.
     rbind (get_num ''port'' ms) (\<lambda>port. rbind (get_bool ''eventchannel'' ms) (\<lambda>ec.
     rbind (get_str ''aggregate'' ms) (\<lambda>aggregate.
     rbind (get_with (as_ptr dec_Headless) None ''headless'' ms) (\<lambda>headless.
     rbind (get_with (as_slice dec_Target) [] ''targets'' ms) (\<lambda>targets.
     rbind (get_str ''origin'' ms) (\<lambda>origin. rbind (get_str ''alias'' ms) (\<lambda>alias.
       Inr \<lparr>si_Address = address, si_Protocol = protocol, si_Port = port, si_EventChannel = ec,
         si_Aggregate = aggregate, si_Headless = headless, si_Targets = targets,
         si_Origin = origin, si_Alias = alias\<rparr>))))))))))"

interpretation headless_codec: json_codec enc_Headless dec_Headless
  by unfold_locales (simp add: enc_Headless_def dec_Headless_def as_struct_def get_str_def get_num_def
      codec_simps fold_char_def)

interpretation target_codec: json_codec enc_Target dec_Target
  by unfold_locales (simp add: enc_Target_def dec_Target_def as_struct_def get_str_def get_num_def
      codec_simps fold_char_def)

lemma enc_Headless_not_null: "enc_Headless h \<noteq> JNull"
  by (simp add: enc_Headless_def)

interpretation service_codec: json_codec enc_ServiceInterface dec_ServiceInterface
  by unfold_locales (simp add: enc_ServiceInterface_def dec_ServiceInterface_def as_struct_def
      get_str_def get_num_def get_bool_def get_with_def codec_simps fold_char_def
      target_codec.slice_round_trip headless_codec.opt_ptr_round_trip enc_Headless_not_null)

end
