(* ===== verification/Go_World.thy ===== *)
theory Go_World imports Api_Types begin

text \<open>
  The world a command of the client or a handler of the controller acts on: the environment
  variables, the file system, the container engine and the driver the client has connected to.
  The engine is a parameter of the model, its state of type \<open>'e\<close>: \<open>driver.Driver\<close> is an
  interface whose implementations hand every call to the docker or the podman client library.

  A program is a function from the world to the world it leaves and a value or an error. An
  error does not undo what was done before it.
\<close>

section \<open>Programs\<close>

type_synonym ('w, 'a) io = "'w \<Rightarrow> 'w \<times> 'a result"

definition io_return :: "'a \<Rightarrow> ('w, 'a) io" where
  "io_return x = (\<lambda>w. (w, Inr x))"

definition io_fail :: "error \<Rightarrow> ('w, 'a) io" where
  "io_fail e = (\<lambda>w. (w, Inl e))"

definition io_bind :: "('w, 'a) io \<Rightarrow> ('a \<Rightarrow> ('w, 'b) io) \<Rightarrow> ('w, 'b) io" where
  "io_bind m f = (\<lambda>w. case m w of (w', Inl e) \<Rightarrow> (w', Inl e) | (w', Inr x) \<Rightarrow> f x w')"

text \<open>\<open>if err != nil { return fmt.Errorf("...: %w", err) }\<close>\<close>

definition io_wrap :: "string \<Rightarrow> ('w, 'a) io \<Rightarrow> ('w, 'a) io" where
  "io_wrap msg m = (\<lambda>w. case m w of (w', r) \<Rightarrow> (w', rwrap msg r))"

text \<open>A call whose error is looked at and not returned. A panic goes on.\<close>

definition io_try :: "('w, 'a) io \<Rightarrow> ('w, 'a result) io" where
  "io_try m = (\<lambda>w. case m w of (w', Inl (Panic s)) \<Rightarrow> (w', Inl (Panic s)) | (w', r) \<Rightarrow> (w', Inr r))"

text \<open>A call whose error is logged.\<close>

definition io_logged :: "('w, 'a) io \<Rightarrow> ('w, unit) io" where
  "io_logged m = io_bind (io_try m) (\<lambda>_. io_return ())"

definition io_lift :: "'a result \<Rightarrow> ('w, 'a) io" where
  "io_lift r = (\<lambda>w. (w, r))"

fun io_each :: "('a \<Rightarrow> ('w, unit) io) \<Rightarrow> 'a list \<Rightarrow> ('w, unit) io" where
  "io_each f [] = io_return ()"
| "io_each f (x # xs) = io_bind (f x) (\<lambda>_. io_each f xs)"

lemma io_apply [simp, io_simps]:
  "io_return x w = (w, Inr x)"
  "io_fail e w = (w, Inl e)"
  "io_lift r w = (w, r)"
  by (simp_all add: io_return_def io_fail_def io_lift_def)

lemma io_bind_apply [io_simps]:
  "io_bind m f w = (case m w of (w', Inl e) \<Rightarrow> (w', Inl e) | (w', Inr x) \<Rightarrow> f x w')"
  by (simp add: io_bind_def)

lemma io_bind_Inr: "m w = (w', Inr x) \<Longrightarrow> io_bind m f w = f x w'"
  by (simp add: io_bind_def)

lemma io_bind_Inl: "m w = (w', Inl e) \<Longrightarrow> io_bind m f w = (w', Inl e)"
  by (simp add: io_bind_def)

lemma io_wrap_apply [io_simps]: "io_wrap msg m w = (case m w of (w', r) \<Rightarrow> (w', rwrap msg r))"
  by (simp add: io_wrap_def)

lemma io_wrap_Inr: "io_wrap msg m w = (w', Inr x) \<longleftrightarrow> m w = (w', Inr x)"
  by (auto simp: io_wrap_def split: prod.splits)

lemma io_wrap_Inl: "io_wrap msg m w = (w', Inl e) \<longleftrightarrow> (\<exists>e'. m w = (w', Inl e') \<and> e = wrap_error msg e')"
  by (auto simp: io_wrap_def rwrap_def split: prod.splits sum.splits)

lemma io_bind_InrE:
  assumes "io_bind m f w = (w', Inr y)"
  obtains w1 x where "m w = (w1, Inr x)" "f x w1 = (w', Inr y)"
  using assms by (auto simp: io_bind_def split: prod.splits sum.splits)

lemma io_bind_Inl_cases:
  assumes "io_bind m f w = (w', Inl e)"
  obtains "m w = (w', Inl e)" | w1 x where "m w = (w1, Inr x)" "f x w1 = (w', Inl e)"
  using assms by (auto simp: io_bind_def split: prod.splits sum.splits)

lemma io_try_apply [io_simps]: "io_try m w = (case m w of (w', Inl (Panic s)) \<Rightarrow> (w', Inl (Panic s)) | (w', r) \<Rightarrow> (w', Inr r))"
  by (simp add: io_try_def)

text \<open>
  What a program ensures about the worlds it leaves: \<open>keeps P m\<close> holds of a program that leaves
  \<open>P\<close> true, whether it ends with an error or not.
\<close>

definition keeps :: "('w \<Rightarrow> bool) \<Rightarrow> ('w, 'a) io \<Rightarrow> bool" where
  "keeps P m \<longleftrightarrow> (\<forall>w. P w \<longrightarrow> P (fst (m w)))"

lemma keepsI: "(\<And>w. P w \<Longrightarrow> P (fst (m w))) \<Longrightarrow> keeps P m"
  by (simp add: keeps_def)

lemma keepsD: "keeps P m \<Longrightarrow> P w \<Longrightarrow> P (fst (m w))"
  by (simp add: keeps_def)

lemma keeps_basic [intro, simp]:
  "keeps P (io_return x)" "keeps P (io_fail e)" "keeps P (io_lift r)"
  by (simp_all add: keeps_def)

lemma keeps_bind [intro]: "keeps P m \<Longrightarrow> (\<And>x. keeps P (f x)) \<Longrightarrow> keeps P (io_bind m f)"
  by (auto simp: keeps_def io_bind_def split: prod.split sum.split)

lemma keeps_wrap [intro]: "keeps P m \<Longrightarrow> keeps P (io_wrap msg m)"
  by (auto simp: keeps_def io_wrap_def split: prod.split)

lemma keeps_try [intro]: "keeps P m \<Longrightarrow> keeps P (io_try m)"
  by (auto simp: keeps_def io_try_def split: prod.split sum.split error.split)

lemma keeps_each [intro]: "(\<And>x. keeps P (f x)) \<Longrightarrow> keeps P (io_each f xs)"
  by (induction xs) auto

section \<open>The world\<close>

datatype content = Text string | Doc json

text \<open>The file system of a machine: \<open>denied\<close> are the paths the process may not touch.\<close>

record fsys =
  dirs :: "string fset"
  files :: "(string, content) fmap"
  denied :: "string fset"

datatype ce_kind = Docker | Podman

text \<open>
  An address of a network interface, as \<open>net.Interface.Addrs\<close> returns it. \<open>ifaces\<close> gives the
  addresses of the interface with a name, none where there is no such interface.
\<close>

record NetAddr =
  na_IPNet :: bool
  na_IsLoopback :: bool
  na_IsIPv4 :: bool
  na_IP :: string

record 'e world =
  env :: "string \<Rightarrow> string"
  fs :: fsys
  ifaces :: "string \<Rightarrow> NetAddr list"
  engine :: 'e
  CeDriver :: "ce_kind option"

section \<open>The packages os and ioutil\<close>

definition no_such_file :: "string \<Rightarrow> error" where
  "no_such_file p = Err (''open '' @ p @ '': no such file or directory'')"

definition permission_denied :: "string \<Rightarrow> error" where
  "permission_denied p = Err (''open '' @ p @ '': permission denied'')"

definition file_exists :: "string \<Rightarrow> error" where
  "file_exists p = Err (''mkdir '' @ p @ '': file exists'')"

definition is_directory :: "string \<Rightarrow> error" where
  "is_directory p = Err (''open '' @ p @ '': is a directory'')"

definition dirname :: "string \<Rightarrow> string" where
  "dirname p = (if slash \<notin> set p then ''.''
     else (let d = rev (tl (dropWhile (\<lambda>c. c \<noteq> slash) (rev p))) in if d = [] then ''/'' else d))"

lemma dirname_append:
  assumes "slash \<notin> set b" "a \<noteq> []"
  shows "dirname (a @ ''/'' @ b) = a"
proof -
  have "dropWhile (\<lambda>c. c \<noteq> slash) (rev (a @ ''/'' @ b)) = slash # rev a"
    using assms(1) by (simp add: dropWhile_append slash_def)
  then show ?thesis using assms(2) by (simp add: dirname_def Let_def slash_def)
qed

text \<open>\<open>below p q\<close>: the path \<open>q\<close> is \<open>p\<close> or inside the directory \<open>p\<close>.\<close>

definition below :: "string \<Rightarrow> string \<Rightarrow> bool" where
  "below p q \<longleftrightarrow> q = p \<or> HasPrefix q (p @ ''/'')"

definition fs_read :: "string \<Rightarrow> fsys \<Rightarrow> content result" where
  "fs_read p s = (if p |\<in>| denied s then Inl (permission_denied p)
     else case fmlookup (files s) p of None \<Rightarrow> Inl (no_such_file p) | Some c \<Rightarrow> Inr c)"

definition fs_write :: "string \<Rightarrow> content \<Rightarrow> fsys \<Rightarrow> fsys \<times> unit result" where
  "fs_write p c s = (if p |\<in>| denied s then (s, Inl (permission_denied p))
     else if p |\<in>| dirs s then (s, Inl (is_directory p))
     else if dirname p |\<notin>| dirs s then (s, Inl (no_such_file p))
     else (s\<lparr>files := fmupd p c (files s)\<rparr>, Inr ()))"

definition fs_mkdir :: "string \<Rightarrow> fsys \<Rightarrow> fsys \<times> unit result" where
  "fs_mkdir p s = (if p |\<in>| denied s then (s, Inl (permission_denied p))
     else if p |\<in>| dirs s \<or> p |\<in>| fmdom (files s) then (s, Inl (file_exists p))
     else if dirname p |\<notin>| dirs s then (s, Inl (no_such_file p))
     else (s\<lparr>dirs := finsert p (dirs s)\<rparr>, Inr ()))"

text \<open>
  \<open>os.MkdirAll\<close>: the directory and every one above it. Its clients call it on a path whose
  ancestors are directories or missing.
\<close>

fun ancestors :: "string \<Rightarrow> string \<Rightarrow> string list" where
  "ancestors done [] = (if done = [] then [] else [done])"
| "ancestors done (c # cs) =
     (if c = slash \<and> done \<noteq> [] then done # ancestors (done @ [c]) cs else ancestors (done @ [c]) cs)"

definition fs_mkdir_all :: "string \<Rightarrow> fsys \<Rightarrow> fsys \<times> unit result" where
  "fs_mkdir_all p s =
     (if \<exists>q \<in> set (ancestors [] p). q |\<in>| denied s then (s, Inl (permission_denied p))
      else if \<exists>q \<in> set (ancestors [] p). q |\<in>| fmdom (files s) then (s, Inl (file_exists p))
      else (s\<lparr>dirs := dirs s |\<union>| fset_of_list (ancestors [] p)\<rparr>, Inr ()))"

text \<open>
  \<open>os.RemoveAll\<close> removes what it can and reports the first thing it could not; a missing path
  is no error.
\<close>

definition stuck :: "fsys \<Rightarrow> string \<Rightarrow> string \<Rightarrow> bool" where
  "stuck s p q \<longleftrightarrow> (\<exists>d |\<in>| denied s. below p d \<and> below q d \<and> (d |\<in>| dirs s \<or> d |\<in>| fmdom (files s)))"

definition fs_remove_all :: "string \<Rightarrow> fsys \<Rightarrow> fsys \<times> unit result" where
  "fs_remove_all p s =
     (s\<lparr>dirs := ffilter (\<lambda>q. \<not> below p q \<or> stuck s p q) (dirs s),
        files := fmfilter (\<lambda>q. \<not> below p q \<or> stuck s p q) (files s)\<rparr>,
      if stuck s p p then Inl (permission_denied p) else Inr ())"

text \<open>\<open>ioutil.ReadDir\<close>: the names in a directory, in their order.\<close>

definition child_name :: "string \<Rightarrow> string \<Rightarrow> string option" where
  "child_name p q = (if HasPrefix q (p @ ''/'')
     then (let n = drop (Suc (length p)) q in if n = [] \<or> slash \<in> set n then None else Some n)
     else None)"

definition fs_list :: "string \<Rightarrow> fsys \<Rightarrow> string list result" where
  "fs_list p s = (if p |\<in>| denied s then Inl (permission_denied p)
     else if p |\<notin>| dirs s then Inl (no_such_file p)
     else Inr (map (\<lambda>q. drop (Suc (length p)) q)
       (sorted_list_of_fset (ffilter (\<lambda>q. child_name p q \<noteq> None) (dirs s |\<union>| fmdom (files s))))))"

section \<open>Their use as programs\<close>

definition Getenv :: "string \<Rightarrow> ('e world, string) io" where
  "Getenv name = (\<lambda>w. (w, Inr (env w name)))"

definition on_fs :: "(fsys \<Rightarrow> fsys \<times> 'a result) \<Rightarrow> ('e world, 'a) io" where
  "on_fs f = (\<lambda>w. case f (fs w) of (s, r) \<Rightarrow> (w\<lparr>fs := s\<rparr>, r))"

definition ReadFile :: "string \<Rightarrow> ('e world, content) io" where
  "ReadFile p = (\<lambda>w. (w, fs_read p (fs w)))"

definition ReadDir :: "string \<Rightarrow> ('e world, string list) io" where
  "ReadDir p = (\<lambda>w. (w, fs_list p (fs w)))"

definition WriteFile :: "string \<Rightarrow> content \<Rightarrow> ('e world, unit) io" where
  "WriteFile p c = on_fs (fs_write p c)"

definition Mkdir :: "string \<Rightarrow> ('e world, unit) io" where
  "Mkdir p = on_fs (fs_mkdir p)"

definition MkdirAll :: "string \<Rightarrow> ('e world, unit) io" where
  "MkdirAll p = on_fs (fs_mkdir_all p)"

definition RemoveAll :: "string \<Rightarrow> ('e world, unit) io" where
  "RemoveAll p = on_fs (fs_remove_all p)"

text \<open>
  \<open>utils.GetInternalIP\<close>: the last IPv4 address of the interface that is not a loopback address,
  the empty string where there is none.
\<close>

fun internal_ip :: "NetAddr list \<Rightarrow> string \<Rightarrow> string" where
  "internal_ip [] ip = ip"
| "internal_ip (addr # item) ip =
     (if na_IPNet addr \<and> \<not> na_IsLoopback addr \<and> na_IsIPv4 addr
      then internal_ip item (na_IP addr) else internal_ip item ip)"

definition GetInternalIP :: "string \<Rightarrow> 'e world \<Rightarrow> string" where
  "GetInternalIP iface w = internal_ip (ifaces w iface) []"

text \<open>\<open>types.GetSkupperPath\<close>, which reads \<open>SKUPPER_TMPDIR\<close>.\<close>

definition skupper_path :: "'e world \<Rightarrow> Path \<Rightarrow> string" where
  "skupper_path w p = GetSkupperPath (env w ''SKUPPER_TMPDIR'') p"

text \<open>\<open>json.Unmarshal\<close> of a file: text that is not the form of a document is a syntax error.\<close>

definition syntax_error :: error where
  "syntax_error = Err ''invalid character looking for beginning of value''"

definition Unmarshal :: "(json \<Rightarrow> 'a result) \<Rightarrow> content \<Rightarrow> 'a result" where
  "Unmarshal dec c = (case c of Doc j \<Rightarrow> dec j | Text _ \<Rightarrow> Inl syntax_error)"

fun text_of :: "content \<Rightarrow> string" where
  "text_of (Text s) = s"
| "text_of (Doc j) = []"

lemma Unmarshal_Doc [simp]: "Unmarshal dec (Doc j) = dec j"
  by (simp add: Unmarshal_def)

section \<open>The laws of files\<close>

text \<open>
  The contract the clients of one file rely on: a write that succeeds is what the next read
  returns, it leaves the other files alone, and a write that fails leaves them all.
\<close>

locale file_store =
  fixes rd :: "string \<Rightarrow> 's \<Rightarrow> 'c result"
    and wr :: "string \<Rightarrow> 'c \<Rightarrow> 's \<Rightarrow> 's \<times> unit result"
  assumes read_write_same: "wr p c s = (s', Inr u) \<Longrightarrow> rd p s' = Inr c"
    and read_write_other: "wr p c s = (s', r) \<Longrightarrow> q \<noteq> p \<Longrightarrow> rd q s' = rd q s"
    and write_fails: "wr p c s = (s', Inl e) \<Longrightarrow> s' = s"
    and write_again: "wr p c s = (s', Inr u) \<Longrightarrow> \<exists>s''. wr p d s' = (s'', Inr ())"
    and write_write: "wr p c s = (s', Inr u) \<Longrightarrow> wr p d s' = wr p d s"
begin

text \<open>Reading after any outcome of a wr is the old content or the new one: no third one.\<close>

lemma read_after_write:
  assumes "wr p c s = (s', r)"
  shows "rd p s' = (case r of Inl e \<Rightarrow> rd p s | Inr _ \<Rightarrow> Inr c)"
  using assms by (cases r) (auto dest: write_fails read_write_same)

end

interpretation disk: file_store fs_read fs_write
proof unfold_locales
  fix p c s s' u
  assume "fs_write p c s = (s', Inr u)"
  then show "fs_read p s' = Inr c" by (auto simp: fs_write_def fs_read_def split: if_splits)
next
  fix p q c s s' r
  assume "fs_write p c s = (s', r)" "q \<noteq> p"
  then show "fs_read q s' = fs_read q s"
    by (auto simp: fs_write_def fs_read_def split: if_splits)
next
  fix p c s s' e
  assume "fs_write p c s = (s', Inl e)"
  then show "s' = s" by (auto simp: fs_write_def split: if_splits)
next
  fix p c s s' u d
  assume "fs_write p c s = (s', Inr u)"
  then show "\<exists>s''. fs_write p d s' = (s'', Inr ())"
    and "fs_write p d s' = fs_write p d s"
    by (auto simp: fs_write_def split: if_splits)
qed

end
