(* ===== verification/Router_Marshal.thy ===== *)
theory Router_Marshal imports Router_Codec Go_World begin

text \<open>
  \<open>MarshalRouterConfig\<close> and \<open>UnmarshalRouterConfig\<close> of \<open>pkg/qdr/qdr.go\<close>: the configuration as a
  list of pairs of an entity's type and the entity, and back.

  Marshalling ranges over the eight section maps, in an order the language leaves open:
  \<open>section_order\<close> holds the orders of one call, and \<open>valid_order\<close> says that they visit what the
  configuration holds. The round trip holds for every such order.
\<close>

section \<open>Marshalling\<close>

record section_order =
  o_SslProfiles :: "(string \<times> SslProfile) list"
  o_Connectors :: "(string \<times> Connector) list"
  o_Listeners :: "(string \<times> Listener) list"
  o_Addresses :: "(string \<times> Address) list"
  o_TcpConnectors :: "(string \<times> TcpEndpoint) list"
  o_TcpListeners :: "(string \<times> TcpEndpoint) list"
  o_HttpConnectors :: "(string \<times> HttpEndpoint) list"
  o_HttpListeners :: "(string \<times> HttpEndpoint) list"

definition valid_order :: "section_order \<Rightarrow> RouterConfig \<Rightarrow> bool" where
  "valid_order ord r \<longleftrightarrow> ranges_over (o_SslProfiles ord) (SslProfiles r)
     \<and> ranges_over (o_Connectors ord) (Connectors r) \<and> ranges_over (o_Listeners ord) (Listeners r)
     \<and> ranges_over (o_Addresses ord) (Addresses r)
     \<and> ranges_over (o_TcpConnectors ord) (TcpConnectors (Bridges r))
     \<and> ranges_over (o_TcpListeners ord) (TcpListeners (Bridges r))
     \<and> ranges_over (o_HttpConnectors ord) (HttpConnectors (Bridges r))
     \<and> ranges_over (o_HttpListeners ord) (HttpListeners (Bridges r))"

definition sorted_order :: "RouterConfig \<Rightarrow> section_order" where
  "sorted_order r = \<lparr>o_SslProfiles = sorted_list_of_fmap (SslProfiles r),
     o_Connectors = sorted_list_of_fmap (Connectors r), o_Listeners = sorted_list_of_fmap (Listeners r),
     o_Addresses = sorted_list_of_fmap (Addresses r),
     o_TcpConnectors = sorted_list_of_fmap (TcpConnectors (Bridges r)),
     o_TcpListeners = sorted_list_of_fmap (TcpListeners (Bridges r)),
     o_HttpConnectors = sorted_list_of_fmap (HttpConnectors (Bridges r)),
     o_HttpListeners = sorted_list_of_fmap (HttpListeners (Bridges r))\<rparr>"

lemma valid_sorted_order: "valid_order (sorted_order r) r"
  by (simp add: valid_order_def sorted_order_def ranges_over_sorted)

definition element :: "string \<Rightarrow> json \<Rightarrow> json" where
  "element ty j = JArr [JStr ty, j]"

definition elements :: "string \<Rightarrow> ('v \<Rightarrow> json) \<Rightarrow> ('k \<times> 'v) list \<Rightarrow> json list" where
  "elements ty enc es = map (\<lambda>(_, e). element ty (enc e)) es"

definition MarshalRouterConfig :: "section_order \<Rightarrow> RouterConfig \<Rightarrow> json" where
  "MarshalRouterConfig ord config = JArr
     (element ''router'' (enc_RouterMetadata (Metadata config))
      # elements ''sslProfile'' enc_SslProfile (o_SslProfiles ord)
      @ elements ''connector'' enc_Connector (o_Connectors ord)
      @ elements ''listener'' enc_Listener (o_Listeners ord)
      @ elements ''address'' enc_Address (o_Addresses ord)
      @ elements ''tcpConnector'' enc_TcpEndpoint (o_TcpConnectors ord)
      @ elements ''tcpListener'' enc_TcpEndpoint (o_TcpListeners ord)
      @ elements ''httpConnector'' enc_HttpEndpoint (o_HttpConnectors ord)
      @ elements ''httpListener'' enc_HttpEndpoint (o_HttpListeners ord))"

section \<open>Unmarshalling\<close>

definition convert :: "(json \<Rightarrow> 'a result) \<Rightarrow> json \<Rightarrow> 'a result" where
  "convert dec from = dec (canon from)"

text \<open>\<open>fmt.Errorf("Invalid %s element got ...")\<close>, without the printed value.\<close>

definition invalid_element :: "string \<Rightarrow> error" where
  "invalid_element ty = Err (''Invalid '' @ ty @ '' element'')"

definition add_converted :: "string \<Rightarrow> (json \<Rightarrow> 'a result) \<Rightarrow> json \<Rightarrow> ('a \<Rightarrow> 's) \<Rightarrow> 's result" where
  "add_converted ty dec j add =
     (case convert dec j of Inl _ \<Rightarrow> Inl (invalid_element ty) | Inr x \<Rightarrow> Inr (add x))"

definition unmarshal_entity :: "string \<Rightarrow> json \<Rightarrow> RouterConfig \<Rightarrow> RouterConfig result" where
  "unmarshal_entity ty j r =
     (if ty = ''router'' then
        add_converted ty dec_RouterMetadata j (\<lambda>m. r\<lparr>Metadata := m\<rparr>)
      else if ty = ''address'' then
        add_converted ty dec_Address j (\<lambda>a. r\<lparr>Addresses := fmupd (a_Prefix a) a (Addresses r)\<rparr>)
      else if ty = ''connector'' then
        add_converted ty dec_Connector j (\<lambda>c. r\<lparr>Connectors := fmupd (c_Name c) c (Connectors r)\<rparr>)
      else if ty = ''listener'' then
        add_converted ty dec_Listener j (\<lambda>l. r\<lparr>Listeners := fmupd (l_Name l) l (Listeners r)\<rparr>)
      else if ty = ''sslProfile'' then
        add_converted ty dec_SslProfile j (\<lambda>s. r\<lparr>SslProfiles := fmupd (sp_Name s) s (SslProfiles r)\<rparr>)
      else if ty = ''tcpConnector'' then
        add_converted ty dec_TcpEndpoint j (\<lambda>e. r\<lparr>Bridges := bc_AddTcpConnector e (Bridges r)\<rparr>)
      else if ty = ''tcpListener'' then
        add_converted ty dec_TcpEndpoint j (\<lambda>e. r\<lparr>Bridges := bc_AddTcpListener e (Bridges r)\<rparr>)
      else if ty = ''httpConnector'' then
        add_converted ty dec_HttpEndpoint j (\<lambda>e. r\<lparr>Bridges := bc_AddHttpConnector e (Bridges r)\<rparr>)
      else if ty = ''httpListener'' then
        add_converted ty dec_HttpEndpoint j (\<lambda>e. r\<lparr>Bridges := bc_AddHttpListener e (Bridges r)\<rparr>)
      else Inr r)"

definition unmarshal_element :: "json \<Rightarrow> RouterConfig \<Rightarrow> RouterConfig result" where
  "unmarshal_element e r = (case e of
       JArr [t, j] \<Rightarrow>
         (case t of JStr ty \<Rightarrow> unmarshal_entity ty j r
          | _ \<Rightarrow> Inl (Err ''Invalid JSON for router configuration, expected entity type as string''))
     | _ \<Rightarrow> Inl (Err ''Invalid JSON for router configuration, expected array with type and value''))"

fun unmarshal_elements :: "json list \<Rightarrow> RouterConfig \<Rightarrow> RouterConfig result" where
  "unmarshal_elements [] r = Inr r"
| "unmarshal_elements (e # es) r = rbind (unmarshal_element e r) (unmarshal_elements es)"

definition empty_RouterConfig :: RouterConfig where
  "empty_RouterConfig = \<lparr>Metadata = \<lparr>rm_Id = [], rm_Mode = [], rm_Metadata = []\<rparr>,
     SslProfiles = fmempty, Listeners = fmempty, Connectors = fmempty, Addresses = fmempty,
     Bridges = NewBridgeConfig\<rparr>"

definition UnmarshalRouterConfig :: "content \<Rightarrow> RouterConfig result" where
  "UnmarshalRouterConfig config = rbind (Unmarshal Inr config) (\<lambda>obj. case obj of
       JArr es \<Rightarrow> unmarshal_elements es empty_RouterConfig
     | _ \<Rightarrow> Inl (Err ''Invalid JSON for router configuration, expected array at top level''))"

section \<open>Sections\<close>

text \<open>
  What a section is to its clients: a field of the configuration that holds a map. Storing the
  entities of any range over a map into an empty section gives the map.
\<close>

locale map_field =
  fixes get :: "'s \<Rightarrow> ('k, 'v) fmap"
    and put :: "('k, 'v) fmap \<Rightarrow> 's \<Rightarrow> 's"
    and key :: "'v \<Rightarrow> 'k"
  assumes get_put: "get (put m s) = m"
    and put_put: "put m (put m' s) = put m s"
    and put_get: "put (get s) s = s"
begin

lemma fold_insert:
  "fold (\<lambda>v s. put (fmupd (key v) v (get s)) s) vs s = put (fold (\<lambda>v. fmupd (key v) v) vs (get s)) s"
  by (induction vs arbitrary: s) (simp_all add: put_get put_put get_put)

lemma keyed_values:
  assumes "keyed key m" "ranges_over es m"
  shows "map (\<lambda>v. (key v, v)) (map snd es) = es"
proof -
  have "key (snd e) = fst e" if "e \<in> set es" for e
    using assms that by (cases e) (auto simp: keyed_iff ranges_over_mem)
  then show ?thesis by (auto simp: map_idI)
qed

lemma fold_insert_range:
  assumes m: "keyed key m" "ranges_over es m" and s: "get s = fmempty"
  shows "fold (\<lambda>v s. put (fmupd (key v) v (get s)) s) (map snd es) s = put m s"
proof -
  have "fold (\<lambda>v. fmupd (key v) v) (map snd es) fmempty
      = fold (\<lambda>(k, v). fmupd k v) (map (\<lambda>v. (key v, v)) (map snd es)) fmempty"
    by (simp add: fold_map comp_def)
  also have "\<dots> = m"
    using fold_fmupd_ranges [OF m(2)] by (simp only: keyed_values [OF m])
  finally show ?thesis by (simp add: fold_insert s)
qed

end

text \<open>
  A section that is written under a type name and read back: reading one element stores the
  entity that was written. Reading all the elements of the section restores the section.
\<close>

locale config_section = map_field get put key
  for get :: "'s \<Rightarrow> ('k, 'v) fmap" and put :: "('k, 'v) fmap \<Rightarrow> 's \<Rightarrow> 's" and key :: "'v \<Rightarrow> 'k" +
  fixes enc :: "'v \<Rightarrow> json"
    and ty :: string
    and step :: "json \<Rightarrow> 's \<Rightarrow> 's result"
    and steps :: "json list \<Rightarrow> 's \<Rightarrow> 's result"
  assumes steps_Cons: "steps (e # es) s = rbind (step e s) (steps es)"
    and step_element: "step (element ty (enc v)) s = Inr (put (fmupd (key v) v (get s)) s)"
begin

lemma steps_elements:
  "steps (elements ty enc es @ rest) s =
     steps rest (fold (\<lambda>v s. put (fmupd (key v) v (get s)) s) (map snd es) s)"
  by (induction es arbitrary: s) (auto simp: elements_def steps_Cons step_element)

lemma steps_section:
  assumes "distinct (map fst es)" "keyed key (fmap_of_list es)" "get s = fmempty"
  shows "steps (elements ty enc es @ rest) s = steps rest (put (fmap_of_list es) s)"
  using assms fold_insert_range [of "fmap_of_list es" es s]
  by (simp add: steps_elements ranges_over_def)

end

lemmas section_defs = unmarshal_element_def unmarshal_entity_def add_converted_def convert_def
  element_def bc_AddTcpConnector_def bc_AddTcpListener_def bc_AddHttpConnector_def
  bc_AddHttpListener_def

interpretation ssl_section: config_section SslProfiles "\<lambda>m r. r\<lparr>SslProfiles := m\<rparr>" sp_Name
  enc_SslProfile "''sslProfile''" unmarshal_element unmarshal_elements
  by unfold_locales (simp_all add: section_defs sslprofile_codec.dec_canon_enc)

interpretation connector_section: config_section Connectors "\<lambda>m r. r\<lparr>Connectors := m\<rparr>" c_Name
  enc_Connector "''connector''" unmarshal_element unmarshal_elements
  by unfold_locales (simp_all add: section_defs connector_codec.dec_canon_enc)

interpretation listener_section: config_section Listeners "\<lambda>m r. r\<lparr>Listeners := m\<rparr>" l_Name
  enc_Listener "''listener''" unmarshal_element unmarshal_elements
  by unfold_locales (simp_all add: section_defs listener_codec.dec_canon_enc)

interpretation address_section: config_section Addresses "\<lambda>m r. r\<lparr>Addresses := m\<rparr>" a_Prefix
  enc_Address "''address''" unmarshal_element unmarshal_elements
  by unfold_locales (simp_all add: section_defs address_codec.dec_canon_enc)

interpretation tcp_connector_section: config_section "\<lambda>r. TcpConnectors (Bridges r)"
  "\<lambda>m r. r\<lparr>Bridges := (Bridges r)\<lparr>TcpConnectors := m\<rparr>\<rparr>" te_Name
  enc_TcpEndpoint "''tcpConnector''" unmarshal_element unmarshal_elements
  by unfold_locales (simp_all add: section_defs tcpendpoint_codec.dec_canon_enc)

interpretation tcp_listener_section: config_section "\<lambda>r. TcpListeners (Bridges r)"
  "\<lambda>m r. r\<lparr>Bridges := (Bridges r)\<lparr>TcpListeners := m\<rparr>\<rparr>" te_Name
  enc_TcpEndpoint "''tcpListener''" unmarshal_element unmarshal_elements
  by unfold_locales (simp_all add: section_defs tcpendpoint_codec.dec_canon_enc)

interpretation http_connector_section: config_section "\<lambda>r. HttpConnectors (Bridges r)"
  "\<lambda>m r. r\<lparr>Bridges := (Bridges r)\<lparr>HttpConnectors := m\<rparr>\<rparr>" he_Name
  enc_HttpEndpoint "''httpConnector''" unmarshal_element unmarshal_elements
  by unfold_locales (simp_all add: section_defs httpendpoint_codec.dec_canon_enc)

interpretation http_listener_section: config_section "\<lambda>r. HttpListeners (Bridges r)"
  "\<lambda>m r. r\<lparr>Bridges := (Bridges r)\<lparr>HttpListeners := m\<rparr>\<rparr>" he_Name
  enc_HttpEndpoint "''httpListener''" unmarshal_element unmarshal_elements
  by unfold_locales (simp_all add: section_defs httpendpoint_codec.dec_canon_enc)

section \<open>Round trip\<close>

lemma unmarshal_router:
  "unmarshal_elements (element ''router'' (enc_RouterMetadata m) # es) r
     = unmarshal_elements es (r\<lparr>Metadata := m\<rparr>)"
  by (simp add: section_defs routermetadata_codec.dec_canon_enc)

lemmas steps_sections = ssl_section.steps_section connector_section.steps_section
  listener_section.steps_section address_section.steps_section
  tcp_connector_section.steps_section tcp_listener_section.steps_section
  http_connector_section.steps_section

lemma steps_last_section:
  assumes "distinct (map fst es)" "keyed he_Name (fmap_of_list es)" "HttpListeners (Bridges r) = fmempty"
  shows "unmarshal_elements (elements ''httpListener'' enc_HttpEndpoint es) r
    = Inr (r\<lparr>Bridges := (Bridges r)\<lparr>HttpListeners := fmap_of_list es\<rparr>\<rparr>)"
  using http_listener_section.steps_section [OF assms, of "[]"] by simp

lemma unmarshal_marshal:
  assumes wf: "wf_RouterConfig r" and ord: "valid_order ord r"
  shows "UnmarshalRouterConfig (Doc (MarshalRouterConfig ord r)) = Inr r"
proof -
  note k = wf [unfolded wf_RouterConfig_def wf_BridgeConfig_def]
  note o = ord [unfolded valid_order_def ranges_over_def]
  show ?thesis
    using k o
    by (simp add: UnmarshalRouterConfig_def MarshalRouterConfig_def unmarshal_router
        empty_RouterConfig_def NewBridgeConfig_def steps_sections steps_last_section
        del: unmarshal_elements.simps)
qed

text \<open>
  Property C1. Reading a router configuration back gives the configuration that was written, for
  every order in which marshalling visits the section maps, as long as every entity is stored
  under its own name. All fields survive, those that \<open>omitempty\<close> leaves out among them.
\<close>

theorem router_config_round_trip:
  assumes "wf_RouterConfig r" and "valid_order ord r"
  shows "UnmarshalRouterConfig (Doc (MarshalRouterConfig ord r)) = Inr r"
  using assms by (rule unmarshal_marshal)

lemma unmarshalled_wf:
  assumes "UnmarshalRouterConfig c = Inr r"
  shows "wf_RouterConfig r"
proof -
  have step: "wf_RouterConfig r'" if "unmarshal_element e r = Inr r'" "wf_RouterConfig r" for e r r'
    using that
    by (auto simp: unmarshal_element_def unmarshal_entity_def add_converted_def wf_RouterConfig_def
        wf_BridgeConfig_def bc_AddTcpConnector_def bc_AddTcpListener_def bc_AddHttpConnector_def
        bc_AddHttpListener_def split: json.splits list.splits if_splits sum.splits)
  have steps: "wf_RouterConfig r'" if "unmarshal_elements es r = Inr r'" "wf_RouterConfig r" for es r r'
    using that by (induction es arbitrary: r) (auto dest: step)
  have "wf_RouterConfig empty_RouterConfig"
    by (simp add: wf_RouterConfig_def empty_RouterConfig_def wf_NewBridgeConfig)
  moreover obtain es where "unmarshal_elements es empty_RouterConfig = Inr r"
  proof -
    from assms obtain j where "(case j of JArr es \<Rightarrow> unmarshal_elements es empty_RouterConfig
        | _ \<Rightarrow> Inl (Err ''Invalid JSON for router configuration, expected array at top level''))
        = Inr r"
      by (auto simp: UnmarshalRouterConfig_def)
    with that show ?thesis by (cases j) auto
  qed
  ultimately show ?thesis by (rule steps [rotated])
qed

text \<open>
  Property C38. Whatever document \<open>UnmarshalRouterConfig\<close> accepts, the configuration it returns
  stores every entity under its own name, so a configuration that was read from any file can be
  written and read again.
\<close>

theorem unmarshal_wf:
  assumes "UnmarshalRouterConfig c = Inr r"
  shows "wf_RouterConfig r"
  by (rule unmarshalled_wf [OF assms])

section \<open>The configuration file\<close>

definition WriteToConfigFile ::
  "section_order \<Rightarrow> RouterConfig \<Rightarrow> string \<Rightarrow> ('e world, unit) io" where
  "WriteToConfigFile ord r configFile = WriteFile configFile (Doc (MarshalRouterConfig ord r))"

text \<open>The result is a pointer: no name gives the nil pointer.\<close>

definition GetRouterConfigFromFile :: "string \<Rightarrow> ('e world, RouterConfig option) io" where
  "GetRouterConfigFromFile name =
     (if name = [] then io_return None
      else io_bind (ReadFile name) (\<lambda>config.
           io_bind (io_lift (UnmarshalRouterConfig config)) (\<lambda>routerConfig.
             io_return (Some routerConfig))))"

text \<open>
  A configuration file that \<open>WriteToConfigFile\<close> wrote without error is read back as
  the configuration that was written, and reading it changes nothing.
\<close>

theorem config_file_round_trip:
  assumes "wf_RouterConfig r" "valid_order ord r" "p \<noteq> []"
    and "WriteToConfigFile ord r p w = (w', Inr ())"
  shows "GetRouterConfigFromFile p w' = (w', Inr (Some r))"
proof -
  from assms(4) obtain s where s: "fs_write p (Doc (MarshalRouterConfig ord r)) (fs w) = (s, Inr ())"
    "w' = w\<lparr>fs := s\<rparr>"
    by (auto simp: WriteToConfigFile_def WriteFile_def on_fs_def split: prod.splits)
  then have "fs_read p (fs w') = Inr (Doc (MarshalRouterConfig ord r))"
    using disk.read_write_same [OF s(1)] by simp
  with assms(1-3) show ?thesis
    by (simp add: GetRouterConfigFromFile_def io_simps ReadFile_def unmarshal_marshal)
qed

section \<open>Witnesses\<close>

definition sample_config :: RouterConfig where
  "sample_config = AddListener (zero_Listener\<lparr>l_Host := ''localhost'', l_Port := 5672\<rparr>)
     (AddConnector (zero_Connector\<lparr>c_Name := ''conn1'', c_Cost := - 1\<rparr>)
       (InitialConfig ''router'' ''site'' False))"

definition sample_world :: "unit world" where
  "sample_world = \<lparr>env = (\<lambda>_. []),
     fs = \<lparr>dirs = {|''/tmp''|}, files = fmempty, denied = {||}\<rparr>,
     ifaces = (\<lambda>_. []), engine = (), CeDriver = None\<rparr>"

lemma wf_sample_config: "wf_RouterConfig sample_config"
  by (simp add: sample_config_def wf_adds wf_InitialConfig)

lemma router_config_round_trip_witness:
  "UnmarshalRouterConfig (Doc (MarshalRouterConfig (sorted_order sample_config) sample_config))
     = Inr sample_config
   \<and> map_option c_Cost (fmlookup (Connectors sample_config) ''conn1'') = Some (- 1)"
  using router_config_round_trip [OF wf_sample_config valid_sorted_order]
  by (simp add: sample_config_def AddListener_def AddConnector_def Let_def)

lemma unmarshal_wf_witness:
  "wf_RouterConfig sample_config"
  by (rule unmarshal_wf [OF unmarshal_marshal [OF wf_sample_config valid_sorted_order]])

lemma config_file_round_trip_witness:
  "\<exists>w'. WriteToConfigFile (sorted_order sample_config) sample_config ''/tmp/q'' sample_world = (w', Inr ())
     \<and> GetRouterConfigFromFile ''/tmp/q'' w' = (w', Inr (Some sample_config))"
proof -
  have "\<exists>w'. WriteToConfigFile (sorted_order sample_config) sample_config ''/tmp/q'' sample_world
      = (w', Inr ())"
    by (simp add: WriteToConfigFile_def WriteFile_def on_fs_def fs_write_def sample_world_def
        dirname_def slash_def)
  with config_file_round_trip [OF wf_sample_config valid_sorted_order, of "''/tmp/q''" sample_world]
  show ?thesis by blast
qed

end
