(* ===== verification/Router_Proxy.thy ===== *)
theory Router_Proxy imports Router_Marshal begin

text \<open>
  \<open>GetRouterConfigForProxy\<close> of \<open>pkg/qdr/qdr.go\<close>: the configuration of the edge router that
  fronts one service. A service of this site gets a listener and a connector per target, a
  service of another site only a listener.

  Targets with the same host share the connector's name, so the last of them is the one that
  stays; the lemmas state this for every list of targets.
\<close>

section \<open>The configuration of a proxy\<close>

definition colon :: char where "colon = CHR '':''"

definition proxy_base :: "string \<Rightarrow> RouterConfig" where
  "proxy_base siteId =
     AddListener (zero_Listener\<lparr>l_Name := ''amqp'', l_Host := ''localhost'', l_Port := 5672\<rparr>)
      (AddConnector (zero_Connector\<lparr>c_Name := ''uplink'', c_SslProfile := InterRouterProfile,
          c_Host := ''skupper-router'', c_Port := Itoa (sint EdgeListenerPort), c_Role := RoleEdge\<rparr>)
        (AddSslProfile (zero_SslProfile\<lparr>sp_Name := InterRouterProfile\<rparr>)
          (InitialConfig ''$HOSTNAME'' siteId True)))"

definition target_port :: "ServiceInterface \<Rightarrow> ServiceInterfaceTarget \<Rightarrow> goint" where
  "target_port definition t = (if t_TargetPort t \<noteq> 0 then t_TargetPort t else si_Port definition)"

text \<open>The host a target stands for; a target with another selector is passed over.\<close>

definition target_host :: "ServiceInterfaceTarget \<Rightarrow> string option" where
  "target_host t = (if t_Selector t = container_selector then Some (t_Name t)
     else if t_Selector t = host_selector then Some (hd (Split (t_Name t) colon))
     else None)"

definition tcp_egress :: "ServiceInterface \<Rightarrow> string \<Rightarrow> ServiceInterfaceTarget \<Rightarrow> string \<Rightarrow> TcpEndpoint" where
  "tcp_egress definition siteId t h = \<lparr>te_Name = ''egress-'' @ h, te_Host = h,
     te_Port = Itoa (sint (target_port definition t)), te_Address = si_Address definition, te_SiteId = siteId\<rparr>"

definition http_egress ::
  "string \<Rightarrow> ServiceInterface \<Rightarrow> string \<Rightarrow> ServiceInterfaceTarget \<Rightarrow> string \<Rightarrow> HttpEndpoint" where
  "http_egress version definition siteId t h = zero_HttpEndpoint\<lparr>he_Name := ''egress-'' @ h, he_Host := h,
     he_Port := Itoa (sint (target_port definition t)), he_Address := si_Address definition,
     he_ProtocolVersion := version, he_SiteId := siteId\<rparr>"

definition tcp_ingress :: "ServiceInterface \<Rightarrow> string \<Rightarrow> string \<Rightarrow> TcpEndpoint" where
  "tcp_ingress definition siteId h = \<lparr>te_Name = ''ingress'', te_Host = h,
     te_Port = Itoa (sint (si_Port definition)), te_Address = si_Address definition, te_SiteId = siteId\<rparr>"

definition http_ingress :: "string \<Rightarrow> ServiceInterface \<Rightarrow> string \<Rightarrow> string \<Rightarrow> HttpEndpoint" where
  "http_ingress version definition siteId h = zero_HttpEndpoint\<lparr>he_Name := ''ingress'', he_Host := h,
     he_Port := Itoa (sint (si_Port definition)), he_Address := si_Address definition,
     he_ProtocolVersion := version, he_SiteId := siteId\<rparr>"

fun add_tcp_targets ::
  "ServiceInterface \<Rightarrow> string \<Rightarrow> ServiceInterfaceTarget list \<Rightarrow> RouterConfig \<Rightarrow> RouterConfig" where
  "add_tcp_targets definition siteId [] config = config"
| "add_tcp_targets definition siteId (t # ts) config = add_tcp_targets definition siteId ts
     (case target_host t of None \<Rightarrow> config
      | Some h \<Rightarrow> AddTcpConnector (tcp_egress definition siteId t h) config)"

fun add_http_targets ::
  "string \<Rightarrow> ServiceInterface \<Rightarrow> string \<Rightarrow> ServiceInterfaceTarget list \<Rightarrow> RouterConfig \<Rightarrow> RouterConfig" where
  "add_http_targets version definition siteId [] config = config"
| "add_http_targets version definition siteId (t # ts) config = add_http_targets version definition siteId ts
     (case target_host t of None \<Rightarrow> config
      | Some h \<Rightarrow> AddHttpConnector (http_egress version definition siteId t h) config)"

definition proxy_config :: "ServiceInterface \<Rightarrow> string \<Rightarrow> RouterConfig" where
  "proxy_config definition siteId =
     (let config = proxy_base siteId in
      if si_Origin definition = [] then
        (let host = si_Address definition in
         if si_Protocol definition = ''tcp'' then
           add_tcp_targets definition siteId (si_Targets definition)
             (AddTcpListener (tcp_ingress definition siteId ''0.0.0.0'') config)
         else if si_Protocol definition = ''http'' then
           add_http_targets [] definition siteId (si_Targets definition)
             (AddHttpListener (http_ingress [] definition siteId host) config)
         else if si_Protocol definition = ''http2'' then
           add_http_targets ''HTTP/2.0'' definition siteId (si_Targets definition)
             (AddHttpListener (http_ingress ''HTTP/2.0'' definition siteId host) config)
         else config)
      else
        (let host = ''0.0.0.0'' in
         if si_Protocol definition = ''tcp'' then
           AddTcpListener (tcp_ingress definition siteId host) config
         else if si_Protocol definition = ''http'' then
           AddHttpListener (http_ingress [] definition siteId host) config
         else if si_Protocol definition = ''http2'' then
           AddHttpListener (http_ingress ''HTTP/2.0'' definition siteId host) config
         else config))"

definition GetRouterConfigForProxy :: "section_order \<Rightarrow> ServiceInterface \<Rightarrow> string \<Rightarrow> json" where
  "GetRouterConfigForProxy ord definition siteId = MarshalRouterConfig ord (proxy_config definition siteId)"

section \<open>Its sections\<close>

text \<open>The target that decides a connector: the last one with its name.\<close>

definition egress_of :: "ServiceInterfaceTarget list \<Rightarrow> string \<Rightarrow> ServiceInterfaceTarget option" where
  "egress_of ts k = find (\<lambda>t. \<exists>h \<in> set_option (target_host t). k = ''egress-'' @ h) (rev ts)"

lemma egress_of_snoc:
  "egress_of (ts @ [t]) k =
     (if \<exists>h. target_host t = Some h \<and> k = ''egress-'' @ h then Some t else egress_of ts k)"
  by (auto simp: egress_of_def)

lemma add_tcp_targets_append:
  "add_tcp_targets d s (xs @ ys) c = add_tcp_targets d s ys (add_tcp_targets d s xs c)"
  by (induction xs arbitrary: c) simp_all

lemma add_http_targets_append:
  "add_http_targets v d s (xs @ ys) c = add_http_targets v d s ys (add_http_targets v d s xs c)"
  by (induction xs arbitrary: c) simp_all

lemma add_tcp_targets_connector:
  "TcpConnectors (Bridges c) = fmempty \<Longrightarrow>
   fmlookup (TcpConnectors (Bridges (add_tcp_targets d s ts c))) k =
     map_option (\<lambda>t. tcp_egress d s t (the (target_host t))) (egress_of ts k)"
proof (induction ts rule: rev_induct)
  case Nil
  then show ?case by (simp add: egress_of_def)
next
  case (snoc t ts)
  then show ?case
    by (auto simp: add_tcp_targets_append egress_of_snoc AddTcpConnector_def bc_AddTcpConnector_def
        tcp_egress_def split: option.split)
qed

lemma add_http_targets_connector:
  "HttpConnectors (Bridges c) = fmempty \<Longrightarrow>
   fmlookup (HttpConnectors (Bridges (add_http_targets v d s ts c))) k =
     map_option (\<lambda>t. http_egress v d s t (the (target_host t))) (egress_of ts k)"
proof (induction ts rule: rev_induct)
  case Nil
  then show ?case by (simp add: egress_of_def)
next
  case (snoc t ts)
  then show ?case
    by (auto simp: add_http_targets_append egress_of_snoc AddHttpConnector_def bc_AddHttpConnector_def
        http_egress_def split: option.split)
qed

lemma add_tcp_targets_other:
  "TcpListeners (Bridges (add_tcp_targets d s ts c)) = TcpListeners (Bridges c)"
  "HttpListeners (Bridges (add_tcp_targets d s ts c)) = HttpListeners (Bridges c)"
  "HttpConnectors (Bridges (add_tcp_targets d s ts c)) = HttpConnectors (Bridges c)"
  "Metadata (add_tcp_targets d s ts c) = Metadata c"
  "Connectors (add_tcp_targets d s ts c) = Connectors c"
  by (induction ts arbitrary: c)
    (auto simp: AddTcpConnector_def bc_AddTcpConnector_def split: option.split)

lemma add_http_targets_other:
  "TcpListeners (Bridges (add_http_targets v d s ts c)) = TcpListeners (Bridges c)"
  "TcpConnectors (Bridges (add_http_targets v d s ts c)) = TcpConnectors (Bridges c)"
  "HttpListeners (Bridges (add_http_targets v d s ts c)) = HttpListeners (Bridges c)"
  "Metadata (add_http_targets v d s ts c) = Metadata c"
  "Connectors (add_http_targets v d s ts c) = Connectors c"
  by (induction ts arbitrary: c)
    (auto simp: AddHttpConnector_def bc_AddHttpConnector_def split: option.split)

lemma wf_add_tcp_targets: "wf_RouterConfig c \<Longrightarrow> wf_RouterConfig (add_tcp_targets d s ts c)"
  by (induction ts arbitrary: c) (auto simp: wf_adds split: option.split)

lemma wf_add_http_targets: "wf_RouterConfig c \<Longrightarrow> wf_RouterConfig (add_http_targets v d s ts c)"
  by (induction ts arbitrary: c) (auto simp: wf_adds split: option.split)

lemma wf_proxy_base: "wf_RouterConfig (proxy_base s)"
  by (simp add: proxy_base_def wf_adds wf_InitialConfig)

lemma wf_proxy_config: "wf_RouterConfig (proxy_config d s)"
  by (simp add: proxy_config_def Let_def wf_add_tcp_targets wf_add_http_targets wf_adds wf_proxy_base)

lemma proxy_base_bridges [simp]: "Bridges (proxy_base s) = NewBridgeConfig"
  by (simp add: proxy_base_def AddListener_def AddConnector_def AddSslProfile_def InitialConfig_def Let_def)

lemmas proxy_simps = proxy_config_def Let_def AddTcpListener_def AddHttpListener_def
  bc_AddTcpListener_def bc_AddHttpListener_def NewBridgeConfig_def

lemma proxy_base_uplink:
  "Metadata (proxy_base s) = \<lparr>rm_Id = ''$HOSTNAME'', rm_Mode = ModeEdge, rm_Metadata = s\<rparr>"
  "fmlookup (Connectors (proxy_base s)) k = (if k = ''uplink'' then
     Some (zero_Connector\<lparr>c_Name := ''uplink'', c_Role := RoleEdge, c_Host := ''skupper-router'',
       c_Port := Itoa 45671, c_SslProfile := ''skupper-internal''\<rparr>) else None)"
  by (simp_all add: proxy_base_def AddListener_def AddConnector_def AddSslProfile_def InitialConfig_def
      Let_def zero_Connector_def InterRouterProfile_def EdgeListenerPort_def)

section \<open>What the proxy serves\<close>

text \<open>
  Property C33. A proxy for a service of this site has exactly the connectors its targets ask for:
  the one named after a host is built from the last target with that host, there is none for a
  target with an unknown selector, and the connectors are in the section of the protocol and no
  other. A service with another protocol has none.
\<close>

theorem proxy_local_connectors:
  assumes "si_Origin d = []"
  shows "fmlookup (TcpConnectors (Bridges (proxy_config d s))) k =
      (if si_Protocol d = ''tcp''
       then map_option (\<lambda>t. tcp_egress d s t (the (target_host t))) (egress_of (si_Targets d) k)
       else None)
    \<and> fmlookup (HttpConnectors (Bridges (proxy_config d s))) k =
      (if si_Protocol d = ''http''
       then map_option (\<lambda>t. http_egress [] d s t (the (target_host t))) (egress_of (si_Targets d) k)
       else if si_Protocol d = ''http2''
       then map_option (\<lambda>t. http_egress ''HTTP/2.0'' d s t (the (target_host t))) (egress_of (si_Targets d) k)
       else None)"
  using assms
  by (simp_all add: proxy_simps add_tcp_targets_other add_http_targets_other
      add_tcp_targets_connector add_http_targets_connector)

text \<open>
  A proxy for a service of another site forwards to no target, whatever targets the
  definition still carries: it only listens.
\<close>

theorem proxy_remote_ingress_only:
  assumes "si_Origin d \<noteq> []"
  shows "TcpConnectors (Bridges (proxy_config d s)) = fmempty
    \<and> HttpConnectors (Bridges (proxy_config d s)) = fmempty
    \<and> fmlookup (TcpListeners (Bridges (proxy_config d s))) ''ingress'' =
        (if si_Protocol d = ''tcp'' then Some (tcp_ingress d s ''0.0.0.0'') else None)"
  using assms by (simp add: proxy_simps tcp_ingress_def)

text \<open>
  The configuration every proxy is started with reads back as it was built: an edge
  router that reaches the site's router through the one connector \<open>uplink\<close>.
\<close>

theorem proxy_config_read_back:
  assumes "valid_order ord (proxy_config d s)"
  shows "\<exists>r. UnmarshalRouterConfig (Doc (GetRouterConfigForProxy ord d s)) = Inr r
    \<and> IsEdge r \<and> wf_RouterConfig r
    \<and> Connectors r = fmap_of_list [(''uplink'', zero_Connector\<lparr>c_Name := ''uplink'', c_Role := RoleEdge,
         c_Host := ''skupper-router'', c_Port := Itoa 45671, c_SslProfile := ''skupper-internal''\<rparr>)]"
proof -
  have "Connectors (proxy_config d s) = Connectors (proxy_base s)"
    and "Metadata (proxy_config d s) = Metadata (proxy_base s)"
    by (simp_all add: proxy_simps add_tcp_targets_other add_http_targets_other)
  moreover have "Connectors (proxy_base s) = fmap_of_list [(''uplink'', zero_Connector\<lparr>c_Name := ''uplink'',
      c_Role := RoleEdge, c_Host := ''skupper-router'', c_Port := Itoa 45671,
      c_SslProfile := ''skupper-internal''\<rparr>)]"
    by (rule fmap_ext) (auto simp: proxy_base_uplink fmlookup_of_list)
  ultimately show ?thesis
    using assms
    by (simp add: GetRouterConfigForProxy_def unmarshal_marshal wf_proxy_config IsEdge_def proxy_base_uplink)
qed

section \<open>Witnesses\<close>

definition sample_service :: ServiceInterface where
  "sample_service = zero_ServiceInterface\<lparr>si_Address := ''db'', si_Protocol := ''tcp'', si_Port := 5432,
     si_Targets := [\<lparr>t_Name = ''pg'', t_Selector = container_selector, t_TargetPort = 0, t_Service = []\<rparr>,
       \<lparr>t_Name = ''box:10.0.0.1'', t_Selector = host_selector, t_TargetPort = 99, t_Service = []\<rparr>]\<rparr>"

lemma proxy_local_connectors_witness:
  "map_option te_Port (fmlookup (TcpConnectors (Bridges (proxy_config sample_service ''s''))) ''egress-box'')
     = Some (Itoa 99)
   \<and> fmlookup (HttpConnectors (Bridges (proxy_config sample_service ''s''))) ''egress-box'' = None"
  by (simp add: proxy_local_connectors sample_service_def zero_ServiceInterface_def egress_of_def
      target_host_def container_selector_def host_selector_def tcp_egress_def target_port_def colon_def)

lemma proxy_remote_ingress_only_witness:
  "TcpConnectors (Bridges (proxy_config (sample_service\<lparr>si_Origin := ''o''\<rparr>) ''s'')) = fmempty"
  using proxy_remote_ingress_only [of "sample_service\<lparr>si_Origin := ''o''\<rparr>" "''s''"] by simp

lemma proxy_config_read_back_witness:
  "\<exists>r. UnmarshalRouterConfig (Doc (GetRouterConfigForProxy
      (sorted_order (proxy_config sample_service ''s'')) sample_service ''s'')) = Inr r \<and> IsEdge r"
  using proxy_config_read_back [OF valid_sorted_order, of sample_service "''s''"] by blast

end
