(* ===== verification/Engine_Driver.thy ===== *)
theory Engine_Driver imports Go_World begin

text \<open>
  \<open>driver/driver.go\<close>: the types a container engine speaks, the interface \<open>Driver\<close> and
  \<open>RecreateContainer\<close>. The implementations of the interface hand every call to the docker or the
  podman library, so a driver is a parameter: a record of functions on the state of the engine.
  Inspecting and listing are requests that read; the other calls may change the engine, also
  when they fail.
\<close>

section \<open>Types\<close>

record HealthConfig =
  hc_Test :: "string list"
  hc_Interval :: int
  hc_Timeout :: int
  hc_StartPeriod :: int
  hc_Retries :: goint

record PortBinding =
  pb_HostIP :: string
  pb_HostPort :: string

record MountPoint =
  mp_Type :: string
  mp_Name :: string
  mp_Source :: string
  mp_Destination :: string
  mp_Driver :: string
  mp_Mode :: string
  mp_RW :: bool
  mp_Propagation :: string

definition TypeBind :: string where "TypeBind = ''bind''"

definition zero_MountPoint :: MountPoint where
  "zero_MountPoint = \<lparr>mp_Type = [], mp_Name = [], mp_Source = [], mp_Destination = [], mp_Driver = [],
     mp_Mode = [], mp_RW = False, mp_Propagation = []\<rparr>"

record NetworkEndpointSetting =
  nes_Links :: "string list"
  nes_Aliases :: "string list"
  nes_NetworkID :: string
  nes_EndpointID :: string
  nes_Gateway :: string
  nes_IPAddress :: string
  nes_IPPrefixLen :: goint

definition zero_NetworkEndpointSetting :: NetworkEndpointSetting where
  "zero_NetworkEndpointSetting = \<lparr>nes_Links = [], nes_Aliases = [], nes_NetworkID = [],
     nes_EndpointID = [], nes_Gateway = [], nes_IPAddress = [], nes_IPPrefixLen = 0\<rparr>"

record ContainerBaseConfig =
  cb_Hostname :: string
  cb_Image :: string
  cb_Env :: "(string, string) fmap"
  cb_Cmd :: "string list"
  cb_HealthCheck :: "HealthConfig option"
  cb_Labels :: "(string, string) fmap"
  cb_ExposedPorts :: "string fset"

record ContainerHostConfig =
  chc_NetworkMode :: string
  chc_PortBindings :: "(string, PortBinding list) fmap"
  chc_Mounts :: "MountPoint list"
  chc_Privileged :: bool

record ContainerNetworkingConfig =
  cn_EndpointsConfig :: "(string, NetworkEndpointSetting) fmap"

record ContainerCreateOptions =
  cco_Name :: string
  cco_ContainerConfig :: ContainerBaseConfig
  cco_HostConfig :: ContainerHostConfig
  cco_NetworkingConfig :: ContainerNetworkingConfig

record ContainerCreateResponse =
  ccr_ID :: string
  ccr_Warnings :: "string list"

record Port =
  po_IP :: string
  po_ContainerPort :: "16 word"
  po_HostPort :: "16 word"
  po_Type :: string

record ContainerSummary =
  csu_ID :: string
  csu_Names :: "string list"
  csu_Image :: string
  csu_ImageID :: string
  csu_Command :: string
  csu_Created :: goint
  csu_Ports :: "Port list"
  csu_Labels :: "(string, string) fmap"
  csu_State :: string
  csu_Status :: string
  csu_Mounts :: "MountPoint list"

record ContainerNetworkConfig =
  cnc_Gateway :: string
  cnc_IPAddress :: string
  cnc_IPPrefixLen :: goint
  cnc_SecondaryIPAddresses :: "string list"
  cnc_Networks :: "(string, NetworkEndpointSetting) fmap"

record ContainerConfig =
  cc_Hostname :: string
  cc_ExposedPorts :: "string fset"
  cc_Env :: "(string, string) fmap"
  cc_Healthcheck :: "HealthConfig option"
  cc_Image :: string
  cc_Labels :: "(string, string) fmap"

record ContainerState =
  cst_Status :: string
  cst_Running :: bool
  cst_Paused :: bool

record ContainerInspect =
  cin_ID :: string
  cin_Created :: int
  cin_Path :: string
  cin_Args :: "string list"
  cin_State :: "ContainerState option"
  cin_Image :: string
  cin_ImageName :: string
  cin_Name :: string
  cin_Mounts :: "MountPoint list"
  cin_Config :: ContainerConfig
  cin_NetworkSettings :: ContainerNetworkConfig

record ImageInspect =
  ii_ID :: string
  ii_Created :: goint
  ii_RepoTags :: "string list"
  ii_Size :: goint

record ImageSummary =
  is_ID :: string
  is_Created :: goint
  is_Labels :: "(string, string) fmap"
  is_RepoTags :: "string list"
  is_RepoDigests :: "string list"
  is_Size :: goint

text \<open>The options of a listing or of a pull: filters and a flag.\<close>

record ContainerListOptions =
  clo_Filters :: "(string, string list) fmap"
  clo_All :: bool

record NetworkCreateOptions =
  nco_CheckDuplicate :: bool
  nco_Driver :: string
  nco_Options :: "(string, string) fmap"
  nco_Labels :: "(string, string) fmap"

record NetworkCreateResponse =
  ncr_ID :: string
  ncr_Warning :: string

record EndpointResource =
  er_Name :: string
  er_EndpointID :: string

record NetworkInspect =
  ni_Name :: string
  ni_NetworkID :: string
  ni_Containers :: "(string, EndpointResource) fmap"

text \<open>The output of a command: the content of its buffer, a document where the command prints one.\<close>

record ExecResult =
  ex_ExitCode :: goint
  ex_OutBuffer :: content
  ex_ErrBuffer :: content

record Info =
  in_ID :: string
  in_Name :: string
  in_KernelVersion :: string
  in_OperatingSystem :: string
  in_OSVersion :: string
  in_OSType :: string
  in_Architecture :: string
  in_ServerVersion :: string

section \<open>The interface Driver\<close>

record 'e Driver =
  New :: "('e, unit) io"
  ImageInspect :: "string \<Rightarrow> 'e \<Rightarrow> ImageInspect result"
  ImagesList :: "ContainerListOptions \<Rightarrow> 'e \<Rightarrow> ImageSummary list result"
  ImagesPull :: "string \<Rightarrow> ContainerListOptions \<Rightarrow> ('e, string list) io"
  ImageVersion :: "string \<Rightarrow> 'e \<Rightarrow> string result"
  ContainerCreate :: "ContainerCreateOptions \<Rightarrow> ('e, ContainerCreateResponse) io"
  ContainerStart :: "string \<Rightarrow> ('e, unit) io"
  ContainerWait :: "string \<Rightarrow> string \<Rightarrow> ('e, unit) io"
  ContainerList :: "ContainerListOptions \<Rightarrow> 'e \<Rightarrow> ContainerSummary list result"
  ContainerInspect :: "string \<Rightarrow> 'e \<Rightarrow> ContainerInspect result"
  ContainerRestart :: "string \<Rightarrow> ('e, unit) io"
  ContainerStop :: "string \<Rightarrow> ('e, unit) io"
  ContainerRemove :: "string \<Rightarrow> ('e, unit) io"
  ContainerExec :: "string \<Rightarrow> string list \<Rightarrow> ('e, ExecResult) io"
  NetworkCreate :: "string \<Rightarrow> NetworkCreateOptions \<Rightarrow> ('e, NetworkCreateResponse) io"
  NetworkInspect :: "string \<Rightarrow> 'e \<Rightarrow> NetworkInspect result"
  NetworkRemove :: "string \<Rightarrow> ('e, unit) io"
  NetworkConnect :: "string \<Rightarrow> string \<Rightarrow> string list \<Rightarrow> ('e, unit) io"
  NetworkDisconnect :: "string \<Rightarrow> string \<Rightarrow> bool \<Rightarrow> ('e, unit) io"
  Info :: "'e \<Rightarrow> Info result"

text \<open>A request that reads.\<close>

definition io_ask :: "('e \<Rightarrow> 'a result) \<Rightarrow> ('e, 'a) io" where
  "io_ask f = (\<lambda>e. (e, f e))"

lemma io_ask_apply [simp, io_simps]: "io_ask f e = (e, f e)"
  by (simp add: io_ask_def)

text \<open>A call of the engine as a program of the world.\<close>

definition on_engine :: "('e, 'a) io \<Rightarrow> ('e world, 'a) io" where
  "on_engine f = (\<lambda>w. case f (engine w) of (e, r) \<Rightarrow> (w\<lparr>engine := e\<rparr>, r))"

lemma on_engine_fs [simp]: "fs (fst (on_engine f w)) = fs w"
  by (simp add: on_engine_def split: prod.split)

end
