(* ===== verification/Site_Types.thy ===== *)
theory Site_Types imports Api_Types begin

text \<open>
  The remaining types of \<open>api/types/types.go\<close> and \<open>api/types/client.go\<close>: the site
  configuration with its JSON form, the specification a site is created from, the options and
  the answers of the client's operations.
\<close>

section \<open>The site configuration\<close>

record SiteConfigSpec =
  ss_SkupperName :: string
  ss_SkupperNamespace :: string
  ss_IsEdge :: bool
  ss_EnableController :: bool
  ss_EnableServiceSync :: bool
  ss_EnableRouterConsole :: bool
  ss_EnableConsole :: bool
  ss_AuthMode :: string
  ss_User :: string
  ss_Password :: string
  ss_MapToHost :: bool
  ss_Replicas :: goint32
  ss_TraceLog :: bool
  ss_ContainerEngineDriver :: string

record SiteConfig =
  sc_Spec :: SiteConfigSpec
  sc_UID :: string

definition zero_SiteConfigSpec :: SiteConfigSpec where
  "zero_SiteConfigSpec = \<lparr>ss_SkupperName = [], ss_SkupperNamespace = [], ss_IsEdge = False,
     ss_EnableController = False, ss_EnableServiceSync = False,
     ss_EnableRouterConsole = False, ss_EnableConsole = False, ss_AuthMode = [],
     ss_User = [], ss_Password = [], ss_MapToHost = False, ss_Replicas = 0,
     ss_TraceLog = False, ss_ContainerEngineDriver = []\<rparr>"

definition enc_SiteConfigSpec :: "SiteConfigSpec \<Rightarrow> json" where
  "enc_SiteConfigSpec x = JObj (put_str ''SkupperName'' (ss_SkupperName x)
     @ put_str ''SkupperNamespace'' (ss_SkupperNamespace x)
     @ put_bool ''IsEdge'' (ss_IsEdge x)
     @ put_bool ''EnableController'' (ss_EnableController x)
     @ put_bool ''EnableServiceSync'' (ss_EnableServiceSync x)
     @ put_bool ''EnableRouterConsole'' (ss_EnableRouterConsole x)
     @ put_bool ''EnableConsole'' (ss_EnableConsole x)
     @ put_str ''AuthMode'' (ss_AuthMode x) @ put_str ''User'' (ss_User x)
     @ put_str ''Password'' (ss_Password x) @ put_bool ''MapToHost'' (ss_MapToHost x)
     @ put_num ''Replicas'' (ss_Replicas x) @ put_bool ''TraceLog'' (ss_TraceLog x)
     @ put_str ''ContainerEngineDriver'' (ss_ContainerEngineDriver x))"

definition dec_SiteConfigSpec :: "json \<Rightarrow> SiteConfigSpec result" where
  "dec_SiteConfigSpec = as_struct zero_SiteConfigSpec (\<lambda>ms.
     rbind (get_str ''SkupperName'' ms) (\<lambda>x0.
     rbind (get_str ''SkupperNamespace'' ms) (\<lambda>x1.
     rbind (get_bool ''IsEdge'' ms) (\<lambda>x2.
     rbind (get_bool ''EnableController'' ms) (\<lambda>x3.
     rbind (get_bool ''EnableServiceSync'' ms) (\<lambda>x4.
     rbind (get_bool ''EnableRouterConsole'' ms) (\<lambda>x5.
     rbind (get_bool ''EnableConsole'' ms) (\<lambda>x6.
     rbind (get_str ''AuthMode'' ms) (\<lambda>x7.
     rbind (get_str ''User'' ms) (\<lambda>x8.
     rbind (get_str ''Password'' ms) (\<lambda>x9.
     rbind (get_bool ''MapToHost'' ms) (\<lambda>x10.
     rbind (get_num ''Replicas'' ms) (\<lambda>x11.
     rbind (get_bool ''TraceLog'' ms) (\<lambda>x12.
     rbind (get_str ''ContainerEngineDriver'' ms) (\<lambda>x13.
       Inr \<lparr>ss_SkupperName = x0, ss_SkupperNamespace = x1, ss_IsEdge = x2,
         ss_EnableController = x3, ss_EnableServiceSync = x4, ss_EnableRouterConsole = x5,
         ss_EnableConsole = x6, ss_AuthMode = x7, ss_User = x8, ss_Password = x9,
         ss_MapToHost = x10, ss_Replicas = x11, ss_TraceLog = x12,
         ss_ContainerEngineDriver = x13\<rparr>)))))))))))))))"

definition enc_SiteConfig :: "SiteConfig \<Rightarrow> json" where
  "enc_SiteConfig x = JObj ((''Spec'', enc_SiteConfigSpec (sc_Spec x)) # put_str ''UID'' (sc_UID x))"

text \<open>\<open>json.Unmarshal\<close> is given the address of a pointer, so \<open>null\<close> leaves the nil pointer.\<close>

definition dec_SiteConfig :: "json \<Rightarrow> SiteConfig result" where
  "dec_SiteConfig = as_struct \<lparr>sc_Spec = zero_SiteConfigSpec, sc_UID = []\<rparr> (\<lambda>ms.
     rbind (get_with dec_SiteConfigSpec zero_SiteConfigSpec ''Spec'' ms) (\<lambda>spec.
     rbind (get_str ''UID'' ms) (\<lambda>uid. Inr \<lparr>sc_Spec = spec, sc_UID = uid\<rparr>)))"

interpretation spec_codec: json_codec enc_SiteConfigSpec dec_SiteConfigSpec
  by unfold_locales (simp add: enc_SiteConfigSpec_def dec_SiteConfigSpec_def as_struct_def
      get_str_def get_num_def get_bool_def codec_simps fold_char_def)

interpretation site_codec: json_codec enc_SiteConfig dec_SiteConfig
  by unfold_locales (simp add: enc_SiteConfig_def dec_SiteConfig_def as_struct_def
      get_str_def get_with_def codec_simps fold_char_def spec_codec.dec_enc)

lemma enc_SiteConfig_not_null: "enc_SiteConfig x \<noteq> JNull"
  by (simp add: enc_SiteConfig_def)

section \<open>The definitions of the services\<close>

text \<open>
  The content of the file \<open>skupper-services\<close>, a Go map from an address to a definition. \<open>None\<close>
  is the nil map, which \<open>null\<close> unmarshals to: it reads like an empty map, but an assignment to
  one of its entries is a run-time panic.
\<close>

type_synonym service_defs = "(string, ServiceInterface) fmap"

definition enc_services :: "service_defs option \<Rightarrow> json" where
  "enc_services current = (case current of None \<Rightarrow> JNull | Some m \<Rightarrow> put_map enc_ServiceInterface m)"

definition dec_services :: "json \<Rightarrow> service_defs option result" where
  "dec_services = as_ptr (as_map dec_ServiceInterface)"

definition go_map :: "('k, 'v) fmap option \<Rightarrow> ('k, 'v) fmap" where
  "go_map m = (case m of None \<Rightarrow> fmempty | Some m \<Rightarrow> m)"

lemma go_map_simps [simp]: "go_map None = fmempty" "go_map (Some m) = m"
  by (simp_all add: go_map_def)

interpretation services_codec: json_codec enc_services dec_services
proof unfold_locales
  fix x :: "service_defs option"
  show "dec_services (enc_services x) = Inr x"
    using service_codec.map_round_trip
    by (cases x) (simp_all add: dec_services_def enc_services_def as_ptr_def put_map_def)
qed

section \<open>The specification of a site\<close>

text \<open>
  \<open>nat.PortSet\<close> is a set of port names such as \<open>9090/tcp\<close>. The router configuration is held
  as the document its text is.
\<close>

record DeploymentSpec =
  ds_Image :: string
  ds_LivenessPort :: goint32
  ds_Labels :: "(string, string) fmap"
  ds_EnvVar :: "(string, string) fmap"
  ds_Ports :: "string fset"
  ds_Volumes :: "string list"
  ds_Mounts :: "(string, string) fmap"

record Credential =
  cr_CA :: string
  cr_Name :: string
  cr_Subject :: string
  cr_Hosts :: "string list"
  cr_ConnectJson :: bool
  cr_Post :: bool
  cr_Data :: "(string, string) fmap"

record CertAuthority =
  ca_Name :: string

record User =
  u_Name :: string
  u_Password :: string

record RouterSpec =
  rs_Name :: string
  rs_AuthMode :: string
  rs_Transport :: DeploymentSpec
  rs_Controller :: DeploymentSpec
  rs_RouterConfig :: json
  rs_Users :: "User list"
  rs_CertAuthoritys :: "CertAuthority list"
  rs_Credentials :: "Credential list"

section \<open>Options and answers of the client\<close>

record ConnectorCreateOptions =
  co_Name :: string
  co_Cost :: goint32

record ServiceInterfaceCreateOptions =
  so_Protocol :: string
  so_Address :: string
  so_Port :: goint
  so_TargetPort :: goint
  so_Headless :: bool

record TransportConnectedSites =
  cs_Direct :: goint
  cs_Indirect :: goint
  cs_Total :: goint
  cs_Warnings :: "string list"

record RouterStatusSpec =
  st_Mode :: string
  st_State :: string
  st_ConnectedSites :: TransportConnectedSites
  st_BindingsCount :: goint

record RouterInspectResponse =
  ri_Status :: RouterStatusSpec
  ri_TransportVersion :: string
  ri_ControllerVersion :: string
  ri_ExposedServices :: goint

record types_Connector =
  tc_Name :: string
  tc_Role :: string
  tc_Host :: string
  tc_Port :: string
  tc_RouteContainer :: bool
  tc_Cost :: goint32
  tc_VerifyHostname :: bool
  tc_SslProfile :: string
  tc_LinkCapacity :: goint32

record ConnectorInspectResponse =
  cir_Connector :: types_Connector
  cir_Connected :: bool

end
