(* ===== verification/Client_Base.thy ===== *)
theory Client_Base imports Engine_Driver Site_Types Router_Marshal begin

text \<open>
  What the operations of \<open>client.VanClient\<close> share: \<open>Init\<close> (\<open>client/client.go\<close>), the site
  configuration (\<open>client/site_config_create.go\<close>, \<open>client/site_config_inspect.go\<close>) and the file of
  the service definitions, as the operations of \<open>client/serviceinterface_*.go\<close> read and write it.

  \<open>D\<close> gives the driver of each engine. The client starts without a driver, \<open>Init\<close> connects one.
\<close>

section \<open>The connection to the engine\<close>

definition nil_pointer :: error where
  "nil_pointer = Panic ''invalid memory address or nil pointer dereference''"

text \<open>A call \<open>cli.CeDriver.f(...)\<close>.\<close>

definition ce :: "(ce_kind \<Rightarrow> 'e Driver) \<Rightarrow> ('e Driver \<Rightarrow> ('e, 'a) io) \<Rightarrow> ('e world, 'a) io" where
  "ce D f = (\<lambda>w. case CeDriver w of
       None \<Rightarrow> (w, Inl nil_pointer)
     | Some k \<Rightarrow> on_engine (f (D k)) w)"

definition set_driver :: "ce_kind \<Rightarrow> ('e world, unit) io" where
  "set_driver k = (\<lambda>w. (w\<lparr>CeDriver := Some k\<rparr>, Inr ()))"

definition connect_driver :: "(ce_kind \<Rightarrow> 'e Driver) \<Rightarrow> ce_kind \<Rightarrow> ('e world, unit) io" where
  "connect_driver D k = io_bind (io_wrap ''Error connecting to CE backend'' (on_engine (New (D k))))
     (\<lambda>_. set_driver k)"

definition Init :: "(ce_kind \<Rightarrow> 'e Driver) \<Rightarrow> string \<Rightarrow> ('e world, unit) io" where
  "Init D ced = (\<lambda>w.
     if CeDriver w \<noteq> None then (w, Inr ())
     else if ced = ''docker'' then connect_driver D Docker w
     else if ced = ''podman'' then connect_driver D Podman w
     else (w, Inl (Err (''CE driver '' @ ced @ '' not recognized''))))"

lemma ce_fs [simp]: "fs (fst (ce D f w)) = fs w"
  by (simp add: ce_def split: option.split)

lemma on_engine_rest [simp]:
  "env (fst (on_engine f w)) = env w" "CeDriver (fst (on_engine f w)) = CeDriver w"
  "ifaces (fst (on_engine f w)) = ifaces w"
  by (simp_all add: on_engine_def split: prod.split)

lemma ce_rest [simp]:
  "env (fst (ce D f w)) = env w" "CeDriver (fst (ce D f w)) = CeDriver w"
  "ifaces (fst (ce D f w)) = ifaces w"
  by (simp_all add: ce_def split: option.split)

text \<open>
  What a program leaves alone: \<open>untouched m\<close> is a program that changes neither the files nor the
  environment, whatever it does with the engine.
\<close>

definition host_of :: "'e world \<Rightarrow> (string \<Rightarrow> string) \<times> fsys \<times> (string \<Rightarrow> NetAddr list)" where
  "host_of w = (env w, fs w, ifaces w)"

definition untouched :: "('e world, 'a) io \<Rightarrow> bool" where
  "untouched m \<longleftrightarrow> (\<forall>w. host_of (fst (m w)) = host_of w)"

lemma untouchedD: "untouched m \<Longrightarrow> m w = (w', r) \<Longrightarrow> host_of w' = host_of w"
  unfolding untouched_def by (metis fst_conv)

lemma untouched_basic [intro, simp]:
  "untouched (io_return x)" "untouched (io_fail e)" "untouched (io_lift r)" "untouched (ce D f)"
  "untouched (ReadFile p)" "untouched (ReadDir p)" "untouched (on_engine g)" "untouched (set_driver k)"
  by (simp_all add: untouched_def host_of_def ReadFile_def ReadDir_def set_driver_def)

lemma untouched_bind [intro]:
  "untouched m \<Longrightarrow> (\<And>x. untouched (f x)) \<Longrightarrow> untouched (io_bind m f)"
  by (auto simp: untouched_def io_bind_def split: prod.split sum.split) (metis fst_conv)+

lemma untouched_wrap [intro]: "untouched m \<Longrightarrow> untouched (io_wrap msg m)"
  by (auto simp: untouched_def io_wrap_def split: prod.split) (metis fst_conv)

lemma untouched_try [intro]: "untouched m \<Longrightarrow> untouched (io_try m)"
  by (auto simp: untouched_def io_try_def split: prod.split sum.split error.split) (metis fst_conv)+

lemma untouched_each [intro]: "(\<And>x. untouched (f x)) \<Longrightarrow> untouched (io_each f xs)"
  by (induction xs) auto

lemma host_of_fs: "host_of w' = host_of w \<Longrightarrow> fs w' = fs w \<and> env w' = env w \<and> ifaces w' = ifaces w"
  by (simp add: host_of_def)

lemma untouched_Init [intro, simp]: "untouched (Init D ced)"
proof -
  have "untouched (connect_driver D k)" for k
    by (auto simp: connect_driver_def)
  then show ?thesis by (auto simp: untouched_def Init_def)
qed

text \<open>
  \<open>Init\<close> connects at most once: when it succeeds a driver is set, a client that has
  a driver keeps it whatever engine the next call names, and when it fails the client has none.
\<close>

theorem Init_once:
  "case Init D ced w of
     (w', Inr _) \<Rightarrow> CeDriver w' \<noteq> None \<and> (\<forall>ced'. Init D ced' w' = (w', Inr ()))
       \<and> CeDriver w' = (case CeDriver w of Some k \<Rightarrow> Some k
           | None \<Rightarrow> if ced = ''docker'' then Some Docker else Some Podman)
   | (w', Inl _) \<Rightarrow> CeDriver w = None \<and> CeDriver w' = None"
proof (cases "CeDriver w")
  case (Some k)
  then show ?thesis by (simp add: Init_def)
next
  case None
  have c: "case connect_driver D k w of
      (w', Inr _) \<Rightarrow> CeDriver w' = Some k | (w', Inl _) \<Rightarrow> CeDriver w' = None" for k
    using None
    by (auto simp: connect_driver_def io_simps on_engine_def set_driver_def split: prod.splits sum.splits)
  show ?thesis
    using None c [of Docker] c [of Podman]
    by (auto simp: Init_def split: prod.splits sum.splits)
qed

section \<open>The site configuration\<close>

definition site_file :: "'e world \<Rightarrow> string \<Rightarrow> string" where
  "site_file w name = skupper_path w SitesPath @ ''/'' @ name @ ''.json''"

text \<open>\<open>uid\<close> is what \<open>uuid.New\<close> returns.\<close>

definition SiteConfigCreate :: "string \<Rightarrow> SiteConfigSpec \<Rightarrow> ('e world, SiteConfig) io" where
  "SiteConfigCreate uid spec = (\<lambda>w.
     (let sc = \<lparr>sc_Spec = spec, sc_UID = uid\<rparr> in
      io_bind (WriteFile (site_file w DefaultBridgeName) (Doc (enc_SiteConfig sc)))
        (\<lambda>_. io_return sc) w))"

definition SiteConfigInspect :: "string \<Rightarrow> ('e world, SiteConfig option) io" where
  "SiteConfigInspect name = (\<lambda>w.
     io_bind (ReadFile (site_file w name)) (\<lambda>scFile.
       io_wrap ''Failed to decode json for site config definition''
         (io_lift (Unmarshal (as_ptr dec_SiteConfig) scFile))) w)"

text \<open>The first lines of most operations: the site configuration and the connection it names.\<close>

definition site_client :: "(ce_kind \<Rightarrow> 'e Driver) \<Rightarrow> ('e world, SiteConfig) io" where
  "site_client D = io_bind (io_wrap ''Unable to retrieve site config'' (SiteConfigInspect DefaultBridgeName))
     (\<lambda>sc. case sc of
        None \<Rightarrow> io_fail nil_pointer
      | Some sc \<Rightarrow> io_bind (io_wrap ''Failed to intialize client''
            (Init D (ss_ContainerEngineDriver (sc_Spec sc)))) (\<lambda>_. io_return sc))"

definition require_router :: "(ce_kind \<Rightarrow> 'e Driver) \<Rightarrow> string \<Rightarrow> ('e world, ContainerInspect) io" where
  "require_router D msg = io_wrap msg (ce D (\<lambda>dd. io_ask (ContainerInspect dd TransportDeploymentName)))"

lemma untouched_option [intro]:
  "untouched a \<Longrightarrow> (\<And>x. untouched (b x)) \<Longrightarrow> untouched (case p of None \<Rightarrow> a | Some x \<Rightarrow> b x)"
  by (cases p) simp_all

lemma untouched_if [intro]: "untouched a \<Longrightarrow> untouched b \<Longrightarrow> untouched (if c then a else b)"
  by simp

lemma untouched_SiteConfigInspect [intro, simp]: "untouched (SiteConfigInspect name)"
  by (simp add: untouched_def SiteConfigInspect_def io_simps ReadFile_def split: sum.split)

lemma untouched_site_client [intro, simp]: "untouched (site_client D)"
  unfolding site_client_def
  by (intro untouched_bind untouched_wrap untouched_option untouched_basic untouched_SiteConfigInspect
      untouched_Init)

lemma untouched_require_router [intro, simp]: "untouched (require_router D msg)"
  unfolding require_router_def by auto

lemma write_then_read:
  assumes "WriteFile p c w = (w', Inr u)"
  shows "fs_read p (fs w') = Inr c" "env w' = env w" "CeDriver w' = CeDriver w" "ifaces w' = ifaces w"
    "engine w' = engine w"
  using assms disk.read_write_same [of p c "fs w"]
  by (auto simp: WriteFile_def on_fs_def split: prod.splits)

lemma write_failed:
  assumes "WriteFile p c w = (w', Inl e)"
  shows "w' = w"
  using assms disk.write_fails [of p c "fs w"]
  by (auto simp: WriteFile_def on_fs_def split: prod.splits)

lemma write_other:
  assumes "WriteFile p c w = (w', r)" "q \<noteq> p"
  shows "fs_read q (fs w') = fs_read q (fs w)"
  using assms disk.read_write_other [of p c "fs w"]
  by (auto simp: WriteFile_def on_fs_def split: prod.splits)

text \<open>
  The site configuration that was created is the one every later command inspects:
  all fifteen fields, the identifier among them.
\<close>

theorem site_config_round_trip:
  assumes "SiteConfigCreate uid spec w = (w', Inr sc)"
  shows "SiteConfigInspect DefaultBridgeName w' = (w', Inr (Some \<lparr>sc_Spec = spec, sc_UID = uid\<rparr>))"
proof -
  from assms obtain u where "WriteFile (site_file w DefaultBridgeName)
      (Doc (enc_SiteConfig \<lparr>sc_Spec = spec, sc_UID = uid\<rparr>)) w = (w', Inr u)"
    by (auto simp: SiteConfigCreate_def io_simps Let_def split: prod.splits sum.splits)
  note r = write_then_read [OF this]
  then have "site_file w' DefaultBridgeName = site_file w DefaultBridgeName"
    by (simp add: site_file_def skupper_path_def)
  with r show ?thesis
    by (simp add: SiteConfigInspect_def io_simps ReadFile_def site_codec.ptr_round_trip
        enc_SiteConfig_not_null)
qed

section \<open>The file of the service definitions\<close>

definition services_file :: "'e world \<Rightarrow> string" where
  "services_file w = skupper_path w ServicesPath @ ''/skupper-services''"

definition read_services :: "('e world, service_defs option) io" where
  "read_services = (\<lambda>w.
     io_bind (io_wrap ''Failed to retrieve skupper service interace definitions''
         (ReadFile (services_file w))) (\<lambda>svcFile.
       io_wrap ''Failed to decode json for service interface definitions''
         (io_lift (Unmarshal dec_services svcFile))) w)"

definition write_services :: "service_defs option \<Rightarrow> ('e world, unit) io" where
  "write_services current = (\<lambda>w.
     io_wrap ''Failed to write service interface file''
       (WriteFile (services_file w) (Doc (enc_services current))) w)"

text \<open>The definitions a world holds, where its file is one.\<close>

definition services_of :: "'e world \<Rightarrow> service_defs option result" where
  "services_of w = rbind (fs_read (services_file w) (fs w)) (Unmarshal dec_services)"

lemma services_of_cong: "host_of w' = host_of w \<Longrightarrow> services_of w' = services_of w"
  by (simp add: services_of_def services_file_def skupper_path_def host_of_def)

lemma read_services_Inr:
  "read_services w = (w', Inr m) \<longleftrightarrow> w' = w \<and> services_of w = Inr m"
  by (auto simp: read_services_def services_of_def io_simps ReadFile_def split: sum.splits)

lemma read_services_same: "fst (read_services w) = w"
  by (auto simp: read_services_def io_simps ReadFile_def split: sum.splits)

lemma untouched_read_services [intro, simp]: "untouched read_services"
  by (simp add: untouched_def read_services_same)

lemma read_services_cases:
  "read_services w = (w, case fs_read (services_file w) (fs w) of
       Inl e \<Rightarrow> Inl (wrap_error ''Failed to retrieve skupper service interace definitions'' e)
     | Inr c \<Rightarrow> rwrap ''Failed to decode json for service interface definitions'' (Unmarshal dec_services c))"
  by (simp add: read_services_def io_simps ReadFile_def split: sum.splits)

text \<open>
  The contract of the file: what was written is what the world holds, and a failed write leaves
  the world as it was.
\<close>

lemma write_services_Inr:
  assumes "write_services m w = (w', Inr u)"
  shows "services_of w' = Inr m" "env w' = env w" "CeDriver w' = CeDriver w" "engine w' = engine w"
    "ifaces w' = ifaces w"
proof -
  from assms obtain u' where "WriteFile (services_file w) (Doc (enc_services m)) w = (w', Inr u')"
    by (auto simp: write_services_def io_simps split: prod.splits)
  note r = write_then_read [OF this]
  then show "services_of w' = Inr m" "env w' = env w" "CeDriver w' = CeDriver w" "engine w' = engine w"
    "ifaces w' = ifaces w"
    by (simp_all add: services_of_def services_file_def skupper_path_def services_codec.dec_enc)
qed

lemma write_services_Inl: "write_services m w = (w', Inl e) \<Longrightarrow> w' = w"
  by (auto simp: write_services_def io_wrap_Inl dest: write_failed)

end
