(* ===== verification/Client_Services.thy ===== *)
theory Client_Services imports Client_Base Router_Proxy begin

text \<open>
  \<open>client/serviceinterface_*.go\<close>: the operations on the definitions of the services. Each of them
  connects, looks for the router's container, validates, and then reads the file of definitions,
  changes the map and writes it.

  \<open>edit_services f\<close> is the last step with the change \<open>f\<close> of the map as a parameter. The locale
  \<open>service_edit\<close> is the contract of a whole operation against its change: an error leaves every
  file as it was, and a success replaces the definitions by what the change makes of them and
  touches no other file.
\<close>

section \<open>Validation\<close>

definition bad_port :: "goint \<Rightarrow> bool" where
  "bad_port p \<longleftrightarrow> sint p < 0 \<or> 65535 < sint p"

fun validate_targets :: "ServiceInterfaceTarget list \<Rightarrow> unit result" where
  "validate_targets [] = Inr ()"
| "validate_targets (target # ts) =
     (if bad_port (t_TargetPort target)
      then Inl (Err (''Bad target port number. Target: '' @ t_Name target @ ''  Port: ''
             @ Itoa (sint (t_TargetPort target))))
      else validate_targets ts)"

definition quoted :: "string \<Rightarrow> string" where
  "quoted s = CHR 0x27 # s @ [CHR 0x27]"

definition validateServiceInterface :: "ServiceInterface \<Rightarrow> unit result" where
  "validateServiceInterface service = rbind (validate_targets (si_Targets service)) (\<lambda>_.
     if bad_port (si_Port service) then
       Inl (Err (''Port '' @ Itoa (sint (si_Port service)) @ '' is outside valid range.''))
     else if si_Aggregate service \<noteq> [] \<and> si_EventChannel service then
       Inl (Err ''Only one of aggregate and event-channel can be specified for a given service.'')
     else if si_Aggregate service \<noteq> [] \<and> si_Aggregate service \<noteq> ''json''
         \<and> si_Aggregate service \<noteq> ''multipart'' then
       Inl (Err (si_Aggregate service
         @ '' is not a valid aggregation strategy. Choose '' @ quoted ''json'' @ '' or ''
         @ quoted ''multipart'' @ ''.''))
     else if si_Protocol service \<noteq> [] \<and> si_Protocol service \<noteq> ''tcp'' \<and> si_Protocol service \<noteq> ''http''
         \<and> si_Protocol service \<noteq> ''http2'' then
       Inl (Err (si_Protocol service @ '' is not a valid mapping. Choose '' @ quoted ''tcp'' @ '', ''
         @ quoted ''http'' @ '' or '' @ quoted ''http2'' @ ''.''))
     else if si_Aggregate service \<noteq> [] \<and> si_Protocol service \<noteq> ''http'' then
       Inl (Err ''The aggregate option is currently only valid for http'')
     else if si_EventChannel service \<and> si_Protocol service \<noteq> ''http'' then
       Inl (Err ''The event-channel option is currently only valid for http'')
     else Inr ())"

text \<open>The services that may be stored.\<close>

definition port_range :: "goint \<Rightarrow> bool" where
  "port_range p \<longleftrightarrow> sint p \<in> {0..65535}"

definition valid_service :: "ServiceInterface \<Rightarrow> bool" where
  "valid_service s \<longleftrightarrow> (\<forall>t \<in> set (si_Targets s). port_range (t_TargetPort t)) \<and> port_range (si_Port s)
     \<and> si_Protocol s \<in> {'''', ''tcp'', ''http'', ''http2''}
     \<and> si_Aggregate s \<in> {'''', ''json'', ''multipart''}
     \<and> (si_Aggregate s \<noteq> '''' \<or> si_EventChannel s \<longrightarrow> si_Protocol s = ''http'')
     \<and> \<not> (si_Aggregate s \<noteq> '''' \<and> si_EventChannel s)"

lemma validate_targets_iff:
  "validate_targets ts = Inr () \<longleftrightarrow> (\<forall>t \<in> set ts. port_range (t_TargetPort t))"
  by (induction ts) (auto simp: port_range_def bad_port_def)

text \<open>
  Validation accepts exactly the services that may be stored: all ports in the 16-bit
  range, a known protocol and aggregation, and at most one of aggregation and event channel, with
  http only.
\<close>

lemma validate_valid: "validateServiceInterface s = Inr u \<longleftrightarrow> valid_service s"
  by (auto simp: validateServiceInterface_def valid_service_def validate_targets_iff port_range_def
      bad_port_def)

section \<open>Targets\<close>

fun replace_target ::
  "ServiceInterfaceTarget \<Rightarrow> ServiceInterfaceTarget list \<Rightarrow> bool \<Rightarrow> bool \<times> ServiceInterfaceTarget list" where
  "replace_target target [] modified = (modified, [])"
| "replace_target target (t # ts) modified =
     (if t_Name t = t_Name target
      then (let (m, ts') = replace_target target ts True in (m, target # ts'))
      else (let (m, ts') = replace_target target ts modified in (m, t # ts')))"

definition addTargetToServiceInterface ::
  "ServiceInterface \<Rightarrow> ServiceInterfaceTarget \<Rightarrow> ServiceInterface" where
  "addTargetToServiceInterface service target =
     (let (modified, targets) = replace_target target (si_Targets service) False
      in service\<lparr>si_Targets := (if modified then targets else targets @ [target])\<rparr>)"

text \<open>The name of a host service, with the address of the bridge where it has none.\<close>

definition host_address :: "'e world \<Rightarrow> string" where
  "host_address w = (let host = GetInternalIP ''docker0'' w in if host = [] then ''172.17.0.1'' else host)"

definition host_target_name :: "'e world \<Rightarrow> string \<Rightarrow> string" where
  "host_target_name w name = (if length (SplitN2 name colon) = 1
     then name @ '':'' @ host_address w else name)"

definition getServiceInterfaceTarget ::
  "(ce_kind \<Rightarrow> 'e Driver) \<Rightarrow> string \<Rightarrow> string \<Rightarrow> bool \<Rightarrow> ('e world, ServiceInterfaceTarget) io" where
  "getServiceInterfaceTarget D targetType targetName deducePort =
     (if targetType = ''container'' then
        io_bind (io_wrap (''Could not read container '' @ targetName)
            (ce D (\<lambda>dd. io_ask (ContainerInspect dd targetName)))) (\<lambda>_.
          io_return \<lparr>t_Name = targetName, t_Selector = container_selector, t_TargetPort = 0, t_Service = []\<rparr>)
      else if targetType = ''host-service'' then
        (\<lambda>w. (w, Inr \<lparr>t_Name = host_target_name w targetName, t_Selector = host_selector,
           t_TargetPort = 0, t_Service = []\<rparr>))
      else io_fail (Err ''VAN service interface unsupported target type''))"

section \<open>Changing the definitions\<close>

definition nil_map :: error where
  "nil_map = Panic ''assignment to entry in nil map''"

definition edit_services ::
  "(service_defs option \<Rightarrow> service_defs option result) \<Rightarrow> ('e world, unit) io" where
  "edit_services f = io_bind read_services (\<lambda>current. io_bind (io_lift (f current)) write_services)"

definition update_edit :: "ServiceInterface \<Rightarrow> bool \<Rightarrow> service_defs option \<Rightarrow> service_defs option result" where
  "update_edit service overwriteIfExists current =
     (if overwriteIfExists \<or> fmlookup (go_map current) (si_Address service) = None
      then (case current of None \<Rightarrow> Inl nil_map
        | Some m \<Rightarrow> Inr (Some (fmupd (si_Address service) (service\<lparr>si_Origin := []\<rparr>) m)))
      else Inr current)"

definition updateServiceInterface :: "ServiceInterface \<Rightarrow> bool \<Rightarrow> ('e world, unit) io" where
  "updateServiceInterface service overwriteIfExists = edit_services (update_edit service overwriteIfExists)"

definition ServiceInterfaceCreate :: "(ce_kind \<Rightarrow> 'e Driver) \<Rightarrow> ServiceInterface \<Rightarrow> ('e world, unit) io" where
  "ServiceInterfaceCreate D service = io_bind (site_client D) (\<lambda>_.
     io_bind (require_router D ''Failed to retrieve transport container (need init?)'') (\<lambda>_.
     io_bind (io_lift (validateServiceInterface service)) (\<lambda>_.
       updateServiceInterface service False)))"

definition ServiceInterfaceInspect ::
  "(ce_kind \<Rightarrow> 'e Driver) \<Rightarrow> string \<Rightarrow> ('e world, ServiceInterface option) io" where
  "ServiceInterfaceInspect D address = io_bind (site_client D) (\<lambda>_.
     io_bind (require_router D ''Failed to retrieve transport container (need init?)'') (\<lambda>_.
     io_bind (\<lambda>w. ReadFile (services_file w) w) (\<lambda>svcFile.
     io_bind (io_wrap ''Failed to decode json for service interface definitions''
         (io_lift (Unmarshal dec_services svcFile))) (\<lambda>svcDefs.
       io_return (fmlookup (go_map svcDefs) address)))))"

definition ServiceInterfaceUpdate :: "(ce_kind \<Rightarrow> 'e Driver) \<Rightarrow> ServiceInterface \<Rightarrow> ('e world, unit) io" where
  "ServiceInterfaceUpdate D service = io_bind (site_client D) (\<lambda>_.
     io_bind (require_router D ''Failed to retrieve transport container (need init?)'') (\<lambda>_.
     io_bind (io_wrap ''Service not found'' (ServiceInterfaceInspect D (si_Address service))) (\<lambda>_.
     io_bind (io_lift (validateServiceInterface service)) (\<lambda>_.
       updateServiceInterface service True))))"

text \<open>The ports of a binding: the service's own port is filled before a target's.\<close>

definition bind_ports ::
  "ServiceInterface \<Rightarrow> ServiceInterfaceTarget \<Rightarrow> string \<Rightarrow> goint
    \<Rightarrow> (ServiceInterface \<times> ServiceInterfaceTarget) result" where
  "bind_ports service target protocol targetPort =
     (let (service, target) =
        (if t_TargetPort target \<noteq> 0
         then (service\<lparr>si_Port := t_TargetPort target\<rparr>, target\<lparr>t_TargetPort := 0\<rparr>)
         else if targetPort \<noteq> 0
         then (if si_Port service = 0 then (service\<lparr>si_Port := targetPort\<rparr>, target)
               else (service, target\<lparr>t_TargetPort := targetPort\<rparr>))
         else (service, target))
      in if si_Port service = 0
         then (if protocol = ''http'' then Inr (service\<lparr>si_Port := 80\<rparr>, target)
               else Inl (Err ''Service port required and cannot be deduced.''))
         else Inr (service, target))"

definition ServiceInterfaceBind ::
  "(ce_kind \<Rightarrow> 'e Driver) \<Rightarrow> ServiceInterface \<Rightarrow> string \<Rightarrow> string \<Rightarrow> string \<Rightarrow> goint \<Rightarrow> ('e world, unit) io" where
  "ServiceInterfaceBind D service targetType targetName protocol targetPort = io_bind (site_client D) (\<lambda>_.
     io_bind (require_router D ''Failed to retrieve transport container (need init?)'') (\<lambda>_.
     io_bind (io_lift (validateServiceInterface service)) (\<lambda>_.
     if protocol \<noteq> [] \<and> si_Protocol service \<noteq> protocol then
       io_fail (Err (''Invalid protocol '' @ protocol @ '' for service with mapping '' @ si_Protocol service))
     else
     io_bind (getServiceInterfaceTarget D targetType targetName (si_Port service = 0 \<and> targetPort = 0)) (\<lambda>target.
     io_bind (io_lift (bind_ports service target protocol targetPort)) (\<lambda>(service, target).
       updateServiceInterface (addTargetToServiceInterface service target) True)))))"

text \<open>
  \<open>removeServiceInterfaceTarget\<close>. A host service that was stored with the bridge's address is
  found by its name alone.
\<close>

fun remove_targets ::
  "string \<Rightarrow> string \<Rightarrow> string \<Rightarrow> ServiceInterfaceTarget list \<Rightarrow> bool
    \<Rightarrow> bool \<times> ServiceInterfaceTarget list" where
  "remove_targets serviceName targetName hostName [] modified = (modified, [])"
| "remove_targets serviceName targetName hostName (t # ts) modified =
     (let name = (if t_Selector t = host_selector then hostName else targetName) in
      if t_Name t = name \<or> (t_Name t = [] \<and> targetName = serviceName)
      then remove_targets serviceName targetName hostName ts True
      else (let (m, ts') = remove_targets serviceName targetName hostName ts modified in (m, t # ts')))"

definition remove_target_edit ::
  "string \<Rightarrow> string \<Rightarrow> string \<Rightarrow> bool \<Rightarrow> service_defs option \<Rightarrow> service_defs option result" where
  "remove_target_edit serviceName targetName hostName deleteIfNoTargets current =
     (case fmlookup (go_map current) serviceName of
        None \<Rightarrow> Inl (Err (''Could not find entry for service interface '' @ serviceName))
      | Some service \<Rightarrow>
          (let (modified, targets) =
             remove_targets serviceName targetName hostName (si_Targets service) False in
           if \<not> modified then
             Inl (Err (''Could not find target '' @ targetName @ '' for service interface '' @ serviceName))
           else if targets = [] \<and> deleteIfNoTargets then Inr (map_option (fmdrop serviceName) current)
           else Inr (map_option (fmupd serviceName (service\<lparr>si_Targets := targets\<rparr>)) current)))"

definition removeServiceInterfaceTarget ::
  "(ce_kind \<Rightarrow> 'e Driver) \<Rightarrow> string \<Rightarrow> string \<Rightarrow> bool \<Rightarrow> ('e world, unit) io" where
  "removeServiceInterfaceTarget D serviceName targetName deleteIfNoTargets = io_bind (site_client D) (\<lambda>_.
     io_bind (require_router D ''Failed to retrieve transport container (need init?)'') (\<lambda>_.
       (\<lambda>w. edit_services
          (remove_target_edit serviceName targetName (host_target_name w targetName) deleteIfNoTargets) w)))"

definition ServiceInterfaceUnbind ::
  "(ce_kind \<Rightarrow> 'e Driver) \<Rightarrow> string \<Rightarrow> string \<Rightarrow> string \<Rightarrow> bool \<Rightarrow> ('e world, unit) io" where
  "ServiceInterfaceUnbind D targetType targetName address deleteIfNoTargets = io_bind (site_client D) (\<lambda>_.
     io_bind (require_router D ''Failed to retrieve transport container (need init?)'') (\<lambda>_.
       if targetType = ''container'' \<or> targetType = ''host-service''
       then removeServiceInterfaceTarget D address targetName deleteIfNoTargets
       else io_fail (Err (''Unsupported target type for service interface '' @ targetType))))"

definition remove_edit :: "string \<Rightarrow> service_defs option \<Rightarrow> service_defs option result" where
  "remove_edit address current =
     (if fmlookup (go_map current) address = None
      then Inl (Err ''Unexpose service interface definition not found'')
      else Inr (map_option (fmdrop address) current))"

definition ServiceInterfaceRemove :: "(ce_kind \<Rightarrow> 'e Driver) \<Rightarrow> string \<Rightarrow> ('e world, unit) io" where
  "ServiceInterfaceRemove D address = io_bind (site_client D) (\<lambda>_.
     io_bind (require_router D ''Failed to retrieve transport container (need init?)'') (\<lambda>_.
       edit_services (remove_edit address)))"

text \<open>
  The list is in the order in which the loop visits the map, \<open>rng svcDefs\<close>. A service with a
  container gets an alias.
\<close>

definition list_entry :: "'e Driver \<Rightarrow> 'e \<Rightarrow> ServiceInterface \<Rightarrow> ServiceInterface" where
  "list_entry dd e v = (case ContainerInspect dd (si_Address v) e of
       Inr _ \<Rightarrow> v\<lparr>si_Alias := ''10.10.10.1''\<rparr> | Inl _ \<Rightarrow> v)"

definition ServiceInterfaceList ::
  "(ce_kind \<Rightarrow> 'e Driver) \<Rightarrow> (service_defs \<Rightarrow> (string \<times> ServiceInterface) list)
    \<Rightarrow> ('e world, ServiceInterface list) io" where
  "ServiceInterfaceList D rng = io_bind (site_client D) (\<lambda>_.
     io_bind (require_router D ''Failed to retrieve transport container (need init?)'') (\<lambda>_.
     io_bind (\<lambda>w. ReadFile (services_file w) w) (\<lambda>svcFile.
     io_bind (io_wrap ''Failed to decode json for service interface definitions''
         (io_lift (Unmarshal dec_services svcFile))) (\<lambda>svcDefs.
       ce D (\<lambda>dd. io_ask (\<lambda>e. Inr (map (\<lambda>(_, v). list_entry dd e v) (rng (go_map svcDefs)))))))))"

section \<open>The contract of an operation\<close>

locale service_edit =
  fixes op :: "('e world, unit) io"
    and edit :: "'e world \<Rightarrow> service_defs option \<Rightarrow> service_defs option result"
  assumes edit_cong: "host_of w' = host_of w \<Longrightarrow> edit w' = edit w"
    and op_fails: "op w = (w', Inl e) \<Longrightarrow> host_of w' = host_of w"
    and op_succeeds: "op w = (w', Inr u) \<Longrightarrow>
      \<exists>m. services_of w' = rbind (services_of w) (edit w) \<and> services_of w' = Inr m"
    and op_frame: "op w = (w', r) \<Longrightarrow> q \<noteq> services_file w \<Longrightarrow> fs_read q (fs w') = fs_read q (fs w)"
    and op_env: "op w = (w', r) \<Longrightarrow> env w' = env w \<and> ifaces w' = ifaces w"
begin

text \<open>An error changes no file and the definitions stay what they were.\<close>

lemma error_atomic: "op w = (w', Inl e) \<Longrightarrow> fs w' = fs w \<and> services_of w' = services_of w"
  using op_fails services_of_cong host_of_fs by metis

text \<open>A success is the change, on definitions that were there.\<close>

lemma success:
  assumes "op w = (w', Inr u)"
  obtains m m' where "services_of w = Inr m" "edit w m = Inr m'" "services_of w' = Inr m'"
  using op_succeeds [OF assms] that by (metis rbind_eq_Inr)

lemma keeps_files:
  assumes "op w = (w', r)"
  shows "(\<forall>e. r = Inl e \<longrightarrow> fs w' = fs w)
    \<and> (\<forall>q. q \<noteq> services_file w \<longrightarrow> fs_read q (fs w') = fs_read q (fs w))"
  using assms error_atomic op_frame by blast

text \<open>No third state: after any outcome the definitions are the old ones or the changed ones.\<close>

lemma outcome: "op w = (w', r) \<Longrightarrow> services_of w' \<in> {services_of w, rbind (services_of w) (edit w)}"
  using error_atomic op_succeeds by (cases r) blast+

end

subsection \<open>How operations are put together\<close>

lemma edit_services_Inr:
  assumes "edit_services f w = (w', Inr u)"
  obtains m m' where "services_of w = Inr m" "f m = Inr m'" "services_of w' = Inr m'"
    "write_services m' w = (w', Inr ())"
  using assms read_services_same [of w]
  by (auto simp: edit_services_def io_simps read_services_Inr dest: write_services_Inr(1)
      split: prod.splits sum.splits)

lemma edit_services_Inl:
  assumes "edit_services f w = (w', Inl e)"
  shows "w' = w"
  using assms read_services_same [of w]
  by (auto simp: edit_services_def io_simps dest: write_services_Inl split: prod.splits sum.splits)

lemma write_services_frame:
  assumes "write_services m w = (w', r)" "q \<noteq> services_file w"
  shows "fs_read q (fs w') = fs_read q (fs w)"
  using assms
  by (auto simp: write_services_def io_simps dest: write_other split: prod.splits)

lemma service_edit_edit_services: "service_edit (edit_services f) (\<lambda>_. f)"
proof unfold_locales
  fix w w' :: "'a world" and r q
  assume r: "edit_services f w = (w', r)"
  show "fs_read q (fs w') = fs_read q (fs w)" if "q \<noteq> services_file w"
    using r that by (cases r) (auto dest: edit_services_Inl elim!: edit_services_Inr write_services_frame)
  show "env w' = env w \<and> ifaces w' = ifaces w"
    using r by (cases r) (auto dest: edit_services_Inl write_services_Inr elim!: edit_services_Inr)
qed (auto dest: edit_services_Inl elim!: edit_services_Inr)

lemma service_edit_fail:
  assumes c: "\<And>w w'. host_of w' = host_of w \<Longrightarrow> edit w' = edit w"
  shows "service_edit (io_fail e) edit"
proof unfold_locales
  show "edit w' = edit w" if "host_of w' = host_of w" for w w' using that by (rule c)
qed simp_all

text \<open>A step before that changes no file; its value may only depend on the files and the host.\<close>

lemma service_edit_after:
  assumes m: "untouched m"
    and edit': "\<And>w w' x. m w = (w', Inr x) \<Longrightarrow> edit x w = edit' w"
    and cong: "\<And>w w'. host_of w' = host_of w \<Longrightarrow> edit' w' = edit' w"
    and f: "\<And>x. service_edit (f x) (edit x)"
  shows "service_edit (io_bind m f) edit'"
proof -
  have h: "host_of w'' = host_of w" "services_of w'' = services_of w" "services_file w'' = services_file w"
    if "m w = (w'', r)" for w w'' r
    using untouchedD [OF m that] services_of_cong
    by (auto simp: services_file_def skupper_path_def host_of_def)
  have split: "(\<exists>e'. m w = (w', Inl e') \<and> r = Inl e')
      \<or> (\<exists>w'' x. m w = (w'', Inr x) \<and> f x w'' = (w', r))"
    if "io_bind m f w = (w', r)" for w w' and r :: "error + unit"
    using that by (auto simp: io_bind_def split: prod.splits sum.splits)
  show ?thesis
  proof unfold_locales
    fix w w' :: "'a world" and r q u e
    show "edit' w' = edit' w" if "host_of w' = host_of w" by (rule cong [OF that])
    show "host_of w' = host_of w" if s: "io_bind m f w = (w', Inl e)"
      using split [OF s] h service_edit.op_fails [OF f] by fastforce
    show "\<exists>m. services_of w' = rbind (services_of w) (edit' w) \<and> services_of w' = Inr m"
      if s: "io_bind m f w = (w', Inr u)"
    proof -
      obtain w'' x where w'': "m w = (w'', Inr x)" "f x w'' = (w', Inr u)"
        using split [OF s] by auto
      from service_edit.op_succeeds [OF f w''(2)]
      have "\<exists>m. services_of w' = rbind (services_of w) (edit x w) \<and> services_of w' = Inr m"
        using service_edit.edit_cong [OF f h(1) [OF w''(1)], of x]
        by (simp only: h(2) [OF w''(1)])
      then show ?thesis by (simp only: edit' [OF w''(1)])
    qed
    assume b: "io_bind m f w = (w', r)"
    show "fs_read q (fs w') = fs_read q (fs w)" if q: "q \<noteq> services_file w"
      using split [OF b]
    proof (elim disjE exE conjE)
      fix e' assume "m w = (w', Inl e')"
      then show ?thesis using h host_of_fs by metis
    next
      fix w'' x assume x: "m w = (w'', Inr x)" "f x w'' = (w', r)"
      then have "q \<noteq> services_file w''" using q h by simp
      with x show ?thesis using h(1) [OF x(1)] service_edit.op_frame [OF f x(2)] host_of_fs by metis
    qed
    show "env w' = env w \<and> ifaces w' = ifaces w"
      using split [OF b]
    proof (elim disjE exE conjE)
      fix e' assume "m w = (w', Inl e')"
      then show ?thesis using h host_of_fs by metis
    next
      fix w'' x assume x: "m w = (w'', Inr x)" "f x w'' = (w', r)"
      then show ?thesis using h(1) [OF x(1)] service_edit.op_env [OF f x(2)] host_of_fs by metis
    qed
  qed
qed

lemma service_edit_before:
  assumes "untouched m" "\<And>x. service_edit (f x) edit"
  shows "service_edit (io_bind m f) edit"
  using assms(1) _ service_edit.edit_cong [OF assms(2)] assms(2)
  by (rule service_edit_after) simp

subsection \<open>The operations of the client\<close>

definition create_edit :: "ServiceInterface \<Rightarrow> 'e world \<Rightarrow> service_defs option \<Rightarrow> service_defs option result" where
  "create_edit s w m = rbind (validateServiceInterface s) (\<lambda>_. update_edit s False m)"

definition replace_edit :: "ServiceInterface \<Rightarrow> 'e world \<Rightarrow> service_defs option \<Rightarrow> service_defs option result" where
  "replace_edit s w m = rbind (validateServiceInterface s) (\<lambda>_. update_edit s True m)"

definition bind_target :: "string \<Rightarrow> string \<Rightarrow> 'e world \<Rightarrow> ServiceInterfaceTarget" where
  "bind_target targetType targetName w =
     (if targetType = ''container''
      then \<lparr>t_Name = targetName, t_Selector = container_selector, t_TargetPort = 0, t_Service = []\<rparr>
      else \<lparr>t_Name = host_target_name w targetName, t_Selector = host_selector, t_TargetPort = 0, t_Service = []\<rparr>)"

definition bind_guard :: "ServiceInterface \<Rightarrow> string \<Rightarrow> string \<Rightarrow> bool" where
  "bind_guard s targetType protocol \<longleftrightarrow> targetType \<in> {''container'', ''host-service''}
     \<and> (protocol = [] \<or> si_Protocol s = protocol)"

definition bind_edit ::
  "ServiceInterface \<Rightarrow> string \<Rightarrow> string \<Rightarrow> string \<Rightarrow> goint \<Rightarrow> 'e world
    \<Rightarrow> service_defs option \<Rightarrow> service_defs option result" where
  "bind_edit s targetType targetName protocol targetPort w m = rbind (validateServiceInterface s) (\<lambda>_.
     if bind_guard s targetType protocol
     then rbind (bind_ports s (bind_target targetType targetName w) protocol targetPort) (\<lambda>(s', t').
       update_edit (addTargetToServiceInterface s' t') True m)
     else Inl (Err []))"

definition unbind_edit ::
  "string \<Rightarrow> string \<Rightarrow> bool \<Rightarrow> 'e world \<Rightarrow> service_defs option \<Rightarrow> service_defs option result" where
  "unbind_edit address targetName deleteIfNoTargets w m =
     remove_target_edit address targetName (host_target_name w targetName) deleteIfNoTargets m"

lemma untouched_ServiceInterfaceInspect [intro, simp]: "untouched (ServiceInterfaceInspect D address)"
proof -
  have "untouched (\<lambda>w. ReadFile (services_file w) w)"
    by (simp add: untouched_def ReadFile_def)
  then show ?thesis
    unfolding ServiceInterfaceInspect_def
    by (intro untouched_bind untouched_site_client untouched_require_router untouched_wrap untouched_basic)
qed

lemma untouched_getServiceInterfaceTarget [intro, simp]:
  "untouched (getServiceInterfaceTarget D targetType targetName b)"
proof -
  have "untouched (\<lambda>w. (w, f w))" for f :: "'a world \<Rightarrow> 'b result"
    by (simp add: untouched_def)
  then show ?thesis
    unfolding getServiceInterfaceTarget_def
    by (intro untouched_if untouched_bind untouched_wrap untouched_basic)
qed

lemma getServiceInterfaceTarget_value:
  "getServiceInterfaceTarget D targetType targetName b w = (w', Inr t) \<Longrightarrow>
   t = bind_target targetType targetName w \<and> targetType \<in> {''container'', ''host-service''}"
  by (auto simp: getServiceInterfaceTarget_def bind_target_def io_simps split: if_splits prod.splits sum.splits)

lemma host_target_name_cong: "host_of w' = host_of w \<Longrightarrow> host_target_name w' = host_target_name w"
  by (simp add: host_target_name_def host_address_def GetInternalIP_def host_of_def fun_eq_iff)

lemma service_edit_lift:
  fixes f :: "'x \<Rightarrow> ('e world, unit) io"
  assumes f: "\<And>x. service_edit (f x) (edit x)"
  shows "service_edit (io_bind (io_lift r) f) (\<lambda>w m. rbind r (\<lambda>x. edit x w m))"
proof (rule service_edit_after [OF untouched_basic(3) _ _ f])
  show "(\<lambda>m. rbind r (\<lambda>x. edit x w' m)) = (\<lambda>m. rbind r (\<lambda>x. edit x w m))"
    if "host_of w' = host_of w" for w w' :: "'e world"
    using service_edit.edit_cong [OF f that] by simp
qed simp

lemma service_edit_prologue:
  "service_edit x edit \<Longrightarrow>
   service_edit (io_bind (site_client D) (\<lambda>_. io_bind (require_router D msg) (\<lambda>_. x))) edit"
  by (intro service_edit_before untouched_site_client untouched_require_router)

interpretation svc_create: service_edit "ServiceInterfaceCreate D s" "create_edit s" for D s
proof -
  have "service_edit (io_bind (io_lift (validateServiceInterface s))
      (\<lambda>_. updateServiceInterface s False)) (create_edit s)"
    unfolding create_edit_def updateServiceInterface_def
    by (rule service_edit_lift [OF service_edit_edit_services])
  then show "service_edit (ServiceInterfaceCreate D s) (create_edit s)"
    unfolding ServiceInterfaceCreate_def by (rule service_edit_prologue)
qed

interpretation svc_update: service_edit "ServiceInterfaceUpdate D s" "replace_edit s" for D s
proof -
  have "service_edit (io_bind (io_lift (validateServiceInterface s))
      (\<lambda>_. updateServiceInterface s True)) (replace_edit s)"
    unfolding replace_edit_def updateServiceInterface_def
    by (rule service_edit_lift [OF service_edit_edit_services])
  then show "service_edit (ServiceInterfaceUpdate D s) (replace_edit s)"
    unfolding ServiceInterfaceUpdate_def
    by (rule service_edit_prologue [OF service_edit_before [OF untouched_wrap
        [OF untouched_ServiceInterfaceInspect]]])
qed

interpretation svc_bind: service_edit "ServiceInterfaceBind D s tt tn p port" "bind_edit s tt tn p port"
  for D :: "ce_kind \<Rightarrow> 'e Driver" and s tt tn p port
proof -
  let ?last = "\<lambda>(service, target). updateServiceInterface (addTargetToServiceInterface service target) True"
  let ?ports = "\<lambda>target. io_bind (io_lift (bind_ports s target p port)) ?last"
  let ?target = "io_bind (getServiceInterfaceTarget D tt tn (si_Port s = 0 \<and> port = 0)) ?ports"
  let ?edit = "\<lambda>(w :: 'e world) m. if bind_guard s tt p
      then rbind (bind_ports s (bind_target tt tn w) p port) (\<lambda>(s', t').
        update_edit (addTargetToServiceInterface s' t') True m)
      else Inl (Err [])"
  have last: "service_edit (?last x) (\<lambda>_. update_edit (addTargetToServiceInterface (fst x) (snd x)) True)" for x
    by (cases x) (simp add: updateServiceInterface_def service_edit_edit_services)
  have ports: "service_edit (?ports t) (\<lambda>_ m. rbind (bind_ports s t p port) (\<lambda>(s', t').
      update_edit (addTargetToServiceInterface s' t') True m))" for t
    using service_edit_lift [OF last, where r = "bind_ports s t p port"] by (simp add: case_prod_unfold)
  have cong: "?edit w' = ?edit w" if "host_of w' = host_of w" for w w' :: "'e world"
    unfolding bind_target_def host_target_name_cong [OF that] by (rule refl)
  have target: "service_edit ?target ?edit" if g: "p = [] \<or> si_Protocol s = p"
  proof (rule service_edit_after [OF untouched_getServiceInterfaceTarget _ cong ports])
    show "(\<lambda>m. rbind (bind_ports s x p port) (\<lambda>(s', t'). update_edit (addTargetToServiceInterface s' t') True m))
        = ?edit w"
      if "getServiceInterfaceTarget D tt tn (si_Port s = 0 \<and> port = 0) w = (w', Inr x)" for w w' x
      using getServiceInterfaceTarget_value [OF that] g by (auto simp: bind_guard_def)
  qed
  have fail: "service_edit (io_fail e :: ('e world, unit) io) ?edit" for e
    by (rule service_edit_fail) (rule cong)
  have "service_edit (if p \<noteq> [] \<and> si_Protocol s \<noteq> p
      then io_fail (Err (''Invalid protocol '' @ p @ '' for service with mapping '' @ si_Protocol s))
      else ?target) ?edit"
    using target fail by (cases "p \<noteq> [] \<and> si_Protocol s \<noteq> p") (simp_all only: if_True if_False, simp_all)
  from service_edit_lift [OF this, where r = "validateServiceInterface s"]
  show "service_edit (ServiceInterfaceBind D s tt tn p port) (bind_edit s tt tn p port)"
    unfolding ServiceInterfaceBind_def bind_edit_def by (rule service_edit_prologue)
qed

interpretation svc_remove: service_edit "ServiceInterfaceRemove D address" "\<lambda>_. remove_edit address"
  for D address
  unfolding ServiceInterfaceRemove_def by (rule service_edit_prologue [OF service_edit_edit_services])

interpretation svc_unbind: service_edit "ServiceInterfaceUnbind D tt tn address del"
  "unbind_edit address tn del"
  for D :: "ce_kind \<Rightarrow> 'e Driver" and tt tn address del
proof -
  have cong: "unbind_edit address tn del w' = unbind_edit address tn del w"
    if "host_of w' = host_of w" for w w' :: "'e world"
    using host_target_name_cong [OF that] by (simp add: unbind_edit_def fun_eq_iff)
  have u: "untouched (\<lambda>w :: 'e world. (w, Inr (host_target_name w tn)))"
    by (simp add: untouched_def)
  have "service_edit (io_bind (\<lambda>w :: 'e world. (w, Inr (host_target_name w tn)))
      (\<lambda>hostName. edit_services (remove_target_edit address tn hostName del))) (unbind_edit address tn del)"
    by (rule service_edit_after [OF u _ cong service_edit_edit_services])
      (simp_all add: unbind_edit_def fun_eq_iff)
  then have "service_edit (\<lambda>w :: 'e world. edit_services
      (remove_target_edit address tn (host_target_name w tn) del) w) (unbind_edit address tn del)"
    by (simp add: io_bind_def)
  then have "service_edit (removeServiceInterfaceTarget D address tn del) (unbind_edit address tn del)"
    unfolding removeServiceInterfaceTarget_def by (rule service_edit_prologue)
  moreover have "service_edit (io_fail e :: ('e world, unit) io) (unbind_edit address tn del)" for e
    by (rule service_edit_fail) (rule cong)
  ultimately have "service_edit (if tt = ''container'' \<or> tt = ''host-service''
      then removeServiceInterfaceTarget D address tn del
      else io_fail (Err (''Unsupported target type for service interface '' @ tt)))
      (unbind_edit address tn del)"
    by simp
  then show "service_edit (ServiceInterfaceUnbind D tt tn address del) (unbind_edit address tn del)"
    unfolding ServiceInterfaceUnbind_def by (rule service_edit_prologue)
qed

end
