(* ===== verification/Router_Mgmt.thy ===== *)
theory Router_Mgmt imports Client_Services begin

text \<open>
  What the client asks of the running containers: \<open>RecreateContainer\<close> (\<open>driver/driver.go\<close>) and the
  queries of the router (\<open>pkg/qdr/mgmt.go\<close>), which run \<open>qdmanage\<close> in its container and decode what it
  prints. The orders and answers of the router are the engine's.
\<close>

section \<open>Recreating a container\<close>

definition plain_mount :: "MountPoint \<Rightarrow> MountPoint" where
  "plain_mount v = zero_MountPoint\<lparr>mp_Type := mp_Type v, mp_Source := mp_Source v,
     mp_Destination := mp_Destination v\<rparr>"

definition recreate_options :: "string \<Rightarrow> ContainerInspect \<Rightarrow> ContainerCreateOptions" where
  "recreate_options name current = (let cfg = cin_Config current in
     \<lparr>cco_Name = name,
      cco_ContainerConfig = \<lparr>cb_Hostname = cc_Hostname cfg, cb_Image = cc_Image cfg, cb_Env = cc_Env cfg,
        cb_Cmd = [], cb_HealthCheck = cc_Healthcheck cfg, cb_Labels = cc_Labels cfg,
        cb_ExposedPorts = cc_ExposedPorts cfg\<rparr>,
      cco_HostConfig = \<lparr>chc_NetworkMode = [], chc_PortBindings = fmempty,
        chc_Mounts = map plain_mount (cin_Mounts current), chc_Privileged = True\<rparr>,
      cco_NetworkingConfig = \<lparr>cn_EndpointsConfig = cnc_Networks (cin_NetworkSettings current)\<rparr>\<rparr>)"

definition RecreateContainer :: "string \<Rightarrow> 'e Driver \<Rightarrow> ('e, unit) io" where
  "RecreateContainer name dd = io_bind (io_ask (ContainerInspect dd name)) (\<lambda>current.
     io_bind (io_wrap ''Failed to stop container'' (ContainerStop dd name)) (\<lambda>_.
     io_bind (io_wrap ''Failed to remove container'' (ContainerRemove dd name)) (\<lambda>_.
     io_bind (io_wrap ''Failed to re-create container'' (ContainerCreate dd (recreate_options name current))) (\<lambda>resp.
       io_wrap ''Failed to re-start container'' (ContainerStart dd (ccr_ID resp))))))"

section \<open>Queries of the router\<close>

record RouterNode =
  rn_Id :: string
  rn_Name :: string
  rn_NextHop :: string

record Connection =
  cx_Container :: string
  cx_OperStatus :: string
  cx_Host :: string
  cx_Role :: string
  cx_Active :: bool
  cx_Dir :: string

definition dec_RouterNode :: "json \<Rightarrow> RouterNode result" where
  "dec_RouterNode = as_struct \<lparr>rn_Id = [], rn_Name = [], rn_NextHop = []\<rparr> (\<lambda>ms.
     rbind (get_str ''id'' ms) (\<lambda>x0.
     rbind (get_str ''name'' ms) (\<lambda>x1.
     rbind (get_str ''nextHop'' ms) (\<lambda>x2. Inr \<lparr>rn_Id = x0, rn_Name = x1, rn_NextHop = x2\<rparr>))))"

definition dec_Connection :: "json \<Rightarrow> Connection result" where
  "dec_Connection = as_struct \<lparr>cx_Container = [], cx_OperStatus = [], cx_Host = [], cx_Role = [],
       cx_Active = False, cx_Dir = []\<rparr> (\<lambda>ms.
     rbind (get_str ''container'' ms) (\<lambda>x0.
     rbind (get_str ''operStatus'' ms) (\<lambda>x1.
     rbind (get_str ''host'' ms) (\<lambda>x2.
     rbind (get_str ''role'' ms) (\<lambda>x3.
     rbind (get_bool ''active'' ms) (\<lambda>x4.
     rbind (get_str ''dir'' ms) (\<lambda>x5.
       Inr \<lparr>cx_Container = x0, cx_OperStatus = x1, cx_Host = x2, cx_Role = x3, cx_Active = x4,
         cx_Dir = x5\<rparr>)))))))"

definition getQuery :: "string \<Rightarrow> string list" where
  "getQuery typename = [''qdmanage'', ''query'', ''--type'', typename]"

definition router_query :: "string \<Rightarrow> (json \<Rightarrow> 'a result) \<Rightarrow> 'e Driver \<Rightarrow> ('e, 'a list) io" where
  "router_query typename dec dd =
     io_bind (io_wrap ''Error retrieving skupper router contairne''
         (io_ask (ContainerInspect dd TransportDeploymentName))) (\<lambda>current.
     io_bind (ContainerExec dd (cin_ID current) (getQuery typename)) (\<lambda>execResult.
       io_lift (Unmarshal (as_slice dec) (ex_OutBuffer execResult))))"

definition GetNodes :: "'e Driver \<Rightarrow> ('e, RouterNode list) io" where
  "GetNodes = router_query ''node'' dec_RouterNode"

definition GetConnections :: "'e Driver \<Rightarrow> ('e, Connection list) io" where
  "GetConnections = router_query ''connection'' dec_Connection"

definition no_sites :: TransportConnectedSites where
  "no_sites = \<lparr>cs_Direct = 0, cs_Indirect = 0, cs_Total = 0, cs_Warnings = []\<rparr>"

definition count_node :: "RouterNode \<Rightarrow> TransportConnectedSites \<Rightarrow> TransportConnectedSites" where
  "count_node n result =
     (if rn_NextHop n = [] then result\<lparr>cs_Direct := cs_Direct result + 1, cs_Total := cs_Total result + 1\<rparr>
      else if rn_NextHop n \<noteq> ''(self)''
        then result\<lparr>cs_Indirect := cs_Indirect result + 1, cs_Total := cs_Total result + 1\<rparr>
      else result)"

definition GetConnectedSites :: "'e Driver \<Rightarrow> ('e, TransportConnectedSites) io" where
  "GetConnectedSites dd = io_bind (GetNodes dd) (\<lambda>nodes. io_return (fold count_node nodes no_sites))"

definition GetInterRouterOrEdgeConnection :: "string \<Rightarrow> Connection list \<Rightarrow> Connection option" where
  "GetInterRouterOrEdgeConnection host connections =
     find (\<lambda>c. (cx_Role c = ''inter-router'' \<or> cx_Role c = ''edge'') \<and> cx_Host c = host) connections"

section \<open>Laws\<close>

lemma count_nodes:
  "fold count_node nodes no_sites =
     \<lparr>cs_Direct = of_nat (length (filter (\<lambda>n. rn_NextHop n = []) nodes)),
      cs_Indirect = of_nat (length (filter (\<lambda>n. rn_NextHop n \<noteq> [] \<and> rn_NextHop n \<noteq> ''(self)'') nodes)),
      cs_Total = of_nat (length (filter (\<lambda>n. rn_NextHop n = []) nodes))
        + of_nat (length (filter (\<lambda>n. rn_NextHop n \<noteq> [] \<and> rn_NextHop n \<noteq> ''(self)'') nodes)),
      cs_Warnings = []\<rparr>"
proof (induction nodes rule: rev_induct)
  case (snoc n ns)
  then show ?case by (simp add: count_node_def)
qed (simp add: no_sites_def)

text \<open>
  Property C37. The sites a router is connected to add up: the direct ones are the nodes without a next
  hop, the indirect ones those with another next hop than the router itself, and the total is their
  sum (counted in Go ints, which wrap as the numbers here do). The answer fails only when the query does.
\<close>

theorem connected_sites_add_up:
  "snd (GetConnectedSites dd e) = (case snd (GetNodes dd e) of
       Inl x \<Rightarrow> Inl x
     | Inr nodes \<Rightarrow>
         (let direct = of_nat (length (filter (\<lambda>n. rn_NextHop n = []) nodes));
              indirect = of_nat (length (filter (\<lambda>n. rn_NextHop n \<noteq> [] \<and> rn_NextHop n \<noteq> ''(self)'') nodes))
          in Inr \<lparr>cs_Direct = direct, cs_Indirect = indirect, cs_Total = direct + indirect, cs_Warnings = []\<rparr>))"
  by (simp add: GetConnectedSites_def io_bind_def count_nodes Let_def split: prod.split sum.split)

end
