(* ===== verification/Site_Certs.thy ===== *)
theory Site_Certs imports Client_Base begin

text \<open>
  The certificates of a site (\<open>client/router_create.go\<close>) and the text of \<open>pkg/utils/configs\<close>. The
  package \<open>certs\<close> of the project skupper is not in the repository: it is a parameter, the record
  \<open>CertsLib\<close>. A directory of certificates holds a file for each entry of the data.
\<close>

section \<open>The package certs\<close>

type_synonym cert_data = "(string, string) fmap"

record CertsLib =
  GetSecretContent :: "string \<Rightarrow> fsys \<Rightarrow> cert_data result"
  GenerateCACertificateData :: "string \<Rightarrow> string \<Rightarrow> cert_data"
  GenerateCertificateData :: "string \<Rightarrow> string \<Rightarrow> string \<Rightarrow> cert_data \<Rightarrow> cert_data"
  PutCertificateData :: "string \<Rightarrow> string \<Rightarrow> cert_data \<Rightarrow> (string, string) fmap \<Rightarrow> fsys \<Rightarrow> fsys"

section \<open>Reading and writing them\<close>

definition ConnectJSON :: string where
  "ConnectJSON = ''
{
    \"scheme\": \"amqps\",
    \"host\": \"skupper-router\",
    \"port\": \"5671\",
    \"tls\": {
        \"ca\": \"/etc/messaging/ca.crt\",
        \"cert\": \"/etc/messaging/tls.crt\",
        \"key\": \"/etc/messaging/tls.key\",
        \"verify\": true
    }
}
''"

definition cert_path :: "'e world \<Rightarrow> string \<Rightarrow> string" where
  "cert_path w name = skupper_path w CertsPath @ ''/'' @ name"

text \<open>The data that was read is returned beside the error.\<close>

fun read_certs :: "string \<Rightarrow> string list \<Rightarrow> cert_data \<Rightarrow> 'e world \<Rightarrow> cert_data \<times> error option" where
  "read_certs certPath [] certData w = (certData, None)"
| "read_certs certPath (f # fns) certData w =
     (case fs_read (certPath @ ''/'' @ f) (fs w) of
        Inr dataString \<Rightarrow> read_certs certPath fns (fmupd f (text_of dataString) certData) w
      | Inl err \<Rightarrow> (certData, Some (Wrap ''Failed to read certificat data'' err)))"

definition getCertData :: "string \<Rightarrow> 'e world \<Rightarrow> cert_data \<times> error option" where
  "getCertData name w = (case fs_list (cert_path w name) (fs w) of
       Inr fns \<Rightarrow> read_certs (cert_path w name) fns fmempty w
     | Inl err \<Rightarrow> (fmempty, Some err))"

text \<open>\<open>es\<close> is the order of the loop over the data.\<close>

definition write_certs :: "string \<Rightarrow> string \<Rightarrow> (string \<times> string) list \<Rightarrow> ('e world, unit) io" where
  "write_certs msg dir es = io_each (\<lambda>(k, v). io_wrap msg (WriteFile (dir @ ''/'' @ k) (Text v))) es"

type_synonym cert_order = "cert_data \<Rightarrow> (string \<times> string) list"

definition generateCredentials ::
  "CertsLib \<Rightarrow> cert_order \<Rightarrow> string \<Rightarrow> string \<Rightarrow> string \<Rightarrow> string list \<Rightarrow> bool \<Rightarrow> ('e world, unit) io" where
  "generateCredentials lib rng ca name subject hosts includeConnectJson = (\<lambda>w.
     (let (caData, _) = getCertData ca w;
          certData = GenerateCertificateData lib name subject (join_with '','' hosts) caData
      in io_bind (write_certs ''Failed to write certificate file'' (cert_path w name) (rng certData)) (\<lambda>_.
           if includeConnectJson
           then io_wrap ''Failed to write connect file''
             (WriteFile (cert_path w name @ ''/connect.json'') (Text ConnectJSON))
           else io_return ()) w))"

definition ensureCA :: "CertsLib \<Rightarrow> cert_order \<Rightarrow> string \<Rightarrow> ('e world, cert_data) io" where
  "ensureCA lib rng name = (\<lambda>w.
     (let caData = GenerateCACertificateData lib name name in
      io_bind (io_wrap ''Failed to create certificate directory'' (Mkdir (cert_path w name))) (\<lambda>_.
      io_bind (write_certs ''Failed to write CA certificate file'' (cert_path w name) (rng caData)) (\<lambda>_.
        io_return caData)) w))"

end
