(* ===== verification/Connectors.thy ===== *)
theory Connectors imports Router_Mgmt Site_Certs begin

text \<open>
  Connections to other sites: \<open>client/connector_create.go\<close>, \<open>connector_remove.go\<close>,
  \<open>connector_inspect.go\<close>, \<open>connector_list.go\<close> and \<open>connector_token_create.go\<close>. A connector is a
  directory of certificates and addresses below \<open>connections\<close>, an entry of the router's configuration
  and a profile of its own; changing one recreates the two containers.
\<close>

section \<open>Names\<close>

text \<open>
  What the group of the pattern \<open>conn([0-9])+\<close> captures in its leftmost match: the digit the last
  repetition matched, the last of the digits that follow.
\<close>

fun conn_submatch :: "string \<Rightarrow> char option" where
  "conn_submatch [] = None"
| "conn_submatch (c # s) =
     (let ds = takeWhile is_digit (drop 4 (c # s)) in
      if HasPrefix (c # s) ''conn'' \<and> ds \<noteq> [] then Some (last ds) else conn_submatch s)"

definition next_number :: "string \<Rightarrow> nat \<Rightarrow> nat" where
  "next_number f n = (case conn_submatch f of None \<Rightarrow> n
     | Some c \<Rightarrow> (let v = digit_value c in if v \<ge> n then v + 1 else n))"

definition connector_name :: "string list \<Rightarrow> string" where
  "connector_name fns = ''conn'' @ Itoa (int (fold next_number fns 1))"

definition generateConnectorName :: "string \<Rightarrow> ('e world, string) io" where
  "generateConnectorName path = io_bind
     (io_wrap ''Could not retrieve configured connectors (need init?)'' (ReadDir path)) (\<lambda>fns.
       io_return (connector_name fns))"

section \<open>Shared steps\<close>

definition config_file :: "'e world \<Rightarrow> string" where
  "config_file w = skupper_path w ConfigPath @ ''/qdrouterd.json''"

definition connections_dir :: "'e world \<Rightarrow> string \<Rightarrow> string" where
  "connections_dir w name = skupper_path w ConnectionsPath @ ''/'' @ name"

definition current_config :: "('e world, RouterConfig) io" where
  "current_config = io_bind (io_wrap ''Failed to retrieve router config''
       (\<lambda>w. GetRouterConfigFromFile (config_file w) w)) (\<lambda>r.
     case r of None \<Rightarrow> io_fail nil_pointer | Some current \<Rightarrow> io_return current)"

definition update_config :: "(RouterConfig \<Rightarrow> section_order) \<Rightarrow> RouterConfig \<Rightarrow> ('e world, unit) io" where
  "update_config ord current = io_wrap ''Failed to update router config file''
     (\<lambda>w. WriteToConfigFile (ord current) current (config_file w) w)"

type_synonym service_order = "service_defs \<Rightarrow> (string \<times> ServiceInterface) list"

definition restart_all :: "(ce_kind \<Rightarrow> 'e Driver) \<Rightarrow> service_order \<Rightarrow> ('e world, unit) io" where
  "restart_all D rng =
     io_bind (io_wrap ''Failed to re-start transport container'' (ce D (RecreateContainer TransportDeploymentName))) (\<lambda>_.
     io_bind (io_wrap ''Failed to re-start service controller container''
       (ce D (RecreateContainer ControllerDeploymentName))) (\<lambda>_.
     io_bind (io_wrap ''Failed to list proxies to restart'' (ServiceInterfaceList D rng)) (\<lambda>vsis.
       io_each (\<lambda>vs. io_wrap ''Failed to restart proxy container'' (ce D (\<lambda>d. ContainerRestart d (si_Address vs)))) vsis)))"

section \<open>Creation\<close>

definition token_origin :: "SiteConfig \<Rightarrow> string \<Rightarrow> cert_data \<Rightarrow> unit result" where
  "token_origin sc secretFile secret = (case fmlookup secret ''skupper.io/generated-by'' of
       None \<Rightarrow> Inl (Err (''Cannot find secret origin for token '' @ quoted secretFile))
     | Some generatedBy \<Rightarrow>
         if sc_UID sc = generatedBy then Inl (Err (''Cannot create connection to self with token '' @ quoted secretFile))
         else Inr ())"

text \<open>\<open>es\<close> is the order of the loop over the token.\<close>

definition write_token :: "string \<Rightarrow> (string \<times> string) list \<Rightarrow> ('e world, unit) io" where
  "write_token connPath es = io_each (\<lambda>(k, v).
     if k = TokenGeneratedBy
     then io_wrap ''Failed to write connector file'' (WriteFile (connPath @ ''/generated-by'') (Text v))
     else io_wrap ''Failed to write connector certificate file'' (WriteFile (connPath @ ''/'' @ k) (Text v))) es"

text \<open>A missing file reads as the empty string here.\<close>

definition read_text :: "string \<Rightarrow> 'e world \<Rightarrow> string" where
  "read_text p w = (case fs_read p (fs w) of Inl _ \<Rightarrow> [] | Inr c \<Rightarrow> text_of c)"

definition role_suffix :: "RouterConfig \<Rightarrow> string" where
  "role_suffix current = (if IsEdge current then ''/edge-'' else ''/inter-router-'')"

definition new_connector :: "RouterConfig \<Rightarrow> string \<Rightarrow> ConnectorCreateOptions \<Rightarrow> 'e world \<Rightarrow> Connector" where
  "new_connector current connPath options w = zero_Connector\<lparr>c_Name := co_Name options, c_Cost := co_Cost options,
     c_SslProfile := co_Name options @ ''-profile'',
     c_Host := read_text (connPath @ role_suffix current @ ''host'') w,
     c_Port := read_text (connPath @ role_suffix current @ ''port'') w,
     c_Role := (if IsEdge current then RoleEdge else RoleInterRouter)\<rparr>"

definition add_connection :: "RouterConfig \<Rightarrow> string \<Rightarrow> ConnectorCreateOptions \<Rightarrow> 'e world \<Rightarrow> RouterConfig" where
  "add_connection current connPath options w =
     (let current' = AddConnSslProfile (zero_SslProfile\<lparr>sp_Name := co_Name options @ ''-profile''\<rparr>) current
      in AddConnector (new_connector current' connPath options w) current')"

definition ConnectorCreate ::
  "(ce_kind \<Rightarrow> 'e Driver) \<Rightarrow> CertsLib \<Rightarrow> cert_order \<Rightarrow> (RouterConfig \<Rightarrow> section_order) \<Rightarrow> service_order
    \<Rightarrow> string \<Rightarrow> ConnectorCreateOptions \<Rightarrow> ('e world, string) io" where
  "ConnectorCreate D lib crng ord rng secretFile options =
     io_bind (site_client D) (\<lambda>sc.
     io_bind (io_wrap ''Failed to make connector'' (\<lambda>w. (w, GetSecretContent lib secretFile (fs w)))) (\<lambda>secret.
     io_bind (require_router D ''Failed to retrieve transport container (need init?)'') (\<lambda>_.
     io_bind (io_lift (token_origin sc secretFile secret)) (\<lambda>_.
     io_bind (if co_Name options = [] then (\<lambda>w. generateConnectorName (skupper_path w ConnectionsPath) w)
              else io_return (co_Name options)) (\<lambda>name.
     io_bind (io_wrap ''Failed to create skupper connector directory'' (\<lambda>w. Mkdir (connections_dir w name) w)) (\<lambda>_.
     io_bind (\<lambda>w. write_token (connections_dir w name) (crng secret) w) (\<lambda>_.
     io_bind current_config (\<lambda>current.
     io_bind (\<lambda>w. update_config ord (add_connection current (connections_dir w name) (options\<lparr>co_Name := name\<rparr>) w) w) (\<lambda>_.
     io_bind (restart_all D rng) (\<lambda>_. io_return name))))))))))"

section \<open>Removal\<close>

definition ConnectorRemove ::
  "(ce_kind \<Rightarrow> 'e Driver) \<Rightarrow> (RouterConfig \<Rightarrow> section_order) \<Rightarrow> service_order \<Rightarrow> string \<Rightarrow> ('e world, unit) io" where
  "ConnectorRemove D ord rng name =
     io_bind (site_client D) (\<lambda>_.
     io_bind (require_router D ''Failed to retrieve transport container'') (\<lambda>_.
     io_bind current_config (\<lambda>current.
     io_bind (case RemoveConnector name current of
         (current, False) \<Rightarrow> io_return ()
       | (current, True) \<Rightarrow>
           io_bind (io_wrap ''Failed to remove connector file contents'' (\<lambda>w. RemoveAll (connections_dir w name) w)) (\<lambda>_.
             update_config ord (fst (RemoveConnSslProfile name current)))) (\<lambda>_.
       restart_all D rng))))"

section \<open>Inspection\<close>

definition connector_role :: "RouterConfig \<Rightarrow> string" where
  "connector_role current = (if IsEdge current then ConnectorRoleEdge else ConnectorRoleInterRouter)"

definition described_connector :: "string \<Rightarrow> string \<Rightarrow> string \<Rightarrow> string \<Rightarrow> types_Connector" where
  "described_connector name host port role = \<lparr>tc_Name = name, tc_Role = role, tc_Host = host, tc_Port = port,
     tc_RouteContainer = False, tc_Cost = 0, tc_VerifyHostname = False, tc_SslProfile = [], tc_LinkCapacity = 0\<rparr>"

definition ConnectorInspect :: "(ce_kind \<Rightarrow> 'e Driver) \<Rightarrow> string \<Rightarrow> ('e world, ConnectorInspectResponse) io" where
  "ConnectorInspect D name =
     io_bind (site_client D) (\<lambda>_.
     io_bind (require_router D ''Unable to retrieve transport container (need init?)'') (\<lambda>_.
     io_bind current_config (\<lambda>current.
     io_bind (io_wrap ''Could not retrieve connection-token files''
       (\<lambda>w. ReadFile (connections_dir w name @ role_suffix current @ ''host'') w)) (\<lambda>host.
     io_bind (io_wrap ''Could not retrieve connection-token files''
       (\<lambda>w. ReadFile (connections_dir w name @ role_suffix current @ ''port'') w)) (\<lambda>port.
     let c = described_connector name (text_of host) (text_of port) (connector_role current) in
     io_bind (io_wrap ''Unable to get connections from transport'' (ce D GetConnections)) (\<lambda>connections.
       io_return \<lparr>cir_Connector = c,
         cir_Connected = (case GetInterRouterOrEdgeConnection (tc_Host c @ '':'' @ tc_Port c) connections of
            None \<Rightarrow> False | Some connection \<Rightarrow> cx_Active connection)\<rparr>))))))"

definition ConnectorList :: "(ce_kind \<Rightarrow> 'e Driver) \<Rightarrow> ('e world, types_Connector list) io" where
  "ConnectorList D =
     io_bind (site_client D) (\<lambda>_.
     io_bind (require_router D ''Unable to retrieve transport container (need init?)'') (\<lambda>_.
     io_bind current_config (\<lambda>current.
     io_bind (io_wrap ''Failed to read connector definitions'' (\<lambda>w. ReadDir (skupper_path w ConnectionsPath) w)) (\<lambda>fns w.
       (w, Inr (map (\<lambda>f. described_connector f
         (read_text (connections_dir w f @ role_suffix current @ ''host'') w)
         (read_text (connections_dir w f @ role_suffix current @ ''port'') w) (connector_role current)) fns))))))"

section \<open>Tokens\<close>

definition token_annotations :: "string \<Rightarrow> string \<Rightarrow> (string, string) fmap" where
  "token_annotations ipAddr uid = fmap_of_list [(TokenGeneratedBy, uid), (''inter-router-host'', ipAddr),
     (''inter-router-port'', ''55671'')]"

definition ConnectorTokenCreate ::
  "(ce_kind \<Rightarrow> 'e Driver) \<Rightarrow> CertsLib \<Rightarrow> string \<Rightarrow> string \<Rightarrow> ('e world, unit) io" where
  "ConnectorTokenCreate D lib subject secretFile =
     io_bind (site_client D) (\<lambda>sc.
     io_bind (require_router D ''Unable to retrieve transport container (need init?)'') (\<lambda>router.
     io_bind current_config (\<lambda>current.
       if IsEdge current then io_fail (Err ''Edge mode transport configuration cannot accept connections'')
       else (\<lambda>w. case getCertData ''skupper-internal-ca'' w of
           (_, Some err) \<Rightarrow> (w, Inl (wrap_error ''Unable to retrieve CA data'' err))
         | (caData, None) \<Rightarrow>
             (let ipAddr = cnc_IPAddress (cin_NetworkSettings router);
                  certData = GenerateCertificateData lib subject subject ipAddr caData
              in (w\<lparr>fs := PutCertificateData lib subject secretFile certData
                    (token_annotations ipAddr (sc_UID sc)) (fs w)\<rparr>, Inr ()))))))"

end
