(* ===== verification/Io_Triples.thy ===== *)
theory Io_Triples imports Client_Base begin

text \<open>
  Partial correctness of programs of the world: \<open>triple P m Q\<close> says what holds after a run of \<open>m\<close>
  that returns a value, and \<open>keeps\<close> what every run leaves true. The second part is about files: which
  programs keep the content of a file of the site.
\<close>

section \<open>Triples\<close>

definition triple :: "('w \<Rightarrow> bool) \<Rightarrow> ('w, 'a) io \<Rightarrow> ('a \<Rightarrow> 'w \<Rightarrow> bool) \<Rightarrow> bool" where
  "triple P m Q \<longleftrightarrow> (\<forall>w w' x. P w \<longrightarrow> m w = (w', Inr x) \<longrightarrow> Q x w')"

lemma tripleI: "(\<And>w w' x. P w \<Longrightarrow> m w = (w', Inr x) \<Longrightarrow> Q x w') \<Longrightarrow> triple P m Q"
  by (simp add: triple_def)

lemma tripleD: "triple P m Q \<Longrightarrow> P w \<Longrightarrow> m w = (w', Inr x) \<Longrightarrow> Q x w'"
  by (simp add: triple_def)

lemma triple_bind:
  assumes "triple P m R" "\<And>x. triple (R x) (f x) Q"
  shows "triple P (io_bind m f) Q"
proof (rule tripleI)
  fix w w' y
  assume "P w" "io_bind m f w = (w', Inr y)"
  then show "Q y w'" by (elim io_bind_InrE) (use assms in \<open>blast dest: tripleD\<close>)
qed

lemma triple_return: "(\<And>w. P w \<Longrightarrow> Q x w) \<Longrightarrow> triple P (io_return x) Q"
  by (simp add: triple_def)

lemma triple_wrap: "triple P m Q \<Longrightarrow> triple P (io_wrap msg m) Q"
  by (simp add: triple_def io_wrap_Inr)

lemma triple_lift: "(\<And>w x. r = Inr x \<Longrightarrow> P w \<Longrightarrow> Q x w) \<Longrightarrow> triple P (io_lift r) Q"
  by (simp add: triple_def)

lemma triple_keeps: "keeps P m \<Longrightarrow> triple P m (\<lambda>_. P)"
  unfolding triple_def keeps_def by (metis fst_conv)

lemma triple_mono: "triple P m Q \<Longrightarrow> (\<And>w. P' w \<Longrightarrow> P w) \<Longrightarrow> (\<And>x w. Q x w \<Longrightarrow> Q' x w) \<Longrightarrow> triple P' m Q'"
  unfolding triple_def by blast

lemma triple_conj: "triple P m Q \<Longrightarrow> triple P' m Q' \<Longrightarrow> triple (\<lambda>w. P w \<and> P' w) m (\<lambda>x w. Q x w \<and> Q' x w)"
  unfolding triple_def by blast

lemma triple_frame: "triple P m Q \<Longrightarrow> keeps R m \<Longrightarrow> triple (\<lambda>w. P w \<and> R w) m (\<lambda>x w. Q x w \<and> R w)"
  by (rule triple_conj [OF _ triple_keeps])

text \<open>A first program that only keeps the condition, then the rest.\<close>

lemma triple_after: "keeps P m \<Longrightarrow> (\<And>x. triple P (f x) Q) \<Longrightarrow> triple P (io_bind m f) Q"
  by (rule triple_bind [OF triple_keeps])

lemma keeps_conj: "keeps P m \<Longrightarrow> keeps R m \<Longrightarrow> keeps (\<lambda>w. P w \<and> R w) m"
  unfolding keeps_def by blast

lemma keeps_each_mem: "(\<And>x. x \<in> set xs \<Longrightarrow> keeps P (f x)) \<Longrightarrow> keeps P (io_each f xs)"
  by (induction xs) auto

lemma keeps_ask [intro, simp]: "keeps P (io_ask g)"
  by (simp add: keeps_def)

section \<open>The environment and the files of a site\<close>

definition in_env :: "(string \<Rightarrow> string) \<Rightarrow> 'e world \<Rightarrow> bool" where
  "in_env e w \<longleftrightarrow> env w = e"

definition site_path :: "(string \<Rightarrow> string) \<Rightarrow> Path \<Rightarrow> string" where
  "site_path e p = GetSkupperPath (e ''SKUPPER_TMPDIR'') p"

lemma skupper_path_env: "in_env e w \<Longrightarrow> skupper_path w p = site_path e p"
  by (simp add: in_env_def site_path_def skupper_path_def)

text \<open>
  \<open>reads e p r w\<close>: the environment is \<open>e\<close> and reading the file \<open>p\<close> gives \<open>r\<close>; \<open>stored\<close> where that is
  its content.
\<close>

definition reads :: "(string \<Rightarrow> string) \<Rightarrow> string \<Rightarrow> content result \<Rightarrow> 'e world \<Rightarrow> bool" where
  "reads e p r w \<longleftrightarrow> in_env e w \<and> fs_read p (fs w) = r"

abbreviation stored :: "(string \<Rightarrow> string) \<Rightarrow> string \<Rightarrow> content \<Rightarrow> 'e world \<Rightarrow> bool" where
  "stored e p c \<equiv> reads e p (Inr c)"

lemma stored_env: "reads e p c w \<Longrightarrow> in_env e w"
  by (simp add: reads_def)

named_theorems keeping

lemma keeps_env [keeping]:
  "keeps (in_env e) (ce D f)" "keeps (in_env e) (on_engine g)" "keeps (in_env e) (on_fs h)" "keeps (in_env e) (WriteFile p c)"
  "keeps (in_env e) (Mkdir p)" "keeps (in_env e) (MkdirAll p)" "keeps (in_env e) (RemoveAll p)"
  by (auto simp: keeps_def in_env_def on_fs_def WriteFile_def Mkdir_def MkdirAll_def RemoveAll_def split: prod.split)

lemma untouched_keeps: "untouched m \<Longrightarrow> keeps (in_env e) m \<and> keeps (reads e p c) m"
  unfolding untouched_def keeps_def reads_def in_env_def host_of_def by simp

lemma keeps_untouched:
  assumes "untouched m"
  shows "keeps (in_env e) m" "keeps (reads e p c) m"
  using untouched_keeps [OF assms] by simp_all

lemma keeps_run: "keeps P m \<Longrightarrow> P w \<Longrightarrow> m w = (w', r) \<Longrightarrow> P w'"
  by (metis fst_conv keepsD)

lemma keeps_stored_ce [keeping]: "keeps (reads e p c) (ce D f)" "keeps (reads e p c) (on_engine g)"
  by (simp_all add: untouched_keeps)

lemma keeps_stored_Mkdir [keeping]: "keeps (reads e p c) (Mkdir q)" "keeps (reads e p c) (MkdirAll q)"
  by (auto simp: keeps_def reads_def in_env_def Mkdir_def MkdirAll_def on_fs_def fs_mkdir_def fs_mkdir_all_def
      fs_read_def split: prod.split)

lemma keeps_stored_WriteFile [keeping]: "q \<noteq> p \<Longrightarrow> keeps (reads e p c) (WriteFile q d)"
proof (rule keepsI)
  fix w :: "'e world"
  assume "q \<noteq> p" "reads e p c w"
  moreover obtain w' r where "WriteFile q d w = (w', r)" by fastforce
  moreover have "env w' = env w"
    using calculation(3) by (auto simp: WriteFile_def on_fs_def split: prod.splits)
  ultimately show "reads e p c (fst (WriteFile q d w))"
    using write_other [of q d w w' r p] by (auto simp: reads_def in_env_def)
qed

lemma WriteFile_stores: "triple (in_env e) (WriteFile p c) (\<lambda>_. stored e p c)"
  by (rule tripleI) (simp add: reads_def in_env_def write_then_read)

lemma keeps_at_path:
  "keeps P (f (site_path e p)) \<Longrightarrow> (\<And>w. P w \<Longrightarrow> in_env e w) \<Longrightarrow> keeps P (\<lambda>w. f (skupper_path w p) w)"
  unfolding keeps_def using skupper_path_env by metis

text \<open>The files of different directories of the site are different.\<close>

lemma plain_path_name: "slash \<notin> set (skupperPaths p)"
  by (cases p) (simp_all add: slash_def)

lemma site_paths_differ:
  assumes "p \<noteq> q" "p \<noteq> HostPath" "q \<noteq> HostPath"
  shows "site_path e p @ ''/'' @ x \<noteq> site_path e q @ ''/'' @ y"
proof
  assume "site_path e p @ ''/'' @ x = site_path e q @ ''/'' @ y"
  then have "skupperPaths p @ slash # x = skupperPaths q @ slash # y"
    using assms(2,3) by (simp add: site_path_def GetSkupperPath_child slash_def)
  then have "takeWhile (\<lambda>c. c \<noteq> slash) (skupperPaths p @ slash # x)
      = takeWhile (\<lambda>c. c \<noteq> slash) (skupperPaths q @ slash # y)" by simp
  moreover have "takeWhile (\<lambda>c. c \<noteq> slash) (skupperPaths r @ slash # z) = skupperPaths r" for r z
    using plain_path_name [of r] by (subst takeWhile_append2) auto
  ultimately have "skupperPaths p = skupperPaths q" by simp
  with assms(1) show False by (cases p; cases q) simp_all
qed

end
