(* ===== verification/Connector_Laws.thy ===== *)
theory Connector_Laws imports Connectors Io_Triples begin

text \<open>
  What connecting sites guarantees: the names that are generated, what a new connector leaves in the
  configuration of the router, that disconnecting undoes it, and that a site does not connect to itself.
\<close>

section \<open>Generated names\<close>

lemma digit_value_le: "is_digit c \<Longrightarrow> digit_value c \<le> 9"
  unfolding is_digit_def digit_value_def by linarith

lemma conn_submatch_digit: "conn_submatch s = Some c \<Longrightarrow> is_digit c"
proof (induction s)
  case (Cons x s)
  have "ds \<noteq> [] \<Longrightarrow> ds = takeWhile is_digit t \<Longrightarrow> is_digit (last ds)" for ds t
    using set_takeWhileD [of "last ds" is_digit t] by fastforce
  with Cons show ?case by (auto simp: Let_def split: if_splits)
qed simp

lemma conn_submatch_named: "is_digit c \<Longrightarrow> conn_submatch (''conn'' @ [c]) = Some c"
  by (simp add: HasPrefix_def)

lemma next_number_mono: "n \<le> next_number f n"
  by (simp add: next_number_def Let_def split: option.split)

lemma next_number_le: "n \<le> 10 \<Longrightarrow> next_number f n \<le> 10"
  using conn_submatch_digit digit_value_le
  by (fastforce simp: next_number_def Let_def split: option.split)

lemma numbers_grow: "n \<le> fold next_number fns n"
  by (induction fns arbitrary: n) (auto intro: order_trans [OF next_number_mono])

lemma numbers_le: "n \<le> 10 \<Longrightarrow> fold next_number fns n \<le> 10"
  by (induction fns arbitrary: n) (auto intro: next_number_le)

lemma numbers_above:
  "f \<in> set fns \<Longrightarrow> conn_submatch f = Some c \<Longrightarrow> digit_value c < fold next_number fns n"
proof (induction fns arbitrary: n)
  case (Cons g fns)
  have "digit_value c < next_number f n" if "conn_submatch f = Some c" for n
    using that by (simp add: next_number_def Let_def)
  with Cons numbers_grow [of "next_number f n" fns] show ?case by (fastforce intro: less_le_trans)
qed simp

lemma single_digit:
  assumes "n < 10"
  shows "\<exists>c. Itoa (int n) = [c] \<and> is_digit c \<and> digit_value c = n"
  using assms by (intro exI [of _ "char_of (48 + n)"]) (simp add: Itoa_def nat_digits.simps is_digit_def digit_value_def)

text \<open>
  Property C35. A connector without a name gets one of the ten names \<open>conn1\<close> to \<open>conn10\<close>, for the pattern
  captures one digit. Up to \<open>conn9\<close> the name is one the directory does not have; once it has \<open>conn9\<close> the
  name is \<open>conn10\<close> for good, so no eleventh connector is ever named.
\<close>

theorem generated_names_bounded:
  "\<exists>n. 1 \<le> n \<and> n \<le> 10 \<and> connector_name fns = ''conn'' @ Itoa (int n)
    \<and> (if n < 10 then connector_name fns \<notin> set fns \<and> ''conn9'' \<notin> set fns else connector_name fns = ''conn10'')"
proof -
  define n where "n = fold next_number fns 1"
  have n: "1 \<le> n" "n \<le> 10" "connector_name fns = ''conn'' @ Itoa (int n)"
    using numbers_grow [of 1 fns] numbers_le [of 1 fns] by (simp_all add: n_def connector_name_def)
  have "\<not> ''conn'' @ Itoa (int k) \<in> set fns" if k: "n \<le> k" "k < 10" for k
  proof
    assume "''conn'' @ Itoa (int k) \<in> set fns"
    moreover obtain c where "Itoa (int k) = [c]" "is_digit c" "digit_value c = k"
      using single_digit [OF k(2)] by blast
    ultimately have "k < n"
      using numbers_above [of "''conn'' @ [c]" fns c 1] conn_submatch_named [of c] by (simp add: n_def)
    with k(1) show False by simp
  qed
  note fresh = this
  have d: "Itoa 9 = ''9''" "Itoa 10 = ''10''"
    by (simp_all add: Itoa_def nat_digits.simps char_of_def bit_0)
  show ?thesis
  proof (cases "n < 10")
    case True
    with n fresh [of n] fresh [of 9] d show ?thesis by (intro exI [of _ n]) simp
  next
    case False
    with n(2) have "n = 10" by simp
    with n d show ?thesis by (intro exI [of _ 10]) simp
  qed
qed

section \<open>What stays untouched\<close>

lemma untouched_ServiceInterfaceList [intro, simp]: "untouched (ServiceInterfaceList D rng)"
proof -
  have "untouched (\<lambda>w. ReadFile (services_file w) w)"
    by (simp add: untouched_def ReadFile_def)
  then show ?thesis unfolding ServiceInterfaceList_def
    by (intro untouched_bind untouched_site_client untouched_require_router untouched_wrap untouched_basic)
qed

lemma untouched_restart_all [intro, simp]: "untouched (restart_all D rng)"
  unfolding restart_all_def
  by (intro untouched_bind untouched_wrap untouched_each untouched_basic untouched_ServiceInterfaceList)

lemma current_config_Inr:
  "current_config w = (w', Inr r) \<longleftrightarrow> w' = w \<and> GetRouterConfigFromFile (config_file w) w = (w, Inr (Some r))"
proof -
  have "fst (GetRouterConfigFromFile p w) = w" for p
    by (simp add: GetRouterConfigFromFile_def io_bind_def ReadFile_def split: sum.split)
  then obtain x where x: "GetRouterConfigFromFile (config_file w) w = (w, x)"
    by (metis prod.collapse)
  then show ?thesis
    by (cases x) (auto simp: current_config_def io_bind_def io_wrap_def split: option.splits)
qed

lemma config_file_env: "in_env e w \<Longrightarrow> config_file w = site_path e ConfigPath @ ''/qdrouterd.json''"
  by (simp add: config_file_def skupper_path_env)

lemma connections_dir_env: "in_env e w \<Longrightarrow> connections_dir w name = site_path e ConnectionsPath @ ''/'' @ name"
  by (simp add: connections_dir_def skupper_path_env)

text \<open>Where the file of the configuration reads the same, so does the configuration.\<close>

lemma config_reads:
  assumes "reads e (site_path e ConfigPath @ ''/qdrouterd.json'') r w"
  shows "GetRouterConfigFromFile (config_file w) w = (w, map_sum id Some (rbind r UnmarshalRouterConfig))"
  using assms config_file_env [of e w]
  by (auto simp: reads_def GetRouterConfigFromFile_def io_bind_def ReadFile_def split: sum.split)

lemma config_stored:
  assumes "wf_RouterConfig r" "valid_order ord r"
    and "stored e (site_path e ConfigPath @ ''/qdrouterd.json'') (Doc (MarshalRouterConfig ord r)) w"
  shows "GetRouterConfigFromFile (config_file w) w = (w, Inr (Some r))"
  by (simp add: config_reads [OF assms(3)] unmarshal_marshal [OF assms(1,2)])


lemma current_config_stored:
  assumes "wf_RouterConfig r" "valid_order ord r"
    and "stored e (site_path e ConfigPath @ ''/qdrouterd.json'') (Doc (MarshalRouterConfig ord r)) w"
  shows "current_config w = (w, Inr r)"
  by (simp add: current_config_Inr config_stored [OF assms])

lemma current_config_wf: "current_config w = (w', Inr r) \<Longrightarrow> wf_RouterConfig r"
  by (auto simp: current_config_Inr GetRouterConfigFromFile_def io_bind_def ReadFile_def
      intro: unmarshalled_wf split: sum.splits if_splits)

lemma current_config_reads:
  assumes "reads e (site_path e ConfigPath @ ''/qdrouterd.json'') r w"
    and "reads e (site_path e ConfigPath @ ''/qdrouterd.json'') r w'" "current_config w = (w, Inr c)"
  shows "current_config w' = (w', Inr c)"
  using assms(3) by (auto simp: current_config_Inr config_reads [OF assms(1)] config_reads [OF assms(2)])

section \<open>A new connection\<close>

text \<open>The file of the configuration and the files of a connection are different files.\<close>

lemma keeps_write_token:
  assumes "\<And>k. connPath @ ''/'' @ k \<noteq> p"
  shows "keeps (reads e p c) (write_token connPath es)"
proof -
  have f: "keeps (reads e p c) (WriteFile (connPath @ ''/'' @ k) d)" for k d
    by (rule keeps_stored_WriteFile [OF assms])
  show ?thesis unfolding write_token_def
    by (intro keeps_each) (auto intro!: keeps_wrap f [simplified] f [of "''generated-by''", simplified])
qed

lemma write_token_stores:
  assumes "(k, v) \<in> set es" "distinct (map fst es)" "k \<noteq> TokenGeneratedBy" "k \<noteq> ''generated-by''"
  shows "triple (in_env e) (write_token connPath es) (\<lambda>_. stored e (connPath @ ''/'' @ k) (Text v))"
  using assms(1,2)
proof (induction es)
  case (Cons x es)
  let ?Q = "\<lambda>_ :: unit. stored e (connPath @ ''/'' @ k) (Text v)"
  show ?case
  proof (cases "x = (k, v)")
    case True
    have n: "connPath @ ''/generated-by'' \<noteq> connPath @ ''/'' @ k" using assms(4) by simp
    have "keeps (stored e (connPath @ ''/'' @ k) (Text v)) (write_token connPath es)"
      unfolding write_token_def
    proof (rule keeps_each_mem)
      fix y assume "y \<in> set es"
      with Cons.prems True have "fst y \<noteq> k" by force
      with n show "keeps (stored e (connPath @ ''/'' @ k) (Text v))
          (case y of (k, v) \<Rightarrow> if k = TokenGeneratedBy
             then io_wrap ''Failed to write connector file'' (WriteFile (connPath @ ''/generated-by'') (Text v))
             else io_wrap ''Failed to write connector certificate file'' (WriteFile (connPath @ ''/'' @ k) (Text v)))"
        by (auto intro!: keeps_wrap keeps_stored_WriteFile split: prod.split)
    qed
    then have "triple (stored e (connPath @ ''/'' @ k) (Text v)) (write_token connPath es) ?Q"
      by (rule triple_keeps)
    with True assms(3) show ?thesis
      by (auto simp: write_token_def intro!: triple_bind [OF triple_wrap [OF WriteFile_stores]])
  next
    case False
    with Cons.prems have "(k, v) \<in> set es" "distinct (map fst es)" by auto
    note rest = Cons.IH [OF this, unfolded write_token_def, simplified]
    show ?thesis
      by (cases x) (auto simp: write_token_def intro!: triple_after keeps_wrap keeping rest)
  qed
qed simp

lemma update_config_stores:
  "triple (in_env e) (update_config ord r)
     (\<lambda>_. stored e (site_path e ConfigPath @ ''/qdrouterd.json'') (Doc (MarshalRouterConfig (ord r) r)))"
proof (rule tripleI)
  fix w w' x
  assume e: "in_env e w" and r: "update_config ord r w = (w', Inr x)"
  then have "WriteFile (site_path e ConfigPath @ ''/qdrouterd.json'') (Doc (MarshalRouterConfig (ord r) r)) w = (w', Inr x)"
    by (simp add: update_config_def io_wrap_Inr WriteToConfigFile_def config_file_env)
  from tripleD [OF WriteFile_stores e this]
  show "stored e (site_path e ConfigPath @ ''/qdrouterd.json'') (Doc (MarshalRouterConfig (ord r) r)) w'" .
qed


lemma untouched_name [intro, simp]:
  "untouched (if c then (\<lambda>w. generateConnectorName (skupper_path w p) w) else io_return n)"
  by (auto simp: untouched_def generateConnectorName_def io_simps ReadDir_def host_of_def split: sum.split)

lemma connection_run:
  fixes w :: "'e world"
  assumes run: "ConnectorCreate D lib crng ord rng f options w = (w', Inr name)" and env: "in_env e w"
  obtains secret current and w1 :: "'e world" where "GetSecretContent lib f (fs w) = Inr secret" "current_config w = (w, Inr current)"
    "in_env e w1" "\<And>k v. (k, v) \<in> set (crng secret) \<Longrightarrow> distinct (map fst (crng secret)) \<Longrightarrow> k \<noteq> TokenGeneratedBy
      \<Longrightarrow> k \<noteq> ''generated-by'' \<Longrightarrow> read_text (connections_dir w name @ ''/'' @ k) w1 = v"
    "stored e (site_path e ConfigPath @ ''/qdrouterd.json'')
      (let r = add_connection current (connections_dir w name) (options\<lparr>co_Name := name\<rparr>) w1
       in Doc (MarshalRouterConfig (ord r) r)) w'"
proof -
  from run obtain w1 sc w2 secret w3 ci w4 w5 w6 w7 current w8 where
    s1: "site_client D w = (w1, Inr sc)" and s2: "GetSecretContent lib f (fs w1) = Inr secret" "w2 = w1"
    and s3: "require_router D ''Failed to retrieve transport container (need init?)'' w2 = (w3, Inr ci)"
    and s5: "(if co_Name options = [] then (\<lambda>w. generateConnectorName (skupper_path w ConnectionsPath) w)
              else io_return (co_Name options)) w3 = (w4, Inr name)"
    and s6: "Mkdir (connections_dir w4 name) w4 = (w5, Inr ())"
    and s7: "write_token (connections_dir w5 name) (crng secret) w5 = (w6, Inr ())"
    and s8: "current_config w6 = (w7, Inr current)"
    and s9: "update_config ord (add_connection current (connections_dir w7 name) (options\<lparr>co_Name := name\<rparr>) w7) w7 = (w8, Inr ())"
    and s10: "restart_all D rng w8 = (w', Inr ())"
    unfolding ConnectorCreate_def by (elim io_bind_InrE) (auto simp: io_wrap_Inr)
  let ?cfg = "site_path e ConfigPath @ ''/qdrouterd.json''"
  let ?dir = "site_path e ConnectionsPath @ ''/'' @ name"
  have h: "host_of w4 = host_of w"
    using untouchedD [OF untouched_site_client s1] untouchedD [OF untouched_require_router s3]
      untouchedD [OF untouched_name s5] s2(2) by simp
  let ?R = "reads e ?cfg (fs_read ?cfg (fs w))"
  have r: "?R w" using env by (simp add: reads_def)
  have r4: "?R w4" using h env by (simp add: reads_def host_of_def in_env_def)
  have r5: "?R w5" by (rule keeps_run [OF keeps_stored_Mkdir(1) r4 s6])
  note d = connections_dir_env [OF env] connections_dir_env [OF stored_env [OF r5]]
  have n: "connections_dir w5 name @ ''/'' @ k \<noteq> ?cfg" for k
    using site_paths_differ [of ConnectionsPath ConfigPath e "name @ ''/'' @ k" "''qdrouterd.json''"] by (simp add: d)
  have r6: "?R w6" by (rule keeps_run [OF keeps_write_token [OF n] r5 s7])
  note d7 = connections_dir_env [OF stored_env [OF r6]]
  have w7: "w7 = w6" using s8 by (simp add: current_config_Inr)
  show thesis
  proof (rule that [of secret current w6])
    show "GetSecretContent lib f (fs w) = Inr secret"
      using s2(1) untouchedD [OF untouched_site_client s1] by (simp add: host_of_def)
    show "current_config w = (w, Inr current)"
      using current_config_reads [OF r6 r] s8 w7 by simp
    show "in_env e w6" using r6 by (rule stored_env)
    show "read_text (connections_dir w name @ ''/'' @ k) w6 = v" if "(k, v) \<in> set (crng secret)"
      "distinct (map fst (crng secret))" "k \<noteq> TokenGeneratedBy" "k \<noteq> ''generated-by''" for k v
      using tripleD [OF write_token_stores [OF that] stored_env [OF r5] s7] by (simp add: d read_text_def reads_def)
    show "stored e ?cfg (let r = add_connection current (connections_dir w name) (options\<lparr>co_Name := name\<rparr>) w6
        in Doc (MarshalRouterConfig (ord r) r)) w'"
      using keeps_run [OF keeps_untouched(2) [OF untouched_restart_all] _ s10]
        tripleD [OF update_config_stores stored_env [OF r6] s9 [unfolded w7]]
      by (simp add: Let_def d d7)
  qed
qed

text \<open>
  Property C12. A connection that was created is configured: the router's configuration reads back as it
  was with one connector and one profile more. The connector has the name, the cost and the role that
  fit, the host and the port that the token gives for that role, and it names the profile, which holds the
  certificates of the connection's own directory.
\<close>

theorem connection_is_configured:
  assumes "ConnectorCreate D lib crng ord rng f options w = (w', Inr name)"
    and "\<forall>r. valid_order (ord r) r" "\<forall>m. ranges_over (crng m) m"
  shows "\<exists>current secret c. current_config w = (w, Inr current) \<and> GetSecretContent lib f (fs w) = Inr secret
    \<and> current_config w' = (w', Inr (current\<lparr>Connectors := fmupd name c (Connectors current),
        SslProfiles := fmupd (name @ ''-profile'') \<lparr>sp_Name = name @ ''-profile'',
          sp_CertFile = ''/etc/qpid-dispatch/connections/'' @ name @ ''/tls.crt'',
          sp_PrivateKeyFile = ''/etc/qpid-dispatch/connections/'' @ name @ ''/tls.key'',
          sp_CaCertFile = ''/etc/qpid-dispatch/connections/'' @ name @ ''/ca.crt''\<rparr> (SslProfiles current)\<rparr>))
    \<and> c_Name c = name \<and> c_Cost c = co_Cost options \<and> c_SslProfile c = name @ ''-profile''
    \<and> c_Role c = (if IsEdge current then RoleEdge else RoleInterRouter)
    \<and> (\<forall>host. fmlookup secret (if IsEdge current then ''edge-host'' else ''inter-router-host'') = Some host \<longrightarrow> c_Host c = host)
    \<and> (\<forall>port. fmlookup secret (if IsEdge current then ''edge-port'' else ''inter-router-port'') = Some port \<longrightarrow> c_Port c = port)"
proof -
  have env: "in_env (env w) w" by (simp add: in_env_def)
  show ?thesis
  proof (rule connection_run [OF assms(1) env])
    fix secret current w1
    assume s: "GetSecretContent lib f (fs w) = Inr secret" "current_config w = (w, Inr current)"
      "\<And>k v. (k, v) \<in> set (crng secret) \<Longrightarrow> distinct (map fst (crng secret)) \<Longrightarrow> k \<noteq> TokenGeneratedBy
        \<Longrightarrow> k \<noteq> ''generated-by'' \<Longrightarrow> read_text (connections_dir w name @ ''/'' @ k) w1 = v"
      "stored (env w) (site_path (env w) ConfigPath @ ''/qdrouterd.json'')
        (let r = add_connection current (connections_dir w name) (options\<lparr>co_Name := name\<rparr>) w1
         in Doc (MarshalRouterConfig (ord r) r)) w'"
    let ?r = "add_connection current (connections_dir w name) (options\<lparr>co_Name := name\<rparr>) w1"
    have k: "read_text (connections_dir w name @ ''/'' @ k) w1 = v" if "fmlookup secret k = Some v"
      "k \<noteq> TokenGeneratedBy" "k \<noteq> ''generated-by''" for k v
      by (rule s(3) [OF _ ranges_over_distinct [OF assms(3) [rule_format]] that(2,3)])
        (simp add: ranges_over_mem [OF assms(3) [rule_format]] that(1))
    have "wf_RouterConfig ?r" using current_config_wf [OF s(2)] by (simp add: add_connection_def Let_def wf_adds)
    then have "current_config w' = (w', Inr ?r)"
      using assms(2) s(4) by (intro current_config_stored) (auto simp: Let_def)
    with s(1,2) k show ?thesis
      by (intro exI [of _ current] exI [of _ secret]
          exI [of _ "new_connector current (connections_dir w name) (options\<lparr>co_Name := name\<rparr>) w1"])
        (auto simp: add_connection_def new_connector_def AddConnSslProfile_def AddConnector_def zero_SslProfile_def
          zero_Connector_def IsEdge_def role_suffix_def TokenGeneratedBy_def)
  qed
qed


section \<open>A connection that is removed\<close>

text \<open>Nothing is left of a directory.\<close>

definition gone :: "string \<Rightarrow> fsys \<Rightarrow> bool" where
  "gone p s \<longleftrightarrow> (\<forall>q. below p q \<longrightarrow> q |\<notin>| dirs s \<and> q |\<notin>| fmdom (files s))"

lemma gone_remove: "fs_remove_all p s = (s', Inr u) \<Longrightarrow> gone p s'"
  by (auto simp: fs_remove_all_def gone_def stuck_def below_def split: if_splits)

lemma gone_write: "gone p s \<Longrightarrow> \<not> below p q \<Longrightarrow> fs_write q c s = (s', r) \<Longrightarrow> gone p s'"
  by (auto simp: fs_write_def gone_def split: if_splits)

lemma config_not_below: "in_env e w \<Longrightarrow> \<not> below (connections_dir w name) (config_file w)"
  using site_paths_differ [of ConfigPath ConnectionsPath e "''qdrouterd.json''"]
    site_paths_differ [of ConfigPath ConnectionsPath e "''qdrouterd.json''" "name @ ''/'' @ _"]
  by (auto simp: below_def connections_dir_env config_file_env HasPrefix_iff)

lemma disconnection_run:
  assumes "ConnectorRemove D ord rng name w = (w', Inr ())" "in_env e w" "current_config w = (w, Inr current)"
    and "fmlookup (Connectors current) name \<noteq> None"
  shows "gone (connections_dir w name) (fs w')
    \<and> stored e (site_path e ConfigPath @ ''/qdrouterd.json'')
        (let r = fst (RemoveConnSslProfile name (fst (RemoveConnector name current)))
         in Doc (MarshalRouterConfig (ord r) r)) w'"
proof -
  from assms(1) obtain w1 sc w2 ci w3 cur w4 where
    s1: "site_client D w = (w1, Inr sc)"
    and s2: "require_router D ''Failed to retrieve transport container'' w1 = (w2, Inr ci)"
    and s3: "current_config w2 = (w3, Inr cur)"
    and s4: "(case RemoveConnector name cur of
         (current, False) \<Rightarrow> io_return ()
       | (current, True) \<Rightarrow>
           io_bind (io_wrap ''Failed to remove connector file contents'' (\<lambda>w. RemoveAll (connections_dir w name) w)) (\<lambda>_.
             update_config ord (fst (RemoveConnSslProfile name current)))) w3 = (w4, Inr ())"
    and s5: "restart_all D rng w4 = (w', Inr ())"
    unfolding ConnectorRemove_def by (elim io_bind_InrE) auto
  have h: "host_of w2 = host_of w"
    using untouchedD [OF untouched_site_client s1] untouchedD [OF untouched_require_router s2] by simp
  let ?cfg = "site_path e ConfigPath @ ''/qdrouterd.json''"
  have r: "reads e ?cfg (fs_read ?cfg (fs w)) w" "reads e ?cfg (fs_read ?cfg (fs w)) w2"
    using h assms(2) by (simp_all add: reads_def host_of_def in_env_def)
  have c: "w3 = w2" "cur = current"
    using current_config_reads [OF r assms(3)] s3 by simp_all
  have rm: "RemoveConnector name current = (fst (RemoveConnector name current), True)"
    using assms(4) by (auto simp: RemoveConnector_def)
  from s4 [unfolded c, unfolded prod.case_eq_if, folded prod.case_eq_if] obtain w5 where
    s6: "RemoveAll (connections_dir w2 name) w2 = (w5, Inr ())"
    and s7: "update_config ord (fst (RemoveConnSslProfile name (fst (RemoveConnector name current)))) w5 = (w4, Inr ())"
    by (subst (asm) rm) (auto simp: io_wrap_Inr elim!: io_bind_InrE)
  have e5: "in_env e w5" by (rule keeps_run [OF keeps_env(7) stored_env [OF r(2)] s6])
  have g5: "gone (connections_dir w2 name) (fs w5)"
    using s6 by (auto simp: RemoveAll_def on_fs_def split: prod.splits dest: gone_remove)
  note d = connections_dir_env [OF assms(2)] connections_dir_env [OF stored_env [OF r(2)]] connections_dir_env [OF e5]
  have "gone (connections_dir w2 name) (fs w4)"
    using s7 gone_write [OF g5] config_not_below [OF e5, of name]
    by (auto simp: update_config_def io_wrap_Inr WriteToConfigFile_def WriteFile_def on_fs_def d split: prod.splits)
  moreover have "fs w' = fs w4" using untouchedD [OF untouched_restart_all s5] by (simp add: host_of_def)
  ultimately show ?thesis
    using keeps_run [OF keeps_untouched(2) [OF untouched_restart_all] tripleD [OF update_config_stores e5 s7] s5]
    by (simp add: Let_def d)
qed

text \<open>
  Property C14. Removing a connection undoes its creation: where neither the connector nor its profile
  was there before, the configuration of the router is again exactly the one before the connection was
  created, and nothing is left of the directory of the connection.
\<close>

theorem connect_then_disconnect:
  assumes "ConnectorCreate D lib crng ord rng f options w = (w1, Inr name)"
    and "ConnectorRemove D ord rng name w1 = (w2, Inr ())"
    and "\<forall>r. valid_order (ord r) r" "current_config w = (w, Inr current)"
    and "fmlookup (Connectors current) name = None" "fmlookup (SslProfiles current) (name @ ''-profile'') = None"
  shows "current_config w2 = (w2, Inr current) \<and> gone (connections_dir w name) (fs w2)"
proof -
  have env: "in_env (env w) w" by (simp add: in_env_def)
  show ?thesis
  proof (rule connection_run [OF assms(1) env])
    fix cur v
    let ?r = "add_connection current (connections_dir w name) (options\<lparr>co_Name := name\<rparr>) v"
    assume "current_config w = (w, Inr cur)"
      and s: "stored (env w) (site_path (env w) ConfigPath @ ''/qdrouterd.json'')
        (let r = add_connection cur (connections_dir w name) (options\<lparr>co_Name := name\<rparr>) v
         in Doc (MarshalRouterConfig (ord r) r)) w1"
    then have c: "cur = current" using assms(4) by simp
    have wf: "wf_RouterConfig current" by (rule current_config_wf [OF assms(4)])
    then have "wf_RouterConfig ?r" by (simp add: add_connection_def Let_def wf_adds)
    then have "current_config w1 = (w1, Inr ?r)"
      using assms(3) s [unfolded c] by (intro current_config_stored) (auto simp: Let_def)
    moreover have "fmlookup (Connectors ?r) name \<noteq> None"
      by (simp add: add_connection_def Let_def AddConnector_def new_connector_def zero_Connector_def)
    ultimately have g: "gone (connections_dir w1 name) (fs w2)"
      "stored (env w) (site_path (env w) ConfigPath @ ''/qdrouterd.json'')
        (let r = fst (RemoveConnSslProfile name (fst (RemoveConnector name ?r)))
         in Doc (MarshalRouterConfig (ord r) r)) w2"
      using disconnection_run [OF assms(2) stored_env [OF s]] by blast+
    have "fst (RemoveConnSslProfile name (fst (RemoveConnector name ?r))) = current"
      using fmdrop_idle [OF fmdom_notI [OF assms(5)]] fmdrop_idle [OF fmdom_notI [OF assms(6)]]
      by (simp add: add_connection_def Let_def AddConnector_def new_connector_def AddConnSslProfile_def
          zero_Connector_def zero_SslProfile_def RemoveConnector_def RemoveConnSslProfile_def fmdrop_fmupd_same)
    with g wf assms(3) connections_dir_env [OF env] connections_dir_env [OF stored_env [OF s]] show ?thesis
      by (auto intro: current_config_stored simp: Let_def)
  qed
qed


section \<open>The site's own token\<close>

text \<open>
  What the package of the tokens documents: the annotations of a token are entries of what is read back
  from it, and writing one changes no other file.
\<close>

definition tokens_annotated :: "CertsLib \<Rightarrow> bool" where
  "tokens_annotated lib \<longleftrightarrow> (\<forall>subject p d a s secret k v.
     GetSecretContent lib p (PutCertificateData lib subject p d a s) = Inr secret \<longrightarrow> fmlookup a k = Some v
       \<longrightarrow> fmlookup secret k = Some v)"

definition tokens_separate :: "CertsLib \<Rightarrow> bool" where
  "tokens_separate lib \<longleftrightarrow> (\<forall>subject p d a s q. q \<noteq> p \<longrightarrow> fs_read q (PutCertificateData lib subject p d a s) = fs_read q s)"

lemma site_client_site:
  "site_client D w = (w', Inr sc) \<Longrightarrow> SiteConfigInspect DefaultBridgeName w = (w, Inr (Some sc))"
  by (auto simp: site_client_def SiteConfigInspect_def io_simps ReadFile_def
      split: prod.splits sum.splits option.splits)

lemma token_run:
  assumes "ConnectorTokenCreate D lib subject f w = (w', Inr ())"
  shows "\<exists>sc d ip. SiteConfigInspect DefaultBridgeName w = (w, Inr (Some sc)) \<and> env w' = env w
    \<and> fs w' = PutCertificateData lib subject f d (token_annotations ip (sc_UID sc)) (fs w)"
proof -
  from assms obtain w1 sc w2 router w3 current where
    s1: "site_client D w = (w1, Inr sc)"
    and s2: "require_router D ''Unable to retrieve transport container (need init?)'' w1 = (w2, Inr router)"
    and s3: "current_config w2 = (w3, Inr current)"
    and s4: "(if IsEdge current then io_fail (Err ''Edge mode transport configuration cannot accept connections'')
       else (\<lambda>w. case getCertData ''skupper-internal-ca'' w of
           (_, Some err) \<Rightarrow> (w, Inl (wrap_error ''Unable to retrieve CA data'' err))
         | (caData, None) \<Rightarrow>
             (let ipAddr = cnc_IPAddress (cin_NetworkSettings router);
                  certData = GenerateCertificateData lib subject subject ipAddr caData
              in (w\<lparr>fs := PutCertificateData lib subject f certData
                    (token_annotations ipAddr (sc_UID sc)) (fs w)\<rparr>, Inr ())))) w3 = (w', Inr ())"
    unfolding ConnectorTokenCreate_def by (elim io_bind_InrE) auto
  have "host_of w3 = host_of w"
    using untouchedD [OF untouched_site_client s1] untouchedD [OF untouched_require_router s2] s3
    by (simp add: current_config_Inr)
  then have h: "fs w3 = fs w" "env w3 = env w" by (simp_all add: host_of_def)
  from s4 obtain d where "w' = w3\<lparr>fs := PutCertificateData lib subject f d
      (token_annotations (cnc_IPAddress (cin_NetworkSettings router)) (sc_UID sc)) (fs w3)\<rparr>"
    by (auto simp: Let_def split: if_splits prod.splits option.splits)
  with h site_client_site [OF s1] show ?thesis by auto
qed

lemma refused_origin:
  assumes "SiteConfigInspect DefaultBridgeName w = (w, Inr (Some sc))"
    and "\<And>secret. GetSecretContent lib f (fs w) = Inr secret \<Longrightarrow> fmlookup secret ''skupper.io/generated-by'' = Some (sc_UID sc)"
  shows "(\<exists>e. snd (ConnectorCreate D lib crng ord rng f options w) = Inl e)
    \<and> host_of (fst (ConnectorCreate D lib crng ord rng f options w)) = host_of w"
proof -
  obtain w1 r where s1: "site_client D w = (w1, r)" by fastforce
  have h1: "host_of w1 = host_of w" by (rule untouchedD [OF untouched_site_client s1])
  show ?thesis
  proof (cases r)
    case (Inl e)
    with s1 h1 show ?thesis by (simp add: ConnectorCreate_def io_bind_Inl)
  next
    case (Inr sc')
    then have c: "sc' = sc" using site_client_site [of D w w1 sc'] s1 assms(1) by simp
    obtain w2 q where s2: "require_router D ''Failed to retrieve transport container (need init?)'' w1 = (w2, q)"
      by fastforce
    have h2: "host_of w2 = host_of w" using untouchedD [OF untouched_require_router s2] h1 by simp
    show ?thesis
    proof (cases "GetSecretContent lib f (fs w1)")
      case (Inl e)
      with s1 h1 Inr show ?thesis by (simp add: ConnectorCreate_def io_bind_def io_wrap_def rwrap_def)
    next
      case I: (Inr secret)
      with assms(2) [of secret] h1 c have "token_origin sc' f secret = Inl (Err (''Cannot create connection to self with token '' @ quoted f))"
        by (simp add: token_origin_def host_of_def)
      with s1 s2 h2 Inr I show ?thesis
        by (cases q) (simp_all add: ConnectorCreate_def io_bind_def io_wrap_def)
    qed
  qed
qed

text \<open>
  A site does not connect to itself: a token that the site has issued is refused, whatever
  the engine answers, and the refused connection leaves every file as it was.
\<close>

theorem own_token_refused:
  assumes "ConnectorTokenCreate D lib subject f w = (w1, Inr ())"
    and "tokens_annotated lib" "tokens_separate lib" "f \<noteq> site_file w DefaultBridgeName"
  shows "(\<exists>e. snd (ConnectorCreate D lib crng ord rng f options w1) = Inl e)
    \<and> host_of (fst (ConnectorCreate D lib crng ord rng f options w1)) = host_of w1"
proof -
  obtain sc d ip where t: "SiteConfigInspect DefaultBridgeName w = (w, Inr (Some sc))" "env w1 = env w"
    "fs w1 = PutCertificateData lib subject f d (token_annotations ip (sc_UID sc)) (fs w)"
    using token_run [OF assms(1)] by blast
  have "fs_read (site_file w DefaultBridgeName) (fs w1) = fs_read (site_file w DefaultBridgeName) (fs w)"
    using assms(3,4) by (auto simp: t(3) tokens_separate_def)
  then have s: "SiteConfigInspect DefaultBridgeName w1 = (w1, Inr (Some sc))"
    using t(1,2) by (simp add: SiteConfigInspect_def io_simps ReadFile_def site_file_def skupper_path_def split: sum.splits)
  have "fmlookup (token_annotations ip (sc_UID sc)) ''skupper.io/generated-by'' = Some (sc_UID sc)"
    by (simp add: token_annotations_def TokenGeneratedBy_def fmlookup_of_list)
  then have "fmlookup secret ''skupper.io/generated-by'' = Some (sc_UID sc)" if "GetSecretContent lib f (fs w1) = Inr secret" for secret
    using that assms(2) unfolding tokens_annotated_def t(3) by blast
  from refused_origin [OF s this] show ?thesis .
qed

end
