(* ===== verification/Router_Spec.thy ===== *)
theory Router_Spec imports Client_Base begin

text \<open>
  \<open>client/router_create.go\<close>, the specification: \<open>GetRouterSpecFromOpts\<close> turns the options of a
  site into the configuration of the router, the environment, ports, directories and mounts of its
  two containers and the certificates they need; \<open>getTransportContainerCreateOptions\<close> and
  \<open>getControllerContainerCreateOptions\<close> turn it into requests to the engine.

  \<open>goos\<close> is the operating system the client was built for, \<open>ord\<close> the orders in which the marshaller
  visits the sections.
\<close>

section \<open>The configuration of the router\<close>

definition metrics_listener :: Listener where
  "metrics_listener = zero_Listener\<lparr>l_Host := ''0.0.0.0'', l_Port := 9090, l_Role := ''normal'',
     l_Http := True, l_HttpRootDir := ''disabled'', l_Websockets := False, l_Healthz := True,
     l_Metrics := True\<rparr>"

definition amqp_listener :: Listener where
  "amqp_listener = zero_Listener\<lparr>l_Name := ''amqp'', l_Host := ''localhost'', l_Port := AmqpDefaultPort\<rparr>"

definition amqps_listener :: Listener where
  "amqps_listener = zero_Listener\<lparr>l_Name := ''amqps'', l_Host := ''0.0.0.0'', l_Port := AmqpsDefaultPort,
     l_SslProfile := ''skupper-amqps'', l_SaslMechanisms := ''EXTERNAL'', l_AuthenticatePeer := True\<rparr>"

definition base_router :: "string \<Rightarrow> string \<Rightarrow> bool \<Rightarrow> RouterConfig" where
  "base_router name siteId edge =
     (let r = InitialConfig (name @ ''-${HOSTNAME}'') siteId edge;
          r = AddAddress \<lparr>a_Prefix = ''mc'', a_Distribution = ''multicast''\<rparr> r;
          r = AddListener metrics_listener r;
          r = AddListener amqp_listener r;
          r = AddSslProfile (zero_SslProfile\<lparr>sp_Name := ''skupper-amqps''\<rparr>) r
      in AddListener amqps_listener r)"

definition console_listener :: "bool \<Rightarrow> Listener" where
  "console_listener authenticate = zero_Listener\<lparr>l_Name := ConsolePortName, l_Host := ''0.0.0.0'',
     l_Port := ConsoleDefaultServicePort, l_Http := True, l_AuthenticatePeer := authenticate\<rparr>"

definition add_console :: "SiteConfigSpec \<Rightarrow> RouterConfig \<Rightarrow> RouterConfig" where
  "add_console options r =
     (if ss_EnableRouterConsole options
      then (if ss_AuthMode options = ConsoleAuthModeInternal then AddListener (console_listener True) r
            else if ss_AuthMode options = ConsoleAuthModeUnsecured then AddListener (console_listener False) r
            else r)
      else r)"

definition interior_listener :: Listener where
  "interior_listener = zero_Listener\<lparr>l_Name := ''interior-listener'', l_Host := ''0.0.0.0'',
     l_Role := RoleInterRouter, l_Port := InterRouterListenerPort, l_SslProfile := InterRouterProfile,
     l_SaslMechanisms := ''EXTERNAL'', l_AuthenticatePeer := True\<rparr>"

definition edge_listener :: Listener where
  "edge_listener = zero_Listener\<lparr>l_Name := ''edge-listener'', l_Host := ''0.0.0.0'',
     l_Role := RoleEdge, l_Port := EdgeListenerPort, l_SslProfile := InterRouterProfile,
     l_SaslMechanisms := ''EXTERNAL'', l_AuthenticatePeer := True\<rparr>"

definition add_interior :: "SiteConfigSpec \<Rightarrow> RouterConfig \<Rightarrow> RouterConfig" where
  "add_interior options r =
     (if \<not> ss_IsEdge options
      then AddListener edge_listener (AddListener interior_listener
             (AddSslProfile (zero_SslProfile\<lparr>sp_Name := InterRouterProfile\<rparr>) r))
      else r)"

definition site_router :: "SiteConfigSpec \<Rightarrow> string \<Rightarrow> string \<Rightarrow> RouterConfig" where
  "site_router options name siteId =
     add_interior options (add_console options (base_router name siteId (ss_IsEdge options)))"

section \<open>The container of the router\<close>

definition transport_env :: "SiteConfigSpec \<Rightarrow> string \<Rightarrow> (string, string) fmap" where
  "transport_env options siteId =
     (let m = fmap_of_list [(''QDROUTERD_CONF'', ''/etc/qpid-dispatch/config/'' @ TransportConfigFile),
            (''QDROUTERD_CONF_TYPE'', ''json''), (''SKUPPER_SITE_ID'', siteId)];
          m = (if \<not> ss_IsEdge options then fmupd ''APPLICATION_NAME'' TransportDeploymentName m else m);
          m = (if ss_AuthMode options = ConsoleAuthModeInternal
               then fmupd ''QDROUTERD_AUTO_CREATE_SASLDB_PATH'' ''/tmp/qdrouterd.sasldb''
                      (fmupd ''QDROUTERD_AUTO_CREATE_SASLDB_SOURCE'' ''/etc/qpid-dispatch/sasl-users/'' m)
               else m)
      in if ss_TraceLog options then fmupd ''PN_TRACE_FRM'' ''1'' m else m)"

definition tcp_port :: "goint32 \<Rightarrow> string" where
  "tcp_port p = Itoa (sint p) @ ''/tcp''"

definition transport_ports :: "SiteConfigSpec \<Rightarrow> string fset" where
  "transport_ports options =
     (let ports = {|''5671/tcp''|};
          ports = (if ss_AuthMode options \<noteq> [] then finsert (tcp_port ConsoleDefaultServicePort) ports else ports);
          ports = finsert (tcp_port TransportLivenessPort) ports
      in if \<not> ss_IsEdge options
         then finsert (tcp_port EdgeListenerPort) (finsert (tcp_port InterRouterListenerPort) ports)
         else ports)"

definition transport_volumes :: "SiteConfigSpec \<Rightarrow> string list" where
  "transport_volumes options = [''skupper'', ''skupper-amqps'', ''router-config'']
     @ (if \<not> ss_IsEdge options then [''skupper-internal''] else [])
     @ (if ss_AuthMode options = ConsoleAuthModeInternal then [''skupper-console-users'', ''skupper-sasl-config''] else [])"

definition transport_mounts :: "(Path \<Rightarrow> string) \<Rightarrow> (string, string) fmap" where
  "transport_mounts path = fold (\<lambda>(p, target). fmupd (path p) target)
     [(CertsPath, ''/etc/qpid-dispatch-certs''), (ConnectionsPath, ''/etc/qpid-dispatch/connections''),
      (ConfigPath, ''/etc/qpid-dispatch/config''), (ConsoleUsersPath, ''/etc/qpid-dispatch/sasl-users/''),
      (SaslConfigPath, ''/etc/sasl2'')] fmempty"

definition site_authorities :: "SiteConfigSpec \<Rightarrow> CertAuthority list" where
  "site_authorities options = \<lparr>ca_Name = ''skupper-ca''\<rparr>
     # (if \<not> ss_IsEdge options then [\<lparr>ca_Name = ''skupper-internal-ca''\<rparr>] else [])"

definition site_credentials :: "SiteConfigSpec \<Rightarrow> Credential list" where
  "site_credentials options =
     [\<lparr>cr_CA = ''skupper-ca'', cr_Name = ''skupper-amqps'', cr_Subject = ''skupper-messaging'',
       cr_Hosts = [''skupper-router''], cr_ConnectJson = False, cr_Post = False, cr_Data = fmempty\<rparr>,
      \<lparr>cr_CA = ''skupper-ca'', cr_Name = ''skupper'', cr_Subject = ''skupper-messaging'',
       cr_Hosts = [], cr_ConnectJson = True, cr_Post = False, cr_Data = fmempty\<rparr>]
     @ (if \<not> ss_IsEdge options
        then [\<lparr>cr_CA = ''skupper-internal-ca'', cr_Name = ''skupper-internal'', cr_Subject = ''skupper-internal'',
           cr_Hosts = [''skupper-router''], cr_ConnectJson = False, cr_Post = False, cr_Data = fmempty\<rparr>]
        else [])"

definition transport_spec :: "(string \<Rightarrow> string) \<Rightarrow> (Path \<Rightarrow> string) \<Rightarrow> SiteConfigSpec \<Rightarrow> string \<Rightarrow> DeploymentSpec" where
  "transport_spec getenv path options siteId =
     \<lparr>ds_Image = (if getenv ''QDROUTERD_MAGE'' \<noteq> [] then getenv ''QDROUTERD_IMAGE'' else DefaultTransportImage),
      ds_LivenessPort = TransportLivenessPort,
      ds_Labels = fmap_of_list [(''application'', TransportDeploymentName),
        (''skupper.io/component'', TransportComponentName), (''prometheus.io/port'', ''9090''),
        (''prometheus.io/scrape'', ''true'')],
      ds_EnvVar = transport_env options siteId, ds_Ports = transport_ports options,
      ds_Volumes = transport_volumes options, ds_Mounts = transport_mounts path\<rparr>"

section \<open>The container of the controller\<close>

definition controller_env ::
  "(string \<Rightarrow> string) \<Rightarrow> string \<Rightarrow> string \<Rightarrow> SiteConfigSpec \<Rightarrow> string \<Rightarrow> (string, string) fmap" where
  "controller_env getenv img skupperHost options siteId =
     (let m = fmap_of_list [(''SKUPPER_SITE_ID'', siteId), (''SKUPPER_TMPDIR'', getenv ''SKUPPER_TMPDIR''),
            (''SKUPPER_PROXY_IMAGE'', img), (''SKUPPER_HOST'', skupperHost),
            (''SKUPPER_CONTAINER_ENGINE'', ss_ContainerEngineDriver options)];
          m = (if ss_MapToHost options then fmupd ''SKUPPER_MAP_TO_HOST'' ''true'' m else m)
      in if ss_TraceLog options then fmupd ''PN_TRACE_FRM'' ''1'' m else m)"

definition controller_spec ::
  "string \<Rightarrow> 'e world \<Rightarrow> SiteConfigSpec \<Rightarrow> string \<Rightarrow> DeploymentSpec" where
  "controller_spec goos w options siteId =
     (let img = (if env w ''SKUPPER_CONTROLLER_IMAGE'' \<noteq> [] then env w ''SKUPPER_CONTROLLER_IMAGE''
            else DefaultControllerImage);
          skupperHost = (if goos = ''linux'' then GetInternalIP ''docker0'' w else ''host-gateway'')
      in \<lparr>ds_Image = img, ds_LivenessPort = 0,
          ds_Labels = fmap_of_list [(''application'', ControllerDeploymentName),
            (''skupper.io/component'', ControllerComponentName)],
          ds_EnvVar = controller_env (env w) img skupperHost options siteId,
          ds_Ports = {||}, ds_Volumes = [],
          ds_Mounts = fmap_of_list [(''/var/run'', ''/var/run''),
            (skupper_path w ServicesPath, ''/etc/messaging/services''),
            (skupper_path w CertsPath @ ''/'' @ ''skupper'', ''/etc/messaging'')]\<rparr>)"

section \<open>The specification\<close>

text \<open>
  Without a name of its own the site takes the name of the machine; the error of \<open>Info\<close> is ignored,
  and the answer is then the empty one.
\<close>

definition machine_name :: "(ce_kind \<Rightarrow> 'e Driver) \<Rightarrow> ('e world, string) io" where
  "machine_name D = io_bind (io_try (ce D (\<lambda>d. io_ask (Engine_Driver.Info d)))) (\<lambda>r.
     io_return (case r of Inl _ \<Rightarrow> [] | Inr info \<Rightarrow> in_Name info))"

definition GetRouterSpecFromOpts ::
  "(ce_kind \<Rightarrow> 'e Driver) \<Rightarrow> string \<Rightarrow> (RouterConfig \<Rightarrow> section_order) \<Rightarrow> SiteConfigSpec \<Rightarrow> string
    \<Rightarrow> ('e world, RouterSpec) io" where
  "GetRouterSpecFromOpts D goos ord options siteId =
     io_bind (if ss_SkupperName options = [] then machine_name D else io_return (ss_SkupperName options))
       (\<lambda>name w. (w, Inr
         (let r = site_router options name siteId in
          \<lparr>rs_Name = name, rs_AuthMode = ss_AuthMode options,
           rs_Transport = transport_spec (env w) (skupper_path w) options siteId,
           rs_Controller = controller_spec goos w options siteId,
           rs_RouterConfig = MarshalRouterConfig (ord r) r, rs_Users = [],
           rs_CertAuthoritys = site_authorities options, rs_Credentials = site_credentials options\<rparr>)))"

section \<open>Requests to the engine\<close>

definition bind_mounts :: "(string \<times> string) list \<Rightarrow> MountPoint list" where
  "bind_mounts es = map (\<lambda>(source, target). zero_MountPoint\<lparr>mp_Type := TypeBind, mp_Source := source,
     mp_Destination := target\<rparr>) es"

definition health_check :: "string list \<Rightarrow> HealthConfig" where
  "health_check test = \<lparr>hc_Test = test, hc_Interval = 0, hc_Timeout = 0,
     hc_StartPeriod = 60 * 1000000000, hc_Retries = 0\<rparr>"

definition skupper_network :: ContainerNetworkingConfig where
  "skupper_network = \<lparr>cn_EndpointsConfig = fmap_of_list [(TransportNetworkName, zero_NetworkEndpointSetting)]\<rparr>"

text \<open>\<open>es\<close> is the order over the mounts.\<close>

definition getControllerContainerCreateOptions ::
  "(string \<times> string) list \<Rightarrow> RouterSpec \<Rightarrow> ContainerCreateOptions" where
  "getControllerContainerCreateOptions es van = \<lparr>cco_Name = ControllerDeploymentName,
     cco_ContainerConfig = \<lparr>cb_Hostname = ControllerDeploymentName, cb_Image = ds_Image (rs_Controller van),
       cb_Env = ds_EnvVar (rs_Controller van), cb_Cmd = [''/go/src/app/controller''],
       cb_HealthCheck = Some (health_check []), cb_Labels = ds_Labels (rs_Controller van),
       cb_ExposedPorts = ds_Ports (rs_Controller van)\<rparr>,
     cco_HostConfig = \<lparr>chc_NetworkMode = [], chc_PortBindings = fmempty, chc_Mounts = bind_mounts es,
       chc_Privileged = True\<rparr>,
     cco_NetworkingConfig = skupper_network\<rparr>"

definition getTransportContainerCreateOptions ::
  "(string \<times> string) list \<Rightarrow> RouterSpec \<Rightarrow> ContainerCreateOptions" where
  "getTransportContainerCreateOptions es van = \<lparr>cco_Name = TransportDeploymentName,
     cco_ContainerConfig = \<lparr>cb_Hostname = TransportDeploymentName, cb_Image = ds_Image (rs_Transport van),
       cb_Env = ds_EnvVar (rs_Transport van), cb_Cmd = [],
       cb_HealthCheck = Some (health_check [''curl --fail -s http://localhost:9090/healthz || exit 1'']),
       cb_Labels = ds_Labels (rs_Transport van), cb_ExposedPorts = ds_Ports (rs_Transport van)\<rparr>,
     cco_HostConfig = \<lparr>chc_NetworkMode = [], chc_PortBindings = fmempty, chc_Mounts = bind_mounts es,
       chc_Privileged = True\<rparr>,
     cco_NetworkingConfig = skupper_network\<rparr>"

end
