(* ===== verification/Router_Lifecycle.thy ===== *)
theory Router_Lifecycle imports Router_Spec Router_Mgmt Site_Certs begin

text \<open>
  The life of a site: \<open>RouterCreate\<close> (\<open>client/router_create.go\<close>) sets up its directory, its router
  and its controller, \<open>RouterInspect\<close> (\<open>client/router_inspect.go\<close>) reports on them and
  \<open>RouterRemove\<close> (\<open>client/router_remove.go\<close>) takes them away.
\<close>

section \<open>Inputs\<close>

text \<open>\<open>utils.RandomId\<close>, from the bytes that were read at random.\<close>

definition alphanumerics :: string where
  "alphanumerics = ''abcdefghijklmnopqrstuvwxyzABCDEFGHIJKLMNOPQRSTUVWXYZ0123456789''"

definition RandomId :: "8 word list \<Rightarrow> string" where
  "RandomId buffer = map (\<lambda>b. alphanumerics ! (unat b mod length alphanumerics)) buffer"

text \<open>
  What the run takes from outside: the operating system the client was built for, the fresh UID, ten
  random bytes, and the orders of the loops over maps.
\<close>

record create_inputs =
  ci_goos :: string
  ci_uid :: string
  ci_random :: "8 word list"
  ci_sections :: "RouterConfig \<Rightarrow> section_order"
  ci_mounts :: "(string, string) fmap \<Rightarrow> (string \<times> string) list"
  ci_certs :: cert_order

section \<open>Creation\<close>

text \<open>The user and the password of the console, or the complaint about them.\<close>

definition console_options :: "string \<Rightarrow> SiteConfigSpec \<Rightarrow> SiteConfigSpec result" where
  "console_options password options =
     (if ss_EnableConsole options
      then (if ss_AuthMode options = ConsoleAuthModeInternal \<or> ss_AuthMode options = []
            then (let options = options\<lparr>ss_AuthMode := ConsoleAuthModeInternal\<rparr>;
                      options = (if ss_User options = [] then options\<lparr>ss_User := ''admin''\<rparr> else options)
                  in Inr (if ss_Password options = [] then options\<lparr>ss_Password := password\<rparr> else options))
            else if ss_User options \<noteq> []
              then Inl (Err ''--router-console-user only valid when --router-console-auth=internal'')
            else if ss_Password options \<noteq> []
              then Inl (Err ''--router-console-password only valid when --router-console-auth=internal'')
            else Inr options)
      else Inr options)"

definition at_path :: "Path \<Rightarrow> (string \<Rightarrow> ('e world, 'a) io) \<Rightarrow> ('e world, 'a) io" where
  "at_path p f = (\<lambda>w. f (skupper_path w p) w)"

text \<open>The directory of the site, emptied first.\<close>

definition fresh_site :: "string \<Rightarrow> SiteConfigSpec \<Rightarrow> ('e world, SiteConfig) io" where
  "fresh_site uid options =
     io_bind (io_try (at_path HostPath RemoveAll)) (\<lambda>_.
     io_bind (at_path HostPath MkdirAll) (\<lambda>_.
     io_bind (at_path SitesPath Mkdir) (\<lambda>_. SiteConfigCreate uid options)))"

definition no_options :: ContainerListOptions where
  "no_options = \<lparr>clo_Filters = fmempty, clo_All = False\<rparr>"

definition pull_images :: "(ce_kind \<Rightarrow> 'e Driver) \<Rightarrow> RouterSpec \<Rightarrow> ('e world, unit) io" where
  "pull_images D van =
     io_bind (ce D (\<lambda>d. ImagesPull d (ds_Image (rs_Transport van)) no_options)) (\<lambda>_.
     io_bind (ce D (\<lambda>d. ImagesPull d (ds_Image (rs_Controller van)) no_options)) (\<lambda>_. io_return ()))"

definition make_directories :: "create_inputs \<Rightarrow> RouterSpec \<Rightarrow> ('e world, unit) io" where
  "make_directories ci van =
     io_bind (io_each (\<lambda>(mnt, _). Mkdir mnt) (ci_mounts ci (ds_Mounts (rs_Transport van)))) (\<lambda>_.
     io_bind (io_each (\<lambda>v. at_path CertsPath (\<lambda>p. Mkdir (p @ ''/'' @ v))) (ds_Volumes (rs_Transport van))) (\<lambda>_.
       at_path ServicesPath Mkdir))"

definition sasl_config :: string where
  "sasl_config = ''
pwcheck_method: auxprop
auxprop_plugin: sasldb
sasldb_path: /tmp/qdrouterd.sasldb
''"

definition write_site_files :: "SiteConfigSpec \<Rightarrow> RouterSpec \<Rightarrow> ('e world, unit) io" where
  "write_site_files options van =
     io_bind (at_path ServicesPath (\<lambda>p. WriteFile (p @ ''/skupper-services'') (Doc (enc_services (Some fmempty))))) (\<lambda>_.
     io_bind (at_path ConfigPath (\<lambda>p. WriteFile (p @ ''/qdrouterd.json'') (Doc (rs_RouterConfig van)))) (\<lambda>_.
       if ss_EnableConsole options \<and> ss_AuthMode options = ConsoleAuthModeInternal
       then io_bind (at_path SaslConfigPath (\<lambda>p. WriteFile (p @ ''/qdrouterd.conf'') (Text sasl_config))) (\<lambda>_.
              at_path ConsoleUsersPath (\<lambda>p. WriteFile (p @ ''/'' @ ss_User options) (Text (ss_Password options))))
       else io_return ()))"

text \<open>The results of the certificates are not looked at.\<close>

definition issue_certificates :: "CertsLib \<Rightarrow> cert_order \<Rightarrow> RouterSpec \<Rightarrow> ('e world, unit) io" where
  "issue_certificates lib rng van =
     io_bind (io_each (\<lambda>ca. io_bind (io_try (ensureCA lib rng (ca_Name ca))) (\<lambda>_. io_return ())) (rs_CertAuthoritys van)) (\<lambda>_.
       io_each (\<lambda>cred. io_bind (io_try (generateCredentials lib rng (cr_CA cred) (cr_Name cred) (cr_Subject cred)
         (cr_Hosts cred) (cr_ConnectJson cred))) (\<lambda>_. io_return ())) (rs_Credentials van))"

definition start_containers ::
  "(ce_kind \<Rightarrow> 'e Driver) \<Rightarrow> CertsLib \<Rightarrow> create_inputs \<Rightarrow> RouterSpec \<Rightarrow> ('e world, unit) io" where
  "start_containers D lib ci van =
     io_bind (ce D (\<lambda>d. NetworkCreate d TransportNetworkName
       \<lparr>nco_CheckDuplicate = False, nco_Driver = [], nco_Options = fmempty, nco_Labels = fmempty\<rparr>)) (\<lambda>_.
     io_bind (ce D (\<lambda>d. ContainerCreate d
       (getTransportContainerCreateOptions (ci_mounts ci (ds_Mounts (rs_Transport van))) van))) (\<lambda>transportResp.
     io_bind (issue_certificates lib (ci_certs ci) van) (\<lambda>_.
     io_bind (io_wrap ''Could not start transport container''
       (ce D (\<lambda>d. ContainerStart d (ccr_ID transportResp)))) (\<lambda>_.
     io_bind (ce D (\<lambda>d. ContainerCreate d
       (getControllerContainerCreateOptions (ci_mounts ci (ds_Mounts (rs_Controller van))) van))) (\<lambda>controllerResp.
       io_wrap ''Could not start controller container''
         (ce D (\<lambda>d. ContainerStart d (ccr_ID controllerResp))))))))"

text \<open>A failure of \<open>Init\<close> is printed and the creation goes on.\<close>

definition RouterCreate ::
  "(ce_kind \<Rightarrow> 'e Driver) \<Rightarrow> CertsLib \<Rightarrow> create_inputs \<Rightarrow> SiteConfigSpec \<Rightarrow> ('e world, unit) io" where
  "RouterCreate D lib ci options =
     io_bind (io_try (Init D (ss_ContainerEngineDriver options))) (\<lambda>_.
     io_bind (io_lift (console_options (RandomId (ci_random ci)) options)) (\<lambda>options.
     io_bind (fresh_site (ci_uid ci) options) (\<lambda>sc.
     io_bind (GetRouterSpecFromOpts D (ci_goos ci) (ci_sections ci) options (sc_UID sc)) (\<lambda>van.
     io_bind (pull_images D van) (\<lambda>_.
     io_bind (make_directories ci van) (\<lambda>_.
     io_bind (write_site_files options van) (\<lambda>_.
       start_containers D lib ci van)))))))"

section \<open>Removal\<close>

text \<open>
  The errors are collected, \<open>Inl\<close> is a panic. \<open>collect\<close> runs a call and gives its error, wrapped, or
  what the rest gives.
\<close>

definition collect :: "string \<Rightarrow> ('w, 'a) io \<Rightarrow> ('w, error list) io \<Rightarrow> ('w, error list) io" where
  "collect msg m k = io_bind (io_try m) (\<lambda>r. case r of
       Inl err \<Rightarrow> io_return [wrap_error msg err] | Inr _ \<Rightarrow> k)"

definition both :: "('w, error list) io \<Rightarrow> ('w, error list) io \<Rightarrow> ('w, error list) io" where
  "both m k = io_bind m (\<lambda>xs. io_bind k (\<lambda>ys. io_return (xs @ ys)))"

definition stop_and_remove ::
  "(ce_kind \<Rightarrow> 'e Driver) \<Rightarrow> string \<Rightarrow> string \<Rightarrow> string \<Rightarrow> ('e world, error list) io" where
  "stop_and_remove D stopMsg removeMsg name =
     collect stopMsg (ce D (\<lambda>d. ContainerStop d name))
       (collect removeMsg (ce D (\<lambda>d. ContainerRemove d name)) (io_return []))"

text \<open>A container that is looked up first: where the engine does not show it nothing is done.\<close>

definition if_there ::
  "(ce_kind \<Rightarrow> 'e Driver) \<Rightarrow> ('e Driver \<Rightarrow> 'e \<Rightarrow> 'a result) \<Rightarrow> ('e world, error list) io \<Rightarrow> ('e world, error list) io" where
  "if_there D look k = io_bind (io_try (ce D (\<lambda>d. io_ask (look d)))) (\<lambda>r. case r of
       Inl _ \<Rightarrow> io_return [] | Inr _ \<Rightarrow> k)"

definition component_filter :: ContainerListOptions where
  "component_filter = \<lparr>clo_Filters = fmap_of_list [(''label'', [''skupper.io/component''])], clo_All = True\<rparr>"

fun remove_proxies :: "(ce_kind \<Rightarrow> 'e Driver) \<Rightarrow> ContainerSummary list \<Rightarrow> ('e world, error list) io" where
  "remove_proxies D [] = io_return []"
| "remove_proxies D (container # containers) =
     both (if fmlookup (csu_Labels container) ''skupper.io/component'' = Some ''proxy''
           then stop_and_remove D ''Failed to stop proxy container'' ''Failed to remove proxy container'' (csu_ID container)
           else io_return [])
       (remove_proxies D containers)"

definition remove_controller :: "(ce_kind \<Rightarrow> 'e Driver) \<Rightarrow> ('e world, error list) io" where
  "remove_controller D = if_there D (\<lambda>d. ContainerInspect d ControllerDeploymentName)
     (stop_and_remove D ''Could not stop controller container'' ''Could not remove controller container''
        ControllerDeploymentName)"

definition remove_all_proxies :: "(ce_kind \<Rightarrow> 'e Driver) \<Rightarrow> ('e world, error list) io" where
  "remove_all_proxies D = io_bind (io_try (ce D (\<lambda>d. io_ask (ContainerList d component_filter)))) (\<lambda>r. case r of
       Inl err \<Rightarrow> io_return [wrap_error ''Failed to list proxy containers'' err]
     | Inr containers \<Rightarrow> remove_proxies D containers)"

definition remove_transport :: "(ce_kind \<Rightarrow> 'e Driver) \<Rightarrow> ('e world, error list) io" where
  "remove_transport D = if_there D (\<lambda>d. ContainerInspect d TransportDeploymentName)
     (stop_and_remove D ''Could not stop transport container'' ''Could not remove controller container''
        TransportDeploymentName)"

definition remove_network :: "(ce_kind \<Rightarrow> 'e Driver) \<Rightarrow> ('e world, error list) io" where
  "remove_network D = if_there D (\<lambda>d. NetworkInspect d ''skupper-network'')
     (collect ''Could not remove skupper network'' (ce D (\<lambda>d. NetworkRemove d ''skupper-network'')) (io_return []))"

definition remove_files :: "('e world, error list) io" where
  "remove_files = collect ''Failed to remove skupper files and directory'' (at_path HostPath RemoveAll) (io_return [])"

definition RouterRemove :: "(ce_kind \<Rightarrow> 'e Driver) \<Rightarrow> ('e world, error list) io" where
  "RouterRemove D = io_bind (io_try (site_client D)) (\<lambda>r. case r of
       Inl err \<Rightarrow> io_return [err]
     | Inr _ \<Rightarrow> both (remove_controller D) (both (remove_all_proxies D)
         (both (remove_transport D) (both (remove_network D) remove_files))))"

section \<open>Inspection\<close>

text \<open>The query of the sites is repeated up to five times, half a second apart.\<close>

fun retry :: "nat \<Rightarrow> ('w, 'a) io \<Rightarrow> ('w, 'a) io" where
  "retry 0 m = m"
| "retry (Suc n) m = io_bind (io_try m) (\<lambda>r. case r of Inl _ \<Rightarrow> retry n m | Inr x \<Rightarrow> io_return x)"

definition inspect_version ::
  "(ce_kind \<Rightarrow> 'e Driver) \<Rightarrow> string \<Rightarrow> ('e world, ContainerInspect \<times> string) io" where
  "inspect_version D name =
     io_bind (ce D (\<lambda>d. io_ask (ContainerInspect d name))) (\<lambda>c.
     io_bind (ce D (\<lambda>d. io_ask (ImageVersion d (cc_Image (cin_Config c))))) (\<lambda>v. io_return (c, v)))"

definition RouterInspect ::
  "(ce_kind \<Rightarrow> 'e Driver) \<Rightarrow> (service_defs \<Rightarrow> (string \<times> ServiceInterface) list)
    \<Rightarrow> ('e world, RouterInspectResponse) io" where
  "RouterInspect D rng =
     io_bind (site_client D) (\<lambda>_.
     io_bind (inspect_version D TransportDeploymentName) (\<lambda>(transport, transportVersion).
     case cin_State transport of None \<Rightarrow> io_fail nil_pointer | Some state \<Rightarrow>
     io_bind (inspect_version D ControllerDeploymentName) (\<lambda>(_, controllerVersion).
     io_bind (io_wrap ''Failed to retrieve router config''
       (at_path ConfigPath (\<lambda>p. GetRouterConfigFromFile (p @ ''/qdrouterd.json'')))) (\<lambda>routerConfig.
     case routerConfig of None \<Rightarrow> io_fail nil_pointer | Some routerConfig \<Rightarrow>
     io_bind (retry 5 (ce D GetConnectedSites)) (\<lambda>connected.
     io_bind (ServiceInterfaceList D rng) (\<lambda>vsis.
       io_return \<lparr>ri_Status = \<lparr>st_Mode = rm_Mode (Metadata routerConfig), st_State = cst_Status state,
           st_ConnectedSites = connected, st_BindingsCount = 0\<rparr>,
         ri_TransportVersion = transportVersion, ri_ControllerVersion = controllerVersion,
         ri_ExposedServices = of_nat (length vsis)\<rparr>))))))"

end
