(* ===== verification/Cli.thy ===== *)
theory Cli imports Router_Lifecycle Connectors begin

text \<open>
  The command line, \<open>cmd/skupper-exp/main.go\<close>: the checks of the arguments and the commands. A
  command gives what it prints and the error it ends with; \<open>Inl\<close> is a panic. The parsing of flags and
  the checks \<open>NoArgs\<close> and \<open>ExactArgs\<close> are the package cobra's; the values of the flags are arguments.
\<close>

section \<open>Checks of the arguments\<close>

definition requiredArg :: "string \<Rightarrow> string list \<Rightarrow> unit result" where
  "requiredArg name args =
     (case args of [] \<Rightarrow> Inl (Err (name @ '' must be specified''))
      | [_] \<Rightarrow> Inr ()
      | _ # a # _ \<Rightarrow> Inl (Err (''illegal argument: '' @ a)))"

text \<open>\<open>args[i]\<close>, which panics out of range.\<close>

definition arg :: "string list \<Rightarrow> nat \<Rightarrow> string result" where
  "arg args i = (if i < length args then Inr (args ! i) else Inl (Panic ''index out of range''))"

definition parseTargetTypeAndName :: "string list \<Rightarrow> (string \<times> string) result" where
  "parseTargetTypeAndName args = rbind (arg args 0) (\<lambda>targetType.
     if length args = 2 then rbind (arg args 1) (\<lambda>targetName. Inr (targetType, targetName))
     else if Contains targetType ''container'' then
       (let parts = Split targetType slash in
        rbind (arg parts 0) (\<lambda>targetType. rbind (arg parts 1) (\<lambda>targetName. Inr (targetType, targetName))))
     else Inr (targetType, []))"

definition stringSliceContains :: "string list \<Rightarrow> string \<Rightarrow> bool" where
  "stringSliceContains s e = list_ex (\<lambda>a. a = e) s"

definition validExposeTargets :: "string list" where
  "validExposeTargets = [''container'', ''host-service'']"

definition verifyTargetTypeFromArgs :: "string list \<Rightarrow> unit result" where
  "verifyTargetTypeFromArgs args = rbind (parseTargetTypeAndName args) (\<lambda>(targetType, _).
     if \<not> stringSliceContains validExposeTargets targetType
     then Inl (Err (''target type must be one of: ['' @ join_with '', '' validExposeTargets @ '']''))
     else Inr ())"

definition exposeTargetArgs :: "string list \<Rightarrow> unit result" where
  "exposeTargetArgs args =
     (if length args < 1 then Inl (Err (''expose type must be specified (e.g. '' @ quoted ''skupper-docker expose container''
          @ '' or '' @ quoted ''skupper-docker expose host-service'' @ '')''))
      else if \<not> Contains (args ! 0) ''/'' \<and> length args < 2
        then Inl (Err (''expose target and name must be specified (e.g. '' @ quoted ''skupper expose container <name>''))
      else if length args > 2 then Inl (Err (''illegal argument: '' @ args ! 1))
      else if length args > 1 \<and> Contains (args ! 0) ''/'' then Inl (Err (''extra argument: '' @ args ! 1))
      else verifyTargetTypeFromArgs args)"

definition createServiceArgs :: "string list \<Rightarrow> unit result" where
  "createServiceArgs args =
     (if length args < 1 \<or> \<not> Contains (args ! 0) '':'' \<and> length args < 2
        then Inl (Err ''Name and port must be specified'')
      else if length args > 2 then Inl (Err (''illegal argument: '' @ args ! 2))
      else if length args > 1 \<and> Contains (args ! 0) '':'' then Inl (Err (''extra argument: '' @ args ! 1))
      else Inr ())"

definition bindArgs :: "string list \<Rightarrow> unit result" where
  "bindArgs args =
     (if length args < 2 \<or> \<not> Contains (args ! 1) ''/'' \<and> length args < 3
        then Inl (Err (''Service name, target type and target name must all be specified (e.g. ''
          @ quoted ''skupper bind <service-name> <target-type> <target-name>'' @ '')''))
      else if length args > 3 then Inl (Err (''illegal argument: '' @ args ! 3))
      else if length args > 2 \<and> Contains (args ! 1) ''/'' then Inl (Err (''extra argument: '' @ args ! 2))
      else verifyTargetTypeFromArgs (drop 1 args))"

section \<open>Commands\<close>

type_synonym ('e) command = "('e world, string \<times> error option) io"

definition line :: "string \<Rightarrow> string" where
  "line s = s @ [CHR 0x0A]"

definition prints :: "string \<Rightarrow> 'e command" where
  "prints text = io_return (text, None)"

definition failed :: "error \<Rightarrow> 'e command" where
  "failed err = io_return ([], Some err)"

text \<open>A call, what the command prints of its value, and how it reports its error.\<close>

definition on_value :: "(error \<Rightarrow> error) \<Rightarrow> ('e world, 'a) io \<Rightarrow> ('a \<Rightarrow> 'e command) \<Rightarrow> 'e command" where
  "on_value report m f = io_bind (io_try m) (\<lambda>r. case r of
       Inl err \<Rightarrow> failed (report err) | Inr x \<Rightarrow> f x)"

definition init_command ::
  "(ce_kind \<Rightarrow> 'e Driver) \<Rightarrow> CertsLib \<Rightarrow> create_inputs \<Rightarrow> SiteConfigSpec \<Rightarrow> 'e command" where
  "init_command D lib ci routerCreateOpts = on_value id (RouterCreate D lib ci routerCreateOpts) (\<lambda>_.
     prints (line (''Skupper is now installed.  Use '' @ quoted ''skupper-docker status'' @ '' to get more information.'')))"

fun error_text :: "error \<Rightarrow> string" where
  "error_text (Err s) = s"
| "error_text (Wrap s e) = s @ '': '' @ error_text e"
| "error_text (Panic s) = s"

definition delete_command :: "(ce_kind \<Rightarrow> 'e Driver) \<Rightarrow> 'e command" where
  "delete_command D = io_bind (RouterRemove D) (\<lambda>errs. case errs of
       [] \<Rightarrow> prints (line ''Skupper resources are now removed'')
     | err # _ \<Rightarrow> io_return (line ''Error(s) encountered removing skupper resources:''
         @ concat (map (\<lambda>e. line (''         '' @ error_text e)) errs), Some err))"

definition connection_token_command ::
  "(ce_kind \<Rightarrow> 'e Driver) \<Rightarrow> CertsLib \<Rightarrow> string \<Rightarrow> string \<Rightarrow> 'e command" where
  "connection_token_command D lib clientIdentity file =
     on_value (wrap_error ''Failed to create connection token'') (ConnectorTokenCreate D lib clientIdentity file)
       (\<lambda>_. prints [])"

definition connect_command ::
  "(ce_kind \<Rightarrow> 'e Driver) \<Rightarrow> CertsLib \<Rightarrow> cert_order \<Rightarrow> (RouterConfig \<Rightarrow> section_order) \<Rightarrow> service_order
    \<Rightarrow> ConnectorCreateOptions \<Rightarrow> string \<Rightarrow> 'e command" where
  "connect_command D lib crng ord rng connectorCreateOpts file =
     on_value (wrap_error ''Unable to retrieve site config'') (SiteConfigInspect DefaultBridgeName) (\<lambda>_.
     on_value (wrap_error ''Failed to create connection'')
       (ConnectorCreate D lib crng ord rng file connectorCreateOpts) (\<lambda>name.
       prints (line (''Skupper connector '' @ name @ '' configured''))))"

definition disconnect_command ::
  "(ce_kind \<Rightarrow> 'e Driver) \<Rightarrow> (RouterConfig \<Rightarrow> section_order) \<Rightarrow> service_order \<Rightarrow> string \<Rightarrow> 'e command" where
  "disconnect_command D ord rng name =
     on_value (wrap_error ''Failed to remove connection'') (ConnectorRemove D ord rng name) (\<lambda>_.
       prints (line (''Connection '' @ quoted name @ '' has been removed'')))"

definition connectors_text :: "types_Connector list \<Rightarrow> string" where
  "connectors_text connectors = (if connectors = [] then line ''There are no connectors defined.''
     else line ''Connectors:'' @ concat (map (\<lambda>c. line (''    '' @ tc_Host c @ '':'' @ tc_Port c @ '' (name='' @ tc_Name c @ '')''))
       connectors))"

definition list_connectors_command :: "(ce_kind \<Rightarrow> 'e Driver) \<Rightarrow> 'e command" where
  "list_connectors_command D = on_value (wrap_error ''Unable to retrieve connections'') (ConnectorList D)
     (\<lambda>connectors. prints (connectors_text connectors))"

subsection \<open>check-connection\<close>

text \<open>One round asks for every connector again; \<open>connected\<close> counts those that are active.\<close>

fun check_round ::
  "(ce_kind \<Rightarrow> 'e Driver) \<Rightarrow> ConnectorInspectResponse list \<Rightarrow> nat
    \<Rightarrow> ('e world, ConnectorInspectResponse list \<times> nat) io" where
  "check_round D [] connected = io_return ([], connected)"
| "check_round D (c # cs) connected =
     io_bind (io_try (ConnectorInspect D (tc_Name (cir_Connector c)))) (\<lambda>r.
     let (c, connected) = (case r of
         Inl _ \<Rightarrow> (c, connected)
       | Inr vci \<Rightarrow> if cir_Connected vci \<and> cir_Connected c = False
           then (c\<lparr>cir_Connected := True\<rparr>, connected + 1) else (c, connected))
     in io_bind (check_round D cs connected) (\<lambda>(cs, connected). io_return (c # cs, connected)))"

fun check_loop ::
  "(ce_kind \<Rightarrow> 'e Driver) \<Rightarrow> nat \<Rightarrow> ConnectorInspectResponse list \<Rightarrow> nat
    \<Rightarrow> ('e world, ConnectorInspectResponse list \<times> nat) io" where
  "check_loop D 0 connectors connected = io_return (connectors, connected)"
| "check_loop D (Suc n) connectors connected =
     (if connected < length connectors
      then io_bind (check_round D connectors connected) (\<lambda>(connectors, connected).
        check_loop D n connectors connected)
      else io_return (connectors, connected))"

definition connectors_to_check ::
  "(ce_kind \<Rightarrow> 'e Driver) \<Rightarrow> string \<Rightarrow> ('e world, ConnectorInspectResponse list \<times> nat) io" where
  "connectors_to_check D name =
     (if name = ''all'' then io_bind (io_try (ConnectorList D)) (\<lambda>r. io_return (case r of
          Inl _ \<Rightarrow> ([], 0)
        | Inr vcis \<Rightarrow> (map (\<lambda>vci. \<lparr>cir_Connector = vci, cir_Connected = False\<rparr>) vcis, 0)))
      else io_bind (io_try (ConnectorInspect D name)) (\<lambda>r. io_return (case r of
          Inl _ \<Rightarrow> ([], 0)
        | Inr vci \<Rightarrow> ([vci], if cir_Connected vci then 1 else 0))))"

definition check_text :: "string \<Rightarrow> ConnectorInspectResponse list \<Rightarrow> string" where
  "check_text name connectors =
     (if connectors = []
      then (if name = ''all'' then line ''There are no connectors configured or active''
            else line (''The connector '' @ name @ '' is not configured or active''))
      else concat (map (\<lambda>c. line (''Connection for '' @ tc_Name (cir_Connector c)
        @ (if cir_Connected c then '' is active'' else '' not active''))) connectors))"

definition check_connection_command :: "(ce_kind \<Rightarrow> 'e Driver) \<Rightarrow> goint \<Rightarrow> string \<Rightarrow> 'e command" where
  "check_connection_command D waitFor name =
     io_bind (connectors_to_check D name) (\<lambda>(connectors, connected).
     io_bind (check_loop D (nat (sint waitFor)) connectors connected) (\<lambda>(connectors, _).
       prints (check_text name connectors)))"

subsection \<open>status and version\<close>

definition num :: "goint \<Rightarrow> string" where
  "num n = Itoa (sint n)"

definition sites_text :: "TransportConnectedSites \<Rightarrow> string" where
  "sites_text s =
     (if cs_Total s = 0 then '' It is not connected to any other sites.''
      else if cs_Total s = 1 then '' It is connected to 1 other site.''
      else if cs_Total s = cs_Direct s then '' It is connected to '' @ num (cs_Total s) @ '' other sites.''
      else '' It is connected to '' @ num (cs_Total s) @ '' other sites ('' @ num (cs_Indirect s) @ '' indirectly).'')"

definition exposed_text :: "goint \<Rightarrow> string" where
  "exposed_text n = (if n = 0 then '' It has no exposed services.''
     else if n = 1 then '' It has 1 exposed service.''
     else '' It has '' @ num n @ '' exposed services.'')"

definition status_text :: "RouterInspectResponse \<Rightarrow> string" where
  "status_text vir = (let st = ri_Status vir in
     ''Skupper is enabled '' @ (if st_Mode st = ''edge'' then '' in edge mode'' else '' in interior mode'') @ [CHR 0x27, CHR ''.'']
     @ (if st_State st \<noteq> ''running'' then '' Status '' @ st_State st @ ''...''
        else concat (map (\<lambda>w. line (''Warning: '' @ w)) (cs_Warnings (st_ConnectedSites st)))
          @ sites_text (st_ConnectedSites st))
     @ line (exposed_text (ri_ExposedServices vir)))"

definition status_command :: "(ce_kind \<Rightarrow> 'e Driver) \<Rightarrow> service_order \<Rightarrow> 'e command" where
  "status_command D rng = on_value (wrap_error ''Unable to retrieve skupper status'') (RouterInspect D rng)
     (\<lambda>vir. prints (status_text vir))"

definition padded :: "string \<Rightarrow> string" where
  "padded s = s @ replicate (30 - length s) (CHR '' '')"

definition version_command :: "string \<Rightarrow> (ce_kind \<Rightarrow> 'e Driver) \<Rightarrow> service_order \<Rightarrow> 'e command" where
  "version_command version D rng =
     (let client = line (padded ''client version'' @ '' '' @ version) in
      io_bind (io_try (RouterInspect D rng)) (\<lambda>r. case r of
          Inl err \<Rightarrow> io_return (client, Some (wrap_error ''Unable to retrieve skupper component versions'' err))
        | Inr vir \<Rightarrow> prints (client @ line (padded ''transport version'' @ '' '' @ ri_TransportVersion vir)
            @ line (padded ''controller version'' @ '' '' @ ri_ControllerVersion vir))))"

subsection \<open>expose and unexpose\<close>

definition expose ::
  "(ce_kind \<Rightarrow> 'e Driver) \<Rightarrow> string \<Rightarrow> string \<Rightarrow> ServiceInterfaceCreateOptions \<Rightarrow> ('e world, unit) io" where
  "expose D targetType targetName options =
     io_bind (ServiceInterfaceInspect D (so_Address options)) (\<lambda>found.
     io_bind (io_lift (case found of
         None \<Rightarrow> Inr (zero_ServiceInterface\<lparr>si_Address := so_Address options, si_Port := so_Port options,
           si_Protocol := so_Protocol options\<rparr>)
       | Some service \<Rightarrow>
           if so_Protocol options \<noteq> [] \<and> si_Protocol service \<noteq> so_Protocol options
           then Inl (Err (''Invalid protocol '' @ so_Protocol options @ '' for service with mapping '' @ si_Protocol service))
           else Inr service)) (\<lambda>service.
       io_wrap ''Unable to create skupper service''
         (ServiceInterfaceBind D (service\<lparr>si_Origin := []\<rparr>) targetType targetName (so_Protocol options)
            (so_TargetPort options))))"

definition expose_command ::
  "(ce_kind \<Rightarrow> 'e Driver) \<Rightarrow> ServiceInterfaceCreateOptions \<Rightarrow> string list \<Rightarrow> 'e command" where
  "expose_command D exposeOpts args =
     io_bind (io_lift (parseTargetTypeAndName args)) (\<lambda>(targetType, targetName).
     if so_Address exposeOpts = [] \<and> targetType = ''host-service''
     then failed (Err (''--address option is required for target type '' @ quoted ''service''))
     else (let opts = (if so_Address exposeOpts = [] then exposeOpts\<lparr>so_Address := targetName\<rparr> else exposeOpts) in
       on_value id (expose D targetType targetName opts) (\<lambda>_.
         prints (line (targetType @ '' '' @ targetName @ '' exposed as '' @ so_Address opts)))))"

definition unexpose_command :: "(ce_kind \<Rightarrow> 'e Driver) \<Rightarrow> string \<Rightarrow> string list \<Rightarrow> 'e command" where
  "unexpose_command D unexposeAddress args =
     io_bind (io_lift (parseTargetTypeAndName args)) (\<lambda>(targetType, targetName).
     if targetType = ''host-service'' \<and> unexposeAddress = []
     then failed (Err ''Unexpose host-service must specify address, use --address option to provide it'')
     else on_value (wrap_error ''Unable to unbind skupper service'')
       (ServiceInterfaceUnbind D targetType targetName unexposeAddress True) (\<lambda>_.
         prints (line (targetType @ '' '' @ targetName @ '' unexposed''))))"

definition service_text :: "ServiceInterface \<Rightarrow> string" where
  "service_text si =
     (let title = ''    '' @ si_Address si @ '' ('' @ si_Protocol si @ '' port '' @ num (si_Port si) @ '')'' in
      if si_Targets si = [] then line title
      else line (title @ '' with targets'')
        @ concat (map (\<lambda>t. line (''      => '' @ t_Selector t @ '' ''
            @ (if t_Name t \<noteq> [] then ''name='' @ t_Name t else []))) (si_Targets si)))"

definition services_text :: "ServiceInterface list \<Rightarrow> string" where
  "services_text vsis =
     (if vsis = [] then line ''No service interfaces defined''
      else line ''Services exposed through Skupper:'' @ concat (map service_text vsis) @ line []
        @ line ''Aliases for services exposed through Skupper:''
        @ concat (map (\<lambda>si. line (''    '' @ si_Alias si @ '' '' @ si_Address si)) vsis) @ line [])"

definition list_exposed_command :: "(ce_kind \<Rightarrow> 'e Driver) \<Rightarrow> service_order \<Rightarrow> 'e command" where
  "list_exposed_command D rng = on_value (wrap_error ''Could not retrieve services'') (ServiceInterfaceList D rng)
     (\<lambda>vsis. prints (services_text vsis))"

subsection \<open>service create, delete, bind and unbind\<close>

definition service_name_port :: "string list \<Rightarrow> (string \<times> string) result" where
  "service_name_port args =
     (if length args = 1
      then rbind (arg args 0) (\<lambda>a. let parts = Split a colon in
        rbind (arg parts 0) (\<lambda>address. rbind (arg parts 1) (\<lambda>sPort. Inr (address, sPort))))
      else rbind (arg args 0) (\<lambda>address. rbind (arg args 1) (\<lambda>sPort. Inr (address, sPort))))"

definition create_service_command :: "(ce_kind \<Rightarrow> 'e Driver) \<Rightarrow> ServiceInterface \<Rightarrow> string list \<Rightarrow> 'e command" where
  "create_service_command D serviceToCreate args =
     io_bind (io_lift (service_name_port args)) (\<lambda>(address, sPort).
     case Atoi sPort of
       None \<Rightarrow> failed (Err (sPort @ '' is not a valid port''))
     | Some servicePort \<Rightarrow> on_value id (ServiceInterfaceCreate D
         (serviceToCreate\<lparr>si_Address := address, si_Port := word_of_int servicePort\<rparr>)) (\<lambda>_. prints []))"

definition delete_service_command :: "(ce_kind \<Rightarrow> 'e Driver) \<Rightarrow> string \<Rightarrow> 'e command" where
  "delete_service_command D name = on_value id (ServiceInterfaceRemove D name) (\<lambda>_. prints [])"

definition bind_command :: "(ce_kind \<Rightarrow> 'e Driver) \<Rightarrow> string \<Rightarrow> goint \<Rightarrow> string list \<Rightarrow> 'e command" where
  "bind_command D protocol targetPort args =
     (if protocol \<notin> {[], ''tcp'', ''http'', ''http2''}
      then failed (Err (protocol @ '' is not a valid protocol. Choose '' @ quoted ''tcp'' @ '', '' @ quoted ''http''
        @ '' or '' @ quoted ''http2'' @ ''.''))
      else io_bind (io_lift (parseTargetTypeAndName (drop 1 args))) (\<lambda>(targetType, targetName).
        io_bind (io_lift (arg args 0)) (\<lambda>name.
        on_value id (ServiceInterfaceInspect D name) (\<lambda>found. case found of
          None \<Rightarrow> failed (Err (''Service '' @ name @ '' not found''))
        | Some service \<Rightarrow> on_value id (ServiceInterfaceBind D service targetType targetName protocol targetPort)
            (\<lambda>_. prints [])))))"

definition unbind_command :: "(ce_kind \<Rightarrow> 'e Driver) \<Rightarrow> string list \<Rightarrow> 'e command" where
  "unbind_command D args =
     io_bind (io_lift (parseTargetTypeAndName (drop 1 args))) (\<lambda>(targetType, targetName).
     io_bind (io_lift (arg args 0)) (\<lambda>name.
       on_value id (ServiceInterfaceUnbind D targetType targetName name False) (\<lambda>_. prints [])))"

section \<open>The program\<close>

text \<open>
  \<open>main\<close> sets \<open>SKUPPER_TMPDIR\<close> where the environment has none; \<open>newClient\<close> runs before each command and
  makes a client without a driver. A command whose arguments are refused does not run.
\<close>

definition tmpdir_default :: "bool \<Rightarrow> 'e world \<Rightarrow> 'e world" where
  "tmpdir_default isset w = (if isset then w else w\<lparr>env := (env w)(''SKUPPER_TMPDIR'' := ''/var/tmp'')\<rparr>)"

definition run_command :: "(string list \<Rightarrow> unit result) \<Rightarrow> (string list \<Rightarrow> 'e command) \<Rightarrow> string list \<Rightarrow> 'e command" where
  "run_command check body args = (case check args of
       Inl (Panic s) \<Rightarrow> io_fail (Panic s)
     | Inl err \<Rightarrow> failed err
     | Inr _ \<Rightarrow> (\<lambda>w. body args (w\<lparr>CeDriver := None\<rparr>)))"

end
