(* ===== verification/Demo_Engine.thy ===== *)
theory Demo_Engine imports Client_Base begin

text \<open>
  A small container engine and a small site for the witnesses: the engine keeps the containers by
  name, creates them as asked and never fails to reach one it has. No property rests on it.
\<close>

section \<open>The engine\<close>

type_synonym demo = "(string, ContainerInspect) fmap"

definition no_such_container :: "string \<Rightarrow> error" where
  "no_such_container name = Err (''no such container: '' @ name)"

definition demo_inspect :: "string \<Rightarrow> demo \<Rightarrow> ContainerInspect result" where
  "demo_inspect name e = (case fmlookup e name of
     None \<Rightarrow> Inl (no_such_container name) | Some c \<Rightarrow> Inr c)"

definition demo_container :: "ContainerCreateOptions \<Rightarrow> ContainerInspect" where
  "demo_container opts =
     (let cb = cco_ContainerConfig opts in
      \<lparr>cin_ID = cco_Name opts, cin_Created = 0, cin_Path = [], cin_Args = [],
       cin_State = Some \<lparr>cst_Status = ''created'', cst_Running = False, cst_Paused = False\<rparr>,
       cin_Image = cb_Image cb, cin_ImageName = cb_Image cb, cin_Name = cco_Name opts,
       cin_Mounts = chc_Mounts (cco_HostConfig opts),
       cin_Config = \<lparr>cc_Hostname = cb_Hostname cb, cc_ExposedPorts = cb_ExposedPorts cb,
         cc_Env = cb_Env cb, cc_Healthcheck = cb_HealthCheck cb, cc_Image = cb_Image cb,
         cc_Labels = cb_Labels cb\<rparr>,
       cin_NetworkSettings = \<lparr>cnc_Gateway = [], cnc_IPAddress = ''172.17.0.2'', cnc_IPPrefixLen = 16,
         cnc_SecondaryIPAddresses = [], cnc_Networks = cn_EndpointsConfig (cco_NetworkingConfig opts)\<rparr>\<rparr>)"

definition demo_needs :: "string \<Rightarrow> (demo \<Rightarrow> demo) \<Rightarrow> (demo, unit) io" where
  "demo_needs name f = (\<lambda>e. case fmlookup e name of
     None \<Rightarrow> (e, Inl (no_such_container name)) | Some _ \<Rightarrow> (f e, Inr ()))"

definition demo_summary :: "ContainerInspect \<Rightarrow> ContainerSummary" where
  "demo_summary c = \<lparr>csu_ID = cin_ID c, csu_Names = [cin_Name c], csu_Image = cin_Image c,
     csu_ImageID = [], csu_Command = [], csu_Created = 0, csu_Ports = [],
     csu_Labels = cc_Labels (cin_Config c), csu_State = [], csu_Status = [], csu_Mounts = cin_Mounts c\<rparr>"

definition demo_driver :: "demo Driver" where
  "demo_driver = \<lparr>New = io_return (), ImageInspect = (\<lambda>_ _. Inl (Err [])), ImagesList = (\<lambda>_ _. Inr []),
     ImagesPull = (\<lambda>_ _. io_return []), ImageVersion = (\<lambda>image _. Inr image),
     ContainerCreate = (\<lambda>opts e. (fmupd (cco_Name opts) (demo_container opts) e,
        Inr \<lparr>ccr_ID = cco_Name opts, ccr_Warnings = []\<rparr>)),
     ContainerStart = (\<lambda>name. demo_needs name (\<lambda>e. e)),
     ContainerWait = (\<lambda>_ _. io_return ()),
     ContainerList = (\<lambda>_ e. Inr (map (\<lambda>(_, c). demo_summary c) (sorted_list_of_fmap e))),
     ContainerInspect = demo_inspect,
     ContainerRestart = (\<lambda>name. demo_needs name (\<lambda>e. e)),
     ContainerStop = (\<lambda>name. demo_needs name (\<lambda>e. e)),
     ContainerRemove = (\<lambda>name. demo_needs name (fmdrop name)),
     ContainerExec = (\<lambda>_ _. io_return \<lparr>ex_ExitCode = 0, ex_OutBuffer = Doc (JArr []), ex_ErrBuffer = Text []\<rparr>),
     NetworkCreate = (\<lambda>name _. io_return \<lparr>ncr_ID = name, ncr_Warning = []\<rparr>),
     NetworkInspect = (\<lambda>name _. Inr \<lparr>ni_Name = name, ni_NetworkID = name, ni_Containers = fmempty\<rparr>),
     NetworkRemove = (\<lambda>_. io_return ()), NetworkConnect = (\<lambda>_ _ _. io_return ()),
     NetworkDisconnect = (\<lambda>_ _ _. io_return ()),
     Info = (\<lambda>_. Inr \<lparr>in_ID = [], in_Name = ''host'', in_KernelVersion = [], in_OperatingSystem = [],
        in_OSVersion = [], in_OSType = ''linux'', in_Architecture = [], in_ServerVersion = []\<rparr>)\<rparr>"

definition demo_options :: "string \<Rightarrow> ContainerCreateOptions" where
  "demo_options name = \<lparr>cco_Name = name,
     cco_ContainerConfig = \<lparr>cb_Hostname = name, cb_Image = ''image'', cb_Env = fmempty, cb_Cmd = [],
       cb_HealthCheck = None, cb_Labels = fmempty, cb_ExposedPorts = {||}\<rparr>,
     cco_HostConfig = \<lparr>chc_NetworkMode = [], chc_PortBindings = fmempty, chc_Mounts = [],
       chc_Privileged = True\<rparr>,
     cco_NetworkingConfig = \<lparr>cn_EndpointsConfig = fmempty\<rparr>\<rparr>"

definition demo_engine :: demo where
  "demo_engine = fmap_of_list [(TransportDeploymentName, demo_container (demo_options TransportDeploymentName)),
     (ControllerDeploymentName, demo_container (demo_options ControllerDeploymentName)),
     (''pg'', demo_container (demo_options ''pg''))]"

section \<open>The site\<close>

definition demo_site :: SiteConfig where
  "demo_site = \<lparr>sc_Spec = zero_SiteConfigSpec\<lparr>ss_ContainerEngineDriver := ''docker''\<rparr>, sc_UID = ''site-1''\<rparr>"

definition demo_dir :: string where "demo_dir = GetSkupperPath [] HostPath"

definition demo_fs :: fsys where
  "demo_fs = \<lparr>dirs = {|demo_dir, GetSkupperPath [] SitesPath, GetSkupperPath [] ServicesPath,
       GetSkupperPath [] ConfigPath, GetSkupperPath [] ConnectionsPath|},
     files = fmap_of_list
       [(GetSkupperPath [] SitesPath @ ''/skupper0.json'', Doc (enc_SiteConfig demo_site)),
        (GetSkupperPath [] ServicesPath @ ''/skupper-services'', Doc (enc_services (Some fmempty))),
        (GetSkupperPath [] ConfigPath @ ''/qdrouterd.json'',
         Doc (MarshalRouterConfig (sorted_order (InitialConfig ''r'' ''site-1'' False))
            (InitialConfig ''r'' ''site-1'' False)))],
     denied = {||}\<rparr>"

definition demo_world :: "demo world" where
  "demo_world = \<lparr>env = (\<lambda>_. []), fs = demo_fs, ifaces = (\<lambda>_. []), engine = demo_engine,
     CeDriver = Some Docker\<rparr>"

abbreviation demo_D :: "ce_kind \<Rightarrow> demo Driver" where
  "demo_D \<equiv> \<lambda>_. demo_driver"

lemma demo_path: "skupper_path demo_world p = GetSkupperPath [] p"
  by (simp add: skupper_path_def demo_world_def)

lemma demo_services: "services_of demo_world = Inr (Some fmempty)"
proof -
  have "fs_read (services_file demo_world) (fs demo_world) = Inr (Doc (enc_services (Some fmempty)))"
    by (simp add: services_file_def demo_path fs_read_def) 
      (simp add: demo_world_def demo_fs_def GetSkupperPath_child fmlookup_of_list)
  then show ?thesis by (simp add: services_of_def services_codec.dec_enc)
qed

lemma demo_write_services:
  "\<exists>w'. write_services m demo_world = (w', Inr ())"
proof -
  have d: "dirname (services_file demo_world) = GetSkupperPath [] ServicesPath"
    using dirname_append [of "''skupper-services''" "GetSkupperPath [] ServicesPath"]
    by (simp add: services_file_def demo_path slash_def GetSkupperPath_child)
  have n: "services_file demo_world |\<notin>| dirs (fs demo_world)"
    unfolding services_file_def demo_path
    by (simp add: demo_world_def demo_fs_def demo_dir_def GetSkupperPath_child)
  show ?thesis
    using d n
    by (simp add: write_services_def io_simps WriteFile_def on_fs_def fs_write_def)
      (simp add: demo_world_def demo_fs_def)
qed

lemma demo_inspect_router:
  "ContainerInspect demo_driver TransportDeploymentName (engine demo_world)
     = Inr (demo_container (demo_options TransportDeploymentName))"
  by (simp add: demo_driver_def demo_inspect_def demo_world_def demo_engine_def fmlookup_of_list)

lemma demo_SiteConfig: "SiteConfigInspect DefaultBridgeName demo_world = (demo_world, Inr (Some demo_site))"
proof -
  have "fs_read (site_file demo_world DefaultBridgeName) (fs demo_world) = Inr (Doc (enc_SiteConfig demo_site))"
    by (simp add: site_file_def demo_path fs_read_def)
      (simp add: demo_world_def demo_fs_def fmlookup_of_list DefaultBridgeName_def)
  then show ?thesis
    by (simp add: SiteConfigInspect_def io_simps ReadFile_def site_codec.ptr_round_trip enc_SiteConfig_not_null)
qed

lemma site_config_round_trip_witness:
  "\<exists>w' :: demo world. SiteConfigInspect DefaultBridgeName w'
     = (w', Inr (Some \<lparr>sc_Spec = zero_SiteConfigSpec\<lparr>ss_Replicas := - 3\<rparr>, sc_UID = ''u''\<rparr>))"
proof -
  let ?spec = "zero_SiteConfigSpec\<lparr>ss_Replicas := - 3\<rparr>"
  have d: "dirname (site_file demo_world DefaultBridgeName) = GetSkupperPath [] SitesPath"
    using dirname_append [of "''skupper0.json''" "GetSkupperPath [] SitesPath"]
    by (simp add: site_file_def demo_path slash_def GetSkupperPath_child DefaultBridgeName_def)
  have n: "site_file demo_world DefaultBridgeName |\<notin>| dirs (fs demo_world)"
    unfolding site_file_def demo_path
    by (simp add: demo_world_def demo_fs_def demo_dir_def GetSkupperPath_child DefaultBridgeName_def)
  have "\<exists>w' sc. SiteConfigCreate ''u'' ?spec demo_world = (w', Inr sc)"
    using d n
    by (simp add: SiteConfigCreate_def Let_def io_simps WriteFile_def on_fs_def fs_write_def)
      (simp add: demo_world_def demo_fs_def)
  then show ?thesis using site_config_round_trip by blast
qed

end
