(* ===== verification/Service_Laws.thy ===== *)
theory Service_Laws imports Client_Services Demo_Engine begin

text \<open>
  What the operations on service definitions guarantee: an error changes nothing on the host,
  what was created is what is inspected, and binding and unbinding act on one target of one
  service. The proofs rest on the interpretations of \<open>service_edit\<close>.
\<close>

section \<open>A client that is settled\<close>

text \<open>
  After the first lines of an operation the client is connected and the site and the router were
  found; from then on the same lines change nothing and succeed again.
\<close>

definition settled :: "(ce_kind \<Rightarrow> 'e Driver) \<Rightarrow> 'e world \<Rightarrow> bool" where
  "settled D w \<longleftrightarrow> (\<exists>sc c. site_client D w = (w, Inr sc) \<and> (\<forall>msg. require_router D msg w = (w, Inr c)))"

lemma on_engine_ask [simp]: "on_engine (io_ask f) w = (w, f (engine w))"
  by (simp add: on_engine_def)

lemma require_router_same:
  "require_router D msg w = (w, case CeDriver w of None \<Rightarrow> Inl nil_pointer
     | Some k \<Rightarrow> rwrap msg (ContainerInspect (D k) TransportDeploymentName (engine w)))"
  by (simp add: require_router_def io_simps ce_def nil_pointer_def split: option.split)

lemma SiteConfigInspect_cong:
  assumes "fs_read (site_file w name) (fs w') = fs_read (site_file w name) (fs w)" "env w' = env w"
  shows "snd (SiteConfigInspect name w') = snd (SiteConfigInspect name w)"
proof -
  have "site_file w' name = site_file w name"
    using assms(2) by (simp add: site_file_def skupper_path_def)
  then show ?thesis using assms(1)
    by (simp add: SiteConfigInspect_def io_simps ReadFile_def split: sum.split)
qed

lemma SiteConfigInspect_same: "fst (SiteConfigInspect name w) = w"
  by (simp add: SiteConfigInspect_def io_simps ReadFile_def split: sum.split)

lemma Init_connects: "Init D ced w = (w', Inr u) \<Longrightarrow> CeDriver w' \<noteq> None"
  by (auto simp: Init_def connect_driver_def set_driver_def io_simps on_engine_def
      split: if_splits prod.splits sum.splits)

lemma Init_connected: "CeDriver w \<noteq> None \<Longrightarrow> Init D ced w = (w, Inr ())"
  by (simp add: Init_def)

lemma site_client_Inr:
  assumes "site_client D w = (w1, Inr sc)"
  shows "SiteConfigInspect DefaultBridgeName w = (w, Inr (Some sc))" "CeDriver w1 \<noteq> None" "host_of w1 = host_of w"
proof -
  from assms obtain w0 p where p: "SiteConfigInspect DefaultBridgeName w = (w0, Inr p)"
    "(case p of None \<Rightarrow> io_fail nil_pointer
       | Some sc \<Rightarrow> io_bind (io_wrap ''Failed to intialize client''
           (Init D (ss_ContainerEngineDriver (sc_Spec sc)))) (\<lambda>_. io_return sc)) w0 = (w1, Inr sc)"
    unfolding site_client_def by (auto elim!: io_bind_InrE simp: io_wrap_Inr)
  then have "w0 = w" using SiteConfigInspect_same [of DefaultBridgeName w] by simp
  with p show "SiteConfigInspect DefaultBridgeName w = (w, Inr (Some sc))" "CeDriver w1 \<noteq> None"
    by (auto split: option.splits elim!: io_bind_InrE simp: io_wrap_Inr dest: Init_connects)
  show "host_of w1 = host_of w" using untouchedD [OF untouched_site_client assms] .
qed

lemma site_client_ready:
  assumes "SiteConfigInspect DefaultBridgeName w = (w, Inr (Some sc))" "CeDriver w \<noteq> None"
  shows "site_client D w = (w, Inr sc)"
  using assms by (simp add: site_client_def io_simps Init_connected)

text \<open>The first lines leave a settled client, and a settled client stays one when another file changes.\<close>

lemma settled_prologue:
  assumes "site_client D w = (w1, Inr sc)" "require_router D msg w1 = (w2, Inr c)"
  shows "w2 = w1" "settled D w1"
proof -
  note s = site_client_Inr [OF assms(1)]
  show "w2 = w1" using assms(2) by (simp add: require_router_same)
  have "snd (SiteConfigInspect DefaultBridgeName w1) = Inr (Some sc)"
    using SiteConfigInspect_cong [of w DefaultBridgeName w1] s host_of_fs [OF s(3)] by simp
  then have "SiteConfigInspect DefaultBridgeName w1 = (w1, Inr (Some sc))"
    using SiteConfigInspect_same [of DefaultBridgeName w1] by (metis prod.collapse)
  from site_client_ready [OF this s(2)] assms(2) show "settled D w1"
    by (auto simp: settled_def require_router_same split: option.splits)
qed

lemma settled_transfer:
  assumes "settled D w" "env w' = env w" "CeDriver w' = CeDriver w" "engine w' = engine w"
    "fs_read (site_file w DefaultBridgeName) (fs w') = fs_read (site_file w DefaultBridgeName) (fs w)"
  shows "settled D w'"
proof -
  from assms(1) obtain sc c where sc: "site_client D w = (w, Inr sc)"
    and c: "\<And>msg. require_router D msg w = (w, Inr c)" by (auto simp: settled_def)
  note s = site_client_Inr [OF sc]
  have "snd (SiteConfigInspect DefaultBridgeName w') = Inr (Some sc)"
    using SiteConfigInspect_cong [OF assms(5,2)] s by simp
  then have "SiteConfigInspect DefaultBridgeName w' = (w', Inr (Some sc))"
    using SiteConfigInspect_same [of DefaultBridgeName w'] by (metis prod.collapse)
  from site_client_ready [OF this] s(2) assms(3) have "site_client D w' = (w', Inr sc)" by simp
  moreover have "require_router D msg w' = (w', Inr c)" for msg
    using c [of msg] assms(3,4) by (auto simp: require_router_same split: option.splits)
  ultimately show ?thesis by (auto simp: settled_def)
qed

lemma site_file_not_services: "site_file w DefaultBridgeName \<noteq> services_file w"
  by (simp add: site_file_def services_file_def skupper_path_def GetSkupperPath_child DefaultBridgeName_def)

lemma settled_write_services:
  assumes "write_services m w = (w', Inr u)" "settled D w"
  shows "settled D w'"
  using settled_transfer [OF assms(2)] write_services_Inr [OF assms(1)]
    write_services_frame [OF assms(1) site_file_not_services] by blast

lemma settled_edit_services:
  "edit_services f w = (w', Inr u) \<Longrightarrow> settled D w \<Longrightarrow> settled D w'"
  by (erule edit_services_Inr) (rule settled_write_services)

lemma prologue_Inr:
  assumes "io_bind (site_client D) (\<lambda>_. io_bind (require_router D msg) (\<lambda>_. x)) w = (w', Inr y)"
  obtains w1 where "settled D w1" "host_of w1 = host_of w" "x w1 = (w', Inr y)"
  using assms
proof (elim io_bind_InrE)
  fix w1 sc w2 c
  assume 1: "site_client D w = (w1, Inr sc)" "require_router D msg w1 = (w2, Inr c)" "x w2 = (w', Inr y)"
  note s = settled_prologue [OF 1(1,2)]
  show thesis
    by (rule that [of w1]) (use 1 s site_client_Inr(3) [OF 1(1)] in simp_all)
qed

lemma prologue_settled:
  assumes "settled D w"
  shows "io_bind (site_client D) (\<lambda>_. io_bind (require_router D msg) (\<lambda>_. x)) w = x w"
  using assms by (auto simp: settled_def io_bind_def)

lemma settled_create: "ServiceInterfaceCreate D s w = (w', Inr u) \<Longrightarrow> settled D w'"
  unfolding ServiceInterfaceCreate_def updateServiceInterface_def
  by (elim prologue_Inr io_bind_InrE) (auto dest: settled_edit_services)

lemma settled_remove: "ServiceInterfaceRemove D a w = (w', Inr u) \<Longrightarrow> settled D w'"
  unfolding ServiceInterfaceRemove_def
  by (elim prologue_Inr) (auto dest: settled_edit_services)

lemma inspect_settled:
  assumes "settled D w" "services_of w = Inr m"
  shows "ServiceInterfaceInspect D a w = (w, Inr (fmlookup (go_map m) a))"
proof -
  have "\<exists>c. fs_read (services_file w) (fs w) = Inr c \<and> Unmarshal dec_services c = Inr m"
    using assms(2) by (simp add: services_of_def)
  then show ?thesis
    unfolding ServiceInterfaceInspect_def prologue_settled [OF assms(1)]
    by (auto simp: io_simps ReadFile_def)
qed

section \<open>Errors\<close>

definition service_operations ::
  "(ce_kind \<Rightarrow> 'e Driver) \<Rightarrow> ServiceInterface \<Rightarrow> string \<Rightarrow> string \<Rightarrow> string \<Rightarrow> goint \<Rightarrow> string \<Rightarrow> bool
    \<Rightarrow> ('e world, unit) io list" where
  "service_operations D s tt tn p port address del =
     [ServiceInterfaceCreate D s, ServiceInterfaceUpdate D s, ServiceInterfaceBind D s tt tn p port,
      ServiceInterfaceUnbind D tt tn address del, ServiceInterfaceRemove D address]"


section \<open>Creating, updating and removing\<close>

text \<open>The definition as it is stored: a service that a client defines belongs to this site.\<close>

definition own :: "ServiceInterface \<Rightarrow> ServiceInterface" where
  "own s = s\<lparr>si_Origin := []\<rparr>"

lemma create_services:
  assumes "ServiceInterfaceCreate D s w = (w', Inr u)"
  obtains m where "services_of w = Inr m" "valid_service s"
    "services_of w' = Inr (if fmlookup (go_map m) (si_Address s) = None
       then Some (fmupd (si_Address s) (own s) (go_map m)) else m)"
proof -
  obtain m m' where "services_of w = Inr m" "create_edit s w m = Inr m'" "services_of w' = Inr m'"
    using svc_create.success [OF assms] .
  then show thesis
    by (intro that [of m])
      (auto simp: create_edit_def update_edit_def validate_valid own_def split: option.splits if_splits)
qed

text \<open>
  A service that was created is what the next inspection returns, as a service of this
  site; creating a service under an address that is taken succeeds and leaves the old definition.
\<close>

theorem create_then_inspect:
  assumes "ServiceInterfaceCreate D s w = (w', Inr ())"
  shows "\<exists>m. services_of w = Inr m \<and> valid_service s
    \<and> (\<forall>a. ServiceInterfaceInspect D a w' = (w', Inr
        (if a = si_Address s \<and> fmlookup (go_map m) a = None then Some (own s)
         else fmlookup (go_map m) a)))"
  using assms
proof (rule create_services)
  fix m
  assume m: "services_of w = Inr m" "valid_service s"
    "services_of w' = Inr (if fmlookup (go_map m) (si_Address s) = None
       then Some (fmupd (si_Address s) (own s) (go_map m)) else m)"
  then show ?thesis
    using inspect_settled [OF settled_create [OF assms] m(3)] by (intro exI [of _ m]) auto
qed

text \<open>
  Updating stores the definition under its address, replacing what was there, and
  keeps the others. It does so also where no service has the address: the error \<open>Service not
  found\<close> is never reported.
\<close>

theorem update_stores:
  assumes "ServiceInterfaceUpdate D s w = (w', Inr ())"
  shows "\<exists>m. services_of w = Inr (Some m) \<and> valid_service s
    \<and> services_of w' = Inr (Some (fmupd (si_Address s) (own s) m))"
proof -
  obtain m m' where "services_of w = Inr m" "replace_edit s w m = Inr m'" "services_of w' = Inr m'"
    using svc_update.success [OF assms] .
  then show ?thesis
    by (auto simp: replace_edit_def update_edit_def validate_valid own_def split: option.splits)
qed

text \<open>
  A service that was removed is gone for the next inspection and the others are as
  they were; only a service that is defined can be removed.
\<close>

theorem remove_then_inspect:
  assumes "ServiceInterfaceRemove D address w = (w', Inr ())"
  shows "\<exists>m. services_of w = Inr (Some m) \<and> address |\<in>| fmdom m
    \<and> (\<forall>a. ServiceInterfaceInspect D a w' = (w', Inr (if a = address then None else fmlookup m a)))"
proof -
  obtain m m' where m: "services_of w = Inr m" "remove_edit address m = Inr m'" "services_of w' = Inr m'"
    using svc_remove.success [OF assms] .
  then obtain m1 where "m = Some m1" "m' = Some (fmdrop address m1)" "fmlookup m1 address \<noteq> None"
    by (cases m) (auto simp: remove_edit_def split: if_splits)
  with m show ?thesis
    using inspect_settled [OF settled_remove [OF assms] m(3)]
    by (intro exI [of _ m1]) (auto simp: fmdom_lookup)
qed

section \<open>Binding and unbinding\<close>

lemma replace_target_eq:
  "replace_target t ts b = (b \<or> (\<exists>x \<in> set ts. t_Name x = t_Name t),
     map (\<lambda>x. if t_Name x = t_Name t then t else x) ts)"
  by (induction ts arbitrary: b) auto

lemma addTarget_targets:
  "si_Targets (addTargetToServiceInterface s t) =
     (if \<exists>x \<in> set (si_Targets s). t_Name x = t_Name t
      then map (\<lambda>x. if t_Name x = t_Name t then t else x) (si_Targets s) else si_Targets s @ [t])"
  by (auto simp: addTargetToServiceInterface_def replace_target_eq intro: map_idI)

lemma addTarget_other:
  "si_Address (addTargetToServiceInterface s t) = si_Address s"
  "si_Port (addTargetToServiceInterface s t) = si_Port s"
  "si_Protocol (addTargetToServiceInterface s t) = si_Protocol s"
  by (simp_all add: addTargetToServiceInterface_def split: prod.split)

text \<open>A target that an unbinding takes away.\<close>

definition hit :: "string \<Rightarrow> string \<Rightarrow> string \<Rightarrow> ServiceInterfaceTarget \<Rightarrow> bool" where
  "hit serviceName targetName hostName t \<longleftrightarrow>
     t_Name t = (if t_Selector t = host_selector then hostName else targetName)
     \<or> (t_Name t = [] \<and> targetName = serviceName)"

lemma remove_targets_eq:
  "remove_targets sn tn hn ts b = (b \<or> (\<exists>t \<in> set ts. hit sn tn hn t), filter (\<lambda>t. \<not> hit sn tn hn t) ts)"
  by (induction ts arbitrary: b) (auto simp: hit_def)

lemma bind_ports_Inr:
  assumes "bind_ports s t protocol port = Inr (s', t')" "t_TargetPort t = 0"
  shows "si_Port s' \<noteq> 0 \<and> si_Targets s' = si_Targets s \<and> si_Address s' = si_Address s
    \<and> si_Protocol s' = si_Protocol s \<and> t_Name t' = t_Name t \<and> t_Selector t' = t_Selector t
    \<and> t_TargetPort t' = (if si_Port s = 0 then 0 else port)"
  using assms by (auto simp: bind_ports_def split: if_splits)

text \<open>
  A binding that succeeds stores the service under its address, as a service of this
  site and with a port. Its target takes the place of the targets of the same name or comes last;
  it carries the port of the binding unless that became the port of the service.
\<close>

theorem bind_stores:
  assumes "ServiceInterfaceBind D s targetType targetName protocol port w = (w', Inr ())"
  shows "\<exists>m s' t. services_of w = Inr (Some m) \<and> services_of w' = Inr (Some (fmupd (si_Address s) s' m))
    \<and> valid_service s \<and> si_Origin s' = [] \<and> si_Port s' \<noteq> 0 \<and> (protocol = [] \<or> si_Protocol s' = protocol)
    \<and> t_Name t = (if targetType = ''container'' then targetName else host_target_name w targetName)
    \<and> t_TargetPort t = (if si_Port s = 0 then 0 else port)
    \<and> si_Targets s' = (if \<exists>x \<in> set (si_Targets s). t_Name x = t_Name t
        then map (\<lambda>x. if t_Name x = t_Name t then t else x) (si_Targets s) else si_Targets s @ [t])"
proof -
  let ?t = "bind_target targetType targetName w"
  obtain m m' where m: "services_of w = Inr m" "bind_edit s targetType targetName protocol port w m = Inr m'"
    "services_of w' = Inr m'"
    using svc_bind.success [OF assms] .
  then obtain s1 t where 1: "bind_ports s ?t protocol port = Inr (s1, t)" "bind_guard s targetType protocol"
    "update_edit (addTargetToServiceInterface s1 t) True m = Inr m'" "valid_service s"
    by (auto simp: bind_edit_def validate_valid split: if_splits)
  then obtain m1 where "m = Some m1"
    "m' = Some (fmupd (si_Address s1) (own (addTargetToServiceInterface s1 t)) m1)"
    by (cases m) (auto simp: update_edit_def addTarget_other own_def)
  moreover have "t_TargetPort ?t = 0" by (simp add: bind_target_def)
  note bind_ports_Inr [OF 1(1) this]
  ultimately show ?thesis
    using m 1(2,4)
    by (intro exI [of _ m1] exI [of _ "own (addTargetToServiceInterface s1 t)"] exI [of _ t])
      (auto simp: own_def addTarget_other addTarget_targets bind_target_def bind_guard_def)
qed

text \<open>
  An unbinding that succeeds takes exactly the targets of the name away, keeps the
  order of the others and the rest of the definition, and removes the service only where no target
  is left and that was asked for. Nothing to take away is an error.
\<close>

theorem unbind_removes_target:
  assumes "ServiceInterfaceUnbind D targetType targetName address deleteIfNoTargets w = (w', Inr ())"
  shows "\<exists>m s. services_of w = Inr (Some m) \<and> fmlookup m address = Some s
    \<and> (\<exists>t \<in> set (si_Targets s). hit address targetName (host_target_name w targetName) t)
    \<and> (let ts = filter (\<lambda>t. \<not> hit address targetName (host_target_name w targetName) t) (si_Targets s) in
       services_of w' = Inr (Some (if ts = [] \<and> deleteIfNoTargets then fmdrop address m
         else fmupd address (s\<lparr>si_Targets := ts\<rparr>) m)))"
proof -
  obtain m m' where m: "services_of w = Inr m" "unbind_edit address targetName deleteIfNoTargets w m = Inr m'"
    "services_of w' = Inr m'"
    using svc_unbind.success [OF assms] .
  then show ?thesis
    by (cases m) (auto simp: unbind_edit_def remove_target_edit_def remove_targets_eq Let_def
        split: option.splits if_splits)
qed

text \<open>
  The port of a binding is not validated: a valid service with a port of its own, bound
  to a container, is stored with whatever port the binding names. What is stored is a valid service
  exactly when that port is in range (and the targets that stay are those of a valid service).
\<close>

theorem bind_port_unchecked:
  assumes "valid_service s" "si_Port s \<noteq> 0" "port \<noteq> 0" "si_Targets s = []"
  shows "\<exists>s'. bind_edit s ''container'' name (si_Protocol s) port w (Some m)
      = Inr (Some (fmupd (si_Address s) s' m))
    \<and> (valid_service s' \<longleftrightarrow> port_range port)"
proof -
  let ?t = "\<lparr>t_Name = name, t_Selector = container_selector, t_TargetPort = port, t_Service = []\<rparr>"
  let ?s' = "own (s\<lparr>si_Targets := [?t]\<rparr>)"
  have v: "validateServiceInterface s = Inr ()" using assms(1) by (simp add: validate_valid)
  have "bind_ports s (bind_target ''container'' name w) (si_Protocol s) port = Inr (s, ?t)"
    using assms(2,3) by (simp add: bind_ports_def bind_target_def)
  moreover have "addTargetToServiceInterface s ?t = s\<lparr>si_Targets := [?t]\<rparr>"
    using assms(4) by (simp add: addTargetToServiceInterface_def)
  ultimately have "bind_edit s ''container'' name (si_Protocol s) port w (Some m)
      = Inr (Some (fmupd (si_Address s) ?s' m))"
    by (simp add: bind_edit_def v bind_guard_def update_edit_def own_def)
  moreover have "valid_service ?s' \<longleftrightarrow> port_range port"
    using assms(1) by (simp add: valid_service_def own_def)
  ultimately show ?thesis by blast
qed

lemma bind_last_step:
  assumes "ServiceInterfaceBind D s tt tn p port w = (w', Inr u)"
  obtains w0 f where "settled D w0" "host_of w0 = host_of w" "edit_services f w0 = (w', Inr u)"
  using assms unfolding ServiceInterfaceBind_def
proof (elim prologue_Inr)
  fix w0
  assume 0: "settled D w0" "host_of w0 = host_of w"
    and "io_bind (io_lift (validateServiceInterface s)) (\<lambda>_.
      if p \<noteq> [] \<and> si_Protocol s \<noteq> p
      then io_fail (Err (''Invalid protocol '' @ p @ '' for service with mapping '' @ si_Protocol s))
      else io_bind (getServiceInterfaceTarget D tt tn (si_Port s = 0 \<and> port = 0)) (\<lambda>target.
        io_bind (io_lift (bind_ports s target p port)) (\<lambda>(service, target).
          updateServiceInterface (addTargetToServiceInterface service target) True))) w0 = (w', Inr u)"
  then obtain w1 t st where 1: "getServiceInterfaceTarget D tt tn (si_Port s = 0 \<and> port = 0) w0 = (w1, Inr t)"
    "updateServiceInterface (addTargetToServiceInterface (fst st) (snd st)) True w1 = (w', Inr u)"
    by (auto elim!: io_bind_InrE split: if_splits prod.splits)
  have "w1 = w0"
    using 1(1) by (auto simp: getServiceInterfaceTarget_def io_simps ce_def
        split: if_splits option.splits sum.splits prod.splits)
  with 0 1(2) show thesis by (intro that) (simp_all add: updateServiceInterface_def)
qed

lemma write_services_again:
  assumes "write_services m w = (w', Inr u)"
  shows "\<exists>w2. write_services m2 w' = (w2, Inr ())"
proof -
  from assms obtain u' where "WriteFile (services_file w) (Doc (enc_services m)) w = (w', Inr u')"
    by (auto simp: write_services_def io_simps split: prod.splits)
  note r = write_then_read(2) [OF this] this
  then have "services_file w' = services_file w" by (simp add: services_file_def skupper_path_def)
  moreover obtain fs' where "fs_write (services_file w) (Doc (enc_services m)) (fs w) = (fs', Inr u')" "fs w' = fs'"
    using r(2) by (auto simp: WriteFile_def on_fs_def split: prod.splits)
  ultimately show ?thesis
    using disk.write_again [of "services_file w" "Doc (enc_services m)" "fs w" fs' u' "Doc (enc_services m2)"]
    by (auto simp: write_services_def io_simps WriteFile_def on_fs_def)
qed

lemma unbind_after_bind:
  assumes "ServiceInterfaceBind D s ''container'' name protocol port w = (w1, Inr ())" "si_Targets s = []"
  shows "\<exists>w2 m. services_of w = Inr (Some m)
    \<and> ServiceInterfaceUnbind D ''container'' name (si_Address s) True w1 = (w2, Inr ())
    \<and> services_of w2 = Inr (Some (fmdrop (si_Address s) m))"
proof -
  let ?t = "bind_target ''container'' name w"
  obtain w0 f where 0: "settled D w0" "host_of w0 = host_of w" "edit_services f w0 = (w1, Inr ())"
    using bind_last_step [OF assms(1)] .
  obtain m m1 where m: "services_of w = Inr m" "bind_edit s ''container'' name protocol port w m = Inr m1"
    "services_of w1 = Inr m1"
    using svc_bind.success [OF assms(1)] .
  then obtain s1 t m0 where t: "bind_ports s ?t protocol port = Inr (s1, t)" "m = Some m0"
    "m1 = Some (fmupd (si_Address s1) (own (addTargetToServiceInterface s1 t)) m0)"
    by (cases m) (auto simp: bind_edit_def update_edit_def addTarget_other own_def split: if_splits)
  have "t_TargetPort ?t = 0" by (simp add: bind_target_def)
  note b = bind_ports_Inr [OF t(1) this]
  have h: "hit (si_Address s) name x t" for x
    using b by (auto simp: hit_def bind_target_def container_selector_def host_selector_def)
  let ?edit = "remove_target_edit (si_Address s) name (host_target_name w1 name) True"
  have targets: "si_Targets (own (addTargetToServiceInterface s1 t)) = [t]"
    using b assms(2) by (simp add: own_def addTarget_targets)
  have "fmdrop (si_Address s) (fmupd (si_Address s) v m0) = fmdrop (si_Address s) m0" for v
    by (rule fmap_ext) simp
  then have e: "?edit m1 = Inr (Some (fmdrop (si_Address s) m0))"
    using t(3) b targets h by (simp add: remove_target_edit_def remove_targets_eq)
  obtain m' where "write_services m' w0 = (w1, Inr ())" using edit_services_Inr [OF 0(3)] by blast
  from write_services_again [OF this] obtain w2
    where w2: "write_services (Some (fmdrop (si_Address s) m0)) w1 = (w2, Inr ())" by blast
  have "read_services w1 = (w1, Inr m1)" using m(3) by (simp add: read_services_Inr)
  then have "edit_services ?edit w1 = (w2, Inr ())"
    using e w2 by (simp add: edit_services_def io_simps)
  then have "ServiceInterfaceUnbind D ''container'' name (si_Address s) True w1 = (w2, Inr ())"
    using settled_edit_services [OF 0(3,1)]
    by (simp add: ServiceInterfaceUnbind_def removeServiceInterfaceTarget_def prologue_settled)
  then show ?thesis using m(1) t(2) write_services_Inr(1) [OF w2] by blast
qed


section \<open>Witnesses\<close>

lemma settled_demo: "settled demo_D demo_world"
proof -
  have "CeDriver demo_world = Some Docker" by (simp add: demo_world_def)
  then show ?thesis
    using site_client_ready [OF demo_SiteConfig] demo_inspect_router
    by (simp add: settled_def require_router_same)
qed

lemma demo_edit:
  assumes "f (Some fmempty) = Inr m"
  obtains w' where "edit_services f demo_world = (w', Inr ())" "services_of w' = Inr m" "settled demo_D w'"
    "host_target_name w' = host_target_name demo_world"
proof -
  obtain w' where w': "write_services m demo_world = (w', Inr ())" using demo_write_services by blast
  have r: "read_services demo_world = (demo_world, Inr (Some fmempty))"
    by (simp add: read_services_Inr demo_services)
  have e: "edit_services f demo_world = (w', Inr ())"
    using r w' assms by (simp add: edit_services_def io_simps)
  moreover note write_services_Inr [OF w'] settled_write_services [OF w' settled_demo]
  ultimately show thesis
    by (intro that [of w']) (simp_all add: host_target_name_def host_address_def GetInternalIP_def fun_eq_iff)
qed

lemma valid_sample: "validateServiceInterface sample_service = Inr ()" "valid_service sample_service"
  by (simp_all add: validate_valid valid_service_def port_range_def sample_service_def zero_ServiceInterface_def)

definition bare_service :: ServiceInterface where
  "bare_service = zero_ServiceInterface\<lparr>si_Address := ''db'', si_Protocol := ''tcp''\<rparr>"

lemma sample_address: "si_Address sample_service = ''db''" "si_Address bare_service = ''db''"
    "si_Targets bare_service = []" "si_Port bare_service = 0" "si_Protocol bare_service = ''tcp''"
  by (simp_all add: sample_service_def bare_service_def zero_ServiceInterface_def)

lemma demo_create:
  obtains w' where "ServiceInterfaceCreate demo_D sample_service demo_world = (w', Inr ())"
proof -
  obtain w' where "edit_services (update_edit sample_service False) demo_world = (w', Inr ())"
    by (rule demo_edit [of "update_edit sample_service False"]) (auto simp: update_edit_def)
  then show thesis
    using that [of w'] unfolding ServiceInterfaceCreate_def prologue_settled [OF settled_demo]
    by (simp add: io_simps valid_sample updateServiceInterface_def)
qed

lemma demo_update:
  obtains w' where "ServiceInterfaceUpdate demo_D sample_service demo_world = (w', Inr ())"
proof -
  obtain w' where "edit_services (update_edit sample_service True) demo_world = (w', Inr ())"
    by (rule demo_edit [of "update_edit sample_service True"]) (auto simp: update_edit_def)
  then show thesis
    using that [of w'] unfolding ServiceInterfaceUpdate_def prologue_settled [OF settled_demo]
    by (simp add: io_simps valid_sample updateServiceInterface_def
        inspect_settled [OF settled_demo demo_services])
qed

lemma demo_bind:
  obtains w' where
    "ServiceInterfaceBind demo_D bare_service ''container'' ''pg'' ''tcp'' 5432 demo_world = (w', Inr ())"
proof -
  let ?t = "\<lparr>t_Name = ''pg'', t_Selector = container_selector, t_TargetPort = 0, t_Service = []\<rparr>"
  have v: "validateServiceInterface bare_service = Inr ()"
    by (simp add: validate_valid valid_service_def port_range_def bare_service_def zero_ServiceInterface_def)
  have b: "bind_ports bare_service ?t ''tcp'' 5432 = Inr (bare_service\<lparr>si_Port := 5432\<rparr>, ?t)"
    by (simp add: bind_ports_def bare_service_def zero_ServiceInterface_def)
  have t: "getServiceInterfaceTarget demo_D ''container'' ''pg'' g demo_world = (demo_world, Inr ?t)" for g
    by (simp add: getServiceInterfaceTarget_def io_simps ce_def demo_world_def demo_driver_def
        demo_inspect_def demo_engine_def fmlookup_of_list on_engine_def TransportDeploymentName_def
        ControllerDeploymentName_def)
  let ?edit = "update_edit (addTargetToServiceInterface (bare_service\<lparr>si_Port := 5432\<rparr>) ?t) True"
  obtain w' where "edit_services ?edit demo_world = (w', Inr ())"
    by (rule demo_edit [of ?edit]) (auto simp: update_edit_def)
  then show thesis
    using that [of w'] unfolding ServiceInterfaceBind_def prologue_settled [OF settled_demo]
    by (simp add: io_simps v t b updateServiceInterface_def sample_address)
qed


lemma create_then_inspect_witness:
  "\<exists>w'. ServiceInterfaceInspect demo_D ''db'' w' = (w', Inr (Some (own sample_service)))"
proof -
  obtain w' where w': "ServiceInterfaceCreate demo_D sample_service demo_world = (w', Inr ())"
    using demo_create .
  from create_then_inspect [OF this] show ?thesis
    by (intro exI [of _ w']) (auto simp: demo_services sample_address)
qed

lemma update_stores_witness:
  "\<exists>w' :: demo world. services_of w' = Inr (Some (fmupd ''db'' (own sample_service) fmempty))"
proof -
  obtain w' where "ServiceInterfaceUpdate demo_D sample_service demo_world = (w', Inr ())"
    using demo_update .
  from update_stores [OF this] show ?thesis by (auto simp: demo_services sample_address)
qed

lemma remove_then_inspect_witness:
  "\<exists>w'. ServiceInterfaceInspect demo_D ''db'' w' = (w', Inr None)"
proof -
  obtain w' where c: "ServiceInterfaceCreate demo_D sample_service demo_world = (w', Inr ())"
    using demo_create .
  have s: "services_of w' = Inr (Some (fmupd ''db'' (own sample_service) fmempty))"
    using c by (rule create_services) (auto simp: demo_services sample_service_def)
  obtain m w0 where "write_services m w0 = (w', Inr ())"
    using c unfolding ServiceInterfaceCreate_def updateServiceInterface_def
    by (elim prologue_Inr io_bind_InrE edit_services_Inr) auto
  from write_services_again [OF this] obtain w2
    where "write_services (Some (fmdrop ''db'' (fmupd ''db'' (own sample_service) fmempty))) w' = (w2, Inr ())"
    by blast
  moreover have "read_services w' = (w', Inr (Some (fmupd ''db'' (own sample_service) fmempty)))"
    using s by (simp add: read_services_Inr)
  ultimately have "ServiceInterfaceRemove demo_D ''db'' w' = (w2, Inr ())"
    unfolding ServiceInterfaceRemove_def prologue_settled [OF settled_create [OF c]]
    by (simp add: edit_services_def io_simps remove_edit_def)
  from remove_then_inspect [OF this] show ?thesis by (intro exI [of _ w2]) auto
qed

lemma bind_stores_witness:
  "\<exists>(w' :: demo world) s' m. services_of w' = Inr (Some (fmupd ''db'' s' m)) \<and> si_Port s' \<noteq> 0 \<and> length (si_Targets s') = 1"
proof -
  obtain w' where
    "ServiceInterfaceBind demo_D bare_service ''container'' ''pg'' ''tcp'' 5432 demo_world = (w', Inr ())"
    using demo_bind .
  from bind_stores [OF this] obtain m s' where
    "services_of w' = Inr (Some (fmupd ''db'' s' m))" "si_Port s' \<noteq> 0" "length (si_Targets s') = 1"
    by (auto simp: sample_address)
  then show ?thesis by (intro exI [of _ w'] exI [of _ s'] exI [of _ m]) simp
qed


lemma unbind_removes_target_witness:
  "\<exists>(w :: demo world) m. services_of w = Inr (Some m) \<and> fmlookup m ''db'' = None"
proof -
  obtain w' where
    "ServiceInterfaceBind demo_D bare_service ''container'' ''pg'' ''tcp'' 5432 demo_world = (w', Inr ())"
    using demo_bind .
  from unbind_after_bind [OF this] obtain w2 where
    u: "ServiceInterfaceUnbind demo_D ''container'' ''pg'' ''db'' True w' = (w2, Inr ())"
    "services_of w2 = Inr (Some (fmdrop ''db'' fmempty))"
    by (auto simp: demo_services sample_address)
  from unbind_removes_target [OF u(1)] u(2) show ?thesis
    by (intro exI [of _ w2]) auto
qed

lemma bind_port_unchecked_witness:
  "\<exists>s'. bind_edit (bare_service\<lparr>si_Port := 1\<rparr>) ''container'' ''pg'' ''tcp'' 70000 demo_world (Some fmempty)
      = Inr (Some (fmupd ''db'' s' fmempty)) \<and> \<not> valid_service s'"
proof -
  have "valid_service (bare_service\<lparr>si_Port := 1\<rparr>)"
    by (simp add: valid_service_def port_range_def bare_service_def zero_ServiceInterface_def)
  from bind_port_unchecked [OF this, of 70000 "''pg''" demo_world fmempty] show ?thesis
    by (simp add: bare_service_def zero_ServiceInterface_def port_range_def)
qed

end
