(* ===== verification/Cli_Laws.thy ===== *)
theory Cli_Laws imports Cli Service_Laws begin

text \<open>
  What the command line guarantees: arguments that are accepted are arguments the commands can use, the
  rounds of \<open>check-connection\<close> count what they report, and \<open>unexpose\<close> undoes \<open>expose\<close>.
\<close>

section \<open>Arguments\<close>

lemma Split_two: "c \<in> set s \<Longrightarrow> 2 \<le> length (Split s c)"
  using count_list_0_iff [of s c] by (simp add: length_Split Suc_le_eq)

lemma Split_nth0: "Split s c ! 0 = takeWhile (\<lambda>x. x \<noteq> c) s"
  using hd_Split [of s c] by (cases "Split s c") simp_all

lemma split_prefix: "c \<in> set s \<Longrightarrow> s = takeWhile (\<lambda>x. x \<noteq> c) s @ c # tl (dropWhile (\<lambda>x. x \<noteq> c) s)"
  by (induction s) auto

lemma takeWhile_upto: "c \<notin> set p \<Longrightarrow> takeWhile (\<lambda>x. x \<noteq> c) (p @ c # n) = p"
  by (induction p) auto

lemma slash_Contains: "Contains s ''/'' \<longleftrightarrow> slash \<in> set s"
  by (simp add: Contains_char slash_def)

lemma colon_Contains: "Contains s '':'' \<longleftrightarrow> colon \<in> set s"
  by (simp add: Contains_char colon_def)

lemma parse_two: "parseTargetTypeAndName [ty, n] = Inr (ty, n)"
  by (simp add: parseTargetTypeAndName_def arg_def)

lemma parse_one:
  assumes "slash \<in> set s"
  shows "parseTargetTypeAndName [s] = Inr (if Contains s ''container'' then Split s slash ! 0 else s,
    if Contains s ''container'' then Split s slash ! 1 else [])"
  using Split_two [OF assms] by (simp add: parseTargetTypeAndName_def arg_def Let_def)

lemma verify_iff:
  assumes "parseTargetTypeAndName args = Inr (ty, n)"
  shows "verifyTargetTypeFromArgs args = (if ty \<in> {''container'', ''host-service''} then Inr ()
    else Inl (Err (''target type must be one of: ['' @ join_with '', '' validExposeTargets @ '']'')))"
  using assms by (auto simp: verifyTargetTypeFromArgs_def stringSliceContains_def validExposeTargets_def)

lemma container_args: "Contains (''container/'' @ n) ''container''"
  "Contains (''host-service/'' @ n) ''container'' \<longleftrightarrow> Contains n ''container''"
  by simp_all

lemma verify_one:
  assumes "slash \<in> set s"
  shows "verifyTargetTypeFromArgs [s] = Inr ()
    \<longleftrightarrow> (\<exists>n. s = ''container/'' @ n) \<or> (\<exists>n. s = ''host-service/'' @ n \<and> Contains n ''container'')"
proof -
  have whole: "s \<notin> {''container'', ''host-service''}" using assms by (auto simp: slash_def)
  have "Split s slash ! 0 = p \<longleftrightarrow> (\<exists>n. s = p @ ''/'' @ n)" if "slash \<notin> set p" for p
    using that split_prefix [OF assms] takeWhile_upto [OF that] unfolding Split_nth0 slash_def
    by (metis append_Cons append_Nil)
  from this [of "''container''"] this [of "''host-service''"]
  have heads: "Split s slash ! 0 = ''container'' \<longleftrightarrow> (\<exists>n. s = ''container/'' @ n)"
    "Split s slash ! 0 = ''host-service'' \<longleftrightarrow> (\<exists>n. s = ''host-service/'' @ n)"
    by (simp_all add: slash_def)
  show ?thesis
  proof (cases "Contains s ''container''")
    case True
    then have "verifyTargetTypeFromArgs [s] = Inr () \<longleftrightarrow> Split s slash ! 0 \<in> {''container'', ''host-service''}"
      by (simp add: verify_iff [OF parse_one [OF assms]])
    then show ?thesis using True container_args(2) unfolding insert_iff empty_iff heads by metis
  next
    case False
    then have "verifyTargetTypeFromArgs [s] \<noteq> Inr ()"
      using whole by (simp add: verify_iff [OF parse_one [OF assms]])
    then show ?thesis using False container_args by metis
  qed
qed


text \<open>The targets that the checks of \<open>expose\<close> and \<open>bind\<close> accept.\<close>

definition target_args :: "string list \<Rightarrow> bool" where
  "target_args args \<longleftrightarrow> (\<exists>n. args = [''container'', n]) \<or> (\<exists>n. args = [''host-service'', n])
     \<or> (\<exists>n. args = [''container/'' @ n]) \<or> (\<exists>n. args = [''host-service/'' @ n] \<and> Contains n ''container'')"

text \<open>The check of one or two arguments, as \<open>expose\<close> makes it for the target and \<open>bind\<close> after the name.\<close>

lemma verify_target_args:
  assumes "length args \<le> 2" "length args = 2 \<Longrightarrow> slash \<notin> set (args ! 0)" "length args \<noteq> 2 \<Longrightarrow> args \<noteq> [] \<and> slash \<in> set (args ! 0)"
  shows "verifyTargetTypeFromArgs args = Inr () \<longleftrightarrow> target_args args"
    and "\<forall>p. verifyTargetTypeFromArgs args \<noteq> Inl (Panic p)"
proof -
  consider x where "args = [x]" "slash \<in> set x" | ty n where "args = [ty, n]" "slash \<notin> set ty"
    using assms by (cases args rule: remdups_adj.cases) auto
  then have "(verifyTargetTypeFromArgs args = Inr () \<longleftrightarrow> target_args args)
      \<and> (\<forall>p. verifyTargetTypeFromArgs args \<noteq> Inl (Panic p))"
  proof cases
    case 1
    have "verifyTargetTypeFromArgs args \<noteq> Inl (Panic p)" for p
      using 1 by (simp add: verify_iff [OF parse_one [OF 1(2)]] del: Contains.simps)
    then show ?thesis unfolding 1(1) verify_one [OF 1(2)] target_args_def by simp
  next
    case 2
    then show ?thesis by (auto simp: verify_iff [OF parse_two] target_args_def)
  qed
  then show "verifyTargetTypeFromArgs args = Inr () \<longleftrightarrow> target_args args"
    "\<forall>p. verifyTargetTypeFromArgs args \<noteq> Inl (Panic p)" by blast+
qed

lemma parse_target_args:
  assumes "target_args args"
  shows "\<exists>ty n. parseTargetTypeAndName args = Inr (ty, n) \<and> ty \<in> {''container'', ''host-service''}"
proof -
  have sl: "slash \<in> set (''container/'' @ n)" "slash \<in> set (''host-service/'' @ n)" for n by (simp_all add: slash_def)
  have "Split (''container/'' @ n) slash ! 0 = ''container''" "Split (''host-service/'' @ n) slash ! 0 = ''host-service''" for n
    using takeWhile_upto [of slash "''container''" n] takeWhile_upto [of slash "''host-service''" n]
    by (simp_all add: Split_nth0 slash_def)
  then show ?thesis
    using assms container_args unfolding target_args_def
    by (auto simp: parse_two parse_one [OF sl(1)] parse_one [OF sl(2)] simp del: Contains.simps append.simps)
qed

lemma expose_args: "exposeTargetArgs args = Inr () \<longleftrightarrow> target_args args"
  and expose_no_panic: "exposeTargetArgs args \<noteq> Inl (Panic p)"
proof -
  have t: "target_args args \<Longrightarrow> 1 \<le> length args \<and> length args \<le> 2 \<and> (length args = 2 \<longleftrightarrow> slash \<notin> set (args ! 0))"
    by (auto simp: target_args_def slash_def)
  show "exposeTargetArgs args = Inr () \<longleftrightarrow> target_args args"
    using t verify_target_args(1) [of args] by (auto simp: exposeTargetArgs_def slash_Contains simp del: Contains.simps)
  show "exposeTargetArgs args \<noteq> Inl (Panic p)"
    using verify_target_args(2) [of args] by (auto simp: exposeTargetArgs_def slash_Contains simp del: Contains.simps)
qed

lemma bind_args: "bindArgs args = Inr () \<longleftrightarrow> args \<noteq> [] \<and> target_args (drop 1 args)"
  and bind_no_panic: "bindArgs args \<noteq> Inl (Panic p)"
proof -
  have t: "args \<noteq> [] \<and> target_args (drop 1 args) \<Longrightarrow> 2 \<le> length args \<and> length args \<le> 3
      \<and> (length args = 3 \<longleftrightarrow> slash \<notin> set (args ! 1))"
    by (cases args) (auto simp: target_args_def slash_def)
  show "bindArgs args = Inr () \<longleftrightarrow> args \<noteq> [] \<and> target_args (drop 1 args)"
    using t verify_target_args(1) [of "drop 1 args"]
    by (auto simp: bindArgs_def slash_Contains simp del: Contains.simps)
  show "bindArgs args \<noteq> Inl (Panic p)"
    using verify_target_args(2) [of "drop 1 args"]
    by (auto simp: bindArgs_def slash_Contains simp del: Contains.simps)
qed


lemma create_args: "createServiceArgs args = Inr () \<Longrightarrow> \<exists>a port. service_name_port args = Inr (a, port)"
proof -
  assume c: "createServiceArgs args = Inr ()"
  then consider x where "args = [x]" "colon \<in> set x" | a b where "args = [a, b]"
    by (cases args rule: remdups_adj.cases) (auto simp: createServiceArgs_def colon_Contains split: if_splits)
  then show ?thesis
  proof cases
    case 1
    with Split_two [of colon x] show ?thesis by (simp add: service_name_port_def arg_def Let_def)
  qed (simp add: service_name_port_def arg_def)
qed


section \<open>check-connection\<close>

text \<open>The state of the rounds: as many are counted as are marked.\<close>

definition counted :: "ConnectorInspectResponse list \<Rightarrow> nat \<Rightarrow> bool" where
  "counted cs k \<longleftrightarrow> k = length (filter cir_Connected cs)"

text \<open>What a round may do: mark connectors, never forget a mark.\<close>

definition marks_more :: "ConnectorInspectResponse \<Rightarrow> ConnectorInspectResponse \<Rightarrow> bool" where
  "marks_more c c' \<longleftrightarrow> cir_Connector c' = cir_Connector c \<and> (cir_Connected c \<longrightarrow> cir_Connected c')"

lemma check_round_Inr:
  "check_round D cs k w = (w', Inr (cs', k')) \<Longrightarrow>
     list_all2 marks_more cs cs' \<and> k' + length (filter cir_Connected cs) = k + length (filter cir_Connected cs')"
proof (induction cs arbitrary: k w cs')
  case (Cons c cs)
  from Cons.prems show ?case
    by (auto simp: Let_def marks_more_def split: sum.splits if_splits elim!: io_bind_InrE dest!: Cons.IH)
qed simp

lemma marks_trans: "list_all2 marks_more as bs \<Longrightarrow> list_all2 marks_more bs cs \<Longrightarrow> list_all2 marks_more as cs"
  by (rule list_all2_trans [of marks_more marks_more marks_more]) (auto simp: marks_more_def)

lemma marks_refl: "list_all2 marks_more cs cs"
  by (simp add: list_all2_refl marks_more_def)

lemma check_loop_Inr:
  "check_loop D n cs k w = (w', Inr (cs', k')) \<Longrightarrow> counted cs k \<Longrightarrow> list_all2 marks_more cs cs' \<and> counted cs' k'"
proof (induction n arbitrary: cs k w)
  case (Suc n)
  show ?case
  proof (cases "k < length cs")
    case True
    with Suc.prems(1) obtain w1 cs1 k1 where r: "check_round D cs k w = (w1, Inr (cs1, k1))"
      "check_loop D n cs1 k1 w1 = (w', Inr (cs', k'))"
      by (auto elim!: io_bind_InrE)
    with check_round_Inr [OF r(1)] Suc.prems(2) Suc.IH [OF r(2)] show ?thesis
      by (auto simp: counted_def intro: marks_trans)
  qed (use Suc.prems in \<open>simp add: marks_refl\<close>)
qed (simp add: marks_refl)

text \<open>
  The command \<open>check-connection\<close> reports what it saw: after any number of rounds the
  connectors are those it started with, in their order, the count is the number of those marked active,
  and one that was once seen active stays marked.
\<close>

theorem check_reports_what_it_saw:
  assumes "check_loop D n cs k w = (w', Inr (cs', k'))" "k = length (filter cir_Connected cs)"
  shows "map cir_Connector cs' = map cir_Connector cs \<and> k' = length (filter cir_Connected cs')
    \<and> (\<forall>i < length cs. cir_Connected (cs ! i) \<longrightarrow> cir_Connected (cs' ! i))"
proof -
  from check_loop_Inr [OF assms(1)] assms(2)
  have "list_all2 marks_more cs cs'" "k' = length (filter cir_Connected cs')" by (simp_all add: counted_def)
  then show ?thesis
    by (auto simp: list_all2_conv_all_nth marks_more_def intro!: nth_equalityI)
qed

section \<open>expose and unexpose\<close>

lemma unbind_unknown:
  assumes "ServiceInterfaceUnbind D ty n address del w = (w', r)" "services_of w = Inr m"
    "fmlookup (go_map m) address = None"
  shows "(\<exists>e. r = Inl e) \<and> fs w' = fs w"
proof (cases r)
  case (Inl e)
  then show ?thesis using svc_unbind.error_atomic assms(1) by blast
next
  case (Inr u)
  obtain m1 m' where "services_of w = Inr m1" "unbind_edit address n del w m1 = Inr m'"
    using svc_unbind.success [OF assms(1) [unfolded Inr]] by blast
  with assms(2,3) show ?thesis by (simp add: unbind_edit_def remove_target_edit_def)
qed

text \<open>
  Without \<open>--address\<close> a container is exposed under its own name, but \<open>unexpose\<close> without it looks
  for a service with the empty address: unless there is one it always ends with an error, and the service
  stays exposed.
\<close>

theorem unexpose_without_address:
  assumes "services_of w = Inr m" "fmlookup (go_map m) [] = None"
  shows "(case snd (unexpose_command D [] [''container'', name] w) of
       Inr (out, err) \<Rightarrow> out = [] \<and> err \<noteq> None | Inl p \<Rightarrow> True)
    \<and> services_of (fst (unexpose_command D [] [''container'', name] w)) = Inr m"
proof -
  obtain w' r where u: "ServiceInterfaceUnbind D ''container'' name [] True w = (w', r)" by fastforce
  from unbind_unknown [OF this assms] obtain e where e: "r = Inl e" "fs w' = fs w" by blast
  have "services_of w' = Inr m" using svc_unbind.error_atomic u e assms(1) by metis
  moreover have "unexpose_command D [] [''container'', name] w
      = (w', case e of Panic s \<Rightarrow> Inl (Panic s) | _ \<Rightarrow> Inr ([], Some (wrap_error ''Unable to unbind skupper service'' e)))"
    using u e(1) by (cases e) (simp_all add: unexpose_command_def parse_two on_value_def io_bind_def io_try_def failed_def)
  ultimately show ?thesis by (cases e) simp_all
qed

lemma inspect_Inr:
  assumes "ServiceInterfaceInspect D a w = (w', Inr x)" "services_of w = Inr m"
  shows "x = fmlookup (go_map m) a \<and> host_of w' = host_of w"
  using assms(1) unfolding ServiceInterfaceInspect_def
proof (elim prologue_Inr)
  fix w1
  assume w1: "settled D w1" "host_of w1 = host_of w" and r: "io_bind (\<lambda>w. ReadFile (services_file w) w) (\<lambda>svcFile.
     io_bind (io_wrap ''Failed to decode json for service interface definitions''
         (io_lift (Unmarshal dec_services svcFile))) (\<lambda>svcDefs.
       io_return (fmlookup (go_map svcDefs) a))) w1 = (w', Inr x)"
  have "services_of w1 = Inr m" using services_of_cong [OF w1(2)] assms(2) by simp
  with r w1 show ?thesis by (auto simp: services_of_def io_simps ReadFile_def split: sum.splits)
qed

text \<open>
  Property C31. What \<open>expose\<close> of a container at a fresh address did, \<open>unexpose\<close> with that address undoes:
  the command succeeds and the definitions are again exactly those there were.
\<close>

theorem expose_then_unexpose:
  assumes "expose_command D opts [''container'', name] w = (w1, Inr (out, None))"
    and "address = (if so_Address opts = [] then name else so_Address opts)"
    and "services_of w = Inr (Some m)" "fmlookup m address = None"
  shows "\<exists>w2. unexpose_command D address [''container'', name] w1
      = (w2, Inr (line (''container '' @ name @ '' unexposed''), None)) \<and> services_of w2 = Inr (Some m)"
proof -
  let ?opts = "opts\<lparr>so_Address := address\<rparr>"
  let ?s = "zero_ServiceInterface\<lparr>si_Address := address, si_Port := so_Port opts, si_Protocol := so_Protocol opts, si_Origin := []\<rparr>"
  have o: "(if so_Address opts = [] then opts\<lparr>so_Address := name\<rparr> else opts) = ?opts" using assms(2) by simp
  have "expose D ''container'' name (if so_Address opts = [] then opts\<lparr>so_Address := name\<rparr> else opts) w = (w1, Inr ())"
    using assms(1) unfolding expose_command_def Let_def
    by (auto simp: parse_two on_value_def failed_def prints_def io_try_apply elim!: io_bind_InrE split: sum.splits prod.splits error.splits)
  then obtain w0 x where i: "ServiceInterfaceInspect D (so_Address ?opts) w = (w0, Inr x)"
    and b: "io_bind (io_lift (case x of
         None \<Rightarrow> Inr (zero_ServiceInterface\<lparr>si_Address := so_Address ?opts, si_Port := so_Port ?opts,
           si_Protocol := so_Protocol ?opts\<rparr>)
       | Some service \<Rightarrow>
           if so_Protocol ?opts \<noteq> [] \<and> si_Protocol service \<noteq> so_Protocol ?opts
           then Inl (Err (''Invalid protocol '' @ so_Protocol ?opts @ '' for service with mapping '' @ si_Protocol service))
           else Inr service)) (\<lambda>service.
       io_wrap ''Unable to create skupper service''
         (ServiceInterfaceBind D (service\<lparr>si_Origin := []\<rparr>) ''container'' name (so_Protocol ?opts)
            (so_TargetPort ?opts))) w0 = (w1, Inr ())"
    unfolding expose_def o by (erule_tac io_bind_InrE)
  note x = inspect_Inr [OF i assms(3)]
  with b assms(4) have bind: "ServiceInterfaceBind D ?s ''container'' name (so_Protocol opts) (so_TargetPort opts) w0 = (w1, Inr ())"
    by (simp add: io_bind_def io_wrap_Inr)
  have "si_Targets ?s = []" "si_Address ?s = address" by (simp_all add: zero_ServiceInterface_def)
  with unbind_after_bind [OF bind this(1)] obtain w2 m0 where u: "services_of w0 = Inr (Some m0)"
    "ServiceInterfaceUnbind D ''container'' name address True w1 = (w2, Inr ())"
    "services_of w2 = Inr (Some (fmdrop address m0))" by auto
  have "m0 = m" using u(1) services_of_cong [of w0 w] x assms(3) by simp
  with u assms(4) have "services_of w2 = Inr (Some m)" by (simp add: fmdrop_idle fmdom_notI)
  moreover have "unexpose_command D address [''container'', name] w1
      = (w2, Inr (line (''container '' @ name @ '' unexposed''), None))"
    using u(2) by (simp add: unexpose_command_def parse_two on_value_def io_bind_def io_try_def prints_def)
  ultimately show ?thesis by blast
qed

end
