(* ===== verification/Io_Total.thy ===== *)
theory Io_Total imports Io_Triples begin

text \<open>
  Total correctness of programs of the world: \<open>runs P m Q\<close> says that from every world with \<open>P\<close> the
  program returns a value, and \<open>calm\<close> that it does not panic. The second part is about the directory of
  a site, whose content a \<open>layout\<close> lists.
\<close>

section \<open>Programs that return\<close>

definition runs :: "('w \<Rightarrow> bool) \<Rightarrow> ('w, 'a) io \<Rightarrow> ('a \<Rightarrow> 'w \<Rightarrow> bool) \<Rightarrow> bool" where
  "runs P m Q \<longleftrightarrow> (\<forall>w. P w \<longrightarrow> (\<exists>w' x. m w = (w', Inr x) \<and> Q x w'))"

lemma runsI: "(\<And>w. P w \<Longrightarrow> \<exists>w' x. m w = (w', Inr x) \<and> Q x w') \<Longrightarrow> runs P m Q"
  by (simp add: runs_def)

lemma runsD: "runs P m Q \<Longrightarrow> P w \<Longrightarrow> \<exists>w' x. m w = (w', Inr x) \<and> Q x w'"
  by (simp add: runs_def)

lemma runs_triple: "runs P m Q \<Longrightarrow> triple P m Q"
  unfolding runs_def triple_def by fastforce

lemma runs_bind:
  assumes "runs P m R" "\<And>x. runs (R x) (f x) Q"
  shows "runs P (io_bind m f) Q"
proof (rule runsI)
  fix w
  assume "P w"
  from runsD [OF assms(1) this] obtain w' x where "m w = (w', Inr x)" "R x w'" by blast
  with runsD [OF assms(2)] show "\<exists>w' x. io_bind m f w = (w', Inr x) \<and> Q x w'"
    by (simp add: io_bind_Inr)
qed

lemma runs_return: "(\<And>w. P w \<Longrightarrow> Q x w) \<Longrightarrow> runs P (io_return x) Q"
  by (simp add: runs_def)

lemma runs_lift: "r = Inr x \<Longrightarrow> runs P (f x) Q \<Longrightarrow> runs P (io_bind (io_lift r) f) Q"
  by (simp add: runs_def io_bind_def)

lemma runs_wrap: "runs P m Q \<Longrightarrow> runs P (io_wrap msg m) Q"
  by (simp add: runs_def io_wrap_Inr)

lemma runs_mono: "runs P m Q \<Longrightarrow> (\<And>w. P' w \<Longrightarrow> P w) \<Longrightarrow> (\<And>x w. Q x w \<Longrightarrow> Q' x w) \<Longrightarrow> runs P' m Q'"
  unfolding runs_def by blast

lemma runs_ex: "(\<And>s. runs (P s) m Q) \<Longrightarrow> runs (\<lambda>w. \<exists>s. P s w) m Q"
  unfolding runs_def by blast

lemma runs_pure: "runs P m (\<lambda>_. R) \<Longrightarrow> runs (\<lambda>w. P w \<and> c) m (\<lambda>_ w. R w \<and> c)"
  unfolding runs_def by blast

lemma runs_if: "runs P a Q \<Longrightarrow> runs P b Q \<Longrightarrow> runs P (if c then a else b) Q"
  by simp

lemma runs_each: "(\<And>x. runs P (f x) (\<lambda>_. P)) \<Longrightarrow> runs P (io_each f xs) (\<lambda>_. P)"
  by (induction xs) (auto intro: runs_return runs_bind)

text \<open>A loop that adds to what is there: \<open>P xs\<close> holds when \<open>xs\<close> is still to come.\<close>

lemma runs_each_steps:
  assumes "\<And>x xs. runs (P (x # xs)) (f x) (\<lambda>_. P xs)"
  shows "runs (P xs) (io_each f xs) (\<lambda>_. P [])"
proof (induction xs)
  case (Cons x xs)
  show ?case unfolding io_each.simps by (rule runs_bind [OF assms Cons.IH])
qed (simp add: runs_def)

section \<open>Programs that do not panic\<close>

definition calm :: "('w, 'a) io \<Rightarrow> bool" where
  "calm m \<longleftrightarrow> (\<forall>w s. snd (m w) \<noteq> Inl (Panic s))"

lemma calm_bind [intro]: "calm m \<Longrightarrow> (\<And>x. calm (f x)) \<Longrightarrow> calm (io_bind m f)"
  unfolding calm_def io_bind_def by (auto split: prod.split sum.split) (metis snd_conv)+

lemma calm_wrap [intro]: "calm m \<Longrightarrow> calm (io_wrap msg m)"
  unfolding calm_def
proof (intro allI notI)
  fix w s
  assume "\<forall>w s. snd (m w) \<noteq> Inl (Panic s)" and p: "snd (io_wrap msg m w) = Inl (Panic s)"
  moreover obtain w' r where "m w = (w', r)" by fastforce
  ultimately show False
    by (cases r; cases "projl r") (auto simp: io_wrap_def dest: spec [of _ w])
qed

lemma calm_return [intro, simp]: "calm (io_return x)"
  by (simp add: calm_def)

lemma calm_each [intro]: "(\<And>x. calm (f x)) \<Longrightarrow> calm (io_each f xs)"
  by (induction xs) auto

lemma calm_fs [intro, simp]: "calm (WriteFile p c)" "calm (Mkdir p)" "calm (MkdirAll p)" "calm (RemoveAll p)"
  by (auto simp: calm_def WriteFile_def Mkdir_def MkdirAll_def RemoveAll_def on_fs_def fs_write_def fs_mkdir_def
      fs_mkdir_all_def fs_remove_all_def permission_denied_def is_directory_def no_such_file_def file_exists_def)

lemma runs_try:
  assumes "calm m" "keeps P m"
  shows "runs P (io_try m) (\<lambda>_. P)"
proof (rule runsI)
  fix w
  assume "P w"
  moreover obtain w' r where "m w = (w', r)" by fastforce
  ultimately show "\<exists>w' x. io_try m w = (w', Inr x) \<and> P w'"
    using keepsD [OF assms(2), of w] assms(1)
    by (cases r; cases "projl r") (auto simp: io_try_def calm_def dest: spec [of _ w])
qed

section \<open>The directory of a site\<close>

text \<open>The client is connected, no path is denied, and the paths at and below \<open>h\<close> are those listed.\<close>

definition layout :: "(string \<Rightarrow> string) \<Rightarrow> string set \<Rightarrow> string set \<Rightarrow> 'e world \<Rightarrow> bool" where
  "layout e S F w \<longleftrightarrow> in_env e w \<and> CeDriver w \<noteq> None \<and> denied (fs w) = {||}
     \<and> (\<forall>q. below (site_path e HostPath) q \<longrightarrow> (q |\<in>| dirs (fs w) \<longleftrightarrow> q \<in> S) \<and> (q |\<in>| fmdom (files (fs w)) \<longleftrightarrow> q \<in> F))"

lemma layout_env: "layout e S F w \<Longrightarrow> in_env e w"
  by (simp add: layout_def)

lemma Mkdir_runs:
  assumes "below (site_path e HostPath) p" "p \<notin> S" "p \<notin> F" "dirname p \<in> S" "below (site_path e HostPath) (dirname p)"
  shows "runs (layout e S F) (Mkdir p) (\<lambda>_. layout e (insert p S) F)"
  using assms by (intro runsI) (auto simp: layout_def Mkdir_def on_fs_def fs_mkdir_def in_env_def)

lemma WriteFile_runs:
  assumes "p \<notin> S" "dirname p \<in> S" "below (site_path e HostPath) p" "below (site_path e HostPath) (dirname p)"
  shows "runs (layout e S F) (WriteFile p c) (\<lambda>_. layout e S (insert p F))"
  using assms by (intro runsI) (auto simp: layout_def WriteFile_def on_fs_def fs_write_def in_env_def)

lemma ce_runs:
  assumes "\<And>k s. \<exists>s' x. f (D k) s = (s', Inr x)"
  shows "runs (layout e S F) (ce D f) (\<lambda>_. layout e S F)"
proof (rule runsI)
  fix w :: "'a world"
  assume l: "layout e S F w"
  then obtain k where k: "CeDriver w = Some k" by (auto simp: layout_def)
  obtain s' x where "f (D k) (engine w) = (s', Inr x)" using assms by blast
  with l k show "\<exists>w' x. ce D f w = (w', Inr x) \<and> layout e S F w'"
    by (simp add: ce_def on_engine_def layout_def in_env_def)
qed

text \<open>The paths of a site.\<close>

lemma host_path_ne: "site_path e HostPath \<noteq> []"
proof -
  have "Clean p \<noteq> []" for p by (simp add: Clean_def Let_def)
  then show ?thesis by (simp add: site_path_def GetSkupperPath_def Join_def)
qed

lemma site_path_child: "p \<noteq> HostPath \<Longrightarrow> site_path e p = site_path e HostPath @ ''/'' @ skupperPaths p"
  by (simp add: site_path_def GetSkupperPath_child)

lemma dirname_site_path: "p \<noteq> HostPath \<Longrightarrow> dirname (site_path e p) = site_path e HostPath"
  using dirname_append [OF plain_path_name host_path_ne] by (simp add: site_path_child)

lemma dirname_below: "slash \<notin> set x \<Longrightarrow> dirname (site_path e p @ ''/'' @ x) = site_path e p"
  by (rule dirname_append) (cases "p = HostPath"; simp add: host_path_ne site_path_child)+

lemma below_paths [simp]:
  "below (site_path e HostPath) (site_path e p)" "below (site_path e HostPath) (site_path e p @ ''/'' @ x)"
  by (cases "p = HostPath"; simp add: below_def site_path_child HasPrefix_iff)+

lemma site_path_inj [simp]: "site_path e p = site_path e q \<longleftrightarrow> p = q"
  using GetSkupperPath_inj by (auto simp: site_path_def)

text \<open>A child of a directory of the site is none of the directories of the site.\<close>

lemma child_differs: "p \<noteq> HostPath \<Longrightarrow> site_path e p @ ''/'' @ x \<noteq> site_path e q"
proof
  assume p: "p \<noteq> HostPath" and eq: "site_path e p @ ''/'' @ x = site_path e q"
  show False
  proof (cases "q = HostPath")
    case True
    then have "length (site_path e q) < length (site_path e p @ ''/'' @ x)" using p by (simp add: site_path_child)
    with eq show False by simp
  next
    case False
    with p eq have "skupperPaths p @ slash # x = skupperPaths q" by (simp add: site_path_child slash_def)
    with plain_path_name [of q] show False by (metis in_set_conv_decomp)
  qed
qed

section \<open>Directories on the way to a path\<close>

lemma ancestors_last: "d @ s \<noteq> [] \<Longrightarrow> d @ s \<in> set (ancestors d s)"
  by (induction d s rule: ancestors.induct) auto

lemma ancestors_prefix: "a \<in> set (ancestors d s) \<Longrightarrow> \<exists>t. d @ s = a @ t"
  by (induction d s rule: ancestors.induct) (auto split: if_splits)

lemma ancestors_below: "a \<in> set (ancestors [] p) \<Longrightarrow> below p a \<Longrightarrow> a = p"
  using ancestors_prefix [of a "[]" p] by (auto simp: below_def HasPrefix_iff)

end
