(* ===== verification/Service_Registry.thy ===== *)
theory Service_Registry imports Service_Laws Transitions begin

text \<open>
  The registry of services as the users of the commands see it: a map from addresses to definitions
  with four kinds of steps. The operations of the client refine it: whatever operations are run, in
  whatever order and with whatever answers of the engine, the file goes from one map to another by
  steps of the registry. What holds of the steps holds of the file.
\<close>

section \<open>The abstract registry\<close>

inductive registry_step :: "service_defs \<Rightarrow> service_defs \<Rightarrow> bool" where
  publish: "valid_service s \<Longrightarrow> registry_step m (fmupd (si_Address s) (own s) m)"
| attach: "valid_service s \<Longrightarrow> p \<noteq> 0 \<Longrightarrow> t_Selector t \<in> {container_selector, host_selector} \<Longrightarrow>
    registry_step m (fmupd (si_Address s) (own (addTargetToServiceInterface (s\<lparr>si_Port := p\<rparr>) t)) m)"
| detach: "fmlookup m a = Some s \<Longrightarrow> \<exists>t \<in> set (si_Targets s). \<not> P t \<Longrightarrow>
    registry_step m (fmupd a (s\<lparr>si_Targets := filter P (si_Targets s)\<rparr>) m)"
| withdraw: "a |\<in>| fmdom m \<Longrightarrow> registry_step m (fmdrop a m)"

inductive_cases registry_stepE: "registry_step m m'"

section \<open>The operations as commands\<close>

datatype client_op =
    OpCreate ServiceInterface
  | OpUpdate ServiceInterface
  | OpBind ServiceInterface string string string goint
  | OpUnbind string string string bool
  | OpRemove string

fun run_op :: "(ce_kind \<Rightarrow> 'e Driver) \<Rightarrow> client_op \<Rightarrow> ('e world, unit) io" where
  "run_op D (OpCreate s) = ServiceInterfaceCreate D s"
| "run_op D (OpUpdate s) = ServiceInterfaceUpdate D s"
| "run_op D (OpBind s ty n p port) = ServiceInterfaceBind D s ty n p port"
| "run_op D (OpUnbind ty n a del) = ServiceInterfaceUnbind D ty n a del"
| "run_op D (OpRemove a) = ServiceInterfaceRemove D a"

text \<open>One operation after the other, each whatever the ones before it ended with.\<close>

definition run_ops :: "(ce_kind \<Rightarrow> 'e Driver) \<Rightarrow> client_op list \<Rightarrow> 'e world \<Rightarrow> 'e world" where
  "run_ops D ops w = fold (\<lambda>p w. fst (run_op D p w)) ops w"

section \<open>The refinement\<close>

fun op_edit :: "client_op \<Rightarrow> 'e world \<Rightarrow> service_defs option \<Rightarrow> service_defs option result" where
  "op_edit (OpCreate s) = create_edit s"
| "op_edit (OpUpdate s) = replace_edit s"
| "op_edit (OpBind s ty n p port) = bind_edit s ty n p port"
| "op_edit (OpUnbind ty n a del) = unbind_edit a n del"
| "op_edit (OpRemove a) = (\<lambda>_. remove_edit a)"

lemma run_op_edit: "service_edit (run_op D p) (op_edit p)"
  by (cases p) (simp_all add: svc_create.service_edit_axioms svc_update.service_edit_axioms
      svc_bind.service_edit_axioms svc_unbind.service_edit_axioms svc_remove.service_edit_axioms)

lemma edit_is_step:
  assumes "op_edit p w (Some m) = Inr m'"
  shows "\<exists>m''. m' = Some m'' \<and> registry_step\<^sup>=\<^sup>= m m''"
proof (cases p)
  case (OpCreate s)
  then show ?thesis using assms publish [of s m]
    by (auto simp: create_edit_def update_edit_def validate_valid own_def split: if_splits)
next
  case (OpUpdate s)
  then show ?thesis using assms publish [of s m]
    by (auto simp: replace_edit_def update_edit_def validate_valid own_def split: if_splits)
next
  case (OpBind s ty n pr port)
  let ?t = "bind_target ty n w"
  from assms OpBind obtain s1 t where b: "bind_ports s ?t pr port = Inr (s1, t)" "valid_service s"
    "m' = Some (fmupd (si_Address s1) (own (addTargetToServiceInterface s1 t)) m)"
    by (auto simp: bind_edit_def update_edit_def validate_valid addTarget_other own_def split: if_splits)
  have "t_TargetPort ?t = 0" by (simp add: bind_target_def)
  with b(1) have "s1 = s\<lparr>si_Port := si_Port s1\<rparr>" "si_Port s1 \<noteq> 0" "t_Selector t = t_Selector ?t"
    by (auto simp: bind_ports_def split: if_splits)
  moreover have "t_Selector ?t \<in> {container_selector, host_selector}" by (simp add: bind_target_def)
  ultimately show ?thesis using b attach [OF b(2), of "si_Port s1" t m]
    by (metis ServiceInterface.select_convs(1) bind_ports_Inr \<open>t_TargetPort ?t = 0\<close> sup2I1)
next
  case (OpUnbind ty n a del)
  let ?hit = "hit a n (host_target_name w n)"
  from assms OpUnbind obtain s where s: "fmlookup m a = Some s" "\<exists>t \<in> set (si_Targets s). ?hit t"
    "m' = Some (if filter (\<lambda>t. \<not> ?hit t) (si_Targets s) = [] \<and> del then fmdrop a m
      else fmupd a (s\<lparr>si_Targets := filter (\<lambda>t. \<not> ?hit t) (si_Targets s)\<rparr>) m)"
    by (auto simp: unbind_edit_def remove_target_edit_def remove_targets_eq split: option.splits if_splits)
  then show ?thesis using detach [OF s(1), of "\<lambda>t. \<not> ?hit t"] withdraw [of a m]
    by (auto intro: fmdomI)
next
  case (OpRemove a)
  then show ?thesis using assms withdraw [of a m]
    by (auto simp: remove_edit_def intro: fmdomI split: if_splits)
qed

lemma op_refines:
  assumes "services_of w = Inr (Some m)"
  shows "\<exists>m'. services_of (fst (run_op D p w)) = Inr (Some m') \<and> registry_step\<^sup>*\<^sup>* m m'"
proof -
  obtain w' r where r: "run_op D p w = (w', r)" by fastforce
  show ?thesis
  proof (cases r)
    case (Inl e)
    with service_edit.error_atomic [OF run_op_edit, of D p w w'] r assms have "services_of w' = Inr (Some m)" by simp
    with r show ?thesis by auto
  next
    case (Inr u)
    with r obtain m0 m' where "services_of w = Inr m0" "op_edit p w m0 = Inr m'" "services_of w' = Inr m'"
      using service_edit.success [OF run_op_edit] by metis
    with assms r edit_is_step [of p w m m'] show ?thesis by auto
  qed
qed

lemma ops_refine:
  "services_of w = Inr (Some m) \<Longrightarrow> \<exists>m'. services_of (run_ops D ops w) = Inr (Some m') \<and> registry_step\<^sup>*\<^sup>* m m'"
proof (induction ops arbitrary: w m)
  case (Cons p ops)
  from op_refines [OF Cons.prems] obtain m1 where
    m1: "services_of (fst (run_op D p w)) = Inr (Some m1)" "registry_step\<^sup>*\<^sup>* m m1" by blast
  with Cons.IH [OF m1(1)] show ?case by (auto simp: run_ops_def intro: rtranclp_trans)
qed (simp add: run_ops_def)


section \<open>What every step keeps\<close>

text \<open>
  From the definitions \<open>m0\<close> on: a definition is stored under its address, and one of another site is
  one that was there, but for its targets.
\<close>

definition registry_inv :: "service_defs \<Rightarrow> service_defs \<Rightarrow> bool" where
  "registry_inv m0 m \<longleftrightarrow> keyed si_Address m \<and> (\<forall>a s. fmlookup m a = Some s \<longrightarrow> si_Origin s \<noteq> [] \<longrightarrow>
     (\<exists>s0. fmlookup m0 a = Some s0 \<and> s\<lparr>si_Targets := []\<rparr> = s0\<lparr>si_Targets := []\<rparr>
       \<and> set (si_Targets s) \<subseteq> set (si_Targets s0)))"

lemma registry_keeps: "registry_inv m0 m \<Longrightarrow> registry_step m m' \<Longrightarrow> registry_inv m0 m'"
proof (elim registry_stepE)
  fix s assume "registry_inv m0 m" "m' = fmupd (si_Address s) (own s) m"
  then show ?thesis by (auto simp: registry_inv_def own_def split: if_splits)
next
  fix s p t assume "registry_inv m0 m"
    "m' = fmupd (si_Address s) (own (addTargetToServiceInterface (s\<lparr>si_Port := p\<rparr>) t)) m"
  then show ?thesis by (auto simp: registry_inv_def own_def addTarget_other split: if_splits)
next
  fix a s P assume i: "registry_inv m0 m" and a: "fmlookup m a = Some s"
    and m': "m' = fmupd a (s\<lparr>si_Targets := filter P (si_Targets s)\<rparr>) m"
  have "si_Address s = a" using i a by (simp add: registry_inv_def keyed_iff)
  moreover have "\<exists>s0. fmlookup m0 a = Some s0 \<and> s\<lparr>si_Targets := []\<rparr> = s0\<lparr>si_Targets := []\<rparr>
      \<and> set (filter P (si_Targets s)) \<subseteq> set (si_Targets s0)" if "si_Origin s \<noteq> []"
    using i a that filter_is_subset [of P "si_Targets s"] unfolding registry_inv_def by (meson subset_trans)
  ultimately show ?thesis using i by (auto simp: registry_inv_def m' split: if_splits)
next
  fix a assume "registry_inv m0 m" "m' = fmdrop a m"
  then show ?thesis by (auto simp: registry_inv_def split: if_splits)
qed

interpretation registry: invariant_of "(=) m0" registry_step "\<lambda>m. keyed si_Address m0 \<longrightarrow> registry_inv m0 m" for m0
proof unfold_locales
  fix m assume "m0 = m"
  then show "keyed si_Address m0 \<longrightarrow> registry_inv m0 m" by (auto simp: registry_inv_def)
next
  fix m m' assume "keyed si_Address m0 \<longrightarrow> registry_inv m0 m" "registry_step m m'"
  then show "keyed si_Address m0 \<longrightarrow> registry_inv m0 m'" using registry_keeps by blast
qed

lemma steps_reach: "registry_step\<^sup>*\<^sup>* m m' \<Longrightarrow> reach ((=) m) registry_step m'"
  by (induction rule: rtranclp_induct) (auto intro: reach.intros)

text \<open>
  Property C21. The commands of a site cannot speak for another one: after any operations, whatever
  fails, each definition is still stored under its address, and a definition that names another site as
  its origin is one that was there before, with no target it did not have.
\<close>

theorem no_foreign_definition_made:
  assumes "services_of w = Inr (Some m)" "keyed si_Address m"
  shows "\<exists>m'. services_of (run_ops D ops w) = Inr (Some m') \<and> keyed si_Address m'
    \<and> (\<forall>a s. fmlookup m' a = Some s \<longrightarrow> si_Origin s \<noteq> [] \<longrightarrow>
        (\<exists>s0. fmlookup m a = Some s0 \<and> s\<lparr>si_Targets := []\<rparr> = s0\<lparr>si_Targets := []\<rparr>
          \<and> set (si_Targets s) \<subseteq> set (si_Targets s0)))"
proof -
  obtain m' where m': "services_of (run_ops D ops w) = Inr (Some m')" "registry_step\<^sup>*\<^sup>* m m'"
    using ops_refine [OF assms(1)] by blast
  have "registry_inv m m'" using registry.always [OF steps_reach [OF m'(2)]] assms(2) by blast
  with m'(1) show ?thesis unfolding registry_inv_def by blast
qed

end
