(* ===== verification/Connection_Examples.thy ===== *)
theory Connection_Examples imports Connector_Laws Cli_Laws Io_Total Service_Registry begin

text \<open>
  A connection of the demo site to a site \<open>site-2\<close>, a token of its own, and commands on the demo
  services, on which the properties of connections and of the command line are applied.
\<close>

section \<open>The demo site at work\<close>

definition demo_token :: cert_data where
  "demo_token = fmap_of_list [(''skupper.io/generated-by'', ''site-2''), (''inter-router-host'', ''10.0.0.7''),
     (''inter-router-port'', ''55671''), (''tls.crt'', ''cert'')]"

definition token_lib :: CertsLib where
  "token_lib = \<lparr>GetSecretContent = (\<lambda>f s. if f = ''token.yaml'' then Inr demo_token else Inl (no_such_file f)),
     GenerateCACertificateData = (\<lambda>_ _. fmempty), GenerateCertificateData = (\<lambda>_ _ _ _. fmempty),
     PutCertificateData = (\<lambda>_ _ _ _ s. s)\<rparr>"

definition east :: ConnectorCreateOptions where
  "east = \<lparr>co_Name = ''east'', co_Cost = 3\<rparr>"

abbreviation no_env :: "string \<Rightarrow> string" where
  "no_env \<equiv> \<lambda>_. []"

abbreviation config_path :: string where
  "config_path \<equiv> site_path no_env ConfigPath @ ''/qdrouterd.json''"

abbreviation east_dir :: string where
  "east_dir \<equiv> site_path no_env ConnectionsPath @ ''/east''"

text \<open>What the runs below keep of the world: the site is there, and so are the router and the controller.\<close>

definition at_work :: "demo world \<Rightarrow> bool" where
  "at_work w \<longleftrightarrow> env w = no_env \<and> CeDriver w = Some Docker \<and> denied (fs w) = {||}
     \<and> site_path no_env ConfigPath |\<in>| dirs (fs w) \<and> site_path no_env ConnectionsPath |\<in>| dirs (fs w)
     \<and> config_path |\<notin>| dirs (fs w)
     \<and> fmlookup (files (fs w)) (site_path no_env SitesPath @ ''/skupper0.json'') = Some (Doc (enc_SiteConfig demo_site))
     \<and> fmlookup (files (fs w)) (site_path no_env ServicesPath @ ''/skupper-services'') = Some (Doc (enc_services (Some fmempty)))
     \<and> fmlookup (engine w) TransportDeploymentName \<noteq> None \<and> fmlookup (engine w) ControllerDeploymentName \<noteq> None"

lemma at_work_settled: "at_work w \<Longrightarrow> settled demo_D w \<and> services_of w = Inr (Some fmempty) \<and> site_client demo_D w = (w, Inr demo_site)"
proof -
  assume a: "at_work w"
  then have p: "skupper_path w p = site_path no_env p" for p by (simp add: at_work_def skupper_path_def site_path_def)
  have s: "SiteConfigInspect DefaultBridgeName w = (w, Inr (Some demo_site))"
    using a by (simp add: at_work_def SiteConfigInspect_def site_file_def p DefaultBridgeName_def io_simps ReadFile_def fs_read_def
        site_codec.ptr_round_trip enc_SiteConfig_not_null)
  have c: "CeDriver w = Some Docker" using a by (simp add: at_work_def)
  obtain t where "ContainerInspect demo_driver TransportDeploymentName (engine w) = Inr t"
    using a by (auto simp: at_work_def demo_driver_def demo_inspect_def)
  with c site_client_ready [OF s] have "settled demo_D w" "site_client demo_D w = (w, Inr demo_site)"
    by (simp_all add: settled_def require_router_same)
  moreover have "services_of w = Inr (Some fmempty)"
    using a by (simp add: at_work_def services_of_def services_file_def p services_codec.dec_enc fs_read_def)
  ultimately show ?thesis by blast
qed

lemma demo_at_work: "at_work demo_world"
  by (simp add: at_work_def demo_world_def demo_fs_def demo_dir_def site_path_def fs_read_def fmlookup_of_list
      demo_engine_def GetSkupperPath_child TransportDeploymentName_def ControllerDeploymentName_def)

lemma recreate_demo:
  assumes "fmlookup s n = Some c"
  shows "RecreateContainer n demo_driver s
    = (fmupd n (demo_container (recreate_options n c)) (fmdrop n s), Inr ())"
  using assms by (simp add: RecreateContainer_def demo_driver_def demo_inspect_def demo_needs_def io_bind_def io_wrap_def
      io_ask_def recreate_options_def Let_def)

lemma list_demo:
  assumes "at_work w"
  shows "ServiceInterfaceList demo_D sorted_list_of_fmap w = (w, Inr [])"
proof -
  note a = at_work_settled [OF assms]
  then obtain x where x: "fs_read (services_file w) (fs w) = Inr x" "Unmarshal dec_services x = Inr (Some fmempty)"
    by (auto simp: services_of_def)
  have d: "CeDriver w = Some Docker" using assms by (simp add: at_work_def)
  have e: "sorted_list_of_fmap (fmempty :: service_defs) = []"
    using ranges_over_keys [OF ranges_over_sorted [of "fmempty :: service_defs"]] by simp
  show ?thesis unfolding ServiceInterfaceList_def prologue_settled [OF conjunct1 [OF a]]
    by (simp add: io_bind_def io_wrap_def ReadFile_def ce_def on_engine_def d x e)
qed

lemma restart_runs:
  assumes "at_work w"
  shows "\<exists>w'. restart_all demo_D sorted_list_of_fmap w = (w', Inr ()) \<and> at_work w' \<and> fs w' = fs w"
proof -
  let ?T = TransportDeploymentName and ?C = ControllerDeploymentName
  have ne: "?T \<noteq> ?C" by (simp add: TransportDeploymentName_def ControllerDeploymentName_def)
  obtain t c where tc: "fmlookup (engine w) ?T = Some t" "fmlookup (engine w) ?C = Some c"
    using assms by (auto simp: at_work_def)
  let ?e1 = "fmupd ?T (demo_container (recreate_options ?T t)) (fmdrop ?T (engine w))"
  let ?e2 = "fmupd ?C (demo_container (recreate_options ?C c)) (fmdrop ?C ?e1)"
  have r1: "RecreateContainer ?T demo_driver (engine w) = (?e1, Inr ())" by (rule recreate_demo [OF tc(1)])
  have "fmlookup ?e1 ?C = Some c" using tc ne by simp
  from recreate_demo [OF this] have r2: "RecreateContainer ?C demo_driver ?e1 = (?e2, Inr ())" .
  let ?w = "w\<lparr>engine := ?e2\<rparr>"
  have a: "at_work ?w" using assms ne by (simp add: at_work_def)
  have d: "CeDriver w = Some Docker" using assms by (simp add: at_work_def)
  have "ServiceInterfaceList demo_D sorted_list_of_fmap ?w = (?w, Inr [])" by (rule list_demo [OF a])
  then have "restart_all demo_D sorted_list_of_fmap w = (?w, Inr ())"
    by (simp add: restart_all_def io_bind_def io_wrap_def ce_def d on_engine_def r1 r2)
  with a show ?thesis by simp
qed


section \<open>Connecting and disconnecting\<close>

definition demo_config :: RouterConfig where
  "demo_config = InitialConfig ''r'' ''site-1'' False"

lemma demo_config_wf: "wf_RouterConfig demo_config"
  by (simp add: demo_config_def wf_InitialConfig)

lemma at_work_env: "at_work w \<Longrightarrow> in_env no_env w"
  by (simp add: at_work_def in_env_def)

text \<open>The site with a configuration in its file.\<close>

abbreviation configured :: "RouterConfig \<Rightarrow> demo world \<Rightarrow> bool" where
  "configured r w \<equiv> at_work w \<and> stored no_env config_path (Doc (MarshalRouterConfig (sorted_order r) r)) w"

lemma demo_configured: "configured demo_config demo_world"
proof -
  have "fs_read config_path (fs demo_world) = Inr (Doc (MarshalRouterConfig (sorted_order demo_config) demo_config))"
    by (simp add: demo_world_def demo_fs_def site_path_def fs_read_def fmlookup_of_list GetSkupperPath_child demo_config_def)
  then show ?thesis using demo_at_work at_work_env by (simp add: reads_def)
qed

lemma configured_reads: "wf_RouterConfig r \<Longrightarrow> configured r w \<Longrightarrow> current_config w = (w, Inr r)"
  using current_config_stored [of r "sorted_order r"] valid_sorted_order by blast

lemma other_files:
  "site_path no_env SitesPath @ ''/skupper0.json'' \<noteq> config_path"
  "site_path no_env ServicesPath @ ''/skupper-services'' \<noteq> config_path"
  "east_dir @ ''/'' @ k \<noteq> config_path" "east_dir \<noteq> config_path"
  "east_dir @ ''/'' @ k \<noteq> site_path no_env SitesPath @ ''/skupper0.json''"
  "east_dir @ ''/'' @ k \<noteq> site_path no_env ServicesPath @ ''/skupper-services''"
  using site_paths_differ [of ConnectionsPath ConfigPath no_env "''east/'' @ k" "''qdrouterd.json''"]
    site_paths_differ [of ConnectionsPath ConfigPath no_env "''east''" "''qdrouterd.json''"]
    site_paths_differ [of ConnectionsPath SitesPath no_env "''east/'' @ k" "''skupper0.json''"]
    site_paths_differ [of ConnectionsPath ServicesPath no_env "''east/'' @ k" "''skupper-services''"]
    site_paths_differ [of SitesPath ConfigPath no_env "''skupper0.json''" "''qdrouterd.json''"]
    site_paths_differ [of ServicesPath ConfigPath no_env "''skupper-services''" "''qdrouterd.json''"]
  by simp_all

lemma update_demo:
  assumes "at_work w"
  shows "\<exists>w'. update_config sorted_order r w = (w', Inr ()) \<and> configured r w'"
proof -
  have d: "dirname config_path = site_path no_env ConfigPath"
    using dirname_below [of "''qdrouterd.json''" no_env ConfigPath] by (simp add: slash_def)
  let ?w = "w\<lparr>fs := fs w\<lparr>files := fmupd config_path (Doc (MarshalRouterConfig (sorted_order r) r)) (files (fs w))\<rparr>\<rparr>"
  have "update_config sorted_order r w = (?w, Inr ())"
    using assms d config_file_env [OF at_work_env [OF assms]]
    by (simp add: update_config_def WriteToConfigFile_def WriteFile_def on_fs_def fs_write_def at_work_def io_wrap_def)
  moreover have "configured r ?w"
    using assms other_files(1,2) by (auto simp: at_work_def reads_def in_env_def fs_read_def)
  ultimately show ?thesis by blast
qed

text \<open>The directory of the connection, before and after it is made.\<close>

abbreviation no_east :: "demo world \<Rightarrow> bool" where
  "no_east w \<equiv> gone east_dir (fs w)"

lemma mkdir_east:
  assumes "configured r w" "no_east w"
  shows "\<exists>w'. Mkdir east_dir w = (w', Inr ()) \<and> configured r w' \<and> east_dir |\<in>| dirs (fs w')
    \<and> (\<forall>k. east_dir @ ''/'' @ k |\<notin>| dirs (fs w'))"
proof -
  have d: "dirname east_dir = site_path no_env ConnectionsPath"
    using dirname_below [of "''east''" no_env ConnectionsPath] by (simp add: slash_def)
  have n: "east_dir |\<notin>| dirs (fs w)" "east_dir |\<notin>| fmdom (files (fs w))" "east_dir @ ''/'' @ k |\<notin>| dirs (fs w)" for k
    using assms(2) by (auto simp: gone_def below_def HasPrefix_iff)
  let ?w = "w\<lparr>fs := fs w\<lparr>dirs := finsert east_dir (dirs (fs w))\<rparr>\<rparr>"
  have "Mkdir east_dir w = (?w, Inr ())"
    using assms(1) n(1,2) d by (simp add: Mkdir_def on_fs_def fs_mkdir_def at_work_def)
  moreover have "configured r ?w"
    using assms(1) other_files(4) by (auto simp: at_work_def reads_def in_env_def fs_read_def)
  ultimately show ?thesis using n(3) by auto
qed

lemma write_east:
  assumes "configured r w" "east_dir |\<in>| dirs (fs w)" "\<forall>k. east_dir @ ''/'' @ k |\<notin>| dirs (fs w)"
    and "\<forall>k \<in> set (map fst es). slash \<notin> set k \<or> k = TokenGeneratedBy"
  shows "\<exists>w'. write_token east_dir es w = (w', Inr ()) \<and> configured r w'"
  using assms
proof (induction es arbitrary: w)
  case (Cons x es)
  obtain k v where x: "x = (k, v)" by fastforce
  let ?k = "if k = TokenGeneratedBy then ''generated-by'' else k"
  let ?w = "w\<lparr>fs := fs w\<lparr>files := fmupd (east_dir @ ''/'' @ ?k) (Text v) (files (fs w))\<rparr>\<rparr>"
  have k: "slash \<notin> set ?k" using Cons.prems(4) x by (auto simp: slash_def)
  have d: "dirname (east_dir @ ''/'' @ ?k) = east_dir"
    by (rule dirname_append [OF k]) (simp add: site_path_child)
  have "east_dir @ ''/'' @ ?k |\<notin>| dirs (fs w)" using Cons.prems(3) by blast
  then have wr: "WriteFile (east_dir @ ''/'' @ ?k) (Text v) w = (?w, Inr ())"
    using d Cons.prems(1,2) by (simp only: WriteFile_def on_fs_def fs_write_def) (simp add: at_work_def)
  have "configured r ?w"
    using Cons.prems(1) other_files(3) [of ?k] other_files(5) [of ?k] other_files(6) [of ?k]
    by (auto simp: at_work_def reads_def in_env_def fs_read_def)
  from Cons.IH [OF this] Cons.prems obtain w' where w': "write_token east_dir es ?w = (w', Inr ())" "configured r w'" by auto
  have "write_token east_dir (x # es) w = write_token east_dir es ?w"
    using wr x by (cases "k = TokenGeneratedBy") (simp_all add: write_token_def io_bind_def io_wrap_def)
  with w' show ?case by metis
qed (simp add: write_token_def)


lemma demo_no_east: "no_east demo_world"
proof -
  have "\<not> below east_dir q" if "q |\<in>| dirs (fs demo_world)" for q
    using that other_files(3) [of "[]"]
    by (auto simp: demo_world_def demo_fs_def demo_dir_def below_def HasPrefix_iff site_path_def GetSkupperPath_child)
  moreover have "\<not> below east_dir q" if "q |\<in>| fmdom (files (fs demo_world))" for q
    using that by (auto simp: demo_world_def demo_fs_def below_def HasPrefix_iff site_path_def GetSkupperPath_child)
  ultimately show ?thesis unfolding gone_def by blast
qed

lemma token_plain: "\<forall>k \<in> set (map fst (sorted_list_of_fmap demo_token)). slash \<notin> set k \<or> k = TokenGeneratedBy"
  unfolding ranges_over_keys [OF ranges_over_sorted]
  by (simp add: demo_token_def TokenGeneratedBy_def slash_def)

lemma east_path: "at_work w \<Longrightarrow> connections_dir w ''east'' = east_dir"
  by (simp add: connections_dir_env [OF at_work_env])

lemma demo_connect:
  obtains w' and w1 :: "demo world" where "ConnectorCreate demo_D token_lib sorted_list_of_fmap sorted_order sorted_list_of_fmap ''token.yaml'' east demo_world
      = (w', Inr ''east'')" "configured (add_connection demo_config east_dir east w1) w'"
proof -
  let ?w = demo_world
  note a = at_work_settled [OF demo_at_work]
  obtain w2 where 2: "Mkdir east_dir ?w = (w2, Inr ())" "configured demo_config w2" "east_dir |\<in>| dirs (fs w2)"
    "\<forall>k. east_dir @ ''/'' @ k |\<notin>| dirs (fs w2)"
    using mkdir_east [OF demo_configured demo_no_east] by blast
  obtain w3 where 3: "write_token east_dir (sorted_list_of_fmap demo_token) w2 = (w3, Inr ())" "configured demo_config w3"
    using write_east [OF 2(2,3,4) token_plain] by blast
  note c = configured_reads [OF demo_config_wf 3(2)]
  let ?r = "add_connection demo_config east_dir east w3"
  obtain w4 where 4: "update_config sorted_order ?r w3 = (w4, Inr ())" "configured ?r w4"
    using update_demo [of w3] 3(2) by blast
  obtain w5 where 5: "restart_all demo_D sorted_list_of_fmap w4 = (w5, Inr ())" "at_work w5" "fs w5 = fs w4"
    using restart_runs [of w4] 4(2) by blast
  obtain t where t: "require_router demo_D ''Failed to retrieve transport container (need init?)'' ?w = (?w, Inr t)"
    using a by (auto simp: settled_def)
  have o: "token_origin demo_site ''token.yaml'' demo_token = Inr ()"
    by (simp add: token_origin_def demo_token_def demo_site_def fmlookup_of_list)
  have e: "east\<lparr>co_Name := ''east''\<rparr> = east" "co_Name east = ''east''" by (simp_all add: east_def)
  have d: "connections_dir ?w ''east'' = east_dir" "connections_dir w2 ''east'' = east_dir" "connections_dir w3 ''east'' = east_dir"
    using east_path demo_at_work 2(2) 3(2) by blast+
  have "ConnectorCreate demo_D token_lib sorted_list_of_fmap sorted_order sorted_list_of_fmap ''token.yaml'' east ?w = (w5, Inr ''east'')"
    using a t o 2(1) 3(1) c 4(1) 5(1)
    by (simp add: ConnectorCreate_def io_bind_def io_wrap_def token_lib_def e d)
  moreover have "configured ?r w5" using 4(2) 5(2,3) by (simp add: reads_def in_env_def at_work_def)
  ultimately show thesis by (rule that)
qed

lemma demo_current: "current_config demo_world = (demo_world, Inr demo_config)"
  by (rule configured_reads [OF demo_config_wf demo_configured])

lemma demo_fresh: "fmlookup (Connectors demo_config) ''east'' = None" "fmlookup (SslProfiles demo_config) (''east'' @ ''-profile'') = None"
  by (simp_all add: demo_config_def InitialConfig_def)

lemma sorted_everywhere: "\<forall>r. valid_order (sorted_order r) r" "\<forall>m :: cert_data. ranges_over (sorted_list_of_fmap m) m"
  by (simp_all add: valid_sorted_order ranges_over_sorted)

lemma connection_is_configured_witness:
  "\<exists>w' r c. current_config (w' :: demo world) = (w', Inr r) \<and> fmlookup (Connectors r) ''east'' = Some c
    \<and> c_Host c = ''10.0.0.7'' \<and> c_Port c = ''55671'' \<and> c_Cost c = 3 \<and> c_Role c = RoleInterRouter"
proof -
  obtain w' where w': "ConnectorCreate demo_D token_lib sorted_list_of_fmap sorted_order sorted_list_of_fmap ''token.yaml'' east demo_world
      = (w', Inr ''east'')" by (rule demo_connect)
  from connection_is_configured [OF this sorted_everywhere] obtain cur sec c where
    k: "current_config demo_world = (demo_world, Inr cur)" "GetSecretContent token_lib ''token.yaml'' (fs demo_world) = Inr sec"
    "current_config w' = (w', Inr (cur\<lparr>Connectors := fmupd ''east'' c (Connectors cur),
        SslProfiles := fmupd (''east'' @ ''-profile'') \<lparr>sp_Name = ''east'' @ ''-profile'',
          sp_CertFile = ''/etc/qpid-dispatch/connections/'' @ ''east'' @ ''/tls.crt'',
          sp_PrivateKeyFile = ''/etc/qpid-dispatch/connections/'' @ ''east'' @ ''/tls.key'',
          sp_CaCertFile = ''/etc/qpid-dispatch/connections/'' @ ''east'' @ ''/ca.crt''\<rparr> (SslProfiles cur)\<rparr>))"
    "c_Cost c = co_Cost east" "c_Role c = (if IsEdge cur then RoleEdge else RoleInterRouter)"
    "\<forall>host. fmlookup sec (if IsEdge cur then ''edge-host'' else ''inter-router-host'') = Some host \<longrightarrow> c_Host c = host"
    "\<forall>port. fmlookup sec (if IsEdge cur then ''edge-port'' else ''inter-router-port'') = Some port \<longrightarrow> c_Port c = port"
    by blast
  have cur: "cur = demo_config" "sec = demo_token"
    using k(1,2) demo_current by (simp_all add: token_lib_def)
  have interior: "\<not> IsEdge demo_config"
    by (simp add: IsEdge_def demo_config_def InitialConfig_def ModeEdge_def ModeInterior_def)
  have "c_Host c = ''10.0.0.7''" "c_Port c = ''55671''" "c_Cost c = 3" "c_Role c = RoleInterRouter"
    using k(4-7) unfolding cur(1,2) by (simp_all add: interior demo_token_def fmlookup_of_list east_def)
  with k(3) show ?thesis by (intro exI [of _ w'] exI exI [of _ c]) (rule conjI, assumption, simp)
qed

lemma connect_then_disconnect_witness:
  "\<exists>w' :: demo world. current_config w' = (w', Inr demo_config) \<and> no_east w'"
proof -
  obtain w' and w1 :: "demo world" where w': "ConnectorCreate demo_D token_lib sorted_list_of_fmap sorted_order sorted_list_of_fmap ''token.yaml'' east demo_world
      = (w', Inr ''east'')" and c: "configured (add_connection demo_config east_dir east w1) w'" by (rule demo_connect)
  let ?r = "add_connection demo_config east_dir east w1"
  have wf: "wf_RouterConfig ?r" using demo_config_wf by (simp add: add_connection_def Let_def wf_adds)
  note cur = configured_reads [OF wf c]
  obtain r' where r': "RemoveConnector ''east'' ?r = (r', True)"
    by (auto simp: RemoveConnector_def add_connection_def Let_def AddConnector_def new_connector_def zero_Connector_def east_def)
  let ?w1 = "w'\<lparr>fs := fst (fs_remove_all east_dir (fs w'))\<rparr>"
  have rm: "RemoveAll east_dir w' = (?w1, Inr ())"
    using c by (simp add: RemoveAll_def on_fs_def fs_remove_all_def stuck_def at_work_def)
  have far: "\<not> below east_dir (site_path no_env ConfigPath)" "\<not> below east_dir (site_path no_env ConnectionsPath)"
    "\<not> below east_dir (site_path no_env SitesPath @ ''/skupper0.json'')"
    "\<not> below east_dir (site_path no_env ServicesPath @ ''/skupper-services'')"
    by (auto simp: below_def HasPrefix_iff site_path_child)
  have "at_work ?w1" using c far by (auto simp: at_work_def fs_remove_all_def stuck_def)
  from update_demo [OF this] obtain w2 where
    w2: "update_config sorted_order (fst (RemoveConnSslProfile ''east'' r')) ?w1 = (w2, Inr ())" "at_work w2" by blast
  obtain w3 where w3: "restart_all demo_D sorted_list_of_fmap w2 = (w3, Inr ())" using restart_runs [OF w2(2)] by blast
  note a = at_work_settled [OF conjunct1 [OF c]]
  have "ConnectorRemove demo_D sorted_order sorted_list_of_fmap ''east'' w' = (w3, Inr ())"
    using cur r' rm w2(1) w3 east_path [OF conjunct1 [OF c]] a
    unfolding ConnectorRemove_def prologue_settled [OF conjunct1 [OF a]] by (simp add: io_bind_def io_wrap_def)
  from connect_then_disconnect [OF w' this sorted_everywhere(1) demo_current demo_fresh] show ?thesis
    using east_path [OF demo_at_work] by auto
qed


section \<open>The site's own token\<close>

text \<open>A library that keeps a token as the document of its entries.\<close>

fun token_entry :: "string \<times> json \<Rightarrow> (string \<times> string) list" where
  "token_entry (k, JStr v) = [(k, v)]"
| "token_entry _ = []"

fun token_entries :: "content \<Rightarrow> cert_data result" where
  "token_entries (Doc (JObj ms)) = Inr (fmap_of_list (concat (map token_entry ms)))"
| "token_entries _ = Inl syntax_error"

definition file_lib :: CertsLib where
  "file_lib = \<lparr>GetSecretContent = (\<lambda>f s. rbind (fs_read f s) token_entries),
     GenerateCACertificateData = (\<lambda>_ _. fmempty), GenerateCertificateData = (\<lambda>_ _ _ _. fmempty),
     PutCertificateData = (\<lambda>_ f d a s. s\<lparr>files := fmupd f
       (Doc (JObj (map (\<lambda>(k, v). (k, JStr v)) (sorted_list_of_fmap (d ++\<^sub>f a))))) (files s)\<rparr>)\<rparr>"

lemma token_entries_doc:
  "token_entries (Doc (JObj (map (\<lambda>(k, v). (k, JStr v)) es))) = Inr (fmap_of_list es)"
proof -
  have "concat (map token_entry (map (\<lambda>(k, v). (k, JStr v)) es)) = es"
    by (induction es) auto
  then show ?thesis by simp
qed

lemma file_lib_laws: "tokens_annotated file_lib" "tokens_separate file_lib"
proof -
  have "fmap_of_list (sorted_list_of_fmap m) = m" for m :: cert_data
    using ranges_over_sorted [of m] by (simp add: ranges_over_def)
  then show "tokens_annotated file_lib"
    by (auto simp: tokens_annotated_def file_lib_def fs_read_def token_entries_doc fmdom_notD split: if_splits
        simp del: token_entries.simps)
  show "tokens_separate file_lib" by (simp add: tokens_separate_def file_lib_def fs_read_def)
qed

definition ca_world :: "demo world" where
  "ca_world = demo_world\<lparr>fs := fs demo_world\<lparr>dirs := finsert (site_path no_env CertsPath @ ''/skupper-internal-ca'') (dirs (fs demo_world))\<rparr>\<rparr>"

lemma fs_list_empty:
  assumes "p |\<notin>| denied s" "p |\<in>| dirs s" "\<And>q. q |\<in>| dirs s |\<union>| fmdom (files s) \<Longrightarrow> child_name p q = None"
  shows "fs_list p s = Inr []"
proof -
  have "ffilter (\<lambda>q. child_name p q \<noteq> None) (dirs s |\<union>| fmdom (files s)) = {||}"
    using assms(3) by (auto intro!: fset_eqI)
  with assms(1,2) show ?thesis by (simp only: fs_list_def) (simp add: sorted_list_of_fset.rep_eq)
qed

lemma own_token_refused_witness:
  "\<exists>w1 :: demo world. \<exists>e. snd (ConnectorCreate demo_D file_lib sorted_list_of_fmap sorted_order sorted_list_of_fmap ''own.yaml'' east w1) = Inl e"
proof -
  let ?ca = "site_path no_env CertsPath @ ''/skupper-internal-ca''"
  have "?ca \<noteq> config_path"
    using site_paths_differ [of CertsPath ConfigPath no_env "''skupper-internal-ca''" "''qdrouterd.json''"] by simp
  then have c: "configured demo_config ca_world"
    using demo_configured by (auto simp: ca_world_def at_work_def reads_def in_env_def fs_read_def)
  note a = at_work_settled [OF conjunct1 [OF c]]
  have cp: "cert_path ca_world ''skupper-internal-ca'' = ?ca"
    using skupper_path_env [OF at_work_env [OF conjunct1 [OF c]]] by (simp add: cert_path_def)
  have none: "child_name ?ca q = None" if "q |\<in>| dirs (fs ca_world) |\<union>| fmdom (files (fs ca_world))" for q
    using that
    by (auto simp: ca_world_def demo_world_def demo_fs_def demo_dir_def child_name_def HasPrefix_iff site_path_def GetSkupperPath_child)
  have "?ca |\<in>| dirs (fs ca_world)" "?ca |\<notin>| denied (fs ca_world)"
    using c by (simp_all add: ca_world_def at_work_def)
  then have "getCertData ''skupper-internal-ca'' ca_world = (fmempty, None)"
    using fs_list_empty [OF _ _ none] by (simp add: getCertData_def cp)
  moreover have "\<not> IsEdge demo_config"
    by (simp add: IsEdge_def demo_config_def InitialConfig_def ModeEdge_def ModeInterior_def)
  ultimately have "\<exists>w1. ConnectorTokenCreate demo_D file_lib ''east'' ''own.yaml'' ca_world = (w1, Inr ())"
    using a configured_reads [OF demo_config_wf c] by (auto simp: ConnectorTokenCreate_def settled_def io_bind_def Let_def)
  moreover have "slash \<in> set (site_file ca_world DefaultBridgeName)" by (simp add: site_file_def slash_def)
  moreover have "slash \<notin> set ''own.yaml''" by (simp add: slash_def)
  ultimately show ?thesis using own_token_refused [OF _ file_lib_laws] by metis
qed

section \<open>Commands\<close>


lemma demo_world_denied: "denied (fs demo_world) = {||}"
  by (simp add: demo_world_def demo_fs_def)

definition silent :: ConnectorInspectResponse where
  "silent = \<lparr>cir_Connector = described_connector ''east'' ''10.0.0.7'' ''55671'' ConnectorRoleInterRouter, cir_Connected = False\<rparr>"

lemma check_reports_what_it_saw_witness:
  "\<exists>(w' :: demo world) cs k. check_loop demo_D 1 [silent] 0 demo_world = (w', Inr (cs, k)) \<and> map cir_Connector cs = [cir_Connector silent]
    \<and> k = length (filter cir_Connected cs)"
proof -
  have "fmlookup (files (fs demo_world)) (connections_dir demo_world ''east'' @ ''/inter-router-host'') = None"
    unfolding east_path [OF demo_at_work]
    by (simp add: demo_world_def demo_fs_def site_path_def GetSkupperPath_child fmlookup_of_list)
  moreover have "role_suffix demo_config = ''/inter-router-''"
    by (simp add: role_suffix_def IsEdge_def demo_config_def InitialConfig_def ModeEdge_def ModeInterior_def)
  ultimately have "\<exists>e. ConnectorInspect demo_D ''east'' demo_world = (demo_world, Inl (Wrap ''Could not retrieve connection-token files'' (Err e)))"
    unfolding ConnectorInspect_def prologue_settled [OF settled_demo]
    by (simp add: io_bind_def io_wrap_def demo_current ReadFile_def fs_read_def rwrap_def no_such_file_def demo_world_denied)
  then have r: "check_loop demo_D 1 [silent] 0 demo_world = (demo_world, Inr ([silent], 0))"
    by (auto simp: io_bind_def io_try_def silent_def described_connector_def)
  from check_reports_what_it_saw [OF this] have "map cir_Connector [silent] = [cir_Connector silent] \<and> 0 = length (filter cir_Connected [silent])"
    by (simp add: silent_def)
  with r show ?thesis by (intro exI [of _ demo_world] exI [of _ "[silent]"] exI [of _ "0 :: nat"] conjI) auto
qed

lemma unexpose_without_address_witness:
  "services_of (fst (unexpose_command demo_D [] [''container'', ''pg''] demo_world)) = Inr (Some fmempty)"
  using unexpose_without_address [OF demo_services, of demo_D "''pg''"] by simp

lemma expose_then_unexpose_witness:
  "\<exists>w2 :: demo world. \<exists>w1. unexpose_command demo_D ''db'' [''container'', ''pg''] w1
    = (w2, Inr (line ''container pg unexposed'', None)) \<and> services_of w2 = Inr (Some fmempty)"
proof -
  let ?opts = "\<lparr>so_Protocol = ''tcp'', so_Address = ''db'', so_Port = 0, so_TargetPort = 5432, so_Headless = False\<rparr>"
  obtain w' where w': "ServiceInterfaceBind demo_D bare_service ''container'' ''pg'' ''tcp'' 5432 demo_world = (w', Inr ())"
    by (rule demo_bind)
  have s: "zero_ServiceInterface\<lparr>si_Address := ''db'', si_Protocol := ''tcp''\<rparr> = bare_service" 
    "zero_ServiceInterface\<lparr>si_Address := ''db'', si_Port := 0, si_Protocol := ''tcp'', si_Origin := []\<rparr> = bare_service"
    by (simp_all add: bare_service_def zero_ServiceInterface_def)
  have "expose demo_D ''container'' ''pg'' ?opts demo_world = (w', Inr ())"
    using inspect_settled [OF settled_demo demo_services, of "''db''"] w' s
    by (simp add: expose_def io_bind_def io_wrap_def)
  then have "expose_command demo_D ?opts [''container'', ''pg''] demo_world
      = (w', Inr (line (''container'' @ '' '' @ ''pg'' @ '' exposed as '' @ ''db''), None))"
    by (simp add: expose_command_def Let_def parse_two on_value_def io_bind_def io_try_def prints_def)
  from expose_then_unexpose [OF this, of "''db''" fmempty] show ?thesis by (auto simp: demo_services)
qed


section \<open>The registry\<close>


lemma no_foreign_definition_made_witness:
  "\<exists>m'. services_of (run_ops demo_D [OpCreate (sample_service\<lparr>si_Origin := ''site-2''\<rparr>)] demo_world) = Inr (Some m')
    \<and> (\<forall>a s. fmlookup m' a = Some s \<longrightarrow> si_Origin s = [])"
  using no_foreign_definition_made [OF demo_services keyed_empty, of demo_D "[OpCreate (sample_service\<lparr>si_Origin := ''site-2''\<rparr>)]"]
  by fastforce

end
