(* ===== verification/Service_Bindings.thy ===== *)
theory Service_Bindings imports Api_Types begin

text \<open>
  \<open>cmd/service-controller/bridges.go\<close>: what the controller keeps of a service, its bindings, with
  the targets under the keys \<open>address@name\<close>, and how a definition changes them.

  Strings that are equal with their address in front have equal names, so the keys are names.
\<close>

section \<open>Types\<close>

record EgressBindings =
  eb_name :: string
  eb_selector :: string
  eb_service :: string
  eb_egressPort :: goint

record ServiceBindings =
  sb_origin :: string
  sb_protocol :: string
  sb_address :: string
  sb_publicPort :: goint
  sb_ingressPort :: goint
  sb_aggregation :: string
  sb_eventChannel :: bool
  sb_headless :: "Headless option"
  sb_targets :: "(string, EgressBindings) fmap"

definition getBridgeName :: "string \<Rightarrow> string \<Rightarrow> string" where
  "getBridgeName address host = (if host = [] then address else address @ ''@'' @ host)"

definition newServiceBindings ::
  "string \<Rightarrow> string \<Rightarrow> string \<Rightarrow> goint \<Rightarrow> Headless option \<Rightarrow> goint \<Rightarrow> string \<Rightarrow> bool \<Rightarrow> ServiceBindings" where
  "newServiceBindings origin protocol address publicPort headless ingressPort aggregation eventChannel =
     \<lparr>sb_origin = origin, sb_protocol = protocol, sb_address = address, sb_publicPort = publicPort,
      sb_ingressPort = ingressPort, sb_aggregation = aggregation, sb_eventChannel = eventChannel,
      sb_headless = headless, sb_targets = fmempty\<rparr>"

text \<open>\<open>es\<close> is the order in which the loop visits the targets.\<close>

definition asServiceInterface ::
  "(string \<times> EgressBindings) list \<Rightarrow> ServiceBindings \<Rightarrow> ServiceInterface" where
  "asServiceInterface es bindings = zero_ServiceInterface\<lparr>si_Address := sb_address bindings,
     si_Protocol := sb_protocol bindings, si_Port := sb_publicPort bindings,
     si_Aggregate := sb_aggregation bindings, si_EventChannel := sb_eventChannel bindings,
     si_Headless := sb_headless bindings, si_Origin := sb_origin bindings,
     si_Targets := map (\<lambda>(_, eb). \<lparr>t_Name = eb_name eb, t_Selector = eb_selector eb,
        t_TargetPort = eb_egressPort eb, t_Service = eb_service eb\<rparr>) es\<rparr>"

definition getTargetPort :: "ServiceInterface \<Rightarrow> ServiceInterfaceTarget \<Rightarrow> goint" where
  "getTargetPort service target =
     (if t_TargetPort target = 0 then si_Port service else t_TargetPort target)"

definition target_key :: "string \<Rightarrow> string \<Rightarrow> string" where
  "target_key address name = address @ ''@'' @ name"

definition hasTargetForName :: "ServiceInterface \<Rightarrow> string \<Rightarrow> bool" where
  "hasTargetForName si name = list_ex (\<lambda>t. target_key (si_Address si) (t_Name t) = name) (si_Targets si)"

definition hasTargetForSelector :: "ServiceInterface \<Rightarrow> string \<Rightarrow> bool" where
  "hasTargetForSelector si selector = list_ex (\<lambda>t. t_Selector t = selector) (si_Targets si)"

definition hasTargetForService :: "ServiceInterface \<Rightarrow> string \<Rightarrow> bool" where
  "hasTargetForService si service = list_ex (\<lambda>t. t_Service t = service) (si_Targets si)"

section \<open>Operations\<close>

definition addTarget :: "string \<Rightarrow> string \<Rightarrow> string \<Rightarrow> goint \<Rightarrow> ServiceBindings \<Rightarrow> ServiceBindings" where
  "addTarget address name selector port sb = sb\<lparr>sb_targets := fmupd (target_key address name)
     \<lparr>eb_name = name, eb_selector = selector, eb_service = [], eb_egressPort = port\<rparr> (sb_targets sb)\<rparr>"

definition addSelectorTarget :: "string \<Rightarrow> string \<Rightarrow> goint \<Rightarrow> ServiceBindings \<Rightarrow> ServiceBindings" where
  "addSelectorTarget name selector port sb = sb\<lparr>sb_targets := fmupd selector
     \<lparr>eb_name = name, eb_selector = selector, eb_service = [], eb_egressPort = port\<rparr> (sb_targets sb)\<rparr>"

definition removeSelectorTarget :: "string \<Rightarrow> ServiceBindings \<Rightarrow> ServiceBindings" where
  "removeSelectorTarget selector sb = sb\<lparr>sb_targets := fmdrop selector (sb_targets sb)\<rparr>"

definition addServiceTarget :: "string \<Rightarrow> string \<Rightarrow> goint \<Rightarrow> ServiceBindings \<Rightarrow> ServiceBindings" where
  "addServiceTarget name service port sb = sb\<lparr>sb_targets := fmupd service
     \<lparr>eb_name = name, eb_selector = [], eb_service = service, eb_egressPort = port\<rparr> (sb_targets sb)\<rparr>"

definition removeServiceTarget :: "string \<Rightarrow> ServiceBindings \<Rightarrow> ServiceBindings" where
  "removeServiceTarget service sb = sb\<lparr>sb_targets := fmdrop service (sb_targets sb)\<rparr>"

text \<open>The first branch of \<open>updateServiceBindings\<close>: a service that had no bindings.\<close>

fun fresh_targets ::
  "string \<Rightarrow> ServiceInterfaceTarget list \<Rightarrow> (string, EgressBindings) fmap \<Rightarrow> (string, EgressBindings) fmap" where
  "fresh_targets address [] m = m"
| "fresh_targets address (t # ts) m = fresh_targets address ts (fmupd (target_key address (t_Name t))
     \<lparr>eb_name = t_Name t, eb_selector = t_Selector t, eb_service = t_Service t,
      eb_egressPort = t_TargetPort t\<rparr> m)"

definition fresh_bindings :: "ServiceInterface \<Rightarrow> ServiceBindings" where
  "fresh_bindings required =
     (let sb = newServiceBindings (si_Origin required) (si_Protocol required) (si_Address required)
        (si_Port required) (si_Headless required) (si_Port required) (si_Aggregate required)
        (si_EventChannel required)
      in sb\<lparr>sb_targets := fresh_targets (si_Address required) (si_Targets required) (sb_targets sb)\<rparr>)"

text \<open>The second branch: the fields that are compared are set, then the targets one by one.\<close>

definition update_fields :: "ServiceInterface \<Rightarrow> ServiceBindings \<Rightarrow> ServiceBindings" where
  "update_fields required bindings = bindings\<lparr>sb_protocol := si_Protocol required,
     sb_publicPort := si_Port required, sb_aggregation := si_Aggregate required,
     sb_eventChannel := si_EventChannel required, sb_origin := si_Origin required\<rparr>"

definition update_target :: "ServiceInterface \<Rightarrow> ServiceInterfaceTarget \<Rightarrow> ServiceBindings \<Rightarrow> ServiceBindings" where
  "update_target required t bindings =
     (let targetPort = getTargetPort required t;
          key = target_key (si_Address required) (t_Name t)
      in case fmlookup (sb_targets bindings) key of
           None \<Rightarrow> addTarget (si_Address required) (t_Name t) (t_Selector t) targetPort bindings
         | Some target \<Rightarrow>
             (if eb_egressPort target \<noteq> targetPort
              then bindings\<lparr>sb_targets := fmupd key (target\<lparr>eb_egressPort := targetPort\<rparr>) (sb_targets bindings)\<rparr>
              else bindings))"

definition drop_targets :: "ServiceInterface \<Rightarrow> ServiceBindings \<Rightarrow> ServiceBindings" where
  "drop_targets required bindings =
     bindings\<lparr>sb_targets := fmfilter (\<lambda>k. hasTargetForName required k) (sb_targets bindings)\<rparr>"

definition updated_bindings :: "ServiceInterface \<Rightarrow> ServiceBindings \<Rightarrow> ServiceBindings" where
  "updated_bindings required bindings = drop_targets required
     (fold (update_target required) (si_Targets required) (update_fields required bindings))"

definition updateServiceBindings ::
  "ServiceInterface \<Rightarrow> (string, ServiceBindings) fmap \<Rightarrow> (string, ServiceBindings) fmap" where
  "updateServiceBindings required bindings =
     fmupd (si_Address required)
       (case fmlookup bindings (si_Address required) of
          None \<Rightarrow> fresh_bindings required | Some b \<Rightarrow> updated_bindings required b)
       bindings"

section \<open>The targets of bindings\<close>

lemma target_key_inj [simp]: "target_key a n = target_key a n' \<longleftrightarrow> n = n'"
  by (simp add: target_key_def)

lemma hasTargetForName_iff: "hasTargetForName si k \<longleftrightarrow> k \<in> (\<lambda>t. target_key (si_Address si) (t_Name t)) ` set (si_Targets si)"
  by (auto simp: hasTargetForName_def list_ex_iff)

text \<open>The target of a name that decides: the last of the list.\<close>

definition last_target :: "ServiceInterface \<Rightarrow> string \<Rightarrow> ServiceInterfaceTarget option" where
  "last_target si k = find (\<lambda>t. target_key (si_Address si) (t_Name t) = k) (rev (si_Targets si))"

lemma last_target_None: "last_target si k = None \<longleftrightarrow> \<not> hasTargetForName si k"
  by (auto simp: last_target_def find_None_iff hasTargetForName_iff)

lemma fresh_targets_append: "fresh_targets a (ts @ us) m = fresh_targets a us (fresh_targets a ts m)"
  by (induction ts arbitrary: m) simp_all

lemma fresh_targets_lookup:
  "fmlookup (fresh_targets a ts m) k =
     (case find (\<lambda>t. target_key a (t_Name t) = k) (rev ts) of
        None \<Rightarrow> fmlookup m k
      | Some t \<Rightarrow> Some \<lparr>eb_name = t_Name t, eb_selector = t_Selector t, eb_service = t_Service t,
          eb_egressPort = t_TargetPort t\<rparr>)"
  by (induction ts rule: rev_induct) (auto simp: fresh_targets_append)

lemma fold_update_target_fields:
  "sb_origin (fold (update_target r) ts b) = sb_origin b"
  "sb_protocol (fold (update_target r) ts b) = sb_protocol b"
  "sb_address (fold (update_target r) ts b) = sb_address b"
  "sb_publicPort (fold (update_target r) ts b) = sb_publicPort b"
  "sb_aggregation (fold (update_target r) ts b) = sb_aggregation b"
  "sb_eventChannel (fold (update_target r) ts b) = sb_eventChannel b"
  "sb_headless (fold (update_target r) ts b) = sb_headless b"
  "sb_ingressPort (fold (update_target r) ts b) = sb_ingressPort b"
  by (induction ts arbitrary: b) (auto simp: update_target_def addTarget_def Let_def split: option.split)

lemma update_target_lookup:
  "map_option eb_egressPort (fmlookup (sb_targets (update_target r t b)) k) =
     (if k = target_key (si_Address r) (t_Name t) then Some (getTargetPort r t)
      else map_option eb_egressPort (fmlookup (sb_targets b) k))"
  by (auto simp: update_target_def addTarget_def Let_def split: option.split)

lemma fold_update_target_port:
  "map_option eb_egressPort (fmlookup (sb_targets (fold (update_target r) ts b)) k) =
     (case find (\<lambda>t. target_key (si_Address r) (t_Name t) = k) (rev ts) of
        None \<Rightarrow> map_option eb_egressPort (fmlookup (sb_targets b) k)
      | Some t \<Rightarrow> Some (getTargetPort r t))"
proof (induction ts rule: rev_induct)
  case (snoc t ts)
  then show ?case
    using update_target_lookup [of r t "fold (update_target r) ts b" k] by auto
qed simp

lemma updated_port:
  "map_option eb_egressPort (fmlookup (sb_targets (updated_bindings r b)) k) =
     map_option (getTargetPort r) (last_target r k)"
proof (cases "last_target r k")
  case None
  then show ?thesis
    by (simp add: updated_bindings_def drop_targets_def last_target_None)
next
  case (Some t)
  then have "hasTargetForName r k" using last_target_None [of r k] by simp
  then have "map_option eb_egressPort (fmlookup (sb_targets (updated_bindings r b)) k) =
      map_option eb_egressPort (fmlookup (sb_targets (fold (update_target r) (si_Targets r) (update_fields r b))) k)"
    by (simp add: updated_bindings_def drop_targets_def)
  then show ?thesis using Some by (simp add: fold_update_target_port last_target_def)
qed

lemma fresh_port:
  "map_option eb_egressPort (fmlookup (sb_targets (fresh_bindings r)) k) =
     map_option t_TargetPort (last_target r k)"
  by (simp add: fresh_bindings_def newServiceBindings_def Let_def fresh_targets_lookup last_target_def
      split: option.split)


lemma update_target_other:
  "k \<noteq> target_key (si_Address r) (t_Name t) \<Longrightarrow>
   fmlookup (sb_targets (update_target r t b)) k = fmlookup (sb_targets b) k"
  by (auto simp: update_target_def addTarget_def Let_def split: option.split)

lemma update_target_present:
  "fmlookup (sb_targets b) (target_key (si_Address r) (t_Name t)) = Some eb \<Longrightarrow>
   fmlookup (sb_targets (update_target r t b)) (target_key (si_Address r) (t_Name t))
     = Some (eb\<lparr>eb_egressPort := getTargetPort r t\<rparr>)"
  by (auto simp: update_target_def Let_def)

lemma fold_update_target_present:
  "(\<And>t. t \<in> set ts \<Longrightarrow> target_key (si_Address r) (t_Name t) |\<in>| fmdom (sb_targets b)) \<Longrightarrow>
   fmlookup (sb_targets (fold (update_target r) ts b)) k =
     map_option (\<lambda>eb. case find (\<lambda>t. target_key (si_Address r) (t_Name t) = k) (rev ts) of
        None \<Rightarrow> eb | Some t \<Rightarrow> eb\<lparr>eb_egressPort := getTargetPort r t\<rparr>) (fmlookup (sb_targets b) k)"
proof (induction ts rule: rev_induct)
  case Nil
  then show ?case by (simp add: option.map_ident)
next
  case (snoc t ts)
  let ?b = "fold (update_target r) ts b"
  let ?k = "target_key (si_Address r) (t_Name t)"
  have IH: "fmlookup (sb_targets ?b) k = map_option (\<lambda>eb. case find (\<lambda>t. target_key (si_Address r) (t_Name t) = k) (rev ts)
      of None \<Rightarrow> eb | Some t \<Rightarrow> eb\<lparr>eb_egressPort := getTargetPort r t\<rparr>) (fmlookup (sb_targets b) k)"
    using snoc by simp
  show ?case
  proof (cases "k = ?k")
    case False
    then show ?thesis using IH by (simp add: update_target_other)
  next
    case True
    from snoc.prems have "\<exists>eb. fmlookup (sb_targets b) k = Some eb"
      by (simp add: True fmdom_lookup)
    with IH True show ?thesis
      by (auto simp: update_target_present split: option.splits)
  qed
qed

lemma updated_lookup:
  assumes "\<And>k. hasTargetForName r k \<Longrightarrow> k |\<in>| fmdom (sb_targets b)"
  shows "fmlookup (sb_targets (updated_bindings r b)) k = (case last_target r k of
      None \<Rightarrow> None
    | Some t \<Rightarrow> map_option (\<lambda>eb. eb\<lparr>eb_egressPort := getTargetPort r t\<rparr>) (fmlookup (sb_targets b) k))"
proof (cases "last_target r k")
  case None
  then show ?thesis using last_target_None [of r k]
    by (simp add: updated_bindings_def drop_targets_def)
next
  case (Some t)
  then have "hasTargetForName r k" using last_target_None [of r k] by simp
  moreover have "fmlookup (sb_targets (fold (update_target r) (si_Targets r) (update_fields r b))) k =
      map_option (\<lambda>eb. case last_target r k of None \<Rightarrow> eb
        | Some t \<Rightarrow> eb\<lparr>eb_egressPort := getTargetPort r t\<rparr>) (fmlookup (sb_targets (update_fields r b)) k)"
    unfolding last_target_def
    by (rule fold_update_target_present) (use assms in \<open>auto simp: hasTargetForName_iff update_fields_def\<close>)
  ultimately show ?thesis
    using Some by (simp add: updated_bindings_def drop_targets_def update_fields_def)
qed

lemma updated_idem: "updated_bindings r (updated_bindings r b) = updated_bindings r b"
proof -
  let ?b = "updated_bindings r b"
  have p: "k |\<in>| fmdom (sb_targets ?b) \<longleftrightarrow> hasTargetForName r k" for k
    using updated_port [of r b k] last_target_None [of r k]
    by (cases "last_target r k") (auto simp: fmdom_lookup)
  have "fmlookup (sb_targets (updated_bindings r ?b)) k = fmlookup (sb_targets ?b) k" for k
  proof (cases "last_target r k")
    case None
    then show ?thesis using p [of k] last_target_None [of r k] by (simp add: updated_lookup p fmdom_notD)
  next
    case (Some t)
    then obtain eb where "fmlookup (sb_targets ?b) k = Some eb" "eb_egressPort eb = getTargetPort r t"
      using updated_port [of r b k] by auto
    then show ?thesis using Some by (simp add: updated_lookup p)
  qed
  then have "sb_targets (updated_bindings r ?b) = sb_targets ?b" by (rule fmap_ext)
  then show ?thesis
    by (simp add: updated_bindings_def drop_targets_def update_fields_def fold_update_target_fields)
qed

text \<open>
  Seeing the same definition again and again settles: from the second sight of a
  definition on the bindings do not change any more.
\<close>

theorem updateServiceBindings_settles:
  "let once = updateServiceBindings r bs; twice = updateServiceBindings r once
   in updateServiceBindings r twice = twice"
  by (simp add: updateServiceBindings_def updated_idem split: option.split)

end
