(* ===== verification/Service_Sync.thy ===== *)
theory Service_Sync imports Client_Base Service_Bindings begin

text \<open>
  The controller's state (\<open>Controller\<close> and \<open>updateSkupperServices\<close> of
  \<open>cmd/service-controller/controller.go\<close>) and the exchange of service definitions between sites
  (\<open>cmd/service-controller/service_sync.go\<close>).

  A handler is a function on a node, the controller's state with the world of its container. The
  file of the definitions is shared with the clients of the site. Errors are logged and the
  handler goes on; a panic ends the program and is the only error a handler returns. Times are
  nanoseconds. The orders in which loops visit maps are parameters.
\<close>

section \<open>State\<close>

record Controller =
  k_origin :: string
  bindings :: "(string, ServiceBindings) fmap"
  byOrigin :: "(string, service_defs) fmap"
  localServices :: service_defs
  byName :: service_defs
  desiredServices :: service_defs
  heardFrom :: "(string, int) fmap"

record 'e node =
  ctl :: Controller
  host :: "'e world"

definition NewController :: "string \<Rightarrow> Controller" where
  "NewController origin = \<lparr>k_origin = origin, bindings = fmempty, byOrigin = fmempty,
     localServices = fmempty, byName = fmempty, desiredServices = fmempty, heardFrom = fmempty\<rparr>"

section \<open>The file of the definitions\<close>

definition services_path :: string where
  "services_path = ''/etc/messaging/services/skupper-services''"

definition read_definitions :: "('e world, service_defs option) io" where
  "read_definitions = io_bind (io_wrap ''Failed to retrieve skupper service definitions'' (ReadFile services_path))
     (\<lambda>file. io_wrap ''Failed to decode json for service definitions'' (io_lift (Unmarshal dec_services file)))"

definition apply_changes ::
  "ServiceInterface list \<Rightarrow> string list \<Rightarrow> service_defs option \<Rightarrow> service_defs option result" where
  "apply_changes changed deleted current =
     (case current of
        None \<Rightarrow> if changed = [] then Inr None else Inl (Panic ''assignment to entry in nil map'')
      | Some m \<Rightarrow> Inr (Some (fold fmdrop deleted (fold (\<lambda>def. fmupd (si_Address def) def) changed m))))"

definition updateSkupperServices ::
  "ServiceInterface list \<Rightarrow> string list \<Rightarrow> string \<Rightarrow> ('e world, unit) io" where
  "updateSkupperServices changed deleted origin =
     (if changed = [] \<and> deleted = [] then io_return ()
      else io_bind read_definitions (\<lambda>current.
           io_bind (io_lift (apply_changes changed deleted current)) (\<lambda>current.
             io_wrap ''Failed to write service file'' (WriteFile services_path (Doc (enc_services current))))))"

definition getServiceDefinitions :: "('e world, service_defs) io" where
  "getServiceDefinitions = io_bind read_definitions (\<lambda>svcDefs. io_return (go_map svcDefs))"

section \<open>What the file says\<close>

text \<open>The fields of a definition that the exchange keeps.\<close>

definition sync_view :: "ServiceInterface \<Rightarrow> ServiceInterface" where
  "sync_view original = zero_ServiceInterface\<lparr>si_Address := si_Address original,
     si_Protocol := si_Protocol original, si_Port := si_Port original, si_Origin := si_Origin original,
     si_Headless := si_Headless original\<rparr>"

definition is_remote :: "ServiceInterface \<Rightarrow> bool" where
  "is_remote service \<longleftrightarrow> si_Origin service \<noteq> [] \<and> si_Origin service \<noteq> ''annotation''"

text \<open>\<open>pareByOrigin\<close> drops the service from the first origin that has it, in the order of the loop.\<close>

fun pareByOrigin ::
  "string \<Rightarrow> (string \<times> service_defs) list \<Rightarrow> (string, service_defs) fmap \<Rightarrow> (string, service_defs) fmap" where
  "pareByOrigin service [] m = m"
| "pareByOrigin service ((o', origin) # es) m =
     (if service |\<in>| fmdom origin then fmupd o' (fmdrop service origin) m else pareByOrigin service es m)"

type_synonym pare_order = "string \<Rightarrow> (string, service_defs) fmap \<Rightarrow> (string \<times> service_defs) list"

definition valid_pare :: "pare_order \<Rightarrow> bool" where
  "valid_pare po \<longleftrightarrow> (\<forall>s m. ranges_over (po s m) m)"

record sync_state =
  ss_latest :: service_defs
  ss_byName :: service_defs
  ss_byOrigin :: "(string, service_defs) fmap"

definition sync_entry :: "pare_order \<Rightarrow> string \<times> ServiceInterface \<Rightarrow> sync_state \<Rightarrow> sync_state" where
  "sync_entry po entry st =
     (let (name, original) = entry; service = sync_view original;
          st = (if is_remote service
            then st\<lparr>ss_byOrigin := fmupd (si_Origin service)
                (fmupd name service (case fmlookup (ss_byOrigin st) (si_Origin service) of
                   None \<Rightarrow> fmempty | Some m \<Rightarrow> m)) (ss_byOrigin st)\<rparr>
            else st\<lparr>ss_latest := fmupd (si_Address service) service (ss_latest st),
                ss_byOrigin := pareByOrigin (si_Address service)
                  (po (si_Address service) (ss_byOrigin st)) (ss_byOrigin st)\<rparr>)
      in st\<lparr>ss_byName := fmupd (si_Address service) service (ss_byName st)\<rparr>)"

text \<open>\<open>es\<close> is the order over the definitions. The lists of changes are only logged.\<close>

definition serviceSyncDefinitionsUpdated ::
  "(string \<times> ServiceInterface) list \<Rightarrow> pare_order \<Rightarrow> Controller \<Rightarrow> Controller" where
  "serviceSyncDefinitionsUpdated es po c =
     (let st = fold (sync_entry po) es
        \<lparr>ss_latest = fmempty, ss_byName = fmempty, ss_byOrigin = byOrigin c\<rparr>
      in c\<lparr>localServices := ss_latest st, byName := ss_byName st, byOrigin := ss_byOrigin st\<rparr>)"

section \<open>An update from another site\<close>

definition equivalentServiceDefinition :: "ServiceInterface \<Rightarrow> ServiceInterface \<Rightarrow> bool" where
  "equivalentServiceDefinition a b =
     (if si_Protocol a \<noteq> si_Protocol b \<or> si_Port a \<noteq> si_Port b \<or> si_EventChannel a \<noteq> si_EventChannel b
         \<or> si_Aggregate a \<noteq> si_Aggregate b then False
      else (case (si_Headless a, si_Headless b) of
          (None, None) \<Rightarrow> True
        | (Some x, Some y) \<Rightarrow> \<not> (h_Name x \<noteq> h_Name y \<or> h_Size x \<noteq> h_Size y \<or> h_TargetPort x \<noteq> h_TargetPort y)
        | _ \<Rightarrow> False))"

definition is_changed :: "service_defs \<Rightarrow> string \<Rightarrow> ServiceInterface \<Rightarrow> bool" where
  "is_changed names origin def = (case fmlookup names (si_Address def) of
       None \<Rightarrow> True
     | Some existing \<Rightarrow> si_Origin existing = origin \<and> \<not> equivalentServiceDefinition def existing)"

definition origin_defs :: "Controller \<Rightarrow> string \<Rightarrow> service_defs" where
  "origin_defs c origin = (case fmlookup (byOrigin c) origin of None \<Rightarrow> fmempty | Some m \<Rightarrow> m)"

text \<open>\<open>es\<close> and \<open>ns\<close> are the orders over the definitions and over the names known of the origin.\<close>

definition ensureServiceInterfaceDefinitions ::
  "int \<Rightarrow> string \<Rightarrow> service_defs \<Rightarrow> (string \<times> ServiceInterface) list \<Rightarrow> (string \<times> ServiceInterface) list
    \<Rightarrow> ('e node, unit) io" where
  "ensureServiceInterfaceDefinitions now origin serviceInterfaceDefs es ns = (\<lambda>n.
     (let c = (ctl n)\<lparr>heardFrom := fmupd origin now (heardFrom (ctl n))\<rparr>;
          changed = filter (is_changed (byName c) origin) (map snd es);
          deleted = (if fmlookup (byOrigin c) origin = None then []
            else filter (\<lambda>name. name |\<notin>| fmdom serviceInterfaceDefs) (map fst ns));
          c = c\<lparr>byOrigin := fmupd origin (origin_defs c origin) (byOrigin c)\<rparr>
      in if changed = [] \<and> deleted = [] then (n\<lparr>ctl := c\<rparr>, Inr ())
         else (case updateSkupperServices changed deleted origin (host n) of
             (w, Inl (Panic s)) \<Rightarrow> (\<lparr>ctl = c, host = w\<rparr>, Inl (Panic s))
           | (w, _) \<Rightarrow> (\<lparr>ctl = c\<lparr>byOrigin := fmupd origin (fold fmdrop deleted (origin_defs c origin))
                (byOrigin c)\<rparr>, host = w\<rparr>, Inr ()))))"

section \<open>Messages\<close>

text \<open>
  A message of the exchange: the subject is missing where the message has no properties, the origin
  and the value where they are not strings.
\<close>

record Message =
  msg_Subject :: "string option"
  msg_origin :: "string option"
  msg_Value :: "content option"

definition sync_message :: "(string \<times> ServiceInterface) list \<Rightarrow> Controller \<Rightarrow> Message" where
  "sync_message es c = \<lparr>msg_Subject = Some ''service-sync-update'', msg_origin = Some (k_origin c),
     msg_Value = Some (Doc (JArr (map (\<lambda>(_, si). enc_ServiceInterface si) es)))\<rparr>"

definition index_update :: "string \<Rightarrow> ServiceInterface list \<Rightarrow> service_defs" where
  "index_update origin defs =
     fold (\<lambda>def. fmupd (si_Address def) (def\<lparr>si_Origin := origin\<rparr>)) defs fmempty"

type_synonym map_order = "service_defs \<Rightarrow> (string \<times> ServiceInterface) list"

definition handle_message :: "int \<Rightarrow> map_order \<Rightarrow> map_order \<Rightarrow> Message \<Rightarrow> ('e node, unit) io" where
  "handle_message now rng1 rng2 msg = (\<lambda>n.
     (case msg_Subject msg of
        None \<Rightarrow> (n, Inl nil_pointer)
      | Some subject \<Rightarrow>
          if subject = ''service-sync-update'' then
            (case msg_origin msg of
               None \<Rightarrow> (n, Inr ())
             | Some origin \<Rightarrow>
                 if origin = k_origin (ctl n) then (n, Inr ())
                 else (case msg_Value msg of
                     None \<Rightarrow> (n, Inr ())
                   | Some updates \<Rightarrow>
                       (case Unmarshal (as_slice dec_ServiceInterface) updates of
                          Inl e \<Rightarrow> (n, Inr ())
                        | Inr defs \<Rightarrow>
                            (let indexed = index_update origin defs in
                             ensureServiceInterfaceDefinitions now origin indexed (rng1 indexed)
                               (rng2 (origin_defs (ctl n) origin)) n))))
          else (n, Inr ())))"

section \<open>Ageing\<close>

definition second :: int where "second = 1000000000"

text \<open>
  One origin after the other; an error ends the goroutine before the maps are cleaned up. The value
  says whether it goes on, with the origins that aged.
\<close>

fun age_origins ::
  "int \<Rightarrow> map_order \<Rightarrow> (string, int) fmap \<Rightarrow> (string \<times> service_defs) list \<Rightarrow> string list
    \<Rightarrow> ('e world, string list option) io" where
  "age_origins now rng heard [] aged = io_return (Some aged)"
| "age_origins now rng heard ((origin, defs) # es) aged =
     (case fmlookup heard origin of
        None \<Rightarrow> age_origins now rng heard es aged
      | Some lastHeard \<Rightarrow>
          if now - lastHeard \<ge> 60 * second then
            (let deleted = map fst (rng defs); aged = aged @ [origin] in
             if deleted = [] then age_origins now rng heard es aged
             else (\<lambda>w. case updateSkupperServices [] deleted origin w of
                 (w', Inl e) \<Rightarrow> (w', Inr None)
               | (w', Inr _) \<Rightarrow> age_origins now rng heard es aged w'))
          else age_origins now rng heard es aged)"

definition age_tick ::
  "int \<Rightarrow> map_order \<Rightarrow> (string \<times> service_defs) list \<Rightarrow> ('e node, bool) io" where
  "age_tick now rng es = (\<lambda>n.
     (case age_origins now rng (heardFrom (ctl n)) es [] (host n) of
        (w, Inl e) \<Rightarrow> (n\<lparr>host := w\<rparr>, Inl e)
      | (w, Inr None) \<Rightarrow> (n\<lparr>host := w\<rparr>, Inr False)
      | (w, Inr (Some aged)) \<Rightarrow>
          (\<lparr>ctl = (ctl n)\<lparr>heardFrom := fold fmdrop aged (heardFrom (ctl n)),
              byOrigin := fold fmdrop aged (byOrigin (ctl n))\<rparr>, host = w\<rparr>, Inr True)))"

end
