(* ===== verification/Sync_Laws.thy ===== *)
theory Sync_Laws imports Service_Sync begin

text \<open>
  What the exchange of definitions guarantees. \<open>in_sync\<close> is the state in which the controller's
  maps say what the file says; the file's watcher establishes it and an update of another site
  keeps it. In that state an update merges into the file origin by origin.
\<close>

section \<open>The file\<close>

definition held :: "'e world \<Rightarrow> service_defs option result" where
  "held w = rbind (fs_read services_path (fs w)) (Unmarshal dec_services)"

lemma read_definitions_same: "fst (read_definitions w) = w"
  by (simp add: read_definitions_def io_simps ReadFile_def split: sum.split)

lemma read_definitions_Inr: "read_definitions w = (w', Inr m) \<longleftrightarrow> w' = w \<and> held w = Inr m"
  by (auto simp: read_definitions_def held_def io_simps ReadFile_def split: sum.splits)

lemma updateSkupperServices_Inr:
  assumes "updateSkupperServices changed deleted origin w = (w', Inr u)" "changed \<noteq> [] \<or> deleted \<noteq> []"
  obtains m m' where "held w = Inr m" "apply_changes changed deleted m = Inr m'" "held w' = Inr m'"
proof -
  from assms obtain w1 m m' where r: "read_definitions w = (w1, Inr m)" "apply_changes changed deleted m = Inr m'"
    "\<exists>v. WriteFile services_path (Doc (enc_services m')) w1 = (w', Inr v)"
    by (auto simp: updateSkupperServices_def io_simps split: if_splits prod.splits sum.splits)
  then have "held w = Inr m" "w1 = w" by (simp_all add: read_definitions_Inr)
  moreover have "held w' = Inr m'"
    using r(3) write_then_read(1) by (fastforce simp: held_def services_codec.dec_enc)
  ultimately show thesis using that r(2) by blast
qed

lemma updateSkupperServices_Inl:
  assumes "updateSkupperServices changed deleted origin w = (w', Inl e)"
  shows "w' = w"
proof -
  have "w1 = w" if "read_definitions w = (w1, r)" for w1 r
    using read_definitions_same [of w] that by simp
  with assms show ?thesis
    by (auto simp: updateSkupperServices_def io_wrap_Inl dest: write_failed split: if_splits
        elim!: io_bind_Inl_cases)
qed

section \<open>Changing the map\<close>

lemma fold_fmdrop_lookup: "fmlookup (fold fmdrop ks m) k = (if k \<in> set ks then None else fmlookup m k)"
  by (induction ks arbitrary: m) auto

lemma fold_changed_lookup:
  assumes "distinct (map fst es)" "\<And>k v. (k, v) \<in> set es \<Longrightarrow> key v = k"
  shows "fmlookup (fold (\<lambda>v. fmupd (key v) v) (filter P (map snd es)) m) k =
    (case map_of es k of Some v \<Rightarrow> if P v then Some v else fmlookup m k | None \<Rightarrow> fmlookup m k)"
  using assms
proof (induction es arbitrary: m)
  case (Cons e es)
  obtain k' v where e: "e = (k', v)" by fastforce
  then have "key v = k'" "map_of es k' = None"
    using Cons.prems by (auto simp: map_of_eq_None_iff image_iff)
  with e Cons show ?case by (auto split: option.split)
qed simp

section \<open>Reading the file\<close>

definition oget :: "(string, service_defs) fmap \<Rightarrow> string \<Rightarrow> string \<Rightarrow> ServiceInterface option" where
  "oget bo o' name = (case fmlookup bo o' of None \<Rightarrow> None | Some m \<Rightarrow> fmlookup m name)"

lemma origin_defs_oget: "fmlookup (origin_defs c o') name = oget (byOrigin c) o' name"
  by (simp add: origin_defs_def oget_def split: option.split)

lemma oget_upd: "oget (fmupd o1 m bo) o' name = (if o' = o1 then fmlookup m name else oget bo o' name)"
  by (simp add: oget_def)

lemma sync_view_fields [simp]:
  "si_Address (sync_view s) = si_Address s" "si_Origin (sync_view s) = si_Origin s"
  "is_remote (sync_view s) = is_remote s" "si_Protocol (sync_view s) = si_Protocol s"
  "si_Port (sync_view s) = si_Port s" "si_Headless (sync_view s) = si_Headless s"
  "si_EventChannel (sync_view s) = False" "si_Aggregate (sync_view s) = []"
  by (simp_all add: sync_view_def is_remote_def zero_ServiceInterface_def)

lemma pare_oget:
  "(\<And>o1 m. (o1, m) \<in> set es \<Longrightarrow> fmlookup bo o1 = Some m) \<Longrightarrow>
   oget (pareByOrigin a es bo) o' name = oget bo o' name
   \<or> (name = a \<and> oget (pareByOrigin a es bo) o' name = None)"
proof (induction es)
  case (Cons e es)
  obtain o1 m where e: "e = (o1, m)" by fastforce
  then have "oget bo o1 name = fmlookup m name" using Cons.prems(1) [of o1 m] by (simp add: oget_def)
  with e Cons show ?case by (auto simp: oget_upd)
qed simp

lemma pare_nothing:
  "(\<And>o1 m. (o1, m) \<in> set es \<Longrightarrow> fmlookup bo o1 = Some m) \<Longrightarrow> (\<And>o1. oget bo o1 a = None) \<Longrightarrow>
   pareByOrigin a es bo = bo"
proof (induction es)
  case (Cons e es)
  obtain o1 m where e: "e = (o1, m)" by fastforce
  then have "fmlookup bo o1 = Some m" using Cons.prems(1) by simp
  with Cons.prems(2) [of o1] have "a |\<notin>| fmdom m" by (simp add: oget_def fmdom_notI)
  with e Cons show ?case by simp
qed simp

text \<open>One entry of the file, stored under its own address.\<close>

lemma sync_entry_effect:
  fixes st :: sync_state
  assumes k: "si_Address s = k" and po: "valid_pare po"
  defines "st' \<equiv> sync_entry po (k, s) st"
  shows "fmlookup (ss_byName st') a = (if a = k then Some (sync_view s) else fmlookup (ss_byName st) a)"
    and "fmlookup (ss_latest st') a =
      (if a = k \<and> \<not> is_remote s then Some (sync_view s) else fmlookup (ss_latest st) a)"
    and "a \<noteq> k \<Longrightarrow> oget (ss_byOrigin st') o' a = oget (ss_byOrigin st) o' a"
    and "is_remote s \<Longrightarrow> oget (ss_byOrigin st') o' k =
      (if o' = si_Origin s then Some (sync_view s) else oget (ss_byOrigin st) o' k)"
    and "\<not> is_remote s \<Longrightarrow> oget (ss_byOrigin st') o' k \<in> {oget (ss_byOrigin st) o' k, None}"
proof -
  have r: "(o1, m) \<in> set (po k (ss_byOrigin st)) \<Longrightarrow> fmlookup (ss_byOrigin st) o1 = Some m" for o1 m
    using po ranges_over_mem unfolding valid_pare_def by fast
  have p: "oget (pareByOrigin k (po k (ss_byOrigin st)) (ss_byOrigin st)) o' n = oget (ss_byOrigin st) o' n
      \<or> (n = k \<and> oget (pareByOrigin k (po k (ss_byOrigin st)) (ss_byOrigin st)) o' n = None)" for n
    by (rule pare_oget) (rule r)
  show "fmlookup (ss_byName st') a = (if a = k then Some (sync_view s) else fmlookup (ss_byName st) a)"
    and "fmlookup (ss_latest st') a =
      (if a = k \<and> \<not> is_remote s then Some (sync_view s) else fmlookup (ss_latest st) a)"
    and "is_remote s \<Longrightarrow> oget (ss_byOrigin st') o' k =
      (if o' = si_Origin s then Some (sync_view s) else oget (ss_byOrigin st) o' k)"
    using k by (simp_all add: st'_def sync_entry_def Let_def oget_upd)
  show "oget (ss_byOrigin st') o' a = oget (ss_byOrigin st) o' a" if "a \<noteq> k"
    using k that p [of a]
    by (auto simp: st'_def sync_entry_def Let_def oget_upd) (auto simp: oget_def split: option.split)
  show "oget (ss_byOrigin st') o' k \<in> {oget (ss_byOrigin st) o' k, None}" if "\<not> is_remote s"
    using k that p [of k]
    by (auto simp: st'_def sync_entry_def Let_def)
qed

text \<open>All of them, in any order.\<close>

lemma sync_entries_effect:
  fixes st :: sync_state
  assumes "distinct (map fst es)" "\<And>k s. (k, s) \<in> set es \<Longrightarrow> si_Address s = k" "valid_pare po"
  shows "fmlookup (ss_byName (fold (sync_entry po) es st)) a = (case map_of es a of
      Some s \<Rightarrow> Some (sync_view s) | None \<Rightarrow> fmlookup (ss_byName st) a)
    \<and> fmlookup (ss_latest (fold (sync_entry po) es st)) a = (case map_of es a of
      Some s \<Rightarrow> if is_remote s then fmlookup (ss_latest st) a else Some (sync_view s)
    | None \<Rightarrow> fmlookup (ss_latest st) a)
    \<and> (case map_of es a of
        None \<Rightarrow> oget (ss_byOrigin (fold (sync_entry po) es st)) o' a = oget (ss_byOrigin st) o' a
      | Some s \<Rightarrow> if is_remote s
          then oget (ss_byOrigin (fold (sync_entry po) es st)) o' a =
            (if o' = si_Origin s then Some (sync_view s) else oget (ss_byOrigin st) o' a)
          else oget (ss_byOrigin (fold (sync_entry po) es st)) o' a \<in> {oget (ss_byOrigin st) o' a, None})"
  using assms
proof (induction es arbitrary: st)
  case (Cons e es)
  obtain k s where e: "e = (k, s)" by fastforce
  then have k: "si_Address s = k" "map_of es k = None"
    using Cons.prems by (auto simp: map_of_eq_None_iff image_iff)
  define st1 where "st1 = sync_entry po (k, s) st"
  note 1 = sync_entry_effect [OF k(1) Cons.prems(3), where st = st, folded st1_def]
  have f: "fold (sync_entry po) (e # es) st = fold (sync_entry po) es st1"
    by (simp add: e st1_def)
  note IH = Cons.IH [of st1, OF _ _ Cons.prems(3)]
  have prems: "distinct (map fst es)" "\<And>k s. (k, s) \<in> set es \<Longrightarrow> si_Address s = k"
    using Cons.prems by auto
  show ?case
  proof (cases "a = k")
    case True
    then have m: "map_of (e # es) a = Some s" "map_of es a = None" using e k(2) by simp_all
    from IH [OF prems] show ?thesis
      unfolding f m option.case
      using 1(1,2) [where a = a] 1(4,5) [where o' = o'] True by (cases "is_remote s") simp_all
  next
    case False
    then have m: "map_of (e # es) a = map_of es a" using e by simp
    have "fmlookup (ss_byName st1) a = fmlookup (ss_byName st) a"
      "fmlookup (ss_latest st1) a = fmlookup (ss_latest st) a"
      "oget (ss_byOrigin st1) o' a = oget (ss_byOrigin st) o' a"
      using 1(1,2) [where a = a] 1(3) [where a = a and o' = o'] False by simp_all
    with IH [OF prems] show ?thesis unfolding f m by (simp only:)
  qed
qed simp

lemma sync_effect:
  assumes "ranges_over es m" "keyed si_Address m" "valid_pare po"
  shows "let c' = serviceSyncDefinitionsUpdated es po c in
    (\<forall>a. fmlookup (localServices c') a = (case fmlookup m a of
        Some s \<Rightarrow> if is_remote s then None else Some (sync_view s) | None \<Rightarrow> None))
    \<and> (\<forall>a. fmlookup (byName c') a = map_option sync_view (fmlookup m a))
    \<and> (\<forall>a s. fmlookup m a = Some s \<and> is_remote s \<longrightarrow>
        fmlookup (origin_defs c' (si_Origin s)) a = Some (sync_view s))
    \<and> (\<forall>a o'. a |\<notin>| fmdom m \<longrightarrow> fmlookup (origin_defs c' o') a = fmlookup (origin_defs c o') a)"
proof -
  let ?st = "\<lparr>ss_latest = fmempty, ss_byName = fmempty, ss_byOrigin = byOrigin c\<rparr>"
  have d: "distinct (map fst es)" and es: "map_of es a = fmlookup m a" for a
    using assms(1) by (simp_all add: ranges_over_distinct ranges_over_lookup)
  have key: "si_Address s = k" if "(k, s) \<in> set es" for k s
    using assms(1,2) that by (simp add: ranges_over_mem keyed_iff)
  note eff = sync_entries_effect [OF d key assms(3), where st = ?st, unfolded es]
  have 1: "fmlookup (ss_byName (fold (sync_entry po) es ?st)) a = map_option sync_view (fmlookup m a)"
    and 2: "fmlookup (ss_latest (fold (sync_entry po) es ?st)) a = (case fmlookup m a of
        Some s \<Rightarrow> if is_remote s then None else Some (sync_view s) | None \<Rightarrow> None)" for a
    using eff [where a = a] by (auto split: option.splits)
  have 3: "oget (ss_byOrigin (fold (sync_entry po) es ?st)) (si_Origin s) a = Some (sync_view s)"
    if "fmlookup m a = Some s" "is_remote s" for a s
    using eff [where a = a and o' = "si_Origin s"] that by simp
  have 4: "oget (ss_byOrigin (fold (sync_entry po) es ?st)) o' a = oget (byOrigin c) o' a"
    if "a |\<notin>| fmdom m" for a o'
    using eff [where a = a and o' = o'] that by (simp add: fmdom_notD)
  show ?thesis
    using 1 2 3 4
    by (simp add: serviceSyncDefinitionsUpdated_def Let_def origin_defs_oget)
qed

text \<open>
  When the watcher has read the file, the controller's view is the file's, for every
  order of the loops: the local services are the definitions of this site, the index has every
  definition, and every definition of another site is filed under its origin. A name that left the
  file stays filed under the origins that had it.
\<close>

theorem sync_reads_file:
  assumes "ranges_over es m" "keyed si_Address m" "valid_pare po"
  shows "let c' = serviceSyncDefinitionsUpdated es po c in
    (\<forall>a. fmlookup (localServices c') a = (case fmlookup m a of
        Some s \<Rightarrow> if is_remote s then None else Some (sync_view s) | None \<Rightarrow> None))
    \<and> (\<forall>a. fmlookup (byName c') a = map_option sync_view (fmlookup m a))
    \<and> (\<forall>a s. fmlookup m a = Some s \<and> is_remote s \<longrightarrow>
        fmlookup (origin_defs c' (si_Origin s)) a = Some (sync_view s))
    \<and> (\<forall>a o'. a |\<notin>| fmdom m \<longrightarrow> fmlookup (origin_defs c' o') a = fmlookup (origin_defs c o') a)"
  by (rule sync_effect [OF assms])

section \<open>An update merges into the file\<close>

definition files_agree :: "Controller \<Rightarrow> service_defs \<Rightarrow> bool" where
  "files_agree c m \<longleftrightarrow> (\<forall>o' a. a |\<in>| fmdom (origin_defs c o') \<longrightarrow>
     (\<exists>s. fmlookup m a = Some s \<and> is_remote s \<and> si_Origin s = o'))"

definition in_sync :: "Controller \<Rightarrow> service_defs \<Rightarrow> bool" where
  "in_sync c m \<longleftrightarrow> keyed si_Address m \<and> (\<forall>a. fmlookup (byName c) a = map_option sync_view (fmlookup m a))
     \<and> (\<forall>o' a. a |\<in>| fmdom (origin_defs c o') \<longleftrightarrow>
         (\<exists>s. fmlookup m a = Some s \<and> is_remote s \<and> si_Origin s = o'))"

lemma in_sync_agree: "in_sync c m \<Longrightarrow> files_agree c m"
  by (auto simp: in_sync_def files_agree_def)

text \<open>The definition an update leaves under an address: the old one and the one of the update.\<close>

definition merge :: "string \<Rightarrow> ServiceInterface option \<Rightarrow> ServiceInterface option \<Rightarrow> ServiceInterface option" where
  "merge origin old new = (case old of
       None \<Rightarrow> new
     | Some s \<Rightarrow> if si_Origin s \<noteq> origin then Some s
         else (case new of
             None \<Rightarrow> if is_remote s then None else Some s
           | Some d \<Rightarrow> if equivalentServiceDefinition d (sync_view s) then Some s else Some d))"

text \<open>A file that the controller may write.\<close>

definition can_write :: "'e world \<Rightarrow> bool" where
  "can_write w \<longleftrightarrow> (\<forall>c. \<exists>w'. WriteFile services_path c w = (w', Inr ()))"

lemma updateSkupperServices_works:
  assumes "held w = Inr (Some m)" "can_write w"
  obtains w' where "updateSkupperServices changed deleted origin w = (w', Inr ())"
    "held w' = Inr (Some (fold fmdrop deleted (fold (\<lambda>def. fmupd (si_Address def) def) changed m)))"
proof (cases "changed = [] \<and> deleted = []")
  case True
  with assms(1) show thesis by (intro that [of w]) (simp_all add: updateSkupperServices_def)
next
  case False
  let ?m' = "Some (fold fmdrop deleted (fold (\<lambda>def. fmupd (si_Address def) def) changed m))"
  obtain w' where w': "WriteFile services_path (Doc (enc_services ?m')) w = (w', Inr ())"
    using assms(2) unfolding can_write_def by blast
  have "read_definitions w = (w, Inr (Some m))" using assms(1) by (simp add: read_definitions_Inr)
  with w' False have "updateSkupperServices changed deleted origin w = (w', Inr ())"
    by (auto simp: updateSkupperServices_def io_simps apply_changes_def)
  moreover have "held w' = Inr ?m'"
    using write_then_read(1) [OF w'] by (simp add: held_def services_codec.dec_enc)
  ultimately show thesis by (rule that)
qed

definition known_names :: "Controller \<Rightarrow> string \<Rightarrow> (string \<times> ServiceInterface) list \<Rightarrow> string list" where
  "known_names c origin ns = (if fmlookup (byOrigin c) origin = None then [] else map fst ns)"

lemma known_names_set:
  "ranges_over ns (origin_defs c origin) \<Longrightarrow> set (known_names c origin ns) = fset (fmdom (origin_defs c origin))"
  using ranges_over_keys [of ns "origin_defs c origin"]
  by (cases "fmlookup (byOrigin c) origin") (simp_all add: known_names_def origin_defs_def)

lemma origin_defs_heard [simp]: "origin_defs (x\<lparr>heardFrom := h\<rparr>) o' = origin_defs x o'"
  by (simp add: origin_defs_def)

lemma ensure_runs:
  fixes n :: "'e node" and origin :: string and D :: service_defs
  defines "c \<equiv> ctl n"
  defines "changed \<equiv> \<lambda>es. filter (is_changed (byName c) origin) (map snd es)"
  defines "deleted \<equiv> \<lambda>ns. filter (\<lambda>name. name |\<notin>| fmdom D) (known_names c origin ns)"
  assumes w: "updateSkupperServices (changed es) (deleted ns) origin (host n) = (w, Inr ())"
  shows "ensureServiceInterfaceDefinitions now origin D es ns n =
    (\<lparr>ctl = c\<lparr>heardFrom := fmupd origin now (heardFrom c),
        byOrigin := fmupd origin (fold fmdrop (deleted ns) (origin_defs c origin)) (byOrigin c)\<rparr>, host = w\<rparr>, Inr ())"
proof -
  let ?c1 = "c\<lparr>heardFrom := fmupd origin now (heardFrom c)\<rparr>"
  have upd: "fmupd origin x (fmupd origin y b) = fmupd origin x b" for x y and b :: "(string, service_defs) fmap"
    by (rule fmap_ext) simp
  have od: "origin_defs ?c1 origin = origin_defs c origin"
    "origin_defs (?c1\<lparr>byOrigin := fmupd origin x b\<rparr>) origin = x" for x b
    by (simp_all add: origin_defs_def)
  have de: "(if fmlookup (byOrigin ?c1) origin = None then []
      else filter (\<lambda>name. name |\<notin>| fmdom D) (map fst ns)) = deleted ns"
    by (simp add: known_names_def deleted_def)
  have ch: "filter (is_changed (byName ?c1) origin) (map snd es) = changed es"
    by (simp add: changed_def)
  note def = ensureServiceInterfaceDefinitions_def Let_def c_def [symmetric] de ch
  show ?thesis
  proof (cases "changed es = [] \<and> deleted ns = []")
    case True
    then have "w = host n" using w by (simp add: updateSkupperServices_def)
    with True show ?thesis
      unfolding def by (cases n) (simp add: od c_def)
  next
    case False
    then show ?thesis
      unfolding def using w by (auto simp: od upd)
  qed
qed

text \<open>What the handler does to the file and to the names filed under the origin.\<close>

lemma ensure_effect:
  assumes "held (host n) = Inr (Some m)" "can_write (host n)" "keyed si_Address D" "ranges_over es D"
    "ranges_over ns (origin_defs (ctl n) origin)"
  obtains n' m' where "ensureServiceInterfaceDefinitions now origin D es ns n = (n', Inr ())"
    "held (host n') = Inr (Some m')"
    "\<And>a. fmlookup m' a = (if a |\<in>| fmdom (origin_defs (ctl n) origin) \<and> a |\<notin>| fmdom D then None
       else case fmlookup D a of
           Some d \<Rightarrow> if is_changed (byName (ctl n)) origin d then Some d else fmlookup m a
         | None \<Rightarrow> fmlookup m a)"
    "\<And>o' a. fmlookup (origin_defs (ctl n') o') a =
       (if o' = origin \<and> a |\<notin>| fmdom D then None else fmlookup (origin_defs (ctl n) o') a)"
    "byName (ctl n') = byName (ctl n)" "k_origin (ctl n') = k_origin (ctl n)"
    "heardFrom (ctl n') = fmupd origin now (heardFrom (ctl n))"
proof -
  let ?c = "ctl n"
  let ?ch = "filter (is_changed (byName ?c) origin) (map snd es)"
  let ?de = "filter (\<lambda>name. name |\<notin>| fmdom D) (known_names ?c origin ns)"
  let ?m' = "fold fmdrop ?de (fold (\<lambda>def. fmupd (si_Address def) def) ?ch m)"
  let ?bo = "\<lambda>ks. fmupd origin (fold fmdrop ks (origin_defs ?c origin)) (byOrigin ?c)"
  obtain w where w: "updateSkupperServices ?ch ?de origin (host n) = (w, Inr ())" "held w = Inr (Some ?m')"
    using updateSkupperServices_works [OF assms(1,2)] .
  let ?n' = "\<lparr>ctl = ?c\<lparr>heardFrom := fmupd origin now (heardFrom ?c), byOrigin := ?bo ?de\<rparr>, host = w\<rparr>"
  have run: "ensureServiceInterfaceDefinitions now origin D es ns n = (?n', Inr ())"
    by (rule ensure_runs [OF w(1)])
  have d: "distinct (map fst es)" using assms(4) by (rule ranges_over_distinct)
  have es: "map_of es a = fmlookup D a" for a using assms(4) by (simp add: ranges_over_lookup)
  have key: "si_Address v = k" if "(k, v) \<in> set es" for k v
    using assms(3,4) that by (simp add: ranges_over_mem keyed_iff)
  have de: "a \<in> set ?de \<longleftrightarrow> a |\<in>| fmdom (origin_defs ?c origin) \<and> a |\<notin>| fmdom D" for a
    using known_names_set [OF assms(5)] by auto
  have m': "fmlookup ?m' a = (if a |\<in>| fmdom (origin_defs ?c origin) \<and> a |\<notin>| fmdom D then None
       else case fmlookup D a of
           Some d \<Rightarrow> if is_changed (byName ?c) origin d then Some d else fmlookup m a
         | None \<Rightarrow> fmlookup m a)" for a
    using de [of a] by (simp only: fold_fmdrop_lookup fold_changed_lookup [OF d key] es)
  have bo: "fmlookup (origin_defs (ctl ?n') o') a =
       (if o' = origin \<and> a |\<notin>| fmdom D then None else fmlookup (origin_defs ?c o') a)" for o' a
  proof (cases "o' = origin")
    case True
    then have "fmlookup (origin_defs (ctl ?n') o') a = fmlookup (fold fmdrop ?de (origin_defs ?c origin)) a"
      by (simp add: origin_defs_def)
    then show ?thesis
      using True de [of a] by (auto simp: fold_fmdrop_lookup fmdom_notD)
  next
    case False
    then show ?thesis by (simp add: origin_defs_def)
  qed
  show thesis by (rule that [OF run _ m' bo]) (simp_all add: w(2))
qed

section \<open>Messages\<close>

lemma index_update_snoc:
  "index_update origin (defs @ [d]) = fmupd (si_Address d) (d\<lparr>si_Origin := origin\<rparr>) (index_update origin defs)"
  by (simp add: index_update_def)

lemma index_update_stamped:
  "fmlookup (index_update origin defs) a = Some d \<Longrightarrow> si_Origin d = origin \<and> si_Address d = a"
  by (induction defs rule: rev_induct) (auto simp: index_update_snoc, auto simp: index_update_def split: if_splits)

lemma index_update_plain:
  "\<forall>d \<in> set defs. \<not> si_EventChannel d \<and> si_Aggregate d = [] \<Longrightarrow> fmlookup (index_update origin defs) a = Some d \<Longrightarrow>
   \<not> si_EventChannel d \<and> si_Aggregate d = []"
  by (induction defs rule: rev_induct) (auto simp: index_update_snoc split: if_splits, auto simp: index_update_def)

lemma keyed_index_update: "keyed si_Address (index_update origin defs)"
  using index_update_stamped by (auto simp: keyed_iff)

definition valid_map_order :: "map_order \<Rightarrow> bool" where
  "valid_map_order rng \<longleftrightarrow> (\<forall>m. ranges_over (rng m) m)"

text \<open>An update that another site sent.\<close>

definition update_message :: "string \<Rightarrow> content \<Rightarrow> Message" where
  "update_message origin updates = \<lparr>msg_Subject = Some ''service-sync-update'', msg_origin = Some origin,
     msg_Value = Some updates\<rparr>"

lemma handle_update:
  assumes "origin \<noteq> k_origin (ctl n)" "Unmarshal (as_slice dec_ServiceInterface) updates = Inr defs"
  shows "handle_message now rng1 rng2 (update_message origin updates) n =
    ensureServiceInterfaceDefinitions now origin (index_update origin defs)
      (rng1 (index_update origin defs)) (rng2 (origin_defs (ctl n) origin)) n"
  using assms by (simp add: handle_message_def update_message_def Let_def)

lemma merge_eq:
  assumes "in_sync c m" and D: "\<And>d. fmlookup D a = Some d \<Longrightarrow> si_Address d = a"
  shows "(if a |\<in>| fmdom (origin_defs c origin) \<and> a |\<notin>| fmdom D then None
       else case fmlookup D a of
           Some d \<Rightarrow> if is_changed (byName c) origin d then Some d else fmlookup m a
         | None \<Rightarrow> fmlookup m a) = merge origin (fmlookup m a) (fmlookup D a)"
proof -
  have o': "a |\<in>| fmdom (origin_defs c origin) \<longleftrightarrow>
      (\<exists>s. fmlookup m a = Some s \<and> is_remote s \<and> si_Origin s = origin)"
    using assms(1) by (simp add: in_sync_def)
  have n: "fmlookup (byName c) a = map_option sync_view (fmlookup m a)"
    using assms(1) by (simp add: in_sync_def)
  show ?thesis
  proof (cases "fmlookup D a")
    case None
    then show ?thesis using o' by (auto simp: merge_def fmdom_notI split: option.splits)
  next
    case (Some d)
    then have "is_changed (byName c) origin d \<longleftrightarrow> (case fmlookup m a of None \<Rightarrow> True
        | Some s \<Rightarrow> si_Origin s = origin \<and> \<not> equivalentServiceDefinition d (sync_view s))"
      using D n by (simp add: is_changed_def split: option.split)
    moreover have "a |\<in>| fmdom D" using Some by (rule fmdomI)
    ultimately show ?thesis using Some by (auto simp: merge_def split: option.splits)
  qed
qed

lemma update_effect:
  assumes "in_sync (ctl n) m" "held (host n) = Inr (Some m)" "can_write (host n)"
    and "origin \<noteq> k_origin (ctl n)" "Unmarshal (as_slice dec_ServiceInterface) updates = Inr defs"
    and "valid_map_order rng1" "valid_map_order rng2"
  shows "\<exists>n' m'. handle_message now rng1 rng2 (update_message origin updates) n = (n', Inr ())
    \<and> held (host n') = Inr (Some m')
    \<and> (\<forall>a. fmlookup m' a = merge origin (fmlookup m a) (fmlookup (index_update origin defs) a))
    \<and> keyed si_Address m' \<and> files_agree (ctl n') m'
    \<and> k_origin (ctl n') = k_origin (ctl n)"
proof -
  let ?D = "index_update origin defs"
  obtain n' m' where r:
    "ensureServiceInterfaceDefinitions now origin ?D (rng1 ?D) (rng2 (origin_defs (ctl n) origin)) n = (n', Inr ())"
    "held (host n') = Inr (Some m')"
    "\<And>a. fmlookup m' a = (if a |\<in>| fmdom (origin_defs (ctl n) origin) \<and> a |\<notin>| fmdom ?D then None
       else case fmlookup ?D a of
           Some d \<Rightarrow> if is_changed (byName (ctl n)) origin d then Some d else fmlookup m a
         | None \<Rightarrow> fmlookup m a)"
    "\<And>o' a. fmlookup (origin_defs (ctl n') o') a =
       (if o' = origin \<and> a |\<notin>| fmdom ?D then None else fmlookup (origin_defs (ctl n) o') a)"
    "k_origin (ctl n') = k_origin (ctl n)"
    by (rule ensure_effect [OF assms(2,3) keyed_index_update, of "rng1 ?D" origin defs
          "rng2 (origin_defs (ctl n) origin)" origin now])
      (use assms(6,7) in \<open>auto simp: valid_map_order_def\<close>)
  have m': "fmlookup m' a = merge origin (fmlookup m a) (fmlookup ?D a)" for a
    unfolding r(3) by (rule merge_eq [OF assms(1)]) (simp add: index_update_stamped)
  have k: "keyed si_Address m'"
  proof -
    have "si_Address v = a" if "fmlookup m' a = Some v" for a v
      using that assms(1) index_update_stamped [of origin defs a]
      by (auto simp: m' merge_def in_sync_def keyed_iff split: option.splits if_splits)
    then show ?thesis by (simp add: keyed_iff)
  qed
  have "files_agree (ctl n') m'"
    unfolding files_agree_def
  proof (intro allI impI)
    fix o' a
    assume "a |\<in>| fmdom (origin_defs (ctl n') o')"
    then have a: "a |\<in>| fmdom (origin_defs (ctl n) o')" "o' = origin \<longrightarrow> a |\<in>| fmdom ?D"
      using r(4) [of o' a] by (auto simp: fmdom_lookup split: if_splits)
    then obtain s where s: "fmlookup m a = Some s" "is_remote s" "si_Origin s = o'"
      using assms(1) by (auto simp: in_sync_def)
    show "\<exists>s. fmlookup m' a = Some s \<and> is_remote s \<and> si_Origin s = o'"
    proof (cases "o' = origin")
      case True
      then obtain d where "fmlookup ?D a = Some d" using a(2) by (auto simp: fmdom_lookup)
      then show ?thesis
        using s True index_update_stamped [of origin defs a d]
        by (auto simp: m' merge_def is_remote_def)
    next
      case False
      then show ?thesis using s by (simp add: m' merge_def)
    qed
  qed
  with k m' r(1,2,5) show ?thesis
    using handle_update [OF assms(4,5)] by metis
qed


lemma reload_effect:
  assumes "ranges_over es m" "keyed si_Address m" "valid_pare po" "files_agree c m"
  shows "in_sync (serviceSyncDefinitionsUpdated es po c) m"
proof -
  let ?st = "\<lparr>ss_latest = fmempty, ss_byName = fmempty, ss_byOrigin = byOrigin c\<rparr>"
  let ?c = "serviceSyncDefinitionsUpdated es po c"
  have d: "distinct (map fst es)" and es: "map_of es a = fmlookup m a" for a
    using assms(1) by (simp_all add: ranges_over_distinct ranges_over_lookup)
  have key: "si_Address s = k" if "(k, s) \<in> set es" for k s
    using assms(1,2) that by (simp add: ranges_over_mem keyed_iff)
  note eff = sync_entries_effect [OF d key assms(3), where st = ?st, unfolded es]
  have n: "fmlookup (byName ?c) a = map_option sync_view (fmlookup m a)" for a
    using eff [where a = a] by (simp add: serviceSyncDefinitionsUpdated_def Let_def split: option.splits)
  have "a |\<in>| fmdom (origin_defs ?c o') \<longleftrightarrow>
      (\<exists>s. fmlookup m a = Some s \<and> is_remote s \<and> si_Origin s = o')" for o' a
  proof -
    have c: "fmlookup (origin_defs ?c o') a = oget (ss_byOrigin (fold (sync_entry po) es ?st)) o' a"
      by (simp add: origin_defs_oget serviceSyncDefinitionsUpdated_def Let_def)
    have agree: "\<And>t. oget (byOrigin c) o' a = Some t \<Longrightarrow> \<exists>s. fmlookup m a = Some s \<and> is_remote s \<and> si_Origin s = o'"
      using assms(4) unfolding files_agree_def fmdom_lookup origin_defs_oget by blast
    have none: "oget (byOrigin c) o' a = None" if "fmlookup m a = None"
      using agree that by (cases "oget (byOrigin c) o' a") auto
    show ?thesis
    proof (cases "fmlookup m a")
      case None
      then show ?thesis using eff [where a = a and o' = o'] none by (simp add: fmdom_lookup c)
    next
      case (Some s)
      then show ?thesis
        using eff [where a = a and o' = o'] agree
        by (cases "is_remote s"; cases "oget (byOrigin c) o' a") (auto simp: fmdom_lookup c)
    qed
  qed
  with n assms(2) show ?thesis by (simp add: in_sync_def)
qed

text \<open>
  Reading the file restores the agreement: a controller whose maps name only
  definitions that the file still has is in sync after the watcher ran, for every order of the
  loops.
\<close>

theorem reload_syncs:
  assumes "ranges_over es m" "keyed si_Address m" "valid_pare po" "files_agree c m"
  shows "in_sync (serviceSyncDefinitionsUpdated es po c) m"
  using assms by (rule reload_effect)

text \<open>
  Property C23. The exchange reaches a fixed point: once an update was merged and the file was read
  again, receiving the same update a second time changes no file. This needs definitions without
  event channel and aggregation, which the controller's view leaves out.
\<close>

theorem update_settles:
  assumes "in_sync (ctl n) m" "held (host n) = Inr (Some m)" "can_write (host n)"
    and "origin \<noteq> k_origin (ctl n)" "Unmarshal (as_slice dec_ServiceInterface) updates = Inr defs"
    and "valid_map_order rng1" "valid_map_order rng2"
    and "\<forall>d \<in> set defs. \<not> si_EventChannel d \<and> si_Aggregate d = []"
    and "handle_message now rng1 rng2 (update_message origin updates) n = (n1, Inr ())"
    and "held (host n1) = Inr (Some m1)" "ranges_over es m1" "valid_pare po"
  shows "\<exists>n2. handle_message later rng1 rng2 (update_message origin updates)
      (n1\<lparr>ctl := serviceSyncDefinitionsUpdated es po (ctl n1)\<rparr>) = (n2, Inr ()) \<and> host n2 = host n1"
proof -
  let ?D = "index_update origin defs"
  let ?n = "n1\<lparr>ctl := serviceSyncDefinitionsUpdated es po (ctl n1)\<rparr>"
  have m1: "fmlookup m1 a = merge origin (fmlookup m a) (fmlookup ?D a)"
    and k: "keyed si_Address m1" "files_agree (ctl n1) m1" "k_origin (ctl n1) = k_origin (ctl n)" for a
    using update_effect [OF assms(1-7), of now] assms(9,10) by auto
  have sync: "in_sync (ctl ?n) m1"
    using reload_effect [OF assms(11) k(1) assms(12) k(2)] by simp
  have D: "si_Origin d = origin \<and> si_Address d = a \<and> equivalentServiceDefinition d (sync_view d)"
    if "fmlookup ?D a = Some d" for a d
    using index_update_stamped [OF that] index_update_plain [OF assms(8) that]
    by (auto simp: equivalentServiceDefinition_def split: option.split)
  have "\<not> is_changed (byName (ctl ?n)) origin d" if "fmlookup ?D a = Some d" for a d
    using sync m1 [of a] D [OF that] that
    by (auto simp: is_changed_def in_sync_def merge_def split: option.splits if_splits)
  then have ch: "filter (is_changed (byName (ctl ?n)) origin) (map snd (rng1 ?D)) = []"
    using ranges_over_mem [of "rng1 ?D" ?D] assms(6)
    unfolding valid_map_order_def by (fastforce simp: filter_empty_conv)
  have "a |\<in>| fmdom ?D" if a: "a |\<in>| fmdom (origin_defs (ctl ?n) origin)" for a
  proof -
    obtain s where "fmlookup m1 a = Some s" "is_remote s" "si_Origin s = origin"
      using sync a by (auto simp: in_sync_def)
    with m1 [of a] show ?thesis
      by (cases "fmlookup ?D a") (auto simp: merge_def fmdomI split: option.splits if_splits)
  qed
  moreover have "set (known_names (ctl ?n) origin (rng2 (origin_defs (ctl ?n) origin)))
      = fset (fmdom (origin_defs (ctl ?n) origin))"
    by (rule known_names_set) (use assms(7) in \<open>simp add: valid_map_order_def\<close>)
  ultimately have de: "filter (\<lambda>name. name |\<notin>| fmdom ?D)
      (known_names (ctl ?n) origin (rng2 (origin_defs (ctl ?n) origin))) = []"
    by (auto simp: filter_empty_conv)
  have "updateSkupperServices [] [] origin (host ?n) = (host ?n, Inr ())"
    by (simp add: updateSkupperServices_def)
  then have "\<exists>n2. ensureServiceInterfaceDefinitions later origin ?D (rng1 ?D)
      (rng2 (origin_defs (ctl ?n) origin)) ?n = (n2, Inr ()) \<and> host n2 = host ?n"
    using ensure_runs [where n = ?n and D = ?D and origin = origin and es = "rng1 ?D"
        and ns = "rng2 (origin_defs (ctl ?n) origin)" and w = "host ?n" and now = later]
    unfolding ch de by auto
  moreover have "origin \<noteq> k_origin (ctl ?n)"
    using assms(4) k(3) by (simp add: serviceSyncDefinitionsUpdated_def Let_def)
  ultimately show ?thesis
    using handle_update [of origin ?n updates defs later rng1 rng2] assms(5) by auto
qed

text \<open>
  The controller's view of a definition with an event channel or an aggregation is never
  equivalent to the definition, so such a definition of another site counts as changed in every
  update, however often it was merged.
\<close>

theorem view_loses_channel:
  assumes "si_EventChannel d \<or> si_Aggregate d \<noteq> []"
  shows "\<not> equivalentServiceDefinition d (sync_view s)
    \<and> (fmlookup names (si_Address d) = Some (sync_view s) \<and> si_Origin s = origin \<longrightarrow> is_changed names origin d)"
  using assms by (auto simp: equivalentServiceDefinition_def is_changed_def)

text \<open>
  An update whose origin is the empty string passes for one of this site: it replaces a
  local definition that differs, and what it leaves is a local definition again.
\<close>

theorem empty_origin_replaces_local:
  assumes "in_sync (ctl n) m" "held (host n) = Inr (Some m)" "can_write (host n)" "k_origin (ctl n) \<noteq> []"
    and "Unmarshal (as_slice dec_ServiceInterface) updates = Inr defs"
    and "valid_map_order rng1" "valid_map_order rng2"
    and "fmlookup m a = Some s" "si_Origin s = []"
    and "fmlookup (index_update [] defs) a = Some d" "\<not> equivalentServiceDefinition d (sync_view s)"
  shows "\<exists>n' m'. handle_message now rng1 rng2 (update_message [] updates) n = (n', Inr ())
    \<and> held (host n') = Inr (Some m') \<and> fmlookup m' a = Some d \<and> \<not> is_remote d"
proof -
  obtain n' m' where "handle_message now rng1 rng2 (update_message [] updates) n = (n', Inr ())"
    "held (host n') = Inr (Some m')"
    "fmlookup m' a = merge [] (fmlookup m a) (fmlookup (index_update [] defs) a)"
    using update_effect [OF assms(1-3) _ assms(5-7), of "[]" now] assms(4) by auto
  moreover have "si_Origin d = []" using index_update_stamped [OF assms(10)] by simp
  ultimately show ?thesis using assms(8-11) by (auto simp: merge_def is_remote_def)
qed

text \<open>
  A name that stayed filed under an origin is deleted from the file by that origin's
  next update, also when the definition in the file has another origin by now.
\<close>

theorem stale_name_deletes:
  assumes "held (host n) = Inr (Some m)" "can_write (host n)" "origin \<noteq> k_origin (ctl n)"
    and "Unmarshal (as_slice dec_ServiceInterface) updates = Inr defs"
    and "valid_map_order rng1" "valid_map_order rng2"
    and "a |\<in>| fmdom (origin_defs (ctl n) origin)" "a |\<notin>| fmdom (index_update origin defs)"
    and "fmlookup m a = Some s" "si_Origin s \<noteq> origin"
  shows "\<exists>n' m'. handle_message now rng1 rng2 (update_message origin updates) n = (n', Inr ())
    \<and> held (host n') = Inr (Some m') \<and> fmlookup m' a = None"
proof -
  let ?D = "index_update origin defs"
  obtain n' m' where
    "ensureServiceInterfaceDefinitions now origin ?D (rng1 ?D) (rng2 (origin_defs (ctl n) origin)) n = (n', Inr ())"
    "held (host n') = Inr (Some m')"
    "\<And>a. fmlookup m' a = (if a |\<in>| fmdom (origin_defs (ctl n) origin) \<and> a |\<notin>| fmdom ?D then None
       else case fmlookup ?D a of
           Some d \<Rightarrow> if is_changed (byName (ctl n)) origin d then Some d else fmlookup m a
         | None \<Rightarrow> fmlookup m a)"
    by (rule ensure_effect [OF assms(1,2) keyed_index_update, of "rng1 ?D" origin defs
          "rng2 (origin_defs (ctl n) origin)" origin now])
      (use assms(5,6) in \<open>auto simp: valid_map_order_def\<close>)
  with assms(7,8) show ?thesis
    using handle_update [OF assms(3,4), of now rng1 rng2] by auto
qed

lemma index_update_range:
  assumes "distinct (map fst es)" "\<And>k s. (k, s) \<in> set es \<Longrightarrow> si_Address s = k"
  shows "fmlookup (index_update origin (map snd es)) a = map_option (\<lambda>s. s\<lparr>si_Origin := origin\<rparr>) (map_of es a)"
  using assms
proof (induction es rule: rev_induct)
  case (snoc e es)
  obtain k s where e: "e = (k, s)" by fastforce
  have k: "si_Address s = k" using snoc.prems(2) [of k s] e by simp
  have n: "map_of es k = None" using snoc.prems(1) e by (auto simp: map_of_eq_None_iff)
  have IH: "fmlookup (index_update origin (map snd es)) a = map_option (\<lambda>s. s\<lparr>si_Origin := origin\<rparr>) (map_of es a)"
    by (rule snoc.IH) (use snoc.prems in auto)
  then show ?case
    using k n by (auto simp: e index_update_snoc map_add_def split: option.splits)
qed (simp add: index_update_def)

text \<open>
  What a controller sends is what its peers index: the message decodes, and under every
  address of a local service stands that service with the sender as its origin, and nothing else.
\<close>

theorem message_carries_local:
  assumes "ranges_over es (localServices c)" "keyed si_Address (localServices c)"
  shows "\<exists>updates defs. sync_message es c = update_message (k_origin c) updates
    \<and> Unmarshal (as_slice dec_ServiceInterface) updates = Inr defs
    \<and> (\<forall>a. fmlookup (index_update (k_origin c) defs) a
        = map_option (\<lambda>s. s\<lparr>si_Origin := k_origin c\<rparr>) (fmlookup (localServices c) a))"
proof -
  let ?u = "Doc (JArr (map enc_ServiceInterface (map snd es)))"
  have u: "sync_message es c = update_message (k_origin c) ?u"
    by (simp add: sync_message_def update_message_def comp_def case_prod_unfold)
  have d: "distinct (map fst es)" using assms(1) by (rule ranges_over_distinct)
  have k: "si_Address s = k" if "(k, s) \<in> set es" for k s
    using assms that by (simp add: ranges_over_mem keyed_iff)
  have "Unmarshal (as_slice dec_ServiceInterface) ?u = Inr (map snd es)"
    by (simp only: Unmarshal_Doc service_codec.slice_round_trip)
  moreover have "fmlookup (index_update (k_origin c) (map snd es)) a
      = map_option (\<lambda>s. s\<lparr>si_Origin := k_origin c\<rparr>) (fmlookup (localServices c) a)" for a
    using index_update_range [OF d k] ranges_over_lookup [OF assms(1)] by simp
  ultimately show ?thesis using u
    by (intro exI [of _ ?u] exI [of _ "map snd es"]) (simp only: simp_thms)
qed

section \<open>Ageing\<close>

definition old :: "int \<Rightarrow> (string, int) fmap \<Rightarrow> string \<Rightarrow> bool" where
  "old now heard o' \<longleftrightarrow> (\<exists>t. fmlookup heard o' = Some t \<and> now - t \<ge> 60 * second)"

definition aged_name :: "int \<Rightarrow> (string, int) fmap \<Rightarrow> (string \<times> service_defs) list \<Rightarrow> string \<Rightarrow> bool" where
  "aged_name now heard es a \<longleftrightarrow> (\<exists>e \<in> set es. old now heard (fst e) \<and> a |\<in>| fmdom (snd e))"

lemma aged_name_simps [simp]:
  "\<not> aged_name now heard [] a"
  "aged_name now heard (e # es) a \<longleftrightarrow> (old now heard (fst e) \<and> a |\<in>| fmdom (snd e)) \<or> aged_name now heard es a"
  by (auto simp: aged_name_def)

lemma age_origins_effect:
  assumes "age_origins now rng heard es aged w = (w', r)" "held w = Inr (Some m)" "valid_map_order rng"
  shows "\<exists>m'. held w' = Inr (Some m')
    \<and> (\<forall>a. fmlookup m' a \<noteq> fmlookup m a \<longrightarrow>
        fmlookup m' a = None \<and> aged_name now heard es a)
    \<and> (r = Inr None \<or> r = Inr (Some (aged @ map fst (filter (\<lambda>e. old now heard (fst e)) es)))
        \<and> (\<forall>a. aged_name now heard es a \<longrightarrow> fmlookup m' a = None))"
  using assms(1,2)
proof (induction es arbitrary: aged w m)
  case Nil
  then show ?case by auto
next
  case (Cons e es)
  obtain o1 d where e: "e = (o1, d)" by fastforce
  have names: "set (map fst (rng d)) = fset (fmdom d)"
    using assms(3) by (simp add: valid_map_order_def ranges_over_keys del: set_map)
  show ?case
  proof (cases "old now heard o1")
    case False
    then have "age_origins now rng heard es aged w = (w', r)"
      using Cons.prems(1) by (auto simp: e old_def split: option.splits if_splits)
    from Cons.IH [OF this Cons.prems(2)] False show ?thesis by (auto simp: e)
  next
    case True
    let ?del = "map fst (rng d)"
    show ?thesis
    proof (cases "?del = []")
      case T: True
      then have d: "fmdom d = {||}" using names by auto
      have "age_origins now rng heard es (aged @ [o1]) w = (w', r)"
        using Cons.prems(1) T True by (auto simp: e old_def Let_def split: option.splits if_splits)
      from Cons.IH [OF this Cons.prems(2)] True d show ?thesis by (auto simp: e)
    next
      case F: False
      obtain w1 r1 where w1: "updateSkupperServices [] ?del o1 w = (w1, r1)" by fastforce
      show ?thesis
      proof (cases r1)
        case (Inl err)
        then have "w1 = w" using w1 updateSkupperServices_Inl by blast
        then have "w' = w" "r = Inr None"
          using Cons.prems(1) F True w1 Inl by (auto simp: e old_def Let_def split: option.splits if_splits)
        then show ?thesis using Cons.prems(2) by auto
      next
        case (Inr u)
        then have run: "age_origins now rng heard es (aged @ [o1]) w1 = (w', r)"
          using Cons.prems(1) F True w1 by (auto simp: e old_def Let_def split: option.splits if_splits)
        obtain m1 m2 where "held w = Inr m1" "apply_changes [] ?del m1 = Inr m2" "held w1 = Inr m2"
          using w1 Inr F by (auto elim!: updateSkupperServices_Inr)
        then have m2: "held w1 = Inr (Some (fold fmdrop ?del m))"
          using Cons.prems(2) by (auto simp: apply_changes_def)
        have l: "fmlookup (fold fmdrop ?del m) a = (if a |\<in>| fmdom d then None else fmlookup m a)" for a
          using names by (simp only: fold_fmdrop_lookup)
        obtain m' where m': "held w' = Inr (Some m')"
          "\<forall>a. fmlookup m' a \<noteq> fmlookup (fold fmdrop ?del m) a \<longrightarrow>
            fmlookup m' a = None \<and> aged_name now heard es a"
          "r = Inr None \<or> r = Inr (Some ((aged @ [o1]) @ map fst (filter (\<lambda>e. old now heard (fst e)) es)))
            \<and> (\<forall>a. aged_name now heard es a \<longrightarrow> fmlookup m' a = None)"
          using Cons.IH [OF run m2] by blast
        have gone: "fmlookup m' a = None" if "a |\<in>| fmdom d" for a
          using m'(2) l [of a] that by metis
        then have new: "fmlookup m' a \<noteq> fmlookup m a \<longrightarrow> fmlookup m' a = None \<and> aged_name now heard (e # es) a" for a
          using m'(2) l [of a] True by (cases "a |\<in>| fmdom d") (auto simp: e)
        have "aged_name now heard (e # es) a \<longrightarrow> fmlookup m' a = None"
          if "\<forall>a. aged_name now heard es a \<longrightarrow> fmlookup m' a = None" for a
          using that gone by (auto simp: e)
        note all = this
        have f: "aged @ map fst (filter (\<lambda>e. old now heard (fst e)) (e # es))
            = (aged @ [o1]) @ map fst (filter (\<lambda>e. old now heard (fst e)) es)"
          using True by (simp add: e)
        show ?thesis
          unfolding f by (rule exI [of _ m']) (use m'(1,3) new all in blast)
      qed
    qed
  qed
qed

lemma aged_name_sync:
  assumes "in_sync c m" "ranges_over es (byOrigin c)"
  shows "aged_name now heard es a \<longleftrightarrow>
    (\<exists>s. fmlookup m a = Some s \<and> is_remote s \<and> old now heard (si_Origin s))"
proof -
  have "aged_name now heard es a \<longleftrightarrow> (\<exists>o'. old now heard o' \<and> a |\<in>| fmdom (origin_defs c o'))"
  proof -
    have "aged_name now heard es a \<longleftrightarrow> (\<exists>o' d. fmlookup (byOrigin c) o' = Some d \<and> old now heard o' \<and> a |\<in>| fmdom d)"
      unfolding aged_name_def Bex_def split_paired_Ex fst_conv snd_conv ranges_over_mem [OF assms(2)] ..
    also have "\<dots> \<longleftrightarrow> (\<exists>o'. old now heard o' \<and> a |\<in>| fmdom (origin_defs c o'))"
    proof -
      have "(\<exists>d. fmlookup (byOrigin c) o' = Some d \<and> old now heard o' \<and> a |\<in>| fmdom d)
          \<longleftrightarrow> old now heard o' \<and> a |\<in>| fmdom (origin_defs c o')" for o'
        by (cases "fmlookup (byOrigin c) o'") (simp_all add: origin_defs_def)
      then show ?thesis by simp
    qed
    finally show ?thesis .
  qed
  then show ?thesis using assms(1) by (auto simp: in_sync_def)
qed


end
