(* ===== verification/Service_Controller.thy ===== *)
theory Service_Controller imports Sync_Laws begin

text \<open>
  The control loop of \<open>cmd/service-controller/controller.go\<close>: what happens when the file of the
  definitions was written. The bindings follow the file, the targets in containers are attached to
  the network of the router, and the proxies of services that are gone are deleted.

  The deployment of proxies is commented out in the code, so \<open>ensureProxyFor\<close> attaches and does
  not deploy. An error is logged and the loop goes on; a panic ends the program.
\<close>

section \<open>Orders\<close>

text \<open>The orders of the loops over maps, one function for each type of map.\<close>

record loop_orders =
  over_defs :: "service_defs \<Rightarrow> (string \<times> ServiceInterface) list"
  over_bindings :: "(string, ServiceBindings) fmap \<Rightarrow> (string \<times> ServiceBindings) list"
  over_targets :: "(string, EgressBindings) fmap \<Rightarrow> (string \<times> EgressBindings) list"
  over_proxies :: "(string, ContainerSummary) fmap \<Rightarrow> (string \<times> ContainerSummary) list"
  over_pare :: pare_order

definition valid_orders :: "loop_orders \<Rightarrow> bool" where
  "valid_orders os \<longleftrightarrow> (\<forall>m. ranges_over (over_defs os m) m) \<and> (\<forall>m. ranges_over (over_bindings os m) m)
     \<and> (\<forall>m. ranges_over (over_targets os m) m) \<and> (\<forall>m. ranges_over (over_proxies os m) m)
     \<and> valid_pare (over_pare os)"

section \<open>Proxies\<close>

definition index_panic :: error where
  "index_panic = Panic ''index out of range''"

text \<open>\<open>strings.TrimPrefix(v.Names[0], "/")\<close>\<close>

definition proxy_name :: "ContainerSummary \<Rightarrow> string result" where
  "proxy_name c = (case csu_Names c of [] \<Rightarrow> Inl index_panic | n # _ \<Rightarrow> Inr (TrimPrefix n ''/''))"

definition proxy_filter :: ContainerListOptions where
  "proxy_filter = \<lparr>clo_Filters = fmap_of_list [(''label'', [''skuper.io/application''])], clo_All = True\<rparr>"

fun proxy_map ::
  "ContainerSummary list \<Rightarrow> (string, ContainerSummary) fmap \<Rightarrow> (string, ContainerSummary) fmap result" where
  "proxy_map [] proxies = Inr proxies"
| "proxy_map (container # containers) proxies =
     rbind (proxy_name container) (\<lambda>proxyName. proxy_map containers (fmupd proxyName container proxies))"

definition getProxies :: "(ce_kind \<Rightarrow> 'e Driver) \<Rightarrow> ('e world, (string, ContainerSummary) fmap) io" where
  "getProxies D = io_bind (io_try (ce D (\<lambda>d. io_ask (ContainerList d proxy_filter)))) (\<lambda>r.
     case r of Inl _ \<Rightarrow> io_return fmempty | Inr containers \<Rightarrow> io_lift (proxy_map containers fmempty))"

definition deleteProxy :: "(ce_kind \<Rightarrow> 'e Driver) \<Rightarrow> string \<Rightarrow> ('e world, unit) io" where
  "deleteProxy D name = io_bind (ce D (\<lambda>d. ContainerStop d name)) (\<lambda>_. ce D (\<lambda>d. ContainerRemove d name))"

definition attach_target ::
  "(ce_kind \<Rightarrow> 'e Driver) \<Rightarrow> string list \<Rightarrow> EgressBindings \<Rightarrow> ('e world, unit) io" where
  "attach_target D attached t =
     (if eb_selector t = container_selector \<and> eb_name t \<notin> set attached
      then io_logged (ce D (\<lambda>d. NetworkConnect d TransportNetworkName (eb_name t) []))
      else io_return ())"

text \<open>The proxies are looked up first, for the message that is logged.\<close>

definition ensureProxyFor ::
  "(ce_kind \<Rightarrow> 'e Driver) \<Rightarrow> loop_orders \<Rightarrow> ServiceBindings \<Rightarrow> ('e world, unit) io" where
  "ensureProxyFor D os sb = io_bind (getProxies D) (\<lambda>proxies.
     if sb_origin sb = []
     then io_bind (io_wrap ''Unable to retrieve skupper-network''
         (ce D (\<lambda>d. io_ask (NetworkInspect d TransportNetworkName)))) (\<lambda>sn.
       io_each (attach_target D (map (\<lambda>(_, c). er_Name c) (sorted_list_of_fmap (ni_Containers sn))))
         (map snd (over_targets os (sb_targets sb))))
     else io_return ())"

definition drop_proxy ::
  "(ce_kind \<Rightarrow> 'e Driver) \<Rightarrow> (string, ServiceBindings) fmap \<Rightarrow> ContainerSummary \<Rightarrow> ('e world, unit) io" where
  "drop_proxy D bs v = io_bind (io_lift (proxy_name v)) (\<lambda>name.
     if name |\<in>| fmdom bs then io_return () else io_logged (deleteProxy D name))"

definition updateProxies ::
  "(ce_kind \<Rightarrow> 'e Driver) \<Rightarrow> loop_orders \<Rightarrow> (string, ServiceBindings) fmap \<Rightarrow> ('e world, unit) io" where
  "updateProxies D os bs =
     io_bind (io_each (\<lambda>v. io_logged (ensureProxyFor D os v)) (map snd (over_bindings os bs))) (\<lambda>_.
     io_bind (getProxies D) (\<lambda>proxies.
       io_each (drop_proxy D bs) (map snd (over_proxies os proxies))))"

section \<open>The handler\<close>

text \<open>
  A definitions file whose map is empty drops every binding; otherwise the bindings of services
  that are not in the file go one by one.
\<close>

definition reconcile ::
  "loop_orders \<Rightarrow> service_defs \<Rightarrow> (string, ServiceBindings) fmap \<Rightarrow> (string, ServiceBindings) fmap" where
  "reconcile os svcDefs bs =
     (if svcDefs \<noteq> fmempty
      then (let bs = fold (\<lambda>(_, v). updateServiceBindings v) (over_defs os svcDefs) bs
            in fold (\<lambda>(k, _). if k |\<in>| fmdom svcDefs then id else fmdrop k) (over_bindings os bs) bs)
      else fold (\<lambda>(k, _). fmdrop k) (over_bindings os bs) bs)"

definition processServiceDefs ::
  "(ce_kind \<Rightarrow> 'e Driver) \<Rightarrow> loop_orders \<Rightarrow> ('e node, unit) io" where
  "processServiceDefs D os = (\<lambda>n.
     (case getServiceDefinitions (host n) of
        (w, Inl e) \<Rightarrow> (n\<lparr>host := w\<rparr>, Inr ())
      | (w, Inr svcDefs) \<Rightarrow>
          (let c = serviceSyncDefinitionsUpdated (over_defs os svcDefs) (over_pare os) (ctl n);
               c = c\<lparr>bindings := reconcile os svcDefs (bindings c)\<rparr>
           in (case updateProxies D os (bindings c) w of (w, r) \<Rightarrow> (\<lparr>ctl = c, host = w\<rparr>, r)))))"

text \<open>
  What the watcher does before its loop; \<open>added\<close> says whether the file could be watched, \<open>now\<close>
  is the time the clock shows at each origin.
\<close>

definition start_watcher ::
  "(ce_kind \<Rightarrow> 'e Driver) \<Rightarrow> loop_orders \<Rightarrow> (string \<Rightarrow> int) \<Rightarrow> bool \<Rightarrow> ('e node, bool) io" where
  "start_watcher D os now added =
     (if \<not> added then io_return False
      else io_bind (processServiceDefs D os) (\<lambda>_ n.
        (n\<lparr>ctl := (ctl n)\<lparr>heardFrom := fold (\<lambda>origin. if origin \<noteq> k_origin (ctl n) then fmupd origin (now origin) else id)
            (sorted_list_of_fset (fmdom (byOrigin (ctl n)))) (heardFrom (ctl n))\<rparr>\<rparr>, Inr True)))"

text \<open>An event of the watcher: a write of the file is handled.\<close>

definition watch_event :: "(ce_kind \<Rightarrow> 'e Driver) \<Rightarrow> loop_orders \<Rightarrow> bool \<Rightarrow> ('e node, unit) io" where
  "watch_event D os is_write = (if is_write then processServiceDefs D os else io_return ())"

text \<open>\<open>Run\<close> pulls the image of the proxies and starts the loops, or ends the program.\<close>

definition Run :: "(ce_kind \<Rightarrow> 'e Driver) \<Rightarrow> ('e world, unit) io" where
  "Run D = io_bind (Getenv ''QDROUTERD_IMAGE'') (\<lambda>image.
     io_bind (io_wrap ''Failed to pull proxy image'' (ce D (\<lambda>d. ImagesPull d
        (if image \<noteq> [] then image else DefaultTransportImage) \<lparr>clo_Filters = fmempty, clo_All = False\<rparr>)))
       (\<lambda>_. io_return ()))"

end
