(* ===== verification/Controller_Laws.thy ===== *)
theory Controller_Laws imports Service_Controller Transitions Io_Triples begin

text \<open>
  What the control loop guarantees: the bindings follow the file, nothing happens to the containers
  of services that are bound, and what holds of the controller's maps whatever the order of the
  events. A handler is one step here; the code runs three goroutines on the same maps without a
  lock.
\<close>

section \<open>The bindings follow the file\<close>

definition mirrors :: "ServiceInterface \<Rightarrow> ServiceBindings \<Rightarrow> bool" where
  "mirrors r b \<longleftrightarrow> sb_protocol b = si_Protocol r \<and> sb_publicPort b = si_Port r
     \<and> sb_aggregation b = si_Aggregate r \<and> sb_eventChannel b = si_EventChannel r
     \<and> sb_origin b = si_Origin r \<and> (\<forall>k. k |\<in>| fmdom (sb_targets b) \<longleftrightarrow> hasTargetForName r k)"

lemma mirrors_fresh: "mirrors r (fresh_bindings r)"
proof -
  have "k |\<in>| fmdom (sb_targets (fresh_bindings r)) \<longleftrightarrow> hasTargetForName r k" for k
    using fresh_port [of r k] last_target_None [of r k]
    by (cases "last_target r k") (auto simp: fmdom_lookup)
  then show ?thesis
    by (simp add: mirrors_def) (simp add: fresh_bindings_def newServiceBindings_def Let_def)
qed

lemma mirrors_updated: "mirrors r (updated_bindings r b)"
proof -
  have "k |\<in>| fmdom (sb_targets (updated_bindings r b)) \<longleftrightarrow> hasTargetForName r k" for k
    using updated_port [of r b k] last_target_None [of r k]
    by (cases "last_target r k") (auto simp: fmdom_lookup)
  then show ?thesis
    by (simp add: mirrors_def)
      (simp add: updated_bindings_def drop_targets_def update_fields_def fold_update_target_fields)
qed

definition next_bindings :: "ServiceInterface \<Rightarrow> ServiceBindings option \<Rightarrow> ServiceBindings" where
  "next_bindings r ob = (case ob of None \<Rightarrow> fresh_bindings r | Some b \<Rightarrow> updated_bindings r b)"

lemma mirrors_next: "mirrors r (next_bindings r ob)"
  by (simp add: next_bindings_def mirrors_fresh mirrors_updated split: option.split)

lemma updateServiceBindings_next:
  "updateServiceBindings r bs = fmupd (si_Address r) (next_bindings r (fmlookup bs (si_Address r))) bs"
  by (simp add: updateServiceBindings_def next_bindings_def)

lemma fold_bindings_lookup:
  assumes "distinct (map fst es)" "\<forall>e \<in> set es. si_Address (snd e) = fst e"
  shows "fmlookup (fold (\<lambda>(_, v). updateServiceBindings v) es bs) k =
    (case map_of es k of None \<Rightarrow> fmlookup bs k | Some r \<Rightarrow> Some (next_bindings r (fmlookup bs k)))"
  using assms
proof (induction es arbitrary: bs)
  case (Cons e es)
  obtain a r where e: "e = (a, r)" by fastforce
  then have "si_Address r = a" "map_of es a = None"
    using Cons.prems by (auto simp: map_of_eq_None_iff)
  with e Cons show ?case by (auto simp: updateServiceBindings_next split: option.split)
qed simp

lemma fold_drop_lookup:
  "fmlookup (fold (\<lambda>(k, _). if P k then id else fmdrop k) es bs) k =
    (if k \<in> fst ` set es \<and> \<not> P k then None else fmlookup bs k)"
  by (induction es arbitrary: bs) auto

lemma ranges_over_entries:
  assumes "ranges_over es m" "keyed key m"
  shows "\<forall>e \<in> set es. key (snd e) = fst e"
  using assms by (auto simp: ranges_over_mem keyed_iff)

lemma dom_guard: "(if k |\<in>| fmdom m \<and> P then None else fmlookup m k) = (if P then None else fmlookup m k)"
  by (auto simp: fmdom_notD)

lemma reconcile_lookup:
  assumes os: "valid_orders os" and m: "keyed si_Address m"
  shows "fmlookup (reconcile os m bs) k = map_option (\<lambda>r. next_bindings r (fmlookup bs k)) (fmlookup m k)"
proof -
  have d: "ranges_over (over_defs os m) m" and b: "ranges_over (over_bindings os bs') bs'" for bs'
    using os by (auto simp: valid_orders_def)
  have keys: "fst ` set (over_bindings os bs') = fset (fmdom bs')" for bs'
    using ranges_over_keys [OF b [of bs']] by simp
  show ?thesis
  proof (cases "m = fmempty")
    case True
    have "fmlookup (fold (\<lambda>(k, _). fmdrop k) (over_bindings os bs) bs) k = None"
      using fold_drop_lookup [of "\<lambda>_. False" "over_bindings os bs" bs k] keys [of bs]
      by (auto simp: fmdom_notD)
    with True show ?thesis by (simp add: reconcile_def)
  next
    case False
    let ?bs = "fold (\<lambda>(_, v). updateServiceBindings v) (over_defs os m) bs"
    have "fmlookup ?bs k = (case fmlookup m k of None \<Rightarrow> fmlookup bs k
        | Some r \<Rightarrow> Some (next_bindings r (fmlookup bs k)))"
      using fold_bindings_lookup [of "over_defs os m" bs k] ranges_over_entries [OF d m]
        ranges_over_distinct [OF d] by (simp add: ranges_over_lookup [OF d])
    moreover have "fmlookup (reconcile os m bs) k = (if k |\<notin>| fmdom m then None else fmlookup ?bs k)"
      using False fold_drop_lookup [of "\<lambda>k. k |\<in>| fmdom m" "over_bindings os ?bs" ?bs k]
      by (simp add: reconcile_def Let_def keys dom_guard)
    ultimately show ?thesis
      by (cases "fmlookup m k") (auto simp: fmdom_lookup)
  qed
qed

lemma untouched_logged [intro]: "untouched m \<Longrightarrow> untouched (io_logged m)"
  unfolding io_logged_def by (rule untouched_bind [OF untouched_try]) auto

lemma untouched_getProxies [intro, simp]: "untouched (getProxies D)"
  unfolding getProxies_def by (rule untouched_bind [OF untouched_try]) (auto split: sum.split)

lemma untouched_updateProxies [intro, simp]: "untouched (updateProxies D os bs)"
proof -
  have a: "untouched (attach_target D as t)" for as t
    by (auto simp: attach_target_def intro!: untouched_logged)
  have e: "untouched (ensureProxyFor D os v)" for v
    unfolding ensureProxyFor_def
    by (auto intro!: untouched_bind untouched_wrap untouched_each a)
  have d: "untouched (drop_proxy D bs v)" for v
    by (auto simp: drop_proxy_def deleteProxy_def intro!: untouched_bind untouched_logged)
  show ?thesis unfolding updateProxies_def
    by (intro untouched_bind untouched_each untouched_logged e d untouched_getProxies)
qed

lemma getServiceDefinitions_value:
  "getServiceDefinitions w = (w, case held w of
     Inr mo \<Rightarrow> Inr (go_map mo) | Inl _ \<Rightarrow> snd (getServiceDefinitions w))"
proof -
  have "fst (getServiceDefinitions w) = w"
    using read_definitions_same [of w]
    by (auto simp: getServiceDefinitions_def io_bind_def split: prod.splits sum.splits)
  moreover have "snd (getServiceDefinitions w) = Inr (go_map mo)" if "held w = Inr mo" for mo
    using that by (simp add: getServiceDefinitions_def io_bind_Inr [OF read_definitions_Inr [THEN iffD2]])
  ultimately show ?thesis by (auto split: sum.split simp: prod_eq_iff)
qed

lemma processServiceDefs_run:
  fixes os :: loop_orders and n :: "'e node"
  assumes "held (host n) = Inr mo"
  defines "c \<equiv> serviceSyncDefinitionsUpdated (over_defs os (go_map mo)) (over_pare os) (ctl n)"
  defines "c' \<equiv> c\<lparr>bindings := reconcile os (go_map mo) (bindings c)\<rparr>"
  shows "processServiceDefs D os n = (\<lparr>ctl = c', host = fst (updateProxies D os (bindings c') (host n))\<rparr>,
      snd (updateProxies D os (bindings c') (host n)))"
  using getServiceDefinitions_value [of "host n"] assms(1)
  by (simp add: processServiceDefs_def c_def c'_def Let_def split_def)

lemma bindings_effect:
  assumes "held (host n) = Inr mo" "keyed si_Address (go_map mo)" "valid_orders os"
    and "processServiceDefs D os n = (n', r)"
  shows "(\<forall>k. case fmlookup (go_map mo) k of
        None \<Rightarrow> fmlookup (bindings (ctl n')) k = None
      | Some s \<Rightarrow> \<exists>b. fmlookup (bindings (ctl n')) k = Some b \<and> mirrors s b)
    \<and> host_of (host n') = host_of (host n)"
proof
  let ?c = "serviceSyncDefinitionsUpdated (over_defs os (go_map mo)) (over_pare os) (ctl n)"
  have b: "bindings (ctl n') = reconcile os (go_map mo) (bindings ?c)"
    and h: "host n' = fst (updateProxies D os (bindings (ctl n')) (host n))"
    using assms(4) unfolding processServiceDefs_run [OF assms(1)] by auto
  show "\<forall>k. case fmlookup (go_map mo) k of
        None \<Rightarrow> fmlookup (bindings (ctl n')) k = None
      | Some s \<Rightarrow> \<exists>b. fmlookup (bindings (ctl n')) k = Some b \<and> mirrors s b"
    unfolding b reconcile_lookup [OF assms(3,2)] by (simp add: mirrors_next split: option.split)
  show "host_of (host n') = host_of (host n)"
    unfolding h using untouched_updateProxies unfolding untouched_def by blast
qed

text \<open>
  Property C10. When the file was written the bindings follow it: a service of the file has bindings
  that mirror its definition, nothing else has any, whatever the orders of the loops and whatever
  becomes of the calls to the engine; and the handler changes no file.
\<close>

theorem bindings_follow_file:
  assumes "held (host n) = Inr mo" "keyed si_Address (go_map mo)" "valid_orders os"
    and "processServiceDefs D os n = (n', r)"
  shows "(\<forall>k. case fmlookup (go_map mo) k of
        None \<Rightarrow> fmlookup (bindings (ctl n')) k = None
      | Some s \<Rightarrow> \<exists>b. fmlookup (bindings (ctl n')) k = Some b \<and> mirrors s b)
    \<and> host_of (host n') = host_of (host n)"
  by (rule bindings_effect [OF assms])

section \<open>What happens to the containers\<close>

lemma keeps_ce:
  assumes "\<And>k. keeps P (f (D k))"
  shows "keeps (\<lambda>w. P (engine w)) (ce D f)"
  using assms by (auto simp: keeps_def ce_def on_engine_def split: option.split prod.split) (metis fst_conv)

lemma keeps_logged: "keeps P m \<Longrightarrow> keeps P (io_logged m)"
  unfolding io_logged_def by (rule keeps_bind [OF keeps_try]) auto

lemma keeps_getProxies: "keeps (\<lambda>w. P (engine w)) (getProxies D)"
  unfolding getProxies_def
  by (rule keeps_bind [OF keeps_try [OF keeps_ce [OF keeps_ask]]]) (simp add: keeps_def split: sum.split)

lemma ranges_over_values: "ranges_over es m \<Longrightarrow> v \<in> set (map snd es) \<Longrightarrow> v |\<in>| fmran m"
  by (auto simp: ranges_over_mem intro: fmranI)

text \<open>
  Property C22. The loop leaves the containers of bound services alone: what stopping and removing
  containers of other names, and attaching the targets in containers of local services, leave true
  of the engine stays true when the proxies are updated, also where calls fail.
\<close>

theorem bound_containers_kept:
  fixes D :: "ce_kind \<Rightarrow> 'e Driver"
  assumes "\<forall>k name. name |\<notin>| fmdom bs \<longrightarrow>
      keeps P (ContainerStop (D k) name) \<and> keeps P (ContainerRemove (D k) name)"
    and "\<forall>k b t. b |\<in>| fmran bs \<and> sb_origin b = [] \<and> t |\<in>| fmran (sb_targets b) \<and> eb_selector t = container_selector
      \<longrightarrow> keeps P (NetworkConnect (D k) TransportNetworkName (eb_name t) [])"
    and "valid_orders os"
  shows "keeps (\<lambda>w. P (engine w)) (updateProxies D os bs)"
proof -
  have att: "keeps (\<lambda>w. P (engine w)) (attach_target D as t)"
    if "b |\<in>| fmran bs" "sb_origin b = []" "t |\<in>| fmran (sb_targets b)" for as b t
    using that assms(2) by (auto simp: attach_target_def intro!: keeps_logged keeps_ce)
  have ens: "keeps (\<lambda>w. P (engine w)) (ensureProxyFor D os b)" if "b |\<in>| fmran bs" for b
  proof -
    have "ranges_over (over_targets os (sb_targets b)) (sb_targets b)"
      using assms(3) by (simp add: valid_orders_def)
    then have "keeps (\<lambda>w. P (engine w)) (io_each (attach_target D as)
        (map snd (over_targets os (sb_targets b))))" if "sb_origin b = []" for as
      using that \<open>b |\<in>| fmran bs\<close> by (blast intro: keeps_each_mem att ranges_over_values)
    then show ?thesis unfolding ensureProxyFor_def
      by (intro keeps_bind keeps_getProxies)
        (cases "sb_origin b = []", simp_all add: keeps_bind keeps_wrap keeps_ce keeps_def [of _ "\<lambda>a. (a, _)"])
  qed
  have del: "keeps (\<lambda>w. P (engine w)) (drop_proxy D bs v)" for v
  proof -
    have "keeps (\<lambda>w. P (engine w)) (deleteProxy D name)" if "name |\<notin>| fmdom bs" for name
      using that assms(1) unfolding deleteProxy_def by (intro keeps_bind keeps_ce) blast+
    then show ?thesis unfolding drop_proxy_def
      by (intro keeps_bind keeps_basic) (simp add: keeps_logged if_split [of "keeps _"])
  qed
  have "ranges_over (over_bindings os bs) bs" using assms(3) by (simp add: valid_orders_def)
  then show ?thesis unfolding updateProxies_def
    by (intro keeps_bind keeps_each_mem keeps_logged keeps_getProxies ens del ranges_over_values)
qed

section \<open>The handler completes\<close>

text \<open>
  A driver whose calls do not panic and which lists only proxies with a name. \<open>no_panic\<close> is a
  program that does not panic with such a driver, \<open>succeeds\<close> one that also returns no error.
\<close>

definition calm_engine :: "(ce_kind \<Rightarrow> 'e Driver) \<Rightarrow> bool" where
  "calm_engine D \<longleftrightarrow> (\<forall>k e s.
      ContainerList (D k) proxy_filter e \<noteq> Inl (Panic s) \<and> (\<forall>n. NetworkInspect (D k) n e \<noteq> Inl (Panic s))
    \<and> (\<forall>n c as. snd (NetworkConnect (D k) n c as e) \<noteq> Inl (Panic s))
    \<and> (\<forall>c. snd (ContainerStop (D k) c e) \<noteq> Inl (Panic s)) \<and> (\<forall>c. snd (ContainerRemove (D k) c e) \<noteq> Inl (Panic s)))
    \<and> (\<forall>k e cs. ContainerList (D k) proxy_filter e = Inr cs \<longrightarrow> (\<forall>c \<in> set cs. csu_Names c \<noteq> []))"

definition no_panic :: "('e world, 'a) io \<Rightarrow> bool" where
  "no_panic m \<longleftrightarrow> (\<forall>w. CeDriver w \<noteq> None \<longrightarrow> CeDriver (fst (m w)) \<noteq> None \<and> (\<forall>s. snd (m w) \<noteq> Inl (Panic s)))"

definition succeeds :: "('a \<Rightarrow> bool) \<Rightarrow> ('e world, 'a) io \<Rightarrow> bool" where
  "succeeds Q m \<longleftrightarrow> (\<forall>w. CeDriver w \<noteq> None \<longrightarrow> CeDriver (fst (m w)) \<noteq> None \<and> (\<exists>x. snd (m w) = Inr x \<and> Q x))"

lemma succeeds_no_panic: "succeeds Q m \<Longrightarrow> no_panic m"
  by (fastforce simp: succeeds_def no_panic_def)

lemma succeeds_return [simp]: "Q x \<Longrightarrow> succeeds Q (io_return x)"
  by (simp add: succeeds_def)

lemma rwrap_panic: "rwrap m r = Inl (Panic s) \<longleftrightarrow> r = Inl (Panic s)"
proof (cases r)
  case (Inl e)
  then show ?thesis by (cases e) simp_all
qed simp

lemma no_panic_ce: "(\<And>k e s. snd (f (D k) e) \<noteq> Inl (Panic s)) \<Longrightarrow> no_panic (ce D f)"
  by (simp add: no_panic_def ce_def on_engine_def split_def split: option.split)

lemma no_panic_wrap: "no_panic m \<Longrightarrow> no_panic (io_wrap msg m)"
  by (simp add: no_panic_def io_wrap_def split_def rwrap_panic)

lemma no_panic_bind: "no_panic m \<Longrightarrow> (\<And>x. no_panic (f x)) \<Longrightarrow> no_panic (io_bind m f)"
  unfolding no_panic_def io_bind_def by (auto split: prod.split sum.split)

lemma succeeds_bind:
  fixes m :: "('e world, 'a) io"
  assumes "succeeds P m" "\<And>x. P x \<Longrightarrow> succeeds Q (f x)"
  shows "succeeds Q (io_bind m f)"
  unfolding succeeds_def
proof (intro allI impI)
  fix w :: "'e world"
  assume "CeDriver w \<noteq> None"
  then obtain x where "CeDriver (fst (m w)) \<noteq> None" "snd (m w) = Inr x" "P x"
    using assms(1) unfolding succeeds_def by blast
  then show "CeDriver (fst (io_bind m f w)) \<noteq> None \<and> (\<exists>y. snd (io_bind m f w) = Inr y \<and> Q y)"
    using assms(2) [of x] unfolding succeeds_def by (simp add: io_bind_def split_def)
qed

lemma succeeds_try: "no_panic m \<Longrightarrow> succeeds (\<lambda>_. True) (io_try m)"
  unfolding succeeds_def no_panic_def io_try_def split_def by (auto split: sum.split error.split)

lemma succeeds_each: "(\<And>x. x \<in> set xs \<Longrightarrow> succeeds (\<lambda>_. True) (f x)) \<Longrightarrow> succeeds (\<lambda>_. True) (io_each f xs)"
  by (induction xs) (auto intro: succeeds_bind)

lemma succeeds_logged: "no_panic m \<Longrightarrow> succeeds (\<lambda>_. True) (io_logged m)"
  unfolding io_logged_def by (rule succeeds_bind [OF succeeds_try]) simp_all

lemma proxy_map_named:
  "\<forall>c \<in> set cs. csu_Names c \<noteq> [] \<Longrightarrow> \<forall>c. c |\<in>| fmran ps \<longrightarrow> csu_Names c \<noteq> [] \<Longrightarrow>
   \<exists>ps'. proxy_map cs ps = Inr ps' \<and> (\<forall>c. c |\<in>| fmran ps' \<longrightarrow> csu_Names c \<noteq> [])"
proof (induction cs arbitrary: ps)
  case (Cons c cs)
  obtain n ns where n: "csu_Names c = n # ns" using Cons.prems(1) by (cases "csu_Names c") auto
  have "\<forall>x. x |\<in>| fmran (fmupd (TrimPrefix n ''/'') c ps) \<longrightarrow> csu_Names x \<noteq> []"
    using Cons.prems(2) n by (auto elim!: fmranE split: if_splits) (metis fmranI)
  then show ?case using Cons.IH Cons.prems(1) n by (simp add: proxy_name_def)
qed simp

lemma succeeds_getProxies:
  assumes "calm_engine D"
  shows "succeeds (\<lambda>ps. \<forall>c. c |\<in>| fmran ps \<longrightarrow> csu_Names c \<noteq> []) (getProxies D)"
proof -
  let ?Q = "\<lambda>r. \<forall>cs. r = Inr cs \<longrightarrow> (\<forall>c \<in> set cs. csu_Names c \<noteq> [])"
  have "succeeds ?Q (io_try (ce D (\<lambda>d. io_ask (ContainerList d proxy_filter))))"
    using assms unfolding calm_engine_def succeeds_def io_try_def ce_def on_engine_def
    by (auto split: sum.split error.split option.split)
  then show ?thesis unfolding getProxies_def
  proof (rule succeeds_bind)
    fix r :: "ContainerSummary list result"
    assume q: "?Q r"
    show "succeeds (\<lambda>ps. \<forall>c. c |\<in>| fmran ps \<longrightarrow> csu_Names c \<noteq> [])
        (case r of Inl _ \<Rightarrow> io_return fmempty | Inr containers \<Rightarrow> io_lift (proxy_map containers fmempty))"
      using proxy_map_named [of _ fmempty] q by (cases r) (auto simp: succeeds_def)
  qed
qed

lemma succeeds_updateProxies:
  assumes "calm_engine D" "valid_orders os"
  shows "succeeds (\<lambda>_. True) (updateProxies D os bs)"
proof -
  have att: "succeeds (\<lambda>_. True) (attach_target D as t)" for as t
    using assms(1) by (simp add: attach_target_def calm_engine_def succeeds_logged no_panic_ce)
  have net: "no_panic (io_wrap msg (ce D (\<lambda>d. io_ask (NetworkInspect d n))))" for msg n
    using assms(1) by (simp add: no_panic_wrap no_panic_ce calm_engine_def)
  have ens: "no_panic (ensureProxyFor D os b)" for b
    unfolding ensureProxyFor_def
    by (intro no_panic_bind succeeds_no_panic [OF succeeds_getProxies [OF assms(1)]])
      (auto intro!: no_panic_bind net succeeds_no_panic [OF succeeds_each] succeeds_no_panic [OF succeeds_return] att)
  have del: "no_panic (deleteProxy D name)" for name
    using assms(1) by (auto simp: deleteProxy_def calm_engine_def intro!: no_panic_bind no_panic_ce)
  have drp: "succeeds (\<lambda>_. True) (drop_proxy D bs v)" if "csu_Names v \<noteq> []" for v
    using that del unfolding drop_proxy_def
    by (intro succeeds_bind [where P = "\<lambda>_. True"])
      (auto simp: succeeds_logged proxy_name_def succeeds_def [of _ "io_lift _"] split: list.split)
  have rng: "ranges_over (over_proxies os ps) ps" for ps using assms(2) by (simp add: valid_orders_def)
  have all: "succeeds (\<lambda>_. True) (io_each (drop_proxy D bs) (map snd (over_proxies os ps)))"
    if "\<forall>c. c |\<in>| fmran ps \<longrightarrow> csu_Names c \<noteq> []" for ps
    using that ranges_over_values [OF rng] by (blast intro: succeeds_each drp)
  show ?thesis unfolding updateProxies_def
    by (rule succeeds_bind [OF succeeds_each [OF succeeds_logged [OF ens]]],
        rule succeeds_bind [OF succeeds_getProxies [OF assms(1)]], rule all)
qed

lemma processServiceDefs_completes:
  assumes "calm_engine D" "valid_orders os" "CeDriver (host n) \<noteq> None"
  shows "\<exists>n'. processServiceDefs D os n = (n', Inr ())"
proof (cases "snd (getServiceDefinitions (host n))")
  case (Inl e)
  then show ?thesis
    using getServiceDefinitions_value [of "host n"] by (auto simp: processServiceDefs_def split_def)
next
  case (Inr m)
  have "fst (getServiceDefinitions (host n)) = host n"
    using getServiceDefinitions_value [of "host n"] by (metis fst_conv)
  then show ?thesis
    using succeeds_updateProxies [OF assms(1,2)] assms(3) Inr
    by (simp add: processServiceDefs_def split_def Let_def succeeds_def prod_eq_iff)
qed

text \<open>
  Property C25. The controller outlives every write of the file: if the driver does not panic and lists
  only containers with a name, the handler completes, whatever the file holds and whatever calls fail.
\<close>

theorem write_always_handled:
  assumes "calm_engine D" "valid_orders os" "CeDriver (host n) \<noteq> None"
  shows "\<exists>n'. processServiceDefs D os n = (n', Inr ())"
  by (rule processServiceDefs_completes [OF assms])

section \<open>What always holds\<close>

text \<open>
  The events a running controller handles, in any order, with the time the clock shows: the clock
  goes on, the file was written, a message of a peer came, the ageing ticks, and other programs
  change the host. An event that panics is no step: the program has ended.
\<close>

definition started :: "(ce_kind \<Rightarrow> 'e Driver) \<Rightarrow> string \<Rightarrow> 'e node \<times> int \<Rightarrow> bool" where
  "started D self s \<longleftrightarrow> (\<exists>os now w. valid_orders os \<and> (\<forall>o'. now o' \<le> snd s)
     \<and> start_watcher D os now True \<lparr>ctl = NewController self, host = w\<rparr> = (fst s, Inr True))"

inductive controller_step ::
  "(ce_kind \<Rightarrow> 'e Driver) \<Rightarrow> 'e node \<times> int \<Rightarrow> 'e node \<times> int \<Rightarrow> bool" for D where
  clock: "t \<le> t' \<Longrightarrow> controller_step D (n, t) (n, t')"
| written: "valid_orders os \<Longrightarrow> watch_event D os is_write n = (n', Inr u) \<Longrightarrow>
    controller_step D (n, t) (n', t)"
| message: "valid_map_order r1 \<Longrightarrow> valid_map_order r2 \<Longrightarrow> handle_message t r1 r2 msg n = (n', Inr u) \<Longrightarrow>
    controller_step D (n, t) (n', t)"
| ageing: "ranges_over es (byOrigin (ctl n)) \<Longrightarrow> valid_map_order rng \<Longrightarrow> age_tick t rng es n = (n', Inr b) \<Longrightarrow>
    controller_step D (n, t) (n', t)"
| others: "controller_step D (n, t) (n\<lparr>host := w\<rparr>, t)"

inductive_cases controller_stepE: "controller_step D (n, t) s'"

definition local_ok :: "service_defs \<Rightarrow> bool" where
  "local_ok m \<longleftrightarrow> (\<forall>a s. fmlookup m a = Some s \<longrightarrow> \<not> is_remote s \<and> si_Address s = a)"

definition controller_ok :: "string \<Rightarrow> Controller \<Rightarrow> int \<Rightarrow> bool" where
  "controller_ok self c t \<longleftrightarrow> k_origin c = self \<and> self |\<notin>| fmdom (heardFrom c)
     \<and> (\<forall>o' h. fmlookup (heardFrom c) o' = Some h \<longrightarrow> h \<le> t) \<and> local_ok (localServices c)"

lemma controller_ok_later: "controller_ok self c t \<Longrightarrow> t \<le> t' \<Longrightarrow> controller_ok self c t'"
  by (fastforce simp: controller_ok_def)

lemma local_ok_upd: "local_ok m \<Longrightarrow> \<not> is_remote s \<Longrightarrow> local_ok (fmupd (si_Address s) s m)"
  by (simp add: local_ok_def)

lemma local_ok_empty: "local_ok fmempty"
  by (simp add: local_ok_def)

lemma sync_entry_latest:
  "ss_latest (sync_entry po e st) = (if is_remote (snd e) then ss_latest st
     else fmupd (si_Address (sync_view (snd e))) (sync_view (snd e)) (ss_latest st))"
  by (simp add: sync_entry_def Let_def split: prod.split)

lemma local_ok_sync: "local_ok (localServices (serviceSyncDefinitionsUpdated es po c))"
proof -
  have "local_ok (ss_latest st) \<Longrightarrow> local_ok (ss_latest (fold (sync_entry po) es st))" for st
  proof (induction es arbitrary: st)
    case (Cons e es)
    have "local_ok (ss_latest (sync_entry po e st))"
      using local_ok_upd [OF Cons.prems, of "sync_view (snd e)"] by (simp add: sync_entry_latest Cons.prems)
    from Cons.IH [OF this] show ?case by simp
  qed simp
  from this [of "\<lparr>ss_latest = fmempty, ss_byName = fmempty, ss_byOrigin = byOrigin c\<rparr>"]
  show ?thesis by (simp add: serviceSyncDefinitionsUpdated_def Let_def local_ok_empty)
qed

lemma sync_keeps [simp]:
  "k_origin (serviceSyncDefinitionsUpdated es po c) = k_origin c"
  "heardFrom (serviceSyncDefinitionsUpdated es po c) = heardFrom c"
  by (simp_all add: serviceSyncDefinitionsUpdated_def Let_def)

lemma processServiceDefs_ok:
  assumes "processServiceDefs D os n = (n', r)" "controller_ok self (ctl n) t"
  shows "controller_ok self (ctl n') t"
proof (cases "snd (getServiceDefinitions (host n))")
  case (Inl e)
  then show ?thesis using assms by (auto simp: processServiceDefs_def split: prod.splits sum.splits)
next
  case (Inr m)
  then have "ctl n' = (serviceSyncDefinitionsUpdated (over_defs os m) (over_pare os) (ctl n))
      \<lparr>bindings := bindings (ctl n')\<rparr>"
    using assms(1) by (auto simp: processServiceDefs_def Let_def split: prod.splits sum.splits)
  then have "k_origin (ctl n') = k_origin (ctl n)" "heardFrom (ctl n') = heardFrom (ctl n)"
    "localServices (ctl n') = localServices (serviceSyncDefinitionsUpdated (over_defs os m) (over_pare os) (ctl n))"
    by (metis Controller.ext_inject Controller.surjective Controller.update_convs(2) sync_keeps)+
  then show ?thesis using assms(2) by (simp add: controller_ok_def local_ok_sync)
qed

lemma handle_message_ok:
  assumes "handle_message t r1 r2 msg n = (n', r)" "controller_ok self (ctl n) t"
  shows "controller_ok self (ctl n') t"
proof (cases "ctl n' = ctl n")
  case False
  then obtain origin ind es ns where o': "origin \<noteq> k_origin (ctl n)"
    and run: "ensureServiceInterfaceDefinitions t origin ind es ns n = (n', r)"
    using assms(1) by (auto simp: handle_message_def Let_def split: option.splits if_splits sum.splits)
  have "k_origin (ctl n') = k_origin (ctl n)" "localServices (ctl n') = localServices (ctl n)"
    "heardFrom (ctl n') = fmupd origin t (heardFrom (ctl n))"
    using run by (auto simp: ensureServiceInterfaceDefinitions_def Let_def split: if_splits prod.splits sum.splits error.splits)
  with o' assms(2) show ?thesis by (simp add: controller_ok_def)
qed (use assms(2) in simp)

lemma age_tick_ok:
  assumes "age_tick t rng es n = (n', r)" "controller_ok self (ctl n) t"
  shows "controller_ok self (ctl n') t"
proof -
  have "k_origin (ctl n') = k_origin (ctl n)" "localServices (ctl n') = localServices (ctl n)"
    "\<exists>aged. heardFrom (ctl n') = fold fmdrop aged (heardFrom (ctl n))"
    using assms(1) by (auto simp: age_tick_def split: prod.splits sum.splits option.splits intro: exI [of _ "[]"])
  with assms(2) show ?thesis
    by (auto simp: controller_ok_def fold_fmdrop_lookup fmdom_lookup split: if_splits)
qed

lemma fold_heard:
  "fmlookup (fold (\<lambda>o'. if o' \<noteq> self then fmupd o' (now o') else id) os' m) o1 =
     (if o1 \<in> set os' \<and> o1 \<noteq> self then Some (now o1) else fmlookup m o1)"
  by (induction os' arbitrary: m) auto

lemma started_ok:
  assumes "started D self (n, t)"
  shows "controller_ok self (ctl n) t"
proof -
  obtain os now w where b: "\<forall>o'. now o' \<le> t"
    and run: "start_watcher D os now True \<lparr>ctl = NewController self, host = w\<rparr> = (n, Inr True)"
    using assms by (auto simp: started_def)
  obtain n1 u where p: "processServiceDefs D os \<lparr>ctl = NewController self, host = w\<rparr> = (n1, Inr u)"
    using run by (auto simp: start_watcher_def elim: io_bind_InrE)
  have "controller_ok self (NewController self) t"
    by (simp add: controller_ok_def NewController_def local_ok_empty)
  then have ok: "controller_ok self (ctl n1) t"
    using processServiceDefs_ok [OF p] by simp
  have n: "k_origin (ctl n) = k_origin (ctl n1)" "localServices (ctl n) = localServices (ctl n1)"
    "heardFrom (ctl n) = fold (\<lambda>origin. if origin \<noteq> k_origin (ctl n1) then fmupd origin (now origin) else id)
        (sorted_list_of_fset (fmdom (byOrigin (ctl n1)))) (heardFrom (ctl n1))"
    using run by (auto simp: start_watcher_def io_bind_Inr [where m = "processServiceDefs D os", OF p])
  with ok b show ?thesis
    by (auto simp: controller_ok_def fold_heard fmdom_lookup split: if_splits)
qed

interpretation controller: invariant_of "started D self" "controller_step D"
  "\<lambda>(n, t). controller_ok self (ctl n) t" for D :: "ce_kind \<Rightarrow> 'e Driver" and self
proof unfold_locales
  fix s :: "'e node \<times> int"
  assume "started D self s"
  then show "case s of (n, t) \<Rightarrow> controller_ok self (ctl n) t"
    using started_ok by (cases s) auto
next
  fix s s' :: "'e node \<times> int"
  assume "case s of (n, t) \<Rightarrow> controller_ok self (ctl n) t" "controller_step D s s'"
  then show "case s' of (n, t) \<Rightarrow> controller_ok self (ctl n) t"
    by (cases s; cases s') (auto elim!: controller_stepE intro: controller_ok_later processServiceDefs_ok handle_message_ok age_tick_ok
      simp: watch_event_def split: if_splits)
qed

text \<open>
  Property C20. Whatever events a controller has handled, in whatever order: it keeps its origin and
  never files itself among the sites it heard from, so ageing never drops its own definitions; no
  site was heard of later than now; and what it sends to the others is local: each definition is
  filed under its own address and has no other site as its origin.
\<close>

theorem controller_always_ok:
  assumes "reach (started D self) (controller_step D) (n, t)"
  shows "k_origin (ctl n) = self \<and> fmlookup (heardFrom (ctl n)) self = None
    \<and> (\<forall>o' h. fmlookup (heardFrom (ctl n)) o' = Some h \<longrightarrow> h \<le> t)
    \<and> (\<forall>a s. fmlookup (localServices (ctl n)) a = Some s \<longrightarrow> \<not> is_remote s \<and> si_Address s = a)"
  using controller.always [OF assms] by (auto simp: controller_ok_def local_ok_def fmdom_lookup)

end
