(* ===== verification/Sync_Examples.thy ===== *)
theory Sync_Examples imports Sync_Laws Demo_Engine begin

text \<open>
  A controller of the site \<open>site-1\<close> with one local service and one of \<open>site-2\<close>, on which the
  properties of the exchange are applied.
\<close>

section \<open>The controller\<close>

definition remote_db :: ServiceInterface where
  "remote_db = zero_ServiceInterface\<lparr>si_Address := ''db'', si_Protocol := ''tcp'', si_Port := 5432,
     si_Origin := ''site-2''\<rparr>"

definition local_web :: ServiceInterface where
  "local_web = zero_ServiceInterface\<lparr>si_Address := ''web'', si_Protocol := ''http'', si_Port := 80\<rparr>"

definition demo_defs :: service_defs where
  "demo_defs = fmap_of_list [(''db'', remote_db), (''web'', local_web)]"

definition demo_ctl :: Controller where
  "demo_ctl = (NewController ''site-1'')\<lparr>byName := fmap_of_list [(''db'', sync_view remote_db), (''web'', sync_view local_web)],
     localServices := fmap_of_list [(''web'', sync_view local_web)],
     byOrigin := fmap_of_list [(''site-2'', fmap_of_list [(''db'', sync_view remote_db)])],
     heardFrom := fmap_of_list [(''site-2'', 0)]\<rparr>"

definition demo_node :: "demo node" where
  "demo_node = \<lparr>ctl = demo_ctl, host = demo_world\<lparr>fs := \<lparr>dirs = {|''/etc/messaging/services''|},
     files = fmap_of_list [(services_path, Doc (enc_services (Some demo_defs)))], denied = {||}\<rparr>\<rparr>\<rparr>"

abbreviation sorted_pare :: pare_order where
  "sorted_pare \<equiv> \<lambda>_ m. sorted_list_of_fmap m"

lemma sorted_orders: "valid_map_order sorted_list_of_fmap" "valid_pare sorted_pare"
  by (simp_all add: valid_map_order_def valid_pare_def ranges_over_sorted)

lemma demo_held: "held (host demo_node) = Inr (Some demo_defs)"
  by (simp add: held_def demo_node_def fs_read_def fmlookup_of_list services_codec.dec_enc)

lemma demo_can_write: "can_write (host demo_node)"
proof -
  have "dirname services_path = ''/etc/messaging/services''"
    by (simp add: dirname_def services_path_def slash_def)
  moreover have "services_path \<noteq> ''/etc/messaging/services''" by (simp add: services_path_def)
  ultimately show ?thesis
    by (simp add: can_write_def WriteFile_def on_fs_def fs_write_def demo_node_def)
qed

lemma demo_agree: "files_agree demo_ctl demo_defs"
  by (auto simp: files_agree_def origin_defs_def demo_ctl_def demo_defs_def fmlookup_of_list is_remote_def
      remote_db_def zero_ServiceInterface_def split: if_splits)

lemma demo_keyed: "keyed si_Address demo_defs"
  by (simp add: keyed_iff demo_defs_def fmlookup_of_list remote_db_def local_web_def zero_ServiceInterface_def)

lemma demo_in_sync: "in_sync demo_ctl demo_defs"
proof -
  have "fmlookup (byName demo_ctl) a = map_option sync_view (fmlookup demo_defs a)" for a
    by (simp add: demo_ctl_def demo_defs_def fmlookup_of_list)
  moreover have "a |\<in>| fmdom (origin_defs demo_ctl o') \<longleftrightarrow>
      (\<exists>s. fmlookup demo_defs a = Some s \<and> is_remote s \<and> si_Origin s = o')" for a o'
    by (auto simp: origin_defs_def demo_ctl_def demo_defs_def fmlookup_of_list is_remote_def
      remote_db_def local_web_def zero_ServiceInterface_def split: if_splits)
  ultimately show ?thesis using demo_keyed by (simp add: in_sync_def)
qed


section \<open>Updates\<close>

definition updates_of :: "ServiceInterface list \<Rightarrow> content" where
  "updates_of defs = Doc (JArr (map enc_ServiceInterface defs))"

lemma decode_updates: "Unmarshal (as_slice dec_ServiceInterface) (updates_of defs) = Inr defs"
  by (simp add: updates_of_def service_codec.slice_round_trip)

lemma demo_node_ctl: "ctl demo_node = demo_ctl" "k_origin demo_ctl = ''site-1''"
  by (simp_all add: demo_node_def demo_ctl_def NewController_def)

lemma sync_reads_file_witness:
  "fmlookup (localServices (serviceSyncDefinitionsUpdated (sorted_list_of_fmap demo_defs) sorted_pare demo_ctl)) ''db'' = None"
  using sync_reads_file [OF ranges_over_sorted demo_keyed sorted_orders(2), of demo_ctl]
  by (simp add: Let_def demo_defs_def fmlookup_of_list is_remote_def remote_db_def zero_ServiceInterface_def)

lemma reload_syncs_witness:
  "in_sync (serviceSyncDefinitionsUpdated (sorted_list_of_fmap demo_defs) sorted_pare demo_ctl) demo_defs"
  by (rule reload_syncs [OF ranges_over_sorted demo_keyed sorted_orders(2) demo_agree])


text \<open>The message that changes a port of \<open>site-2\<close>, and the file after it.\<close>

lemma demo_sync_update:
  obtains n' m' where "handle_message 7 sorted_list_of_fmap sorted_list_of_fmap
      (update_message ''site-2'' (updates_of [remote_db\<lparr>si_Port := 1\<rparr>])) demo_node = (n', Inr ())"
    "held (host n') = Inr (Some m')"
  using update_effect [of demo_node demo_defs "''site-2''" "updates_of [remote_db\<lparr>si_Port := 1\<rparr>]"
      "[remote_db\<lparr>si_Port := 1\<rparr>]" sorted_list_of_fmap sorted_list_of_fmap 7]
  by (auto simp: demo_node_ctl demo_in_sync demo_held demo_can_write decode_updates sorted_orders)

lemma update_settles_witness:
  "\<exists>(n1 :: demo node) n2. handle_message 8 sorted_list_of_fmap sorted_list_of_fmap
      (update_message ''site-2'' (updates_of [remote_db\<lparr>si_Port := 1\<rparr>])) n1 = (n2, Inr ()) \<and> host n2 = host n1"
proof -
  obtain n1 m1 where n1: "handle_message 7 sorted_list_of_fmap sorted_list_of_fmap
      (update_message ''site-2'' (updates_of [remote_db\<lparr>si_Port := 1\<rparr>])) demo_node = (n1, Inr ())"
    "held (host n1) = Inr (Some m1)" using demo_sync_update .
  have plain: "\<forall>d \<in> set [remote_db\<lparr>si_Port := 1\<rparr>]. \<not> si_EventChannel d \<and> si_Aggregate d = []"
    by (simp add: remote_db_def zero_ServiceInterface_def)
  have sync: "in_sync (ctl demo_node) demo_defs" "''site-2'' \<noteq> k_origin (ctl demo_node)"
    by (simp_all add: demo_node_ctl demo_in_sync)
  show ?thesis
    using update_settles [OF sync(1) demo_held demo_can_write sync(2) decode_updates sorted_orders(1)
        sorted_orders(1) plain n1 ranges_over_sorted sorted_orders(2), of 8]
    by (metis (no_types, lifting) node.select_convs(2) node.update_convs(1) node.surjective)
qed

lemma view_loses_channel_witness:
  "\<not> equivalentServiceDefinition (local_web\<lparr>si_EventChannel := True\<rparr>) (sync_view (local_web\<lparr>si_EventChannel := True\<rparr>))"
  using view_loses_channel [of "local_web\<lparr>si_EventChannel := True\<rparr>"] by simp

lemma empty_origin_replaces_local_witness:
  "\<exists>n' m'. handle_message 7 sorted_list_of_fmap sorted_list_of_fmap
      (update_message [] (updates_of [local_web\<lparr>si_Port := 1\<rparr>])) demo_node = (n', Inr ())
    \<and> held (host n') = Inr (Some m') \<and> map_option si_Port (fmlookup m' ''web'') = Some 1"
proof -
  let ?d = "local_web\<lparr>si_Port := 1\<rparr>"
  have s: "fmlookup demo_defs ''web'' = Some local_web" "si_Origin local_web = []"
    by (simp_all add: demo_defs_def fmlookup_of_list local_web_def zero_ServiceInterface_def)
  have d: "fmlookup (index_update [] [?d]) ''web'' = Some ?d" "\<not> equivalentServiceDefinition ?d (sync_view local_web)"
    by (simp_all add: index_update_def equivalentServiceDefinition_def local_web_def zero_ServiceInterface_def)
  have sync: "in_sync (ctl demo_node) demo_defs" "k_origin (ctl demo_node) \<noteq> []"
    by (simp_all add: demo_node_ctl demo_in_sync)
  show ?thesis
    using empty_origin_replaces_local [OF sync(1) demo_held demo_can_write sync(2) decode_updates
        sorted_orders(1) sorted_orders(1) s d, of 7]
    by auto
qed

text \<open>\<open>site-9\<close> once had \<open>db\<close>, which belongs to \<open>site-2\<close> in the file.\<close>

definition stale_node :: "demo node" where
  "stale_node = demo_node\<lparr>ctl := demo_ctl\<lparr>byOrigin := fmap_of_list
     [(''site-9'', fmap_of_list [(''db'', sync_view remote_db)])]\<rparr>\<rparr>"

lemma stale_name_deletes_witness:
  "\<exists>n' m'. handle_message 7 sorted_list_of_fmap sorted_list_of_fmap
      (update_message ''site-9'' (updates_of [])) stale_node = (n', Inr ())
    \<and> held (host n') = Inr (Some m') \<and> fmlookup m' ''db'' = None"
proof (rule stale_name_deletes [where m = demo_defs and s = remote_db])
  show "held (host stale_node) = Inr (Some demo_defs)" "can_write (host stale_node)"
    by (simp_all add: stale_node_def demo_held demo_can_write)
  show "''site-9'' \<noteq> k_origin (ctl stale_node)" "''db'' |\<in>| fmdom (origin_defs (ctl stale_node) ''site-9'')"
    by (simp_all add: stale_node_def demo_ctl_def NewController_def origin_defs_def fmlookup_of_list)
  show "fmlookup demo_defs ''db'' = Some remote_db" "si_Origin remote_db \<noteq> ''site-9''"
    by (simp_all add: demo_defs_def fmlookup_of_list remote_db_def)
  show "''db'' |\<notin>| fmdom (index_update ''site-9'' [])" by (simp add: index_update_def)
qed (simp_all add: decode_updates sorted_orders)

lemma message_carries_local_witness:
  "\<exists>updates defs. sync_message (sorted_list_of_fmap (localServices demo_ctl)) demo_ctl = update_message ''site-1'' updates
    \<and> Unmarshal (as_slice dec_ServiceInterface) updates = Inr defs
    \<and> map_option si_Origin (fmlookup (index_update ''site-1'' defs) ''web'') = Some ''site-1''"
proof -
  have "keyed si_Address (localServices demo_ctl)"
    by (simp add: keyed_iff demo_ctl_def fmlookup_of_list local_web_def zero_ServiceInterface_def)
  from message_carries_local [OF ranges_over_sorted this] show ?thesis
    by (auto simp: demo_node_ctl) (auto simp: demo_ctl_def fmlookup_of_list)
qed


end
