(* ===== verification/Controller_Examples.thy ===== *)
theory Controller_Examples imports Sync_Examples Controller_Laws begin

text \<open>The control loop on the controller and the engine of the examples.\<close>

definition sorted_loops :: loop_orders where
  "sorted_loops = \<lparr>over_defs = sorted_list_of_fmap, over_bindings = sorted_list_of_fmap,
     over_targets = sorted_list_of_fmap, over_proxies = sorted_list_of_fmap, over_pare = sorted_pare\<rparr>"

lemma valid_sorted_loops: "valid_orders sorted_loops"
  by (simp add: valid_orders_def sorted_loops_def ranges_over_sorted sorted_orders)

lemma demo_calm_engine: "calm_engine demo_D"
proof -
  have "snd (demo_needs name f e) \<noteq> Inl (Panic s)" for name f e s
    by (simp add: demo_needs_def no_such_container_def split: option.split)
  then show ?thesis by (auto simp: calm_engine_def demo_driver_def demo_summary_def)
qed

lemma demo_connected: "CeDriver (host demo_node) \<noteq> None"
  by (simp add: demo_node_def demo_world_def)

lemma write_always_handled_witness: "\<exists>n'. processServiceDefs demo_D sorted_loops demo_node = (n', Inr ())"
  by (rule write_always_handled [OF demo_calm_engine valid_sorted_loops demo_connected])

lemma bindings_follow_file_witness:
  "\<exists>b. fmlookup (bindings (ctl (fst (processServiceDefs demo_D sorted_loops demo_node)))) ''db'' = Some b
    \<and> sb_publicPort b = 5432"
proof -
  obtain n' r where r: "processServiceDefs demo_D sorted_loops demo_node = (n', r)" by fastforce
  have "keyed si_Address (go_map (Some demo_defs))" by (simp add: demo_keyed)
  from bindings_follow_file [OF demo_held this valid_sorted_loops r]
  have "case fmlookup demo_defs ''db'' of
      None \<Rightarrow> fmlookup (bindings (ctl n')) ''db'' = None
    | Some s \<Rightarrow> \<exists>b. fmlookup (bindings (ctl n')) ''db'' = Some b \<and> mirrors s b" by simp
  then show ?thesis using r
    by (auto simp: demo_defs_def fmlookup_of_list mirrors_def) (auto simp: remote_db_def)
qed

text \<open>The container of \<open>pg\<close> outlasts an update of the proxies while \<open>pg\<close> is bound.\<close>

lemma bound_containers_kept_witness:
  "keeps (\<lambda>w. ''pg'' |\<in>| fmdom (engine w)) (updateProxies demo_D sorted_loops
     (fmap_of_list [(''pg'', fresh_bindings (local_web\<lparr>si_Address := ''pg''\<rparr>))]))"
proof (rule bound_containers_kept [OF _ _ valid_sorted_loops], goal_cases)
  case 1
  have "keeps (\<lambda>e. ''pg'' |\<in>| fmdom e) (demo_needs name f)"
    if "\<And>e. ''pg'' |\<in>| fmdom e \<Longrightarrow> ''pg'' |\<in>| fmdom (f e)" for name f
    using that by (auto simp: keeps_def demo_needs_def split: option.split)
  then show ?case by (auto simp: demo_driver_def fmlookup_of_list)
next
  case 2
  show ?case by (simp add: demo_driver_def)
qed

lemma controller_always_ok_witness:
  "\<exists>n :: demo node. reach (started demo_D ''site-1'') (controller_step demo_D) (n, 5)
    \<and> fmlookup (heardFrom (ctl n)) ''site-1'' = None"
proof -
  let ?n = "\<lparr>ctl = NewController ''site-1'', host = host demo_node\<rparr>"
  obtain n1 where p: "processServiceDefs demo_D sorted_loops ?n = (n1, Inr ())"
    using processServiceDefs_completes [OF demo_calm_engine valid_sorted_loops, of ?n] demo_connected by auto
  then have "\<exists>n. start_watcher demo_D sorted_loops (\<lambda>_. 0) True ?n = (n, Inr True)"
    by (simp add: start_watcher_def io_bind_Inr [where m = "processServiceDefs demo_D sorted_loops", OF p])
  then obtain n where "started demo_D ''site-1'' (n, 0)"
    unfolding started_def using valid_sorted_loops by (metis fst_conv order_refl snd_conv)
  then have "reach (started demo_D ''site-1'') (controller_step demo_D) (n, 5)"
    by (meson clock reach.intros zero_le_numeral)
  with controller_always_ok [OF this] show ?thesis by blast
qed

end
