(* ===== verification/Site_To_Site.thy ===== *)
theory Site_To_Site imports Controller_Laws Service_Laws Controller_Examples begin

text \<open>
  The way of a service from the command of one site to the bindings of another: the client writes the
  file of the definitions, the controller of the site reads it and announces its services, the controller of
  the other site merges the announcement into its own file and binds what the file says. The parts of the
  way are the operations of \<open>Client_Services\<close>, \<open>Service_Controller\<close> and \<open>Service_Sync\<close>.
\<close>

section \<open>The shared file\<close>

text \<open>The directory of the services is mounted into the container of the controller.\<close>

definition mounted :: "'e world \<Rightarrow> 'f world \<Rightarrow> bool" where
  "mounted w v \<longleftrightarrow> fs_read services_path (fs v) = fs_read (services_file w) (fs w)"

lemma mounted_held: "mounted w v \<Longrightarrow> held v = services_of w"
  by (simp add: mounted_def held_def services_of_def)

section \<open>What a controller announces\<close>

lemma processed_ctl:
  assumes "held (host n) = Inr mo" "processServiceDefs D os n = (n', r)"
  shows "localServices (ctl n') = localServices (serviceSyncDefinitionsUpdated (over_defs os (go_map mo)) (over_pare os) (ctl n))"
    and "k_origin (ctl n') = k_origin (ctl n)" "held (host n') = held (host n)"
proof -
  note p = processServiceDefs_run [OF assms(1), of D os]
  show "localServices (ctl n') = localServices (serviceSyncDefinitionsUpdated (over_defs os (go_map mo)) (over_pare os) (ctl n))"
    "k_origin (ctl n') = k_origin (ctl n)"
    using assms(2) unfolding p by (auto simp: serviceSyncDefinitionsUpdated_def Let_def)
  have "host_of (host n') = host_of (host n)"
    using assms(2) unfolding p using untouched_updateProxies unfolding untouched_def by force
  then show "held (host n') = held (host n)" by (simp add: held_def host_of_def)
qed

text \<open>The local services of a file, stamped with the site, are what the peers index.\<close>

definition announced :: "string \<Rightarrow> service_defs \<Rightarrow> string \<Rightarrow> ServiceInterface option" where
  "announced origin m a = (case fmlookup m a of
     Some s \<Rightarrow> if is_remote s then None else Some ((sync_view s)\<lparr>si_Origin := origin\<rparr>) | None \<Rightarrow> None)"

lemma announces:
  assumes "held (host n) = Inr (Some m)" "keyed si_Address m" "valid_orders os"
    and "processServiceDefs D os n = (n1, r)" "ranges_over es (localServices (ctl n1))"
  obtains updates defs where "sync_message es (ctl n1) = update_message (k_origin (ctl n)) updates"
    "Unmarshal (as_slice dec_ServiceInterface) updates = Inr defs"
    "\<And>a. fmlookup (index_update (k_origin (ctl n)) defs) a = announced (k_origin (ctl n)) m a"
proof -
  note p = processed_ctl [OF assms(1,4)]
  have o: "ranges_over (over_defs os m) m" "valid_pare (over_pare os)"
    using assms(3) by (simp_all add: valid_orders_def)
  have l: "fmlookup (localServices (ctl n1)) a = (case fmlookup m a of
      Some s \<Rightarrow> if is_remote s then None else Some (sync_view s) | None \<Rightarrow> None)" for a
    using sync_effect [OF o(1) assms(2) o(2), of "ctl n"] unfolding p(1) Let_def by simp
  have "keyed si_Address (localServices (ctl n1))"
    using assms(2) by (auto simp: keyed_iff l sync_view_def split: option.splits if_splits)
  from message_carries_local [OF assms(5) this] obtain updates defs where
    "sync_message es (ctl n1) = update_message (k_origin (ctl n)) updates"
    "Unmarshal (as_slice dec_ServiceInterface) updates = Inr defs"
    "\<forall>a. fmlookup (index_update (k_origin (ctl n)) defs) a
        = map_option (\<lambda>s. s\<lparr>si_Origin := k_origin (ctl n)\<rparr>) (fmlookup (localServices (ctl n1)) a)"
    unfolding p(2) by blast
  then show thesis by (intro that) (auto simp: l announced_def split: option.split)
qed

section \<open>From site to site\<close>

text \<open>The announcement of a site is merged into the file of its peer, and the peer binds what it reads.\<close>

lemma announcement_bound:
  assumes "held (host n) = Inr (Some m)" "keyed si_Address m" "valid_orders os"
    and "processServiceDefs D os n = (n1, r)" "ranges_over es (localServices (ctl n1))"
    and "in_sync (ctl p) mp" "held (host p) = Inr (Some mp)" "can_write (host p)" "k_origin (ctl n) \<noteq> k_origin (ctl p)"
    and "valid_map_order rng1" "valid_map_order rng2"
  shows "\<exists>p1 mp1. handle_message now rng1 rng2 (sync_message es (ctl n1)) p = (p1, Inr ())
    \<and> held (host p1) = Inr (Some mp1)
    \<and> (\<forall>a. fmlookup mp1 a = merge (k_origin (ctl n)) (fmlookup mp a) (announced (k_origin (ctl n)) m a))
    \<and> (\<forall>D' os' p2 r' a s. valid_orders os' \<longrightarrow> processServiceDefs D' os' p1 = (p2, r') \<longrightarrow> fmlookup mp1 a = Some s
        \<longrightarrow> (\<exists>b. fmlookup (bindings (ctl p2)) a = Some b \<and> mirrors s b))"
proof -
  obtain updates defs where u: "sync_message es (ctl n1) = update_message (k_origin (ctl n)) updates"
    "Unmarshal (as_slice dec_ServiceInterface) updates = Inr defs"
    "\<And>a. fmlookup (index_update (k_origin (ctl n)) defs) a = announced (k_origin (ctl n)) m a"
    by (rule announces [OF assms(1-5)]) blast
  obtain p1 mp1 where p1: "handle_message now rng1 rng2 (update_message (k_origin (ctl n)) updates) p = (p1, Inr ())"
    "held (host p1) = Inr (Some mp1)" "keyed si_Address mp1"
    "\<forall>a. fmlookup mp1 a = merge (k_origin (ctl n)) (fmlookup mp a) (fmlookup (index_update (k_origin (ctl n)) defs) a)"
    using update_effect [OF assms(6-9) u(2) assms(10,11), of now] by blast
  have "\<exists>b. fmlookup (bindings (ctl p2)) a = Some b \<and> mirrors s b"
    if "valid_orders os'" "processServiceDefs D' os' p1 = (p2, r')" "fmlookup mp1 a = Some s"
    for D' :: "ce_kind \<Rightarrow> 'b Driver" and os' p2 r' a s
    using conjunct1 [OF bindings_effect [OF p1(2) _ that(1,2)]] p1(3) that(3) by (fastforce split: option.splits)
  with p1 u(1,3) show ?thesis by auto
qed

text \<open>
  Property C2. A service that is created on one site comes to be bound on the other: the controller of the first
  site reads the file the client wrote and announces it, the other site takes the announcement over where
  the address is free there, as a service of the first site, and its controller binds it as such, whatever
  the orders of the loops and the fate of the calls to the two engines. Its services of other
  origins stay as they were.
\<close>

theorem service_reaches_peer:
  assumes "ServiceInterfaceCreate D s w = (w', Inr ())" "services_of w = Inr (Some m)" "keyed si_Address m"
    and "fmlookup m (si_Address s) = None"
    and "mounted w' (host n)" "valid_orders os" "processServiceDefs DA os n = (n1, r)"
    and "ranges_over es (localServices (ctl n1))"
    and "in_sync (ctl p) mp" "held (host p) = Inr (Some mp)" "can_write (host p)" "k_origin (ctl n) \<noteq> k_origin (ctl p)"
    and "fmlookup mp (si_Address s) = None" "valid_map_order rng1" "valid_map_order rng2" "valid_orders os'"
  shows "\<exists>p1 mp1. handle_message now rng1 rng2 (sync_message es (ctl n1)) p = (p1, Inr ())
    \<and> held (host p1) = Inr (Some mp1)
    \<and> (\<forall>a s'. fmlookup mp a = Some s' \<and> si_Origin s' \<noteq> k_origin (ctl n) \<longrightarrow> fmlookup mp1 a = Some s')
    \<and> (\<exists>b. fmlookup (bindings (ctl (fst (processServiceDefs DB os' p1)))) (si_Address s) = Some b
        \<and> sb_protocol b = si_Protocol s \<and> sb_publicPort b = si_Port s \<and> sb_origin b = k_origin (ctl n))"
proof -
  let ?m = "fmupd (si_Address s) (own s) m" and ?o = "k_origin (ctl n)"
  have "services_of w' = Inr (Some ?m)"
  proof (rule create_services [OF assms(1)])
    fix mo
    assume "services_of w = Inr mo" "services_of w' = Inr (if fmlookup (go_map mo) (si_Address s) = None
        then Some (fmupd (si_Address s) (own s) (go_map mo)) else mo)"
    with assms(2,4) show ?thesis by simp
  qed
  then have h: "held (host n) = Inr (Some ?m)" using mounted_held [OF assms(5)] by simp
  have k: "keyed si_Address ?m" using assms(3) by (rule keyed_upd) (simp add: own_def)
  obtain p1 mp1 where p1: "handle_message now rng1 rng2 (sync_message es (ctl n1)) p = (p1, Inr ())"
    "held (host p1) = Inr (Some mp1)" "\<forall>a. fmlookup mp1 a = merge ?o (fmlookup mp a) (announced ?o ?m a)"
    "\<forall>D' os' p2 r' a s. valid_orders os' \<longrightarrow> processServiceDefs D' os' p1 = (p2, r') \<longrightarrow> fmlookup mp1 a = Some s
        \<longrightarrow> (\<exists>b. fmlookup (bindings (ctl p2)) a = Some b \<and> mirrors s b)"
    using announcement_bound [OF h k assms(6,7,8,9,10,11,12,14,15), of now] by blast
  let ?d = "(sync_view (own s))\<lparr>si_Origin := ?o\<rparr>"
  have "fmlookup mp1 (si_Address s) = Some ?d"
    using p1(3) assms(13) by (simp add: merge_def announced_def is_remote_def own_def)
  then obtain b where "fmlookup (bindings (ctl (fst (processServiceDefs DB os' p1)))) (si_Address s) = Some b" "mirrors ?d b"
    using p1(4) assms(16) by (metis prod.collapse)
  moreover have "fmlookup mp1 a = Some s'" if "fmlookup mp a = Some s'" "si_Origin s' \<noteq> ?o" for a s'
    using p1(3) that by (simp add: merge_def)
  ultimately show ?thesis using p1(1,2)
    by (intro exI [of _ p1] exI [of _ mp1]) (auto simp: mirrors_def sync_view_def own_def)
qed

section \<open>An example\<close>

text \<open>\<open>db\<close> is created on the site \<open>site-1\<close> and reaches \<open>site-5\<close>, which has nothing.\<close>

definition far_node :: "demo node" where
  "far_node = \<lparr>ctl = NewController ''site-5'', host = demo_world\<lparr>fs := \<lparr>dirs = {|''/etc/messaging/services''|},
     files = fmap_of_list [(services_path, Doc (enc_services (Some fmempty)))], denied = {||}\<rparr>\<rparr>\<rparr>"

lemma far_node_ready:
  "in_sync (ctl far_node) fmempty" "held (host far_node) = Inr (Some fmempty)" "can_write (host far_node)"
  "k_origin (ctl far_node) = ''site-5''"
proof -
  show "in_sync (ctl far_node) fmempty"
    by (simp add: in_sync_def far_node_def NewController_def origin_defs_def)
  show "held (host far_node) = Inr (Some fmempty)"
    by (simp add: held_def far_node_def fs_read_def fmlookup_of_list services_codec.dec_enc)
  show "can_write (host far_node)"
  proof -
    have "dirname services_path = ''/etc/messaging/services''" "services_path \<noteq> ''/etc/messaging/services''"
      by (simp_all add: dirname_def services_path_def slash_def)
    then show ?thesis by (simp add: can_write_def WriteFile_def on_fs_def fs_write_def far_node_def)
  qed
  show "k_origin (ctl far_node) = ''site-5''" by (simp add: far_node_def NewController_def)
qed

lemma service_reaches_peer_witness:
  "\<exists>(p1 :: demo node) b. fmlookup (bindings (ctl (fst (processServiceDefs demo_D sorted_loops p1)))) ''db'' = Some b
    \<and> sb_publicPort b = si_Port sample_service \<and> sb_origin b = ''site-1''"
proof -
  obtain w' where w': "ServiceInterfaceCreate demo_D sample_service demo_world = (w', Inr ())" using demo_create .
  let ?n = "demo_node\<lparr>host := (host demo_node)\<lparr>fs := (fs (host demo_node))\<lparr>files :=
    (case fs_read (services_file w') (fs w') of Inr c \<Rightarrow> fmap_of_list [(services_path, c)] | Inl _ \<Rightarrow> fmempty)\<rparr>\<rparr>\<rparr>"
  have r: "\<exists>c. fs_read (services_file w') (fs w') = Inr c"
    using create_services [OF w'] by (auto simp: services_of_def)
  have mounted: "mounted w' (host ?n)"
    using r by (auto simp: mounted_def demo_node_def fs_read_def [of services_path] fmlookup_of_list)
  obtain n1 r where n1: "processServiceDefs demo_D sorted_loops ?n = (n1, r)" by fastforce
  have orders: "k_origin (ctl ?n) = ''site-1''" "k_origin (ctl ?n) \<noteq> k_origin (ctl far_node)"
    by (simp_all add: demo_node_ctl far_node_ready)
  have fresh: "fmlookup (fmempty :: service_defs) (si_Address sample_service) = None" by simp
  from service_reaches_peer [OF w' demo_services keyed_empty fresh mounted valid_sorted_loops n1 ranges_over_sorted
      far_node_ready(1-3) orders(2) fresh sorted_orders(1) sorted_orders(1) valid_sorted_loops, of 7 demo_D]
  show ?thesis unfolding orders(1) sample_address by blast
qed

end
