(* ===== verification/Site_Network.thy ===== *)
theory Site_Network imports Site_To_Site Service_Registry begin

text \<open>
  A network of sites. Each site has a file of definitions that its clients and its controller share, and
  the controllers exchange announcements over the routers. The routers are not in the repository: an
  announcement that was sent may reach a site at any time, any number of times or never. The steps of the
  network are the operations of \<open>Service_Registry\<close>, \<open>Service_Controller\<close> and \<open>Service_Sync\<close> at one of
  the sites; a controller that ended, for whatever reason, may be started again.

  \<open>history\<close> remembers which services the commands of a site ever left in its file as services of the
  site. No step reads it.
\<close>

section \<open>The steps\<close>

record 'e network =
  sites :: "(string, 'e node) fmap"
  wire :: "Message set"
  history :: "(string \<times> ServiceInterface) set"

definition own_services :: "string \<Rightarrow> 'e world \<Rightarrow> (string \<times> ServiceInterface) set" where
  "own_services self w = {(self, s) |s a m. held w = Inr (Some m) \<and> fmlookup m a = Some s \<and> \<not> is_remote s}"

definition at_site :: "string \<Rightarrow> 'e node \<Rightarrow> 'e network \<Rightarrow> 'e network" where
  "at_site self n N = N\<lparr>sites := fmupd self n (sites N)\<rparr>"

inductive network_step :: "(ce_kind \<Rightarrow> 'e Driver) \<Rightarrow> 'e network \<Rightarrow> 'e network \<Rightarrow> bool" for D where
  command: "fmlookup (sites N) self = Some n \<Longrightarrow> services_of w = held (host n) \<Longrightarrow>
    mounted (fst (run_op D p w)) h \<Longrightarrow>
    network_step D N (at_site self (n\<lparr>host := h\<rparr>) N\<lparr>history := history N \<union> own_services self h\<rparr>)"
| started_again: "fmlookup (sites N) self = Some n \<Longrightarrow> valid_orders os \<Longrightarrow>
    start_watcher D os now added (n\<lparr>ctl := NewController self\<rparr>) = (n', r) \<Longrightarrow> network_step D N (at_site self n' N)"
| written: "fmlookup (sites N) self = Some n \<Longrightarrow> valid_orders os \<Longrightarrow> watch_event D os b n = (n', r) \<Longrightarrow>
    network_step D N (at_site self n' N)"
| announced: "fmlookup (sites N) self = Some n \<Longrightarrow> ranges_over es (localServices (ctl n)) \<Longrightarrow>
    network_step D N (N\<lparr>wire := insert (sync_message es (ctl n)) (wire N)\<rparr>)"
| delivered: "fmlookup (sites N) self = Some n \<Longrightarrow> msg \<in> wire N \<Longrightarrow> valid_map_order r1 \<Longrightarrow> valid_map_order r2 \<Longrightarrow>
    handle_message t r1 r2 msg n = (n', r) \<Longrightarrow> network_step D N (at_site self n' N)"
| aged: "fmlookup (sites N) self = Some n \<Longrightarrow> ranges_over es (byOrigin (ctl n)) \<Longrightarrow> valid_map_order rng \<Longrightarrow>
    age_tick t rng es n = (n', r) \<Longrightarrow> network_step D N (at_site self n' N)"

text \<open>The names of sites that \<open>serviceSyncDefinitionsUpdated\<close> takes for those of other sites.\<close>

definition proper_site :: "string \<Rightarrow> bool" where
  "proper_site self \<longleftrightarrow> self \<noteq> [] \<and> self \<noteq> ''annotation''"

definition network_init :: "'e network \<Rightarrow> bool" where
  "network_init N \<longleftrightarrow> wire N = {} \<and> (\<forall>(o', l) \<in> history N. \<not> is_remote l)
     \<and> (\<forall>self n. fmlookup (sites N) self = Some n \<longrightarrow> proper_site self \<and> ctl n = NewController self
         \<and> (\<exists>m. held (host n) = Inr (Some m) \<and> keyed si_Address m
             \<and> (\<forall>a s. fmlookup m a = Some s \<longrightarrow> \<not> is_remote s \<and> (self, s) \<in> history N)))"

section \<open>The steps at one site\<close>

lemma fold_changed_origin:
  "fmlookup (fold (\<lambda>def. fmupd (si_Address def) def) ds m) a = Some s \<Longrightarrow>
   fmlookup m a = Some s \<or> s \<in> set ds \<and> si_Address s = a"
proof (induction ds arbitrary: m)
  case (Cons d ds)
  from Cons.IH [of "fmupd (si_Address d) d m"] Cons.prems show ?case by (auto split: if_splits)
qed simp

lemma handle_message_file:
  assumes run: "handle_message t r1 r2 (update_message origin updates) n = (n', r)"
    and defs: "Unmarshal (as_slice dec_ServiceInterface) updates = Inr defs"
    and h: "held (host n) = Inr (Some m)" and k: "keyed si_Address m" and r1: "valid_map_order r1"
  shows "\<exists>m'. held (host n') = Inr (Some m') \<and> keyed si_Address m'
    \<and> (\<forall>a s. fmlookup m' a = Some s \<longrightarrow> fmlookup m a = Some s
        \<or> origin \<noteq> k_origin (ctl n) \<and> fmlookup (index_update origin defs) a = Some s)
    \<and> localServices (ctl n') = localServices (ctl n) \<and> k_origin (ctl n') = k_origin (ctl n)"
proof (cases "origin = k_origin (ctl n)")
  case True
  then have "n' = n" using run by (auto simp: handle_message_def update_message_def)
  with h k show ?thesis by auto
next
  case False
  let ?D = "index_update origin defs"
  define changed where "changed = filter (is_changed (byName (ctl n)) origin) (map snd (r1 ?D))"
  have ch: "fmlookup ?D a = Some s" if "s \<in> set changed" "si_Address s = a" for s a
  proof -
    obtain b where "(b, s) \<in> set (r1 ?D)" using \<open>s \<in> set changed\<close> by (auto simp: changed_def)
    then have "fmlookup ?D b = Some s" using r1 ranges_over_mem unfolding valid_map_order_def by fast
    moreover from this have "si_Address s = b" using keyed_index_update by (auto simp: keyed_iff)
    ultimately show ?thesis using that by simp
  qed
  have e: "ensureServiceInterfaceDefinitions t origin ?D (r1 ?D) (r2 (origin_defs (ctl n) origin)) n = (n', r)"
    using run handle_update [OF False defs] by simp
  have keeps: "localServices (ctl n') = localServices (ctl n)" "k_origin (ctl n') = k_origin (ctl n)"
    using e by (auto simp: ensureServiceInterfaceDefinitions_def Let_def split: if_splits prod.splits sum.splits error.splits)
  consider "host n' = host n" | deleted rr where "updateSkupperServices changed deleted origin (host n) = (host n', rr)"
      "changed \<noteq> [] \<or> deleted \<noteq> []"
    using e by (auto simp: ensureServiceInterfaceDefinitions_def Let_def changed_def
        split: if_splits prod.splits sum.splits error.splits)
  then show ?thesis
  proof cases
    case 1
    then show ?thesis using h k keeps by auto
  next
    case 2
    show ?thesis
    proof (cases rr)
      case (Inl err)
      then show ?thesis using updateSkupperServices_Inl 2(1) h k keeps by metis
    next
      case (Inr u)
      let ?m = "fold fmdrop deleted (fold (\<lambda>def. fmupd (si_Address def) def) changed m)"
      have m': "held (host n') = Inr (Some ?m)"
        using 2 Inr h by (auto simp: apply_changes_def elim!: updateSkupperServices_Inr)
      have l: "fmlookup m a = Some s \<or> fmlookup ?D a = Some s \<and> si_Address s = a" if "fmlookup ?m a = Some s" for a s
        using that fold_changed_origin ch by (fastforce simp: fold_fmdrop_lookup split: if_splits)
      then have "keyed si_Address ?m" using k by (fastforce simp: keyed_iff)
      with m' l keeps False show ?thesis by blast
    qed
  qed
qed

lemma processed_file:
  assumes "processServiceDefs D os n = (n', r)" "held (host n) = Inr (Some m)" "keyed si_Address m" "valid_orders os"
  shows "held (host n') = Inr (Some m)" "k_origin (ctl n') = k_origin (ctl n)"
    and "fmlookup (localServices (ctl n')) a = Some s \<Longrightarrow> \<exists>l. fmlookup m a = Some l \<and> \<not> is_remote l \<and> s = sync_view l"
proof -
  note p = processed_ctl [OF assms(2,1)]
  show "held (host n') = Inr (Some m)" "k_origin (ctl n') = k_origin (ctl n)" using p(2,3) assms(2) by simp_all
  have "ranges_over (over_defs os m) m" "valid_pare (over_pare os)" using assms(4) by (simp_all add: valid_orders_def)
  from sync_effect [OF this(1) assms(3) this(2), of "ctl n"]
  have "fmlookup (localServices (ctl n')) a = (case fmlookup m a of
      Some s \<Rightarrow> if is_remote s then None else Some (sync_view s) | None \<Rightarrow> None)"
    using p(1) by (simp add: Let_def)
  then show "\<exists>l. fmlookup m a = Some l \<and> \<not> is_remote l \<and> s = sync_view l"
    if "fmlookup (localServices (ctl n')) a = Some s"
    using that by (auto split: option.splits if_splits)
qed

lemma watcher_file:
  assumes "start_watcher D os now added n = (n', r)" "held (host n) = Inr (Some m)" "keyed si_Address m" "valid_orders os"
    and "localServices (ctl n) = fmempty"
  shows "held (host n') = Inr (Some m)" "k_origin (ctl n') = k_origin (ctl n)"
    and "fmlookup (localServices (ctl n')) a = Some s \<Longrightarrow> \<exists>l. fmlookup m a = Some l \<and> \<not> is_remote l \<and> s = sync_view l"
proof -
  consider "n' = n" | n1 r1 where "processServiceDefs D os n = (n1, r1)" "host n' = host n1"
      "k_origin (ctl n') = k_origin (ctl n1)" "localServices (ctl n') = localServices (ctl n1)"
  proof (cases "processServiceDefs D os n")
    case (Pair n1 r1)
    then show thesis
      using assms(1) that by (cases r1) (auto simp: start_watcher_def io_bind_def split: if_splits)
  qed
  note c = this
  show "held (host n') = Inr (Some m)" "k_origin (ctl n') = k_origin (ctl n)"
    using c processed_file(1,2) [OF _ assms(2-4)] assms(2) by (metis)+
  show "\<exists>l. fmlookup m a = Some l \<and> \<not> is_remote l \<and> s = sync_view l"
    if "fmlookup (localServices (ctl n')) a = Some s"
    using c processed_file(3) [OF _ assms(2-4)] that assms(5) by (metis fmempty_lookup option.distinct(1))
qed

lemma aged_file:
  assumes "age_tick t rng es n = (n', r)" "held (host n) = Inr (Some m)" "valid_map_order rng"
  shows "\<exists>m'. held (host n') = Inr (Some m') \<and> (\<forall>a s. fmlookup m' a = Some s \<longrightarrow> fmlookup m a = Some s)
    \<and> localServices (ctl n') = localServices (ctl n) \<and> k_origin (ctl n') = k_origin (ctl n)"
proof -
  obtain w r1 where run: "age_origins t rng (heardFrom (ctl n)) es [] (host n) = (w, r1)" by fastforce
  have "host n' = w" "localServices (ctl n') = localServices (ctl n)" "k_origin (ctl n') = k_origin (ctl n)"
    using assms(1) run by (auto simp: age_tick_def split: sum.splits option.splits)
  with age_origins_effect [OF run assms(2,3)] show ?thesis by (metis option.distinct(1))
qed

section \<open>The invariant\<close>

text \<open>\<open>stems H o' s\<close>: \<open>s\<close> is what the peers of \<open>o'\<close> may know of a service that \<open>o'\<close> had.\<close>

definition stems :: "(string \<times> ServiceInterface) set \<Rightarrow> string \<Rightarrow> ServiceInterface \<Rightarrow> bool" where
  "stems H o' s \<longleftrightarrow> (\<exists>l. (o', l) \<in> H \<and> \<not> is_remote l \<and> sync_view s = (sync_view l)\<lparr>si_Origin := o'\<rparr>)"

definition speaks_for :: "(string \<times> ServiceInterface) set \<Rightarrow> Message \<Rightarrow> bool" where
  "speaks_for H msg \<longleftrightarrow> (\<exists>o' updates defs. msg = update_message o' updates \<and> proper_site o'
     \<and> Unmarshal (as_slice dec_ServiceInterface) updates = Inr defs
     \<and> (\<forall>a s. fmlookup (index_update o' defs) a = Some s \<longrightarrow> stems H o' s))"

text \<open>An entry of the file of \<open>self\<close>.\<close>

definition accounted :: "(string \<times> ServiceInterface) set \<Rightarrow> string \<Rightarrow> ServiceInterface \<Rightarrow> bool" where
  "accounted H self s \<longleftrightarrow>
     (if is_remote s then si_Origin s \<noteq> self \<and> stems H (si_Origin s) s else (self, s) \<in> H)"

definition site_ok :: "(string \<times> ServiceInterface) set \<Rightarrow> string \<Rightarrow> 'e node \<Rightarrow> bool" where
  "site_ok H self n \<longleftrightarrow> proper_site self \<and> k_origin (ctl n) = self
     \<and> (\<forall>a s. fmlookup (localServices (ctl n)) a = Some s \<longrightarrow>
          si_Address s = a \<and> (\<exists>l. (self, l) \<in> H \<and> \<not> is_remote l \<and> s = sync_view l))
     \<and> (\<exists>m. held (host n) = Inr (Some m) \<and> keyed si_Address m
         \<and> (\<forall>a s. fmlookup m a = Some s \<longrightarrow> accounted H self s))"

definition authentic :: "'e network \<Rightarrow> bool" where
  "authentic N \<longleftrightarrow> (\<forall>msg \<in> wire N. speaks_for (history N) msg)
     \<and> (\<forall>self n. fmlookup (sites N) self = Some n \<longrightarrow> site_ok (history N) self n)"

lemma stems_mono: "stems H o' s \<Longrightarrow> H \<subseteq> H' \<Longrightarrow> stems H' o' s"
  by (auto simp: stems_def)

lemma accounted_mono: "accounted H self s \<Longrightarrow> H \<subseteq> H' \<Longrightarrow> accounted H' self s"
  by (auto simp: accounted_def intro: stems_mono)

lemma speaks_for_mono: "speaks_for H msg \<Longrightarrow> H \<subseteq> H' \<Longrightarrow> speaks_for H' msg"
  unfolding speaks_for_def using stems_mono by metis

lemma site_ok_mono: "site_ok H self n \<Longrightarrow> H \<subseteq> H' \<Longrightarrow> site_ok H' self n"
  unfolding site_ok_def using accounted_mono by (meson subsetD)

lemma site_okE:
  assumes "site_ok H self n"
  obtains m where "held (host n) = Inr (Some m)" "keyed si_Address m"
    and "\<And>a s. fmlookup m a = Some s \<Longrightarrow> accounted H self s"
  using assms unfolding site_ok_def by blast

text \<open>A step at a site that takes nothing new into the file keeps the site.\<close>

lemma site_ok_step:
  assumes ok: "site_ok H self n" and "held (host n) = Inr (Some m)"
    and "held (host n') = Inr (Some m')" "keyed si_Address m'" "k_origin (ctl n') = self"
    and new: "\<And>a s. fmlookup m' a = Some s \<Longrightarrow> fmlookup m a = Some s
        \<or> is_remote s \<and> si_Origin s \<noteq> self \<and> stems H (si_Origin s) s"
    and locals: "\<And>a s. fmlookup (localServices (ctl n')) a = Some s \<Longrightarrow> fmlookup (localServices (ctl n)) a = Some s
        \<or> (\<exists>l. fmlookup m a = Some l \<and> \<not> is_remote l \<and> s = sync_view l)"
  shows "site_ok H self n'"
proof -
  have p: "proper_site self"
    and l: "\<And>a s. fmlookup (localServices (ctl n)) a = Some s \<Longrightarrow>
          si_Address s = a \<and> (\<exists>l. (self, l) \<in> H \<and> \<not> is_remote l \<and> s = sync_view l)"
    using ok by (simp_all add: site_ok_def)
  obtain m0 where "held (host n) = Inr (Some m0)" "keyed si_Address m0"
    and f: "\<And>a s. fmlookup m0 a = Some s \<Longrightarrow> accounted H self s"
    using ok by (rule site_okE) blast
  with assms(2) have m: "m0 = m" "keyed si_Address m" by simp_all
  have 1: "si_Address s = a \<and> (\<exists>l. (self, l) \<in> H \<and> \<not> is_remote l \<and> s = sync_view l)"
    if s: "fmlookup (localServices (ctl n')) a = Some s" for a s
    using locals [OF s]
  proof
    assume "fmlookup (localServices (ctl n)) a = Some s"
    then show ?thesis by (rule l)
  next
    assume "\<exists>l. fmlookup m a = Some l \<and> \<not> is_remote l \<and> s = sync_view l"
    then obtain l where "fmlookup m a = Some l" "\<not> is_remote l" "s = sync_view l" by blast
    then show ?thesis using f [of a l] m by (auto simp: keyed_iff accounted_def)
  qed
  have "accounted H self s" if "fmlookup m' a = Some s" for a s
    using new [OF that] f [of a s] m by (auto simp: accounted_def)
  with p 1 assms(3-5) show ?thesis by (auto simp: site_ok_def)
qed

lemma command_ok:
  assumes ok: "site_ok H self n" and "services_of w = held (host n)" "mounted (fst (run_op D p w)) h"
  shows "site_ok (H \<union> own_services self h) self (n\<lparr>host := h\<rparr>)"
proof -
  obtain m where m: "held (host n) = Inr (Some m)" "keyed si_Address m"
    and f: "\<And>a s. fmlookup m a = Some s \<Longrightarrow> accounted H self s"
    using ok by (rule site_okE) blast
  obtain m' where m': "services_of (fst (run_op D p w)) = Inr (Some m')" "registry_step\<^sup>*\<^sup>* m m'"
    using op_refines [of w m D p] assms(2) m(1) by auto
  have h: "held h = Inr (Some m')" using mounted_held [OF assms(3)] m'(1) by simp
  have inv: "registry_inv m m'" using registry.always [OF steps_reach [OF m'(2)]] m(2) by blast
  have "accounted (H \<union> own_services self h) self s" if s: "fmlookup m' a = Some s" for a s
  proof (cases "is_remote s")
    case False
    then show ?thesis using s h by (auto simp: own_services_def accounted_def)
  next
    case True
    then have "si_Origin s \<noteq> []" by (simp add: is_remote_def)
    then obtain s0 where s0: "fmlookup m a = Some s0" "s\<lparr>si_Targets := []\<rparr> = s0\<lparr>si_Targets := []\<rparr>"
      using inv s unfolding registry_inv_def by blast
    from s0(2) have "si_Origin s0 = si_Origin s" "sync_view s0 = sync_view s"
      by (auto dest: arg_cong [of _ _ si_Origin] arg_cong [of _ _ sync_view] simp: sync_view_def)
    moreover from this have "is_remote s0" using True by (simp add: is_remote_def)
    ultimately show ?thesis using f [OF s0(1)] True by (auto simp: accounted_def stems_def)
  qed
  moreover have "keyed si_Address m'" using inv by (simp add: registry_inv_def)
  moreover have "site_ok (H \<union> own_services self h) self n" using ok by (rule site_ok_mono) simp
  ultimately show ?thesis using h by (simp add: site_ok_def)
qed

lemma announced_ok:
  assumes "site_ok H self n" "ranges_over es (localServices (ctl n))"
  shows "speaks_for H (sync_message es (ctl n))"
proof -
  have p: "proper_site self" "k_origin (ctl n) = self"
    and l: "\<And>a s. fmlookup (localServices (ctl n)) a = Some s \<Longrightarrow>
          si_Address s = a \<and> (\<exists>l. (self, l) \<in> H \<and> \<not> is_remote l \<and> s = sync_view l)"
    using assms(1) by (simp_all add: site_ok_def)
  have "keyed si_Address (localServices (ctl n))" using l by (simp add: keyed_iff)
  from message_carries_local [OF assms(2) this] obtain updates defs where
    u: "sync_message es (ctl n) = update_message self updates" "Unmarshal (as_slice dec_ServiceInterface) updates = Inr defs"
    "\<forall>a. fmlookup (index_update self defs) a = map_option (\<lambda>s. s\<lparr>si_Origin := self\<rparr>) (fmlookup (localServices (ctl n)) a)"
    unfolding p(2) by blast
  have "stems H self s" if s: "fmlookup (index_update self defs) a = Some s" for a s
  proof -
    have "map_option (\<lambda>s. s\<lparr>si_Origin := self\<rparr>) (fmlookup (localServices (ctl n)) a) = Some s"
      using s u(3) by simp
    then obtain s1 where "fmlookup (localServices (ctl n)) a = Some s1" "s = s1\<lparr>si_Origin := self\<rparr>"
      by (auto simp: map_option_eq_Some)
    with l show ?thesis by (fastforce simp: stems_def sync_view_def zero_ServiceInterface_def)
  qed
  with u p show ?thesis unfolding speaks_for_def by blast
qed

lemma delivered_ok:
  assumes ok: "site_ok H self n" and sp: "speaks_for H msg" and "valid_map_order r1"
    and run: "handle_message t r1 r2 msg n = (n', r)"
  shows "site_ok H self n'"
proof -
  obtain m where m: "held (host n) = Inr (Some m)" "keyed si_Address m" using ok by (rule site_okE) blast
  obtain o' updates defs where u: "msg = update_message o' updates" "proper_site o'"
    "Unmarshal (as_slice dec_ServiceInterface) updates = Inr defs"
    "\<And>a s. fmlookup (index_update o' defs) a = Some s \<Longrightarrow> stems H o' s"
    using sp unfolding speaks_for_def by blast
  have self: "k_origin (ctl n) = self" using ok by (simp add: site_ok_def)
  obtain m' where m': "held (host n') = Inr (Some m')" "keyed si_Address m'"
    "\<And>a s. fmlookup m' a = Some s \<Longrightarrow> fmlookup m a = Some s \<or> o' \<noteq> self \<and> fmlookup (index_update o' defs) a = Some s"
    "localServices (ctl n') = localServices (ctl n)" "k_origin (ctl n') = self"
    using handle_message_file [OF run [unfolded u(1)] u(3) m assms(3)] unfolding self by blast
  have "fmlookup m a = Some s \<or> is_remote s \<and> si_Origin s \<noteq> self \<and> stems H (si_Origin s) s"
    if "fmlookup m' a = Some s" for a s
    using m'(3) [OF that] index_update_stamped [of o' defs a s] u(2,4) by (auto simp: is_remote_def proper_site_def)
  with ok m(1) m' show ?thesis by (rule_tac site_ok_step) auto
qed

lemma site_ok_init:
  assumes "network_init N" "fmlookup (sites N) self = Some n"
  shows "site_ok (history N) self n"
proof -
  obtain m where "proper_site self" "ctl n = NewController self" "held (host n) = Inr (Some m)" "keyed si_Address m"
    "\<And>a s. fmlookup m a = Some s \<Longrightarrow> \<not> is_remote s \<and> (self, s) \<in> history N"
    using assms unfolding network_init_def by blast
  then show ?thesis by (auto simp: site_ok_def NewController_def accounted_def)
qed

lemma at_site_simps [simp]:
  "wire (at_site self n N) = wire N" "history (at_site self n N) = history N"
  "fmlookup (sites (at_site self n N)) o' = (if o' = self then Some n else fmlookup (sites N) o')"
  by (simp_all add: at_site_def)

lemma authentic_at_site:
  "authentic N \<Longrightarrow> site_ok (history N) self n \<Longrightarrow> authentic (at_site self n N)"
  by (simp add: authentic_def)

lemma authentic_step:
  assumes A: "authentic N" and "network_step D N N'"
  shows "authentic N'"
proof -
  have ok: "site_ok (history N) self n" if "fmlookup (sites N) self = Some n" for self n
    using A that by (simp add: authentic_def)
  from assms(2) show ?thesis
  proof cases
    case (command self n w p h)
    let ?H = "history N \<union> own_services self h"
    have "site_ok ?H self (n\<lparr>host := h\<rparr>)" using ok command command_ok by blast
    moreover have "site_ok ?H o' n'" if "fmlookup (sites N) o' = Some n'" for o' n'
      using site_ok_mono [OF ok [OF that]] by blast
    moreover have "speaks_for ?H msg" if "msg \<in> wire N" for msg
      using A that speaks_for_mono unfolding authentic_def by blast
    ultimately show ?thesis unfolding command(1) by (simp add: authentic_def at_site_def)
  next
    case (started_again self n os now added n' r)
    obtain m where m: "held (host n) = Inr (Some m)" "keyed si_Address m"
      using ok [OF started_again(2)] by (rule site_okE) blast
    note w = watcher_file [OF started_again(4) _ m(2) started_again(3)]
    have "site_ok (history N) self n'"
      by (rule site_ok_step [OF ok [OF started_again(2)] m(1)])
        (use w m in \<open>auto simp: NewController_def\<close>)
    then show ?thesis unfolding started_again(1) by (rule authentic_at_site [OF A])
  next
    case (written self n os b n' r)
    obtain m where m: "held (host n) = Inr (Some m)" "keyed si_Address m"
      using ok [OF written(2)] by (rule site_okE) blast
    have self: "k_origin (ctl n) = self" using ok [OF written(2)] by (simp add: site_ok_def)
    have "site_ok (history N) self n'"
    proof (cases b)
      case True
      then have run: "processServiceDefs D os n = (n', r)" using written(4) by (simp add: watch_event_def)
      show ?thesis
        by (rule site_ok_step [OF ok [OF written(2)] m(1)])
          (use processed_file [OF run m written(3)] m(2) self in auto)
    next
      case False
      then show ?thesis using written ok by (simp add: watch_event_def)
    qed
    then show ?thesis unfolding written(1) by (rule authentic_at_site [OF A])
  next
    case (announced self n es)
    then show ?thesis using A announced_ok [OF ok] by (simp add: authentic_def)
  next
    case (delivered self n msg r1 r2 t n' r)
    have "speaks_for (history N) msg" using A delivered(3) by (simp add: authentic_def)
    from delivered_ok [OF ok [OF delivered(2)] this delivered(4,6)] show ?thesis
      unfolding delivered(1) by (rule authentic_at_site [OF A])
  next
    case (aged self n es rng t n' r)
    obtain m where m: "held (host n) = Inr (Some m)" "keyed si_Address m"
      using ok [OF aged(2)] by (rule site_okE) blast
    obtain m' where m': "held (host n') = Inr (Some m')" "\<And>a s. fmlookup m' a = Some s \<Longrightarrow> fmlookup m a = Some s"
      "localServices (ctl n') = localServices (ctl n)" "k_origin (ctl n') = k_origin (ctl n)"
      using aged_file [OF aged(5) m(1) aged(4)] by blast
    have "k_origin (ctl n) = self" using ok [OF aged(2)] by (simp add: site_ok_def)
    with m m' have "site_ok (history N) self n'"
      by (intro site_ok_step [OF ok [OF aged(2)] m(1) m'(1)]) (auto simp: keyed_iff)
    then show ?thesis unfolding aged(1) by (rule authentic_at_site [OF A])
  qed
qed

interpretation network: invariant_of network_init "network_step D" authentic for D :: "ce_kind \<Rightarrow> 'e Driver"
proof unfold_locales
  fix N :: "'e network"
  assume "network_init N"
  then show "authentic N" using site_ok_init [of N] by (simp add: authentic_def network_init_def)
qed (rule authentic_step)

text \<open>
  Property C3. No site is ever told of a service that its origin did not have. In whatever order commands,
  restarts, announcements, deliveries and ageing happen at the sites of a network, with messages lost,
  repeated and overtaken, and whatever the engines answer: every definition of another site in a file is,
  but for the fields the exchange leaves out, a service that the commands of that site had put in its own
  file, and no site has a service of its own from another one.
\<close>

theorem definitions_authentic:
  assumes "reach network_init (network_step D) N" "fmlookup (sites N) self = Some n"
  shows "\<exists>m. held (host n) = Inr (Some m) \<and> keyed si_Address m
    \<and> (\<forall>a s. fmlookup m a = Some s \<longrightarrow>
        (if is_remote s then si_Origin s \<noteq> self \<and> (\<exists>l. (si_Origin s, l) \<in> history N \<and> \<not> is_remote l
              \<and> si_Address l = a \<and> si_Protocol l = si_Protocol s \<and> si_Port l = si_Port s \<and> si_Headless l = si_Headless s)
         else (self, s) \<in> history N))"
proof -
  have "site_ok (history N) self n"
    using network.always [OF assms(1)] assms(2) by (simp add: authentic_def)
  then obtain m where m: "held (host n) = Inr (Some m)" "keyed si_Address m"
    "\<And>a s. fmlookup m a = Some s \<Longrightarrow> accounted (history N) self s"
    by (rule site_okE) blast
  have "si_Address l = si_Address s \<and> si_Protocol l = si_Protocol s \<and> si_Port l = si_Port s \<and> si_Headless l = si_Headless s"
    if "sync_view s = (sync_view l)\<lparr>si_Origin := o'\<rparr>" for s l o'
    using arg_cong [OF that, of si_Address] arg_cong [OF that, of si_Protocol] arg_cong [OF that, of si_Port]
      arg_cong [OF that, of si_Headless] by simp
  with m show ?thesis unfolding accounted_def stems_def keyed_iff by (intro exI [of _ m]) (metis (full_types))
qed

section \<open>An example\<close>

text \<open>\<open>site-1\<close> has \<open>db\<close>; it reads its file, announces what it holds, and \<open>site-5\<close> takes it over.\<close>

definition near_defs :: service_defs where
  "near_defs = fmap_of_list [(''db'', own sample_service)]"

definition near_node :: "demo node" where
  "near_node = far_node\<lparr>ctl := NewController ''site-1'', host := (host far_node)\<lparr>fs := (fs (host far_node))\<lparr>files :=
     fmap_of_list [(services_path, Doc (enc_services (Some near_defs)))]\<rparr>\<rparr>\<rparr>"

definition two_sites :: "demo network" where
  "two_sites = \<lparr>sites = fmap_of_list [(''site-1'', near_node), (''site-5'', far_node)], wire = {},
     history = {(''site-1'', own sample_service)}\<rparr>"

lemma near_held: "held (host near_node) = Inr (Some near_defs)"
  by (simp add: held_def near_node_def fs_read_def far_node_def fmlookup_of_list services_codec.dec_enc)

lemma own_sample: "\<not> is_remote (own sample_service)" "si_Address (own sample_service) = ''db''"
  by (simp_all add: own_def is_remote_def sample_address)

lemma near_entries: "fmlookup near_defs a = Some s \<longleftrightarrow> a = ''db'' \<and> s = own sample_service"
  by (auto simp: near_defs_def fmlookup_of_list)

lemma two_sites_init: "network_init two_sites"
proof -
  have "held (host far_node) = Inr (Some fmempty)" by (rule far_node_ready)
  moreover have "ctl far_node = NewController ''site-5''" "ctl near_node = NewController ''site-1''"
    by (simp_all add: far_node_def near_node_def)
  ultimately show ?thesis
    by (auto simp: network_init_def two_sites_def fmlookup_of_list proper_site_def own_sample near_held near_entries
        keyed_iff split: if_splits)
qed

lemma definitions_authentic_witness:
  "\<exists>N n m s. reach network_init (network_step demo_D) N \<and> fmlookup (sites N) ''site-5'' = Some n
    \<and> held (host n) = Inr (Some m) \<and> fmlookup m ''db'' = Some s \<and> is_remote s \<and> si_Origin s = ''site-1''
    \<and> (\<exists>l. (''site-1'', l) \<in> history N \<and> \<not> is_remote l \<and> si_Address l = ''db'' \<and> si_Port l = si_Port s)"
proof -
  have keyed: "keyed si_Address near_defs" by (simp add: keyed_iff near_entries own_sample)
  have near: "k_origin (ctl near_node) = ''site-1''" by (simp add: near_node_def NewController_def)
  obtain n1 r where n1: "processServiceDefs demo_D sorted_loops near_node = (n1, r)" by fastforce
  let ?es = "sorted_list_of_fmap (localServices (ctl n1))"
  have other: "k_origin (ctl near_node) \<noteq> k_origin (ctl far_node)" by (simp add: near far_node_ready)
  obtain p1 mp1 where p1: "handle_message 7 sorted_list_of_fmap sorted_list_of_fmap (sync_message ?es (ctl n1)) far_node = (p1, Inr ())"
    "held (host p1) = Inr (Some mp1)"
    "\<forall>a. fmlookup mp1 a = merge ''site-1'' (fmlookup fmempty a) (announced ''site-1'' near_defs a)"
    using announcement_bound [OF near_held keyed valid_sorted_loops n1 ranges_over_sorted far_node_ready(1-3) other
        sorted_orders(1) sorted_orders(1), of 7] unfolding near by blast
  let ?N1 = "at_site ''site-1'' n1 two_sites"
  let ?N2 = "?N1\<lparr>wire := insert (sync_message ?es (ctl n1)) (wire ?N1)\<rparr>"
  let ?N3 = "at_site ''site-5'' p1 ?N2"
  have s: "fmlookup (sites two_sites) ''site-1'' = Some near_node" "fmlookup (sites ?N1) ''site-1'' = Some n1"
    "fmlookup (sites ?N2) ''site-5'' = Some far_node"
    by (simp_all add: two_sites_def fmlookup_of_list at_site_def)
  have "network_step demo_D two_sites ?N1"
    by (rule network_step.written [OF s(1) valid_sorted_loops, of _ True]) (simp add: watch_event_def n1)
  moreover have "network_step demo_D ?N1 ?N2" by (rule network_step.announced [OF s(2) ranges_over_sorted])
  moreover have "network_step demo_D ?N2 ?N3"
    by (rule network_step.delivered [OF s(3) _ sorted_orders(1) sorted_orders(1) p1(1)]) simp
  ultimately have run: "reach network_init (network_step demo_D) ?N3"
    using reach.start [of network_init, OF two_sites_init] by (blast intro: reach.step)
  have at5: "fmlookup (sites ?N3) ''site-5'' = Some p1" by simp
  let ?s = "(sync_view (own sample_service))\<lparr>si_Origin := ''site-1''\<rparr>"
  have db: "fmlookup mp1 ''db'' = Some ?s" using p1(3) near_entries [of "''db''" "own sample_service"]
    by (simp add: merge_def announced_def own_sample)
  have remote: "is_remote ?s" "si_Origin ?s = ''site-1''" by (simp_all add: is_remote_def)
  obtain m where m: "held (host p1) = Inr (Some m)" "\<forall>a s. fmlookup m a = Some s \<longrightarrow>
      (if is_remote s then si_Origin s \<noteq> ''site-5'' \<and> (\<exists>l. (si_Origin s, l) \<in> history ?N3 \<and> \<not> is_remote l
              \<and> si_Address l = a \<and> si_Protocol l = si_Protocol s \<and> si_Port l = si_Port s \<and> si_Headless l = si_Headless s)
         else (''site-5'', s) \<in> history ?N3)"
    using definitions_authentic [OF run at5] by blast
  have "m = mp1" using m(1) p1(2) by simp
  with m(2) db remote have "\<exists>l. (''site-1'', l) \<in> history ?N3 \<and> \<not> is_remote l \<and> si_Address l = ''db'' \<and> si_Port l = si_Port ?s"
    by metis
  with run at5 p1(2) db remote show ?thesis by blast
qed

end
