(* ===== verification/Shared_File.thy ===== *)
theory Shared_File imports Site_Network begin

text \<open>
  The file of the definitions is all that the commands of a site and its controller share, and nothing
  locks it: each reads the file, makes the definitions it wants out of what it read and writes them all. Here
  every operation is taken apart into these two halves, and the halves of any number of commands and updates
  of the exchange interleave. A write is one step; that a reader may see a file half written is not modelled.
\<close>

section \<open>The halves\<close>

lemma io_bind_assoc: "io_bind (io_bind m f) g = io_bind m (\<lambda>x. io_bind (f x) g)"
  by (rule ext) (auto simp: io_bind_def split: prod.split sum.split)

lemma io_bind_if: "io_bind (if c then m else m') g = (if c then io_bind m g else io_bind m' g)"
  by simp

lemma io_bind_fail: "io_bind (io_fail e) g = io_fail e"
  by (rule ext) (simp add: io_bind_def)

definition prepared :: "(service_defs option \<Rightarrow> service_defs option result) \<Rightarrow> ('e world, service_defs option) io" where
  "prepared f = io_bind read_services (\<lambda>current. io_lift (f current))"

text \<open>An operation up to its write: what it would write.\<close>

fun op_start :: "(ce_kind \<Rightarrow> 'e Driver) \<Rightarrow> client_op \<Rightarrow> ('e world, service_defs option) io" where
  "op_start D (OpCreate s) = io_bind (site_client D) (\<lambda>_.
     io_bind (require_router D ''Failed to retrieve transport container (need init?)'') (\<lambda>_.
     io_bind (io_lift (validateServiceInterface s)) (\<lambda>_. prepared (update_edit s False))))"
| "op_start D (OpUpdate s) = io_bind (site_client D) (\<lambda>_.
     io_bind (require_router D ''Failed to retrieve transport container (need init?)'') (\<lambda>_.
     io_bind (io_wrap ''Service not found'' (ServiceInterfaceInspect D (si_Address s))) (\<lambda>_.
     io_bind (io_lift (validateServiceInterface s)) (\<lambda>_. prepared (update_edit s True)))))"
| "op_start D (OpBind s ty n p port) = io_bind (site_client D) (\<lambda>_.
     io_bind (require_router D ''Failed to retrieve transport container (need init?)'') (\<lambda>_.
     io_bind (io_lift (validateServiceInterface s)) (\<lambda>_.
     if p \<noteq> [] \<and> si_Protocol s \<noteq> p then
       io_fail (Err (''Invalid protocol '' @ p @ '' for service with mapping '' @ si_Protocol s))
     else
     io_bind (getServiceInterfaceTarget D ty n (si_Port s = 0 \<and> port = 0)) (\<lambda>target.
     io_bind (io_lift (bind_ports s target p port)) (\<lambda>st.
       prepared (update_edit (addTargetToServiceInterface (fst st) (snd st)) True))))))"
| "op_start D (OpUnbind ty n a del) = io_bind (site_client D) (\<lambda>_.
     io_bind (require_router D ''Failed to retrieve transport container (need init?)'') (\<lambda>_.
       if ty = ''container'' \<or> ty = ''host-service''
       then io_bind (site_client D) (\<lambda>_.
         io_bind (require_router D ''Failed to retrieve transport container (need init?)'') (\<lambda>_ w.
           prepared (remove_target_edit a n (host_target_name w n) del) w))
       else io_fail (Err (''Unsupported target type for service interface '' @ ty))))"
| "op_start D (OpRemove a) = io_bind (site_client D) (\<lambda>_.
     io_bind (require_router D ''Failed to retrieve transport container (need init?)'') (\<lambda>_. prepared (remove_edit a)))"

lemma unbind_prepared: "io_bind (\<lambda>w. prepared (remove_target_edit a n (host_target_name w n) del) w) k
    = (\<lambda>w. io_bind (prepared (remove_target_edit a n (host_target_name w n) del)) k w)"
  by (rule ext) (simp add: io_bind_def)

lemma edit_halves: "edit_services f = io_bind (prepared f) write_services"
  by (simp add: edit_services_def prepared_def io_bind_assoc)

lemma op_halves: "run_op D p = io_bind (op_start D p) write_services"
  by (cases p) (simp_all add: ServiceInterfaceCreate_def ServiceInterfaceUpdate_def ServiceInterfaceBind_def
      ServiceInterfaceUnbind_def ServiceInterfaceRemove_def removeServiceInterfaceTarget_def updateServiceInterface_def
      edit_halves io_bind_assoc io_bind_if io_bind_fail unbind_prepared case_prod_unfold)

definition sync_start :: "ServiceInterface list \<Rightarrow> string list \<Rightarrow> ('e world, service_defs option) io" where
  "sync_start changed deleted = io_bind read_definitions (\<lambda>current. io_lift (apply_changes changed deleted current))"

definition sync_finish :: "service_defs option \<Rightarrow> ('e world, unit) io" where
  "sync_finish current = io_wrap ''Failed to write service file'' (WriteFile services_path (Doc (enc_services current)))"

lemma sync_halves:
  "updateSkupperServices changed deleted origin
    = (if changed = [] \<and> deleted = [] then io_return () else io_bind (sync_start changed deleted) sync_finish)"
  by (simp add: updateSkupperServices_def sync_start_def sync_finish_def [abs_def] io_bind_assoc)

text \<open>What a first half has read and what it is about to write.\<close>

definition starts ::
  "('e world, service_defs option) io \<Rightarrow> ('e world \<Rightarrow> service_defs option \<Rightarrow> service_defs option result) \<Rightarrow> bool" where
  "starts m edit \<longleftrightarrow> (\<forall>w w' m'. m w = (w', Inr m') \<longrightarrow>
     host_of w' = host_of w \<and> (\<exists>m0. services_of w = Inr m0 \<and> edit w m0 = Inr m'))"

lemma startsD:
  assumes "starts m edit" "m w = (w', Inr m')"
  obtains m0 where "host_of w' = host_of w" "services_of w = Inr m0" "edit w m0 = Inr m'"
  using assms unfolding starts_def by blast

lemma starts_prepared: "starts (prepared f) (\<lambda>_. f)"
  by (auto simp: starts_def prepared_def read_services_Inr elim!: io_bind_InrE)

lemma starts_fail: "starts (io_fail e) edit"
  by (simp add: starts_def)

lemma starts_bind:
  assumes m: "untouched m" and f: "\<And>x. starts (f x) (ed x)"
    and e: "\<And>w w' x m0 m'. m w = (w', Inr x) \<Longrightarrow> host_of w' = host_of w \<Longrightarrow> ed x w' m0 = Inr m' \<Longrightarrow> edit w m0 = Inr m'"
  shows "starts (io_bind m f) edit"
  unfolding starts_def
proof (intro allI impI)
  fix w w' m'
  assume "io_bind m f w = (w', Inr m')"
  then obtain w1 x where r: "m w = (w1, Inr x)" "f x w1 = (w', Inr m')" by (rule io_bind_InrE)
  note h = untouchedD [OF m r(1)]
  from startsD [OF f r(2)] obtain m0 where "host_of w' = host_of w1" "services_of w1 = Inr m0" "ed x w1 m0 = Inr m'" .
  then have "host_of w' = host_of w" "services_of w = Inr m0" "edit w m0 = Inr m'"
    using h e [OF r(1) h] services_of_cong [OF h] by simp_all
  then show "host_of w' = host_of w \<and> (\<exists>m0. services_of w = Inr m0 \<and> edit w m0 = Inr m')" by blast
qed

lemma starts_prologue:
  assumes x: "starts x edit" and cong: "\<And>w w'. host_of w' = host_of w \<Longrightarrow> edit w' = edit w"
  shows "starts (io_bind (site_client D) (\<lambda>_. io_bind (require_router D msg) (\<lambda>_. x))) edit"
proof -
  have "starts (io_bind (require_router D msg) (\<lambda>_. x)) edit"
    by (rule starts_bind [OF untouched_require_router x]) (use cong in metis)
  then show ?thesis by (rule starts_bind [OF untouched_site_client]) (use cong in metis)
qed

lemma starts_valid: "starts (io_bind (io_lift (validateServiceInterface s)) (\<lambda>_. m)) (\<lambda>w m0. rbind (validateServiceInterface s) (\<lambda>_. edit w m0))"
  if m: "starts m edit" and cong: "\<And>w w'. host_of w' = host_of w \<Longrightarrow> edit w' = edit w"
  by (rule starts_bind [OF untouched_basic(3) m]) (auto dest: cong)

lemma op_edit_cong:
  fixes w w' :: "'e world"
  shows "host_of w' = host_of w \<Longrightarrow> op_edit p w' = op_edit p w"
  by (rule service_edit.edit_cong [OF run_op_edit])

lemma starts_if: "(c \<Longrightarrow> starts m edit) \<Longrightarrow> (\<not> c \<Longrightarrow> starts m' edit) \<Longrightarrow> starts (if c then m else m') edit"
  by simp

lemma starts_create: "starts (op_start D (OpCreate s)) (op_edit (OpCreate s))"
proof -
  have "starts (io_bind (io_lift (validateServiceInterface s)) (\<lambda>_. prepared (update_edit s False))) (create_edit s)"
    unfolding create_edit_def by (rule starts_valid [OF starts_prepared]) simp
  then show ?thesis unfolding op_start.simps op_edit.simps
    by (rule starts_prologue) (simp add: create_edit_def fun_eq_iff)
qed

lemma starts_update: "starts (op_start D (OpUpdate s)) (op_edit (OpUpdate s))"
proof -
  have "starts (io_bind (io_lift (validateServiceInterface s)) (\<lambda>_. prepared (update_edit s True))) (replace_edit s)"
    unfolding replace_edit_def by (rule starts_valid [OF starts_prepared]) simp
  then have "starts (io_bind (io_wrap ''Service not found'' (ServiceInterfaceInspect D (si_Address s))) (\<lambda>_.
     io_bind (io_lift (validateServiceInterface s)) (\<lambda>_. prepared (update_edit s True)))) (replace_edit s)"
    by (rule starts_bind [OF untouched_wrap [OF untouched_ServiceInterfaceInspect]]) (simp add: replace_edit_def)
  then show ?thesis unfolding op_start.simps op_edit.simps
    by (rule starts_prologue) (simp add: replace_edit_def fun_eq_iff)
qed

text \<open>The edit of a binding once the target was looked up.\<close>

abbreviation target_edit ::
  "ServiceInterface \<Rightarrow> string \<Rightarrow> goint \<Rightarrow> ServiceInterfaceTarget \<Rightarrow> service_defs option \<Rightarrow> service_defs option result" where
  "target_edit s pr port t m \<equiv>
     rbind (bind_ports s t pr port) (\<lambda>(s', t'). update_edit (addTargetToServiceInterface s' t') True m)"

lemma starts_target:
  "starts (io_bind (io_lift (bind_ports s t pr port)) (\<lambda>st.
     prepared (update_edit (addTargetToServiceInterface (fst st) (snd st)) True))) (\<lambda>_. target_edit s pr port t)"
  by (rule starts_bind [OF untouched_basic(3) starts_prepared]) (simp add: case_prod_unfold)

lemma starts_bound:
  assumes "\<not> (pr \<noteq> [] \<and> si_Protocol s \<noteq> pr)"
  shows "starts (io_bind (getServiceInterfaceTarget D ty n b) (\<lambda>target.
     io_bind (io_lift (bind_ports s target pr port)) (\<lambda>st.
       prepared (update_edit (addTargetToServiceInterface (fst st) (snd st)) True))))
     (\<lambda>w m. if bind_guard s ty pr then target_edit s pr port (bind_target ty n w) m else Inl (Err []))"
proof (rule starts_bind [OF untouched_getServiceInterfaceTarget starts_target])
  fix w w' :: "'a world" and x m0 m'
  assume "getServiceInterfaceTarget D ty n b w = (w', Inr x)" "target_edit s pr port x m0 = Inr m'"
  then show "(if bind_guard s ty pr then target_edit s pr port (bind_target ty n w) m0 else Inl (Err [])) = Inr m'"
    using getServiceInterfaceTarget_value [of D ty n b w w' x] assms by (auto simp: bind_guard_def)
qed

lemma starts_bind_op: "starts (op_start D (OpBind s ty n pr port)) (op_edit (OpBind s ty n pr port))"
proof -
  let ?guarded = "\<lambda>w m. if bind_guard s ty pr then target_edit s pr port (bind_target ty n w) m else Inl (Err [])"
  have cong: "?guarded w' = ?guarded w" if "host_of w' = host_of w" for w w' :: "'a world"
    unfolding bind_target_def host_target_name_cong [OF that] by (rule refl)
  note same = op_edit_cong [of _ _ "OpBind s ty n pr port", unfolded op_edit.simps]
  show ?thesis unfolding op_start.simps op_edit.simps
    by (rule starts_prologue [OF _ same], unfold bind_edit_def [abs_def])
      (rule starts_valid [OF starts_if [OF starts_fail starts_bound] cong])
qed

lemma starts_unbind: "starts (op_start D (OpUnbind ty n a del)) (op_edit (OpUnbind ty n a del))"
proof -
  have cong: "unbind_edit a n del w' = unbind_edit a n del w" if "host_of w' = host_of w" for w w' :: "'a world"
    by (rule op_edit_cong [of _ _ "OpUnbind ty n a del", unfolded op_edit.simps, OF that])
  have "starts (\<lambda>w. prepared (remove_target_edit a n (host_target_name w n) del) w) (unbind_edit a n del)"
    unfolding starts_def unbind_edit_def by (metis startsD [OF starts_prepared])
  from starts_prologue [OF this cong]
  have "starts (io_bind (site_client D) (\<lambda>_. io_bind (require_router D ''Failed to retrieve transport container (need init?)'')
      (\<lambda>_ w. prepared (remove_target_edit a n (host_target_name w n) del) w))) (unbind_edit a n del)" .
  note body = starts_if [OF this starts_fail]
  show ?thesis unfolding op_start.simps op_edit.simps by (rule starts_prologue [OF body cong])
qed

lemma starts_remove: "starts (op_start D (OpRemove a)) (op_edit (OpRemove a))"
  unfolding op_start.simps op_edit.simps by (rule starts_prologue [OF starts_prepared refl])

lemma starts_op: "starts (op_start D p) (op_edit p)"
  by (cases p) (simp_all only: starts_create starts_update starts_bind_op starts_unbind starts_remove)

section \<open>Interleaving\<close>

text \<open>
  \<open>mount\<close> is the world of the controller, \<open>pending\<close> what the operations that have read are about to write,
  \<open>brought\<close> the definitions updates of the exchange ever brought; no step reads it. A command runs in any
  world of the host whose file is the one of the controller.
\<close>

datatype prepared_write = ByClient (new_content: "service_defs option") | ByExchange (new_content: "service_defs option")

record 'e race =
  mount :: "'e world"
  pending :: "prepared_write multiset"
  brought :: "ServiceInterface set"

inductive race_step :: "(ce_kind \<Rightarrow> 'e Driver) \<Rightarrow> 'e race \<Rightarrow> 'e race \<Rightarrow> bool" for D where
  client_reads: "services_of w = held (mount R) \<Longrightarrow> op_start D p w = (w', Inr m) \<Longrightarrow>
    race_step D R (R\<lparr>pending := add_mset (ByClient m) (pending R)\<rparr>)"
| client_writes: "ByClient m \<in># pending R \<Longrightarrow> services_of w = held (mount R) \<Longrightarrow> write_services m (w :: 'e world) = (w', r) \<Longrightarrow>
    mounted w' h \<Longrightarrow> race_step D R (R\<lparr>mount := h, pending := pending R - {#ByClient m#}\<rparr>)"
| exchange_reads: "sync_start changed deleted (mount R) = (h, Inr m) \<Longrightarrow>
    race_step D R (R\<lparr>mount := h, pending := add_mset (ByExchange m) (pending R), brought := brought R \<union> set changed\<rparr>)"
| exchange_writes: "ByExchange m \<in># pending R \<Longrightarrow> sync_finish m (mount R) = (h, r) \<Longrightarrow>
    race_step D R (R\<lparr>mount := h, pending := pending R - {#ByExchange m#}\<rparr>)"

text \<open>
  Definitions whose entries are stored under their addresses and, where they name an origin, were brought, but for
  targets that were taken away.
\<close>

definition sourced :: "ServiceInterface set \<Rightarrow> service_defs \<Rightarrow> bool" where
  "sourced B m \<longleftrightarrow> keyed si_Address m \<and> (\<forall>a s. fmlookup m a = Some s \<longrightarrow> si_Origin s \<noteq> [] \<longrightarrow>
     (\<exists>s0 \<in> B. si_Address s0 = a \<and> s\<lparr>si_Targets := []\<rparr> = s0\<lparr>si_Targets := []\<rparr> \<and> set (si_Targets s) \<subseteq> set (si_Targets s0)))"

definition race_init :: "'e race \<Rightarrow> bool" where
  "race_init R \<longleftrightarrow> pending R = {#} \<and> (\<exists>m. held (mount R) = Inr (Some m) \<and> sourced (brought R) m)"

definition race_inv :: "'e race \<Rightarrow> bool" where
  "race_inv R \<longleftrightarrow> (\<exists>m. held (mount R) = Inr (Some m) \<and> sourced (brought R) m)
     \<and> (\<forall>x. x \<in># pending R \<longrightarrow> (\<exists>m. new_content x = Some m \<and> sourced (brought R) m))"

lemma sourced_mono: "sourced B m \<Longrightarrow> B \<subseteq> B' \<Longrightarrow> sourced B' m"
  unfolding sourced_def by (meson subsetD)

lemma sourced_step:
  assumes "sourced B m" "registry_step\<^sup>=\<^sup>= m m'"
  shows "sourced B m'"
proof (cases "m = m'")
  case False
  with assms(2) have "registry_step m m'" by simp
  moreover have "registry_inv m m" using assms(1) by (auto simp: registry_inv_def sourced_def)
  ultimately have i: "registry_inv m m'" by (rule registry_keeps [rotated])
  have "\<exists>s0 \<in> B. si_Address s0 = a \<and> s\<lparr>si_Targets := []\<rparr> = s0\<lparr>si_Targets := []\<rparr> \<and> set (si_Targets s) \<subseteq> set (si_Targets s0)"
    if s: "fmlookup m' a = Some s" "si_Origin s \<noteq> []" for a s
  proof -
    obtain s1 where s1: "fmlookup m a = Some s1" "s\<lparr>si_Targets := []\<rparr> = s1\<lparr>si_Targets := []\<rparr>"
      "set (si_Targets s) \<subseteq> set (si_Targets s1)" using i s unfolding registry_inv_def by blast
    from arg_cong [OF s1(2), of si_Origin] s(2) have "si_Origin s1 \<noteq> []" by simp
    with assms(1) s1(1) obtain s0 where "s0 \<in> B" "si_Address s0 = a" "s1\<lparr>si_Targets := []\<rparr> = s0\<lparr>si_Targets := []\<rparr>"
      "set (si_Targets s1) \<subseteq> set (si_Targets s0)" unfolding sourced_def by blast
    with s1(2,3) show ?thesis by (intro bexI [of _ s0]) auto
  qed
  with i show ?thesis by (simp add: sourced_def registry_inv_def)
qed (use assms(1) in simp)

lemma sourced_apply:
  assumes "sourced B m" "apply_changes changed deleted (Some m) = Inr m'"
  shows "\<exists>m''. m' = Some m'' \<and> sourced (B \<union> set changed) m''"
proof -
  let ?m = "fold fmdrop deleted (fold (\<lambda>def. fmupd (si_Address def) def) changed m)"
  have m': "m' = Some ?m" using assms(2) by (simp add: apply_changes_def)
  have l: "fmlookup m a = Some s \<or> s \<in> set changed \<and> si_Address s = a" if "fmlookup ?m a = Some s" for a s
    using that fold_changed_origin by (fastforce simp: fold_fmdrop_lookup split: if_splits)
  have "keyed si_Address ?m" using assms(1) l by (fastforce simp: keyed_iff sourced_def)
  moreover have "\<exists>s0 \<in> B \<union> set changed. si_Address s0 = a \<and> s\<lparr>si_Targets := []\<rparr> = s0\<lparr>si_Targets := []\<rparr>
      \<and> set (si_Targets s) \<subseteq> set (si_Targets s0)" if "fmlookup ?m a = Some s" "si_Origin s \<noteq> []" for a s
    using l [OF that(1)]
  proof
    assume "fmlookup m a = Some s"
    with assms(1) that(2) show ?thesis unfolding sourced_def by blast
  qed blast
  ultimately show ?thesis using m' by (simp add: sourced_def)
qed

lemma sync_start_Inr: "sync_start changed deleted h = (h', Inr m) \<longleftrightarrow>
    h' = h \<and> (\<exists>m0. held h = Inr m0 \<and> apply_changes changed deleted m0 = Inr m)"
  by (auto simp: sync_start_def read_definitions_Inr io_bind_Inr elim!: io_bind_InrE)

lemma sync_finish_held: "sync_finish m h = (h', r) \<Longrightarrow> held h' = (if r = Inr () then Inr m else held h)"
proof (cases r)
  case (Inl e)
  then show "sync_finish m h = (h', r) \<Longrightarrow> held h' = (if r = Inr () then Inr m else held h)"
    by (auto simp: sync_finish_def io_wrap_Inl dest: write_failed)
next
  case (Inr u)
  then show "sync_finish m h = (h', r) \<Longrightarrow> held h' = (if r = Inr () then Inr m else held h)"
    by (auto simp: sync_finish_def io_wrap_Inr held_def services_codec.dec_enc dest!: write_then_read(1))
qed

lemma write_services_held: "write_services m w = (w', r) \<Longrightarrow> services_of w' = (if r = Inr () then Inr m else services_of w)"
  by (cases r) (auto dest: write_services_Inr(1) write_services_Inl)

lemma client_prepares:
  assumes "op_start D p w = (w', Inr m')" "services_of w = Inr (Some m)" "sourced B m"
  shows "\<exists>m''. m' = Some m'' \<and> sourced B m''"
proof -
  from startsD [OF starts_op assms(1)] assms(2) have "op_edit p w (Some m) = Inr m'" by auto
  from edit_is_step [OF this] sourced_step [OF assms(3)] show ?thesis by blast
qed

lemma race_keeps:
  assumes "race_inv R" "race_step D R R'"
  shows "race_inv R'"
proof -
  obtain m where h: "held (mount R) = Inr (Some m)" "sourced (brought R) m" using assms(1) by (auto simp: race_inv_def)
  have pend: "\<exists>m. new_content x = Some m \<and> sourced (brought R) m" if "x \<in># pending R" for x
    using assms(1) that by (simp add: race_inv_def)
  have less: "x \<in># pending R" if "x \<in># pending R - {#y#}" for x y using that by (rule in_diffD)
  from assms(2) show ?thesis
  proof cases
    case (client_reads w p w' m')
    then obtain m'' where "m' = Some m''" "sourced (brought R) m''" using client_prepares h by fastforce
    then show ?thesis using h pend client_reads(1) by (auto simp: race_inv_def)
  next
    case (client_writes m' w w' r h')
    have "held h' = (if r = Inr () then Inr m' else held (mount R))"
      using write_services_held [OF client_writes(4)] mounted_held [OF client_writes(5)] client_writes(3) by simp
    moreover obtain m'' where "m' = Some m''" "sourced (brought R) m''" using pend [OF client_writes(2)] by auto
    ultimately show ?thesis using h pend less client_writes(1) by (auto simp: race_inv_def)
  next
    case (exchange_reads changed deleted h' m')
    then have a: "apply_changes changed deleted (Some m) = Inr m'" "h' = mount R" using h(1) by (auto simp: sync_start_Inr)
    from sourced_apply [OF h(2) a(1)] obtain m'' where "m' = Some m''" "sourced (brought R \<union> set changed) m''" by blast
    moreover have "sourced (brought R \<union> set changed) x" if "sourced (brought R) x" for x
      using that by (rule sourced_mono) simp
    ultimately show ?thesis using h pend exchange_reads(1) a(2) by (fastforce simp: race_inv_def)
  next
    case (exchange_writes m' h' r)
    moreover obtain m'' where "m' = Some m''" "sourced (brought R) m''" using pend [OF exchange_writes(2)] by auto
    ultimately show ?thesis using h pend less sync_finish_held [OF exchange_writes(3)] by (auto simp: race_inv_def)
  qed
qed

interpretation race: invariant_of race_init "race_step D" race_inv for D
proof unfold_locales
  fix R :: "'a race"
  assume "race_init R"
  then show "race_inv R" by (simp add: race_init_def race_inv_def)
qed (rule race_keeps)

text \<open>
  Property C9. However the reads and writes of any number of commands and updates interleave, with writes that
  fail and operations that never write, the file holds definitions, each stored under its address, and one that
  names another site is one that an update of the exchange brought, with no target it did not come with: no
  race makes a definition up.
\<close>

theorem races_invent_nothing:
  assumes "reach race_init (race_step D) R"
  shows "\<exists>m. held (mount R) = Inr (Some m) \<and> keyed si_Address m
    \<and> (\<forall>a s. fmlookup m a = Some s \<longrightarrow> si_Origin s \<noteq> [] \<longrightarrow>
        (\<exists>s0 \<in> brought R. si_Address s0 = a \<and> s\<lparr>si_Targets := []\<rparr> = s0\<lparr>si_Targets := []\<rparr>
          \<and> set (si_Targets s) \<subseteq> set (si_Targets s0)))"
  using race.always [OF assms] unfolding race_inv_def sourced_def by blast

text \<open>
  Property C28. A race loses a service: when an update of the exchange has read the file before a command
  created a service, and writes it after, the command reports success, the service is in the file, and after the
  write it is gone; nobody is told. Had the update read the file after the command, both would be there.
\<close>

theorem race_loses_service:
  assumes "held h = Inr (Some m)" "sync_start changed deleted h = (h, Inr new)"
    and "services_of w = held h" "run_op D (OpCreate s) w = (w1, Inr ())" "mounted w1 h1"
    and "sync_finish new h1 = (h2, Inr ())"
    and "fmlookup m (si_Address s) = None" "si_Address s \<notin> si_Address ` set changed"
  shows "\<exists>m1 m2. services_of w1 = Inr (Some m1) \<and> fmlookup m1 (si_Address s) = Some (s\<lparr>si_Origin := []\<rparr>)
    \<and> held h2 = Inr (Some m2) \<and> fmlookup m2 (si_Address s) = None
    \<and> (\<forall>h3. si_Address s \<notin> set deleted \<longrightarrow> updateSkupperServices changed deleted origin h1 = (h3, Inr ()) \<longrightarrow>
        (\<exists>m3. held h3 = Inr (Some m3) \<and> fmlookup m3 (si_Address s) = Some (s\<lparr>si_Origin := []\<rparr>)))"
proof -
  have look: "fmlookup (fold fmdrop deleted (fold (\<lambda>def. fmupd (si_Address def) def) changed m')) (si_Address s)
      = (if si_Address s \<in> set deleted then None else fmlookup m' (si_Address s))" for m' :: service_defs
  proof -
    have "fmlookup (fold (\<lambda>def. fmupd (si_Address def) def) ds m'') (si_Address s) = fmlookup m'' (si_Address s)"
      if "si_Address s \<notin> si_Address ` set ds" for ds :: "ServiceInterface list" and m'' using that by (induction ds arbitrary: m'') auto
    then show ?thesis using assms(8) by (simp add: fold_fmdrop_lookup)
  qed
  let ?m1 = "fmupd (si_Address s) (own s) m"
  have m1: "services_of w1 = Inr (Some ?m1)"
    using assms(1,3,4,7) by (auto elim!: create_services)
  have new: "new = Some (fold fmdrop deleted (fold (\<lambda>def. fmupd (si_Address def) def) changed m))"
    using assms(1,2) by (auto simp: sync_start_Inr apply_changes_def)
  have m2: "held h2 = Inr new" using sync_finish_held [OF assms(6)] by simp
  have h1: "held h1 = Inr (Some ?m1)" using m1 mounted_held [OF assms(5)] by simp
  have "\<exists>m3. held h3 = Inr (Some m3) \<and> fmlookup m3 (si_Address s) = Some (own s)"
    if "si_Address s \<notin> set deleted" "updateSkupperServices changed deleted origin h1 = (h3, Inr ())" for h3
  proof (cases "changed = [] \<and> deleted = []")
    case True
    with that(2) h1 show ?thesis by (auto simp: updateSkupperServices_def)
  next
    case False
    with that(2) h1 obtain m' where "apply_changes changed deleted (Some ?m1) = Inr m'" "held h3 = Inr m'"
      by (auto elim!: updateSkupperServices_Inr)
    with that(1) look [of ?m1] show ?thesis by (auto simp: apply_changes_def)
  qed
  with m1 m2 look [of m] assms(7) show ?thesis by (simp add: new own_def)
qed

section \<open>Examples\<close>

text \<open>The definition \<open>web\<close> of \<open>site-1\<close> comes to the site whose client creates \<open>db\<close>.\<close>

definition web :: ServiceInterface where
  "web = sample_service\<lparr>si_Address := ''web'', si_Origin := ''site-1''\<rparr>"

lemma web_read:
  "sync_start [web] [] (host far_node) = (host far_node, Inr (Some (fmupd ''web'' web fmempty)))"
  using far_node_ready(2) by (simp add: sync_start_Inr apply_changes_def web_def)

lemma far_node_writes:
  "\<exists>h2. sync_finish new ((host far_node)\<lparr>fs := (fs (host far_node))\<lparr>files := fm\<rparr>\<rparr>) = (h2, Inr ())"
proof -
  have "dirname services_path = ''/etc/messaging/services''" "services_path \<noteq> ''/etc/messaging/services''"
    by (simp_all add: dirname_def services_path_def slash_def)
  then show ?thesis by (simp add: sync_finish_def io_wrap_apply WriteFile_def on_fs_def fs_write_def far_node_def)
qed

lemma race_loses_service_witness:
  "\<exists>w1 h2 m1 m2. run_op demo_D (OpCreate sample_service) demo_world = (w1, Inr ())
    \<and> services_of w1 = Inr (Some m1) \<and> fmlookup m1 ''db'' = Some (own sample_service)
    \<and> held (h2 :: demo world) = Inr (Some m2) \<and> fmlookup m2 ''db'' = None"
proof -
  obtain w1 where w1: "run_op demo_D (OpCreate sample_service) demo_world = (w1, Inr ())" using demo_create by auto
  obtain c where c: "fs_read (services_file w1) (fs w1) = Inr c"
    using w1 create_services [of demo_D sample_service demo_world w1 "()"] by (auto simp: services_of_def)
  let ?h1 = "(host far_node)\<lparr>fs := (fs (host far_node))\<lparr>files := fmap_of_list [(services_path, c)]\<rparr>\<rparr>"
  have mounted: "mounted w1 ?h1"
    using c by (simp add: mounted_def fs_read_def [of services_path] fmlookup_of_list far_node_def)
  obtain h2 where h2: "sync_finish (Some (fmupd ''web'' web fmempty)) ?h1 = (h2, Inr ())" using far_node_writes by blast
  have same: "services_of demo_world = held (host far_node)" using demo_services far_node_ready(2) by simp
  have fresh: "fmlookup (fmempty :: service_defs) (si_Address sample_service) = None" by simp
  have other: "si_Address sample_service \<notin> si_Address ` set [web]" by (simp add: sample_address web_def)
  from race_loses_service [OF far_node_ready(2) web_read same w1 mounted h2 fresh other]
  show ?thesis unfolding sample_address own_def using w1 by blast
qed

lemma races_invent_nothing_witness:
  "\<exists>R m s. reach race_init (race_step demo_D) R \<and> held (mount R) = Inr (Some m) \<and> fmlookup m ''web'' = Some s
    \<and> si_Origin s = ''site-1'' \<and> (\<exists>s0 \<in> brought R. si_Address s0 = ''web'')"
proof -
  let ?R = "\<lparr>mount = host far_node, pending = {#}, brought = {}\<rparr>"
  let ?new = "Some (fmupd ''web'' web fmempty)"
  let ?R1 = "?R\<lparr>mount := host far_node, pending := {#ByExchange ?new#}, brought := {web}\<rparr>"
  have "race_init ?R" using far_node_ready(2) by (simp add: race_init_def sourced_def)
  moreover have "race_step demo_D ?R ?R1"
    using race_step.exchange_reads [of "[web]" "[]" ?R, unfolded race.simps, OF web_read] by simp
  moreover obtain h2 where h2: "sync_finish ?new (host far_node) = (h2, Inr ())"
    using far_node_writes [of ?new "files (fs (host far_node))"] by auto
  let ?R2 = "?R1\<lparr>mount := h2, pending := {#}\<rparr>"
  have "race_step demo_D ?R1 ?R2" using race_step.exchange_writes [of ?new ?R1 h2] h2 by simp
  ultimately have run: "reach race_init (race_step demo_D) ?R2" by (blast intro: reach.intros)
  have m: "held (mount ?R2) = Inr ?new" using sync_finish_held [OF h2] by simp
  obtain m' where "held (mount ?R2) = Inr (Some m')" "\<forall>a s. fmlookup m' a = Some s \<longrightarrow> si_Origin s \<noteq> [] \<longrightarrow>
      (\<exists>s0 \<in> brought ?R2. si_Address s0 = a)"
    using races_invent_nothing [OF run] by blast
  with m have "\<exists>s0 \<in> brought ?R2. si_Address s0 = ''web''" by (simp add: web_def)
  with run m show ?thesis by (intro exI [of _ ?R2] exI [of _ "fmupd ''web'' web fmempty"] exI [of _ web]) (simp add: web_def)
qed

end
