(* ===== verification/Site_Convergence.thy ===== *)
theory Site_Convergence imports Site_To_Site begin

text \<open>
  The announcements of several sites arrive at one: each is handled and the file it wrote is read again. The
  file they lead to is the one of \<open>merged\<close>, the announcements applied to one address after the other; where
  no two sites claim an address the order of the arrivals makes no difference.
\<close>

section \<open>Arrivals\<close>

text \<open>An announcement with the time and the orders of the loops at its arrival.\<close>

record arrival =
  ar_origin :: string
  ar_defs :: "ServiceInterface list"
  ar_now :: int
  ar_orders :: loop_orders
  ar_range1 :: map_order
  ar_range2 :: map_order

definition announcement :: "arrival \<Rightarrow> string \<times> ServiceInterface list" where
  "announcement x = (ar_origin x, ar_defs x)"

definition valid_arrival :: "string \<Rightarrow> arrival \<Rightarrow> bool" where
  "valid_arrival self x \<longleftrightarrow> ar_origin x \<noteq> self \<and> valid_orders (ar_orders x)
     \<and> valid_map_order (ar_range1 x) \<and> valid_map_order (ar_range2 x)"

definition take_over :: "(ce_kind \<Rightarrow> 'e Driver) \<Rightarrow> arrival \<Rightarrow> ('e node, unit) io" where
  "take_over D x = io_bind
     (handle_message (ar_now x) (ar_range1 x) (ar_range2 x) (update_message (ar_origin x) (updates_of (ar_defs x))))
     (\<lambda>_. processServiceDefs D (ar_orders x))"

definition site_ready :: "'e node \<Rightarrow> service_defs \<Rightarrow> bool" where
  "site_ready n m \<longleftrightarrow> in_sync (ctl n) m \<and> held (host n) = Inr (Some m) \<and> can_write (host n)
     \<and> CeDriver (host n) \<noteq> None"

section \<open>One arrival\<close>

lemma can_write_fs: "can_write w \<longleftrightarrow> services_path |\<notin>| denied (fs w) \<and> services_path |\<notin>| dirs (fs w)
    \<and> dirname services_path |\<in>| dirs (fs w)"
  by (auto simp: can_write_def WriteFile_def on_fs_def fs_write_def)

lemma WriteFile_keeps_host:
  "WriteFile p c w = (w', r) \<Longrightarrow> dirs (fs w') = dirs (fs w) \<and> denied (fs w') = denied (fs w) \<and> CeDriver w' = CeDriver w"
  by (auto simp: WriteFile_def on_fs_def fs_write_def split: if_splits)

lemma update_keeps_host:
  assumes "updateSkupperServices changed deleted origin w = (w', r)"
  shows "dirs (fs w') = dirs (fs w) \<and> denied (fs w') = denied (fs w) \<and> CeDriver w' = CeDriver w"
proof (cases r)
  case (Inl e)
  then show ?thesis using updateSkupperServices_Inl assms by metis
next
  case (Inr u)
  then have "w' = w \<or> (\<exists>c. WriteFile services_path c w = (w', Inr u))" using assms
    by (auto simp: updateSkupperServices_def io_wrap_Inr read_definitions_Inr elim!: io_bind_InrE split: if_splits)
  then show ?thesis using WriteFile_keeps_host by metis
qed

lemma handle_message_keeps_host:
  assumes "handle_message t r1 r2 msg n = (n', r)"
  shows "dirs (fs (host n')) = dirs (fs (host n)) \<and> denied (fs (host n')) = denied (fs (host n))
    \<and> CeDriver (host n') = CeDriver (host n)"
proof (cases "host n' = host n")
  case False
  then obtain changed deleted origin rr where
    "updateSkupperServices changed deleted origin (host n) = (host n', rr)"
    using assms
    by (fastforce simp: handle_message_def ensureServiceInterfaceDefinitions_def Let_def
        split: option.splits if_splits sum.splits prod.splits error.splits)
  then show ?thesis by (rule update_keeps_host)
qed simp

lemma processed_driver:
  assumes "calm_engine D" "valid_orders os" "CeDriver (host n) \<noteq> None" "processServiceDefs D os n = (n', r)"
  shows "CeDriver (host n') \<noteq> None"
proof (cases "held (host n)")
  case (Inl e)
  then have "host n' = host n"
    using assms(4) getServiceDefinitions_value [of "host n"]
    by (auto simp: processServiceDefs_def getServiceDefinitions_def read_definitions_Inr io_bind_def
        split: prod.splits sum.splits)
  then show ?thesis using assms(3) by simp
next
  case (Inr mo)
  note s = succeeds_updateProxies [OF assms(1,2), unfolded succeeds_def, rule_format, OF assms(3)]
  show ?thesis using assms(4) s unfolding processServiceDefs_run [OF Inr] by auto
qed

lemma take_over_effect:
  assumes ready: "site_ready n m" and v: "valid_arrival (k_origin (ctl n)) x" and calm: "calm_engine D"
  shows "\<exists>n' m'. take_over D x n = (n', Inr ()) \<and> site_ready n' m' \<and> k_origin (ctl n') = k_origin (ctl n)
    \<and> (\<forall>a. fmlookup m' a = merge (ar_origin x) (fmlookup m a) (fmlookup (index_update (ar_origin x) (ar_defs x)) a))"
proof -
  have r: "in_sync (ctl n) m" "held (host n) = Inr (Some m)" "can_write (host n)" "CeDriver (host n) \<noteq> None"
    using ready by (simp_all add: site_ready_def)
  have o: "ar_origin x \<noteq> k_origin (ctl n)" "valid_orders (ar_orders x)" "valid_map_order (ar_range1 x)" "valid_map_order (ar_range2 x)"
    using v by (simp_all add: valid_arrival_def)
  obtain n1 m1 where m1:
    "handle_message (ar_now x) (ar_range1 x) (ar_range2 x) (update_message (ar_origin x) (updates_of (ar_defs x))) n = (n1, Inr ())"
    "held (host n1) = Inr (Some m1)"
    "\<forall>a. fmlookup m1 a = merge (ar_origin x) (fmlookup m a) (fmlookup (index_update (ar_origin x) (ar_defs x)) a)"
    "keyed si_Address m1" "files_agree (ctl n1) m1" "k_origin (ctl n1) = k_origin (ctl n)"
    using update_effect [OF r(1-3) o(1) decode_updates o(3,4)] by blast
  have c1: "can_write (host n1)" "CeDriver (host n1) \<noteq> None"
    using handle_message_keeps_host [OF m1(1)] r(3,4) by (simp_all add: can_write_fs)
  obtain n2 where n2: "processServiceDefs D (ar_orders x) n1 = (n2, Inr ())"
    using processServiceDefs_completes [OF calm o(2) c1(2)] by blast
  note n2_eq = n2 [unfolded processServiceDefs_run [OF m1(2)], symmetric]
  have run: "ctl n2 = (serviceSyncDefinitionsUpdated (over_defs (ar_orders x) m1) (over_pare (ar_orders x)) (ctl n1))
      \<lparr>bindings := bindings (ctl n2)\<rparr>"
    using n2_eq by simp
  have h: "host_of (host n2) = host_of (host n1)"
    using n2_eq untouched_updateProxies [of D "ar_orders x"] unfolding untouched_def by (metis Pair_inject node.select_convs(2))
  have "in_sync (serviceSyncDefinitionsUpdated (over_defs (ar_orders x) m1) (over_pare (ar_orders x)) (ctl n1)) m1"
    by (rule reload_effect [OF _ m1(4) _ m1(5)]) (use o(2) in \<open>simp_all add: valid_orders_def\<close>)
  then have "in_sync (ctl n2) m1" by (subst run) (simp add: in_sync_def origin_defs_def)
  moreover have "held (host n2) = Inr (Some m1)" "can_write (host n2)"
    using h m1(2) c1(1) by (simp_all add: held_def can_write_fs host_of_def)
  moreover have "CeDriver (host n2) \<noteq> None" by (rule processed_driver [OF calm o(2) c1(2) n2])
  moreover have "k_origin (ctl n2) = k_origin (ctl n)" by (subst run) (simp add: m1(6))
  moreover have "take_over D x n = (n2, Inr ())" using m1(1) n2 by (simp add: take_over_def io_bind_Inr)
  ultimately show ?thesis using m1(3) by (auto simp: site_ready_def)
qed

section \<open>Several arrivals\<close>

definition merged :: "(string \<times> ServiceInterface list) list \<Rightarrow> string \<Rightarrow> ServiceInterface option \<Rightarrow> ServiceInterface option" where
  "merged xs a = fold (\<lambda>(o', defs) was. merge o' was (fmlookup (index_update o' defs) a)) xs"

lemma merged_simps [simp]:
  "merged [] a was = was"
  "merged ((o', defs) # xs) a was = merged xs a (merge o' was (fmlookup (index_update o' defs) a))"
  by (simp_all add: merged_def)

lemma arrivals_effect:
  assumes "site_ready n m" "\<forall>x \<in> set xs. valid_arrival (k_origin (ctl n)) x" "calm_engine D"
  shows "\<exists>n' m'. io_each (take_over D) xs n = (n', Inr ()) \<and> site_ready n' m'
    \<and> (\<forall>a. fmlookup m' a = merged (map announcement xs) a (fmlookup m a))"
  using assms(1,2)
proof (induction xs arbitrary: n m)
  case (Cons x xs)
  obtain n1 m1 where n1: "take_over D x n = (n1, Inr ())" "site_ready n1 m1" "k_origin (ctl n1) = k_origin (ctl n)"
    "\<forall>a. fmlookup m1 a = merge (ar_origin x) (fmlookup m a) (fmlookup (index_update (ar_origin x) (ar_defs x)) a)"
    using take_over_effect [OF Cons.prems(1) _ assms(3)] Cons.prems(2) by fastforce
  moreover have "\<forall>x \<in> set xs. valid_arrival (k_origin (ctl n1)) x" using Cons.prems(2) n1(3) by simp
  ultimately show ?case using Cons.IH [OF n1(2)] by (auto simp: io_bind_Inr announcement_def)
qed auto

section \<open>Uncontested addresses\<close>

text \<open>A site claims an address when it announces it, or when the definition in the file is one of the site.\<close>

definition claims :: "string \<Rightarrow> ServiceInterface option \<Rightarrow> string \<times> ServiceInterface list \<Rightarrow> bool" where
  "claims a was x \<longleftrightarrow> fmlookup (index_update (fst x) (snd x)) a \<noteq> None
     \<or> (\<exists>s. was = Some s \<and> si_Origin s = fst x)"

definition uncontested :: "(string \<times> ServiceInterface list) list \<Rightarrow> service_defs \<Rightarrow> bool" where
  "uncontested xs m \<longleftrightarrow> (\<forall>a. \<forall>x \<in> set xs. \<forall>y \<in> set xs.
     claims a (fmlookup m a) x \<longrightarrow> claims a (fmlookup m a) y \<longrightarrow> fst x = fst y)"

lemma merge_unclaimed: "\<not> claims a was (o', defs) \<Longrightarrow> merge o' was (fmlookup (index_update o' defs) a) = was"
  by (auto simp: claims_def merge_def split: option.split)

lemma merged_unclaimed: "\<forall>x \<in> set xs. \<not> claims a was x \<Longrightarrow> merged xs a was = was"
  by (induction xs) (auto simp: merge_unclaimed)

lemma claims_merged:
  assumes "\<not> claims a was y" "fst y \<noteq> o'"
  shows "\<not> claims a (merge o' was (fmlookup (index_update o' defs) a)) y"
proof -
  have "si_Origin s \<noteq> fst y" if "merge o' was (fmlookup (index_update o' defs) a) = Some s" for s
    using that assms index_update_stamped [of o' defs a s]
    by (auto simp: merge_def claims_def split: option.splits if_splits)
  with assms(1) show ?thesis by (auto simp: claims_def)
qed

lemma merged_claimed:
  assumes "x \<in> set xs" "distinct (map fst xs)" "\<forall>y \<in> set xs. fst y \<noteq> fst x \<longrightarrow> \<not> claims a was y"
  shows "merged xs a was = merge (fst x) was (fmlookup (index_update (fst x) (snd x)) a)"
  using assms
proof (induction xs)
  case (Cons z zs)
  obtain oz dz where z: "z = (oz, dz)" by fastforce
  show ?case
  proof (cases "z = x")
    case True
    have "\<not> claims a (merge oz was (fmlookup (index_update oz dz) a)) y" if y: "y \<in> set zs" for y
    proof (rule claims_merged)
      have "fst y \<noteq> oz" using Cons.prems(2) y z by (metis distinct.simps(2) fst_conv image_eqI list.simps(9) set_map)
      then show "fst y \<noteq> oz" "\<not> claims a was y" using Cons.prems(3) y True z by auto
    qed
    then show ?thesis unfolding True [symmetric] z by (simp add: merged_unclaimed)
  next
    case False
    then have x: "x \<in> set zs" using Cons.prems(1) by simp
    then have "fst x \<noteq> oz" using Cons.prems(2) z by (metis distinct.simps(2) fst_conv image_eqI list.simps(9) set_map)
    then have "\<not> claims a was (oz, dz)" using Cons.prems(3) z by auto
    then show ?thesis using Cons.IH [OF x] Cons.prems(2,3) z by (simp add: merge_unclaimed)
  qed
qed simp

lemma merged_order:
  assumes "mset xs = mset ys" "distinct (map fst xs)" "uncontested xs m"
  shows "merged xs a (fmlookup m a) = merged ys a (fmlookup m a)"
proof -
  have s: "set xs = set ys" "distinct (map fst ys)"
    using assms(1,2) by (metis mset_eq_setD, metis mset_eq_imp_distinct_iff mset_map)
  show ?thesis
  proof (cases "\<exists>x \<in> set xs. claims a (fmlookup m a) x")
    case True
    then obtain x where x: "x \<in> set xs" "claims a (fmlookup m a) x" by blast
    then have "\<forall>y \<in> set xs. fst y \<noteq> fst x \<longrightarrow> \<not> claims a (fmlookup m a) y"
      using assms(3) unfolding uncontested_def by metis
    then show ?thesis using merged_claimed [of x] x(1) s assms(2) by simp
  next
    case False
    then show ?thesis using merged_unclaimed s(1) by metis
  qed
qed

text \<open>
  Property C4. The sites agree on the services whatever the order of the announcements: when no two sites
  claim the same address, a site that receives the announcements of others in any two orders ends with
  the same file. In it stand the services of every announcement whose address was free, with the
  site that announced them as their origin, and the definitions no announcing site claims stay.
\<close>

theorem announcements_converge:
  assumes "site_ready n m" "calm_engine D"
    and "\<forall>x \<in> set xs \<union> set ys. valid_arrival (k_origin (ctl n)) x"
    and "mset (map announcement xs) = mset (map announcement ys)" "distinct (map ar_origin xs)"
    and "uncontested (map announcement xs) m"
  shows "\<exists>n1 n2 m'. io_each (take_over D) xs n = (n1, Inr ()) \<and> io_each (take_over D) ys n = (n2, Inr ())
    \<and> held (host n1) = Inr (Some m') \<and> held (host n2) = Inr (Some m')
    \<and> (\<forall>x \<in> set xs. \<forall>a d. fmlookup m a = None \<longrightarrow> fmlookup (index_update (ar_origin x) (ar_defs x)) a = Some d
        \<longrightarrow> fmlookup m' a = Some d \<and> si_Origin d = ar_origin x)
    \<and> (\<forall>a. (\<forall>x \<in> set xs. \<not> claims a (fmlookup m a) (announcement x)) \<longrightarrow> fmlookup m' a = fmlookup m a)"
proof -
  obtain n1 m1 where 1: "io_each (take_over D) xs n = (n1, Inr ())" "site_ready n1 m1"
    "\<forall>a. fmlookup m1 a = merged (map announcement xs) a (fmlookup m a)"
    using arrivals_effect [OF assms(1) _ assms(2)] assms(3) by blast
  obtain n2 m2 where 2: "io_each (take_over D) ys n = (n2, Inr ())" "site_ready n2 m2"
    "\<forall>a. fmlookup m2 a = merged (map announcement ys) a (fmlookup m a)"
    using arrivals_effect [OF assms(1) _ assms(2)] assms(3) by blast
  have d: "distinct (map fst (map announcement xs))" using assms(5) by (simp add: announcement_def comp_def)
  have "m1 = m2" by (rule fmap_ext) (simp add: 1(3) 2(3) merged_order [OF assms(4) d assms(6)])
  moreover have "fmlookup m1 a = Some s" "si_Origin s = ar_origin x"
    if x: "x \<in> set xs" and a: "fmlookup m a = None" "fmlookup (index_update (ar_origin x) (ar_defs x)) a = Some s" for x a s
  proof -
    have "claims a (fmlookup m a) (announcement x)" using a by (simp add: claims_def announcement_def)
    then have "\<forall>y \<in> set (map announcement xs). fst y \<noteq> fst (announcement x) \<longrightarrow> \<not> claims a (fmlookup m a) y"
      using assms(6) x unfolding uncontested_def by (metis imageI set_map)
    then show "fmlookup m1 a = Some s"
      using merged_claimed [of "announcement x" "map announcement xs" a "fmlookup m a"] d x a 1(3)
      by (simp add: announcement_def merge_def)
    show "si_Origin s = ar_origin x" using index_update_stamped [OF a(2)] by simp
  qed
  moreover have "fmlookup m1 a = fmlookup m a" if "\<forall>x \<in> set xs. \<not> claims a (fmlookup m a) (announcement x)" for a
    using that 1(3) by (simp add: merged_unclaimed)
  ultimately show ?thesis using 1(1,2) 2(1,2) by (intro exI [of _ n1] exI [of _ n2] exI [of _ m1]) (simp add: site_ready_def)
qed

section \<open>Examples\<close>

lemma contested_order_matters:
  "merged [(''site-1'', [sample_service]), (''site-2'', [sample_service])] (si_Address sample_service) None
   \<noteq> merged [(''site-2'', [sample_service]), (''site-1'', [sample_service])] (si_Address sample_service) None"
proof -
  have "si_Origin x \<noteq> si_Origin y \<Longrightarrow> Some x \<noteq> Some (y :: ServiceInterface)" for x y by auto
  then show ?thesis by (auto simp: index_update_def merge_def)
qed

definition arrival_of :: "string \<Rightarrow> ServiceInterface list \<Rightarrow> arrival" where
  "arrival_of o' defs = \<lparr>ar_origin = o', ar_defs = defs, ar_now = 7, ar_orders = sorted_loops,
     ar_range1 = sorted_list_of_fmap, ar_range2 = sorted_list_of_fmap\<rparr>"

definition two_arrivals :: "arrival list" where
  "two_arrivals = [arrival_of ''site-1'' [sample_service], arrival_of ''site-2'' [sample_service\<lparr>si_Address := ''web''\<rparr>]]"

lemma announcements_converge_witness:
  "\<exists>n1 n2 m'. io_each (take_over demo_D) two_arrivals far_node = (n1, Inr ())
    \<and> io_each (take_over demo_D) (rev two_arrivals) far_node = (n2, Inr ())
    \<and> held (host n1) = Inr (Some m') \<and> held (host n2) = Inr (Some m')
    \<and> fmlookup m' ''db'' \<noteq> None \<and> fmlookup m' ''web'' \<noteq> None"
proof -
  have ready: "site_ready far_node fmempty"
    using far_node_ready by (simp add: site_ready_def far_node_def demo_world_def)
  have v: "\<forall>x \<in> set two_arrivals \<union> set (rev two_arrivals). valid_arrival (k_origin (ctl far_node)) x"
    by (simp add: two_arrivals_def arrival_of_def valid_arrival_def far_node_ready valid_sorted_loops sorted_orders)
  have p: "mset (map announcement two_arrivals) = mset (map announcement (rev two_arrivals))" by (simp add: two_arrivals_def)
  have d: "distinct (map ar_origin two_arrivals)" by (simp add: two_arrivals_def arrival_of_def)
  have u: "uncontested (map announcement two_arrivals) fmempty"
    by (simp add: uncontested_def claims_def two_arrivals_def announcement_def arrival_of_def index_update_def sample_address)
  have l: "fmlookup (index_update (ar_origin x) (ar_defs x)) a \<noteq> None"
    if "(x, a) = (two_arrivals ! 0, ''db'') \<or> (x, a) = (two_arrivals ! 1, ''web'')" for x a
    using that by (auto simp: two_arrivals_def arrival_of_def index_update_def sample_address)
  have s: "two_arrivals ! 0 \<in> set two_arrivals" "two_arrivals ! 1 \<in> set two_arrivals" by (simp_all add: two_arrivals_def)
  from announcements_converge [OF ready demo_calm_engine v p d u] obtain n1 n2 m' where r:
    "io_each (take_over demo_D) two_arrivals far_node = (n1, Inr ())"
    "io_each (take_over demo_D) (rev two_arrivals) far_node = (n2, Inr ())"
    "held (host n1) = Inr (Some m')" "held (host n2) = Inr (Some m')"
    "\<forall>x \<in> set two_arrivals. \<forall>a d. fmlookup (fmempty :: service_defs) a = None \<longrightarrow> fmlookup (index_update (ar_origin x) (ar_defs x)) a = Some d
        \<longrightarrow> fmlookup m' a = Some d \<and> si_Origin d = ar_origin x" by blast
  from r(5) s l show ?thesis using r(1-4) by (metis (no_types, lifting) fmempty_lookup not_Some_eq)
qed

end
