(* ===== verification/Docker_Driver.thy ===== *)
theory Docker_Driver imports Client_Base begin

text \<open>
  \<open>driver/docker.go\<close>: the interface \<open>Driver\<close> on the docker client library. The library and the
  daemon behind it are not in the repository: they are a parameter, the record \<open>docker_api\<close>, with one
  function for each call the driver makes. What the driver sends and what it makes of the answers is
  translated.

  Every call has a context with a deadline. A call of the library gives its answer and whether the
  deadline had passed by then; the functions that look at the context report a time-out in that case,
  whatever the answer was.
\<close>

section \<open>Types of the library\<close>

record docker_Mount =
  dm_Type :: string
  dm_Name :: string
  dm_Source :: string
  dm_Destination :: string
  dm_Driver :: string
  dm_Mode :: string
  dm_RW :: bool

record EndpointSettings =
  es_Gateway :: string
  es_IPAddress :: string
  es_IPPrefixLen :: goint

text \<open>A mount asked for has a type, a source and a target.\<close>

record docker_Bind =
  db_Type :: string
  db_Source :: string
  db_Target :: string

record docker_Config =
  dc_Hostname :: string
  dc_Image :: string
  dc_Env :: "string list"
  dc_Cmd :: "string list"
  dc_Healthcheck :: "HealthConfig option"
  dc_Labels :: "(string, string) fmap"
  dc_ExposedPorts :: "string fset"

record docker_HostConfig =
  dh_Mounts :: "docker_Bind list"
  dh_Privileged :: bool

record ContainerCreateConfig =
  dcc_Name :: string
  dcc_Config :: docker_Config
  dcc_HostConfig :: docker_HostConfig
  dcc_EndpointsConfig :: "(string, EndpointSettings) fmap"

record ContainerJSON =
  cj_ID :: string
  cj_Path :: string
  cj_Args :: "string list"
  cj_Status :: string
  cj_Image :: string
  cj_Name :: string
  cj_Mounts :: "docker_Mount list"
  cj_Config :: docker_Config
  cj_Default :: EndpointSettings
  cj_Networks :: "(string, EndpointSettings) fmap"

record docker_Container =
  dk_ID :: string
  dk_Names :: "string list"
  dk_Image :: string
  dk_ImageID :: string
  dk_Command :: string
  dk_Labels :: "(string, string) fmap"
  dk_State :: string
  dk_Status :: string

record docker_Image =
  di_ID :: string
  di_Size :: goint
  di_Labels :: "(string, string) fmap"
  di_RepoTags :: "string list"
  di_RepoDigests :: "string list"

record docker_NetworkOptions =
  dn_CheckDuplicate :: bool
  dn_Driver :: string
  dn_Options :: "(string, string) fmap"

record docker_Endpoint =
  de_Name :: string
  de_EndpointID :: string

record docker_InfoData =
  dki_ID :: string
  dki_Name :: string
  dki_KernelVersion :: string
  dki_OperatingSystem :: string
  dki_OSVersion :: string
  dki_OSType :: string
  dki_Architecture :: string
  dki_ServerVersion :: string

text \<open>
  What the stream of a pull decodes to: a message, one that carries an error, or a failure of the
  decoder. The end of the list is the end of the stream. The progress of a message is the text it
  prints.
\<close>

record JSONMessage =
  jm_ID :: string
  jm_Status :: string
  jm_Progress :: "string option"

datatype pull_event = Pull_message JSONMessage | Pull_error error | Pull_undecodable error

text \<open>The output of a command, or the error of copying it.\<close>

type_synonym exec_stream = "(content \<times> content) result"

record ExecConfig =
  xc_AttachStdout :: bool
  xc_AttachStderr :: bool
  xc_Cmd :: "string list"

type_synonym 'a timed = "bool \<times> 'a result"

record 'e docker_api =
  api_NewClient :: "('e, unit) io"
  api_ImagePull :: "string \<Rightarrow> ('e, pull_event list) io"
  api_ImageInspect :: "string \<Rightarrow> 'e \<Rightarrow> docker_Image timed"
  api_ImageList :: "'e \<Rightarrow> docker_Image list timed"
  api_ContainerCreate :: "ContainerCreateConfig \<Rightarrow> ('e, string) io"
  api_ContainerStart :: "string \<Rightarrow> 'e \<Rightarrow> 'e \<times> unit timed"
  api_ContainerList :: "(string, string) fmap \<Rightarrow> bool \<Rightarrow> 'e \<Rightarrow> docker_Container list timed"
  api_ContainerInspect :: "string \<Rightarrow> 'e \<Rightarrow> ContainerJSON timed"
  api_ContainerRestart :: "string \<Rightarrow> 'e \<Rightarrow> 'e \<times> unit timed"
  api_ContainerStop :: "string \<Rightarrow> 'e \<Rightarrow> 'e \<times> unit timed"
  api_ContainerRemove :: "string \<Rightarrow> 'e \<Rightarrow> 'e \<times> unit timed"
  api_ExecCreate :: "string \<Rightarrow> ExecConfig \<Rightarrow> ('e, string) io"
  api_ExecAttach :: "string \<Rightarrow> ('e, exec_stream) io"
  api_ExecInspect :: "string \<Rightarrow> 'e \<Rightarrow> goint result"
  api_NetworkCreate :: "string \<Rightarrow> docker_NetworkOptions \<Rightarrow> 'e \<Rightarrow> 'e \<times> (string \<times> string) timed"
  api_NetworkInspect :: "string \<Rightarrow> 'e \<Rightarrow> (string, docker_Endpoint) fmap timed"
  api_NetworkRemove :: "string \<Rightarrow> 'e \<Rightarrow> 'e \<times> unit timed"
  api_NetworkConnect :: "string \<Rightarrow> string \<Rightarrow> 'e \<Rightarrow> 'e \<times> unit timed"
  api_NetworkDisconnect :: "string \<Rightarrow> string \<Rightarrow> bool \<Rightarrow> 'e \<Rightarrow> 'e \<times> unit timed"
  api_Info :: "'e \<Rightarrow> docker_InfoData timed"
  api_Retry :: "('e \<Rightarrow> bool result) \<Rightarrow> ('e, unit) io"

section \<open>Time-outs\<close>

definition operationTimeout :: error where
  "operationTimeout = Err ''operation timeout: context deadline exceeded''"

text \<open>\<open>contextError\<close> is looked at before the error of the call.\<close>

fun contextError :: "'a timed \<Rightarrow> 'a result" where
  "contextError (True, r) = Inl operationTimeout"
| "contextError (False, r) = r"

definition timed_ask :: "('e \<Rightarrow> 'a timed) \<Rightarrow> 'e \<Rightarrow> 'a result" where
  "timed_ask f e = contextError (f e)"

definition timed_do :: "('e \<Rightarrow> 'e \<times> 'a timed) \<Rightarrow> ('e, 'a) io" where
  "timed_do f = (\<lambda>e. case f e of (e', t) \<Rightarrow> (e', contextError t))"

section \<open>Creating a container\<close>

definition docker_mount :: "MountPoint \<Rightarrow> docker_Bind" where
  "docker_mount mount = \<lparr>db_Type = ''bind'', db_Source = mp_Source mount, db_Target = mp_Destination mount\<rparr>"

definition env_var :: "string \<times> string \<Rightarrow> string" where
  "env_var kv = fst kv @ ''='' @ snd kv"

definition zero_EndpointSettings :: EndpointSettings where
  "zero_EndpointSettings = \<lparr>es_Gateway = [], es_IPAddress = [], es_IPPrefixLen = 0\<rparr>"

text \<open>
  The loop over the environment visits the map in the order \<open>rng\<close>. The health check is read through a
  pointer that the caller may have left nil.
\<close>

definition newDockerContainerSpec ::
  "((string, string) fmap \<Rightarrow> (string \<times> string) list) \<Rightarrow> ContainerCreateOptions
    \<Rightarrow> ContainerCreateConfig result" where
  "newDockerContainerSpec rng options = (let cb = cco_ContainerConfig options in
     case cb_HealthCheck cb of None \<Rightarrow> Inl nil_pointer | Some hc \<Rightarrow>
     Inr \<lparr>dcc_Name = cco_Name options,
       dcc_Config = \<lparr>dc_Hostname = cb_Hostname cb, dc_Image = cb_Image cb,
         dc_Env = map env_var (rng (cb_Env cb)), dc_Cmd = cb_Cmd cb,
         dc_Healthcheck = Some \<lparr>hc_Test = hc_Test hc, hc_Interval = 0, hc_Timeout = 0,
           hc_StartPeriod = hc_StartPeriod hc, hc_Retries = 0\<rparr>,
         dc_Labels = cb_Labels cb, dc_ExposedPorts = cb_ExposedPorts cb\<rparr>,
       dcc_HostConfig = \<lparr>dh_Mounts = map docker_mount (chc_Mounts (cco_HostConfig options)),
         dh_Privileged = chc_Privileged (cco_HostConfig options)\<rparr>,
       dcc_EndpointsConfig = fmmap (\<lambda>_. zero_EndpointSettings)
         (cn_EndpointsConfig (cco_NetworkingConfig options))\<rparr>)"

definition docker_ContainerCreate ::
  "((string, string) fmap \<Rightarrow> (string \<times> string) list) \<Rightarrow> 'e docker_api \<Rightarrow> ContainerCreateOptions
    \<Rightarrow> ('e, ContainerCreateResponse) io" where
  "docker_ContainerCreate rng c options =
     io_bind (io_lift (newDockerContainerSpec rng options)) (\<lambda>opts.
     io_bind (api_ContainerCreate c opts) (\<lambda>cid. io_return \<lparr>ccr_ID = cid, ccr_Warnings = []\<rparr>))"

section \<open>Inspecting and listing containers\<close>

definition docker_mount_point :: "docker_Mount \<Rightarrow> MountPoint" where
  "docker_mount_point mount = \<lparr>mp_Type = TypeBind, mp_Name = dm_Name mount, mp_Source = dm_Source mount,
     mp_Destination = dm_Destination mount, mp_Driver = dm_Driver mount, mp_Mode = dm_Mode mount,
     mp_RW = dm_RW mount, mp_Propagation = []\<rparr>"

text \<open>
  \<open>strings.Index\<close> of a missing character is -1 and \<open>env[:-1]\<close> panics; a variable with an empty value is
  left out, and the last of several with the same name counts.
\<close>

definition slice_out_of_range :: error where
  "slice_out_of_range = Panic ''slice bounds out of range [:-1]''"

fun env_vars :: "string list \<Rightarrow> (string, string) fmap \<Rightarrow> (string, string) fmap result" where
  "env_vars [] envVars = Inr envVars"
| "env_vars (v # rest) envVars =
     (case SplitN2 v (CHR ''='') of
        [name, value] \<Rightarrow> env_vars rest (if value \<noteq> [] then fmupd name value envVars else envVars)
      | _ \<Rightarrow> Inl slice_out_of_range)"

definition docker_endpoint :: "string \<Rightarrow> EndpointSettings \<Rightarrow> NetworkEndpointSetting" where
  "docker_endpoint net setting = zero_NetworkEndpointSetting\<lparr>nes_NetworkID := net,
     nes_Gateway := es_Gateway setting, nes_IPAddress := es_IPAddress setting,
     nes_IPPrefixLen := es_IPPrefixLen setting\<rparr>"

definition docker_inspection :: "ContainerJSON \<Rightarrow> ContainerInspect result" where
  "docker_inspection container = (let cfg = cj_Config container in
     rbind (env_vars (dc_Env cfg) fmempty) (\<lambda>envVars.
     case dc_Healthcheck cfg of None \<Rightarrow> Inl nil_pointer | Some hc \<Rightarrow>
     Inr \<lparr>cin_ID = cj_ID container, cin_Created = 0, cin_Path = cj_Path container,
       cin_Args = cj_Args container,
       cin_State = Some \<lparr>cst_Status = cj_Status container, cst_Running = False, cst_Paused = False\<rparr>,
       cin_Image = cj_Image container, cin_ImageName = [], cin_Name = cj_Name container,
       cin_Mounts = map docker_mount_point (cj_Mounts container),
       cin_Config = \<lparr>cc_Hostname = dc_Hostname cfg, cc_ExposedPorts = dc_ExposedPorts cfg,
         cc_Env = envVars, cc_Healthcheck = Some hc, cc_Image = dc_Image cfg, cc_Labels = dc_Labels cfg\<rparr>,
       cin_NetworkSettings = \<lparr>cnc_Gateway = es_Gateway (cj_Default container),
         cnc_IPAddress = es_IPAddress (cj_Default container),
         cnc_IPPrefixLen = es_IPPrefixLen (cj_Default container), cnc_SecondaryIPAddresses = [],
         cnc_Networks = fmmap_keys docker_endpoint (cj_Networks container)\<rparr>\<rparr>))"

definition docker_ContainerInspect :: "'e docker_api \<Rightarrow> string \<Rightarrow> 'e \<Rightarrow> ContainerInspect result" where
  "docker_ContainerInspect c cid e = rbind (timed_ask (api_ContainerInspect c cid) e) docker_inspection"

definition docker_summary :: "docker_Container \<Rightarrow> ContainerSummary" where
  "docker_summary container = \<lparr>csu_ID = dk_ID container, csu_Names = dk_Names container,
     csu_Image = dk_Image container, csu_ImageID = dk_ImageID container,
     csu_Command = dk_Command container, csu_Created = 0, csu_Ports = [],
     csu_Labels = dk_Labels container, csu_State = dk_State container,
     csu_Status = dk_Status container, csu_Mounts = []\<rparr>"

text \<open>Of each filter the first value is passed on; a filter without one is an index out of range.\<close>

definition index_out_of_range :: error where
  "index_out_of_range = Panic ''index out of range [0] with length 0''"

definition docker_filters :: "(string, string list) fmap \<Rightarrow> (string, string) fmap result" where
  "docker_filters Filters = (if [] |\<in>| fmran Filters then Inl index_out_of_range else Inr (fmmap hd Filters))"

definition docker_ContainerList ::
  "'e docker_api \<Rightarrow> ContainerListOptions \<Rightarrow> 'e \<Rightarrow> ContainerSummary list result" where
  "docker_ContainerList c opts e =
     rbind (docker_filters (clo_Filters opts)) (\<lambda>filters.
     rbind (timed_ask (api_ContainerList c filters (clo_All opts)) e) (\<lambda>containers.
       Inr (map docker_summary containers)))"

text \<open>Waiting polls the status; an inspection that fails is polled again.\<close>

definition has_status :: "'e docker_api \<Rightarrow> string \<Rightarrow> string \<Rightarrow> 'e \<Rightarrow> bool result" where
  "has_status c cid status e = (case snd (api_ContainerInspect c cid e) of
       Inl _ \<Rightarrow> Inr False | Inr container \<Rightarrow> Inr (cj_Status container = status))"

definition docker_ContainerWait :: "'e docker_api \<Rightarrow> string \<Rightarrow> string \<Rightarrow> ('e, unit) io" where
  "docker_ContainerWait c cid status = api_Retry c (has_status c cid status)"

section \<open>Images\<close>

fun pull_stream :: "pull_event list \<Rightarrow> string list result" where
  "pull_stream [] = Inr []"
| "pull_stream (Pull_message msg # es) = pull_stream es"
| "pull_stream (Pull_error err # es) = Inl err"
| "pull_stream (Pull_undecodable err # es) = Inl err"

text \<open>The options of the caller are not used.\<close>

definition docker_ImagesPull ::
  "'e docker_api \<Rightarrow> string \<Rightarrow> ContainerListOptions \<Rightarrow> ('e, string list) io" where
  "docker_ImagesPull c refStr options =
     io_bind (api_ImagePull c refStr) (\<lambda>resp. io_lift (pull_stream resp))"

text \<open>
  Beside the loop a reporter watches its progress: a ticker fires every ten seconds, and when the last
  message is older than the deadline the context of the pull is cancelled. Times are in nanoseconds.
  A run of the two is the sequence of the messages and of the ticks, each at its time, until the stop
  channel is closed; \<open>reporter\<close> says whether it cancels.
\<close>

record progress =
  pg_message :: "JSONMessage option"
  pg_timestamp :: int

definition newProgress :: "int \<Rightarrow> progress" where
  "newProgress now = \<lparr>pg_message = None, pg_timestamp = now\<rparr>"

definition progress_set :: "JSONMessage \<Rightarrow> int \<Rightarrow> progress \<Rightarrow> progress" where
  "progress_set msg now p = p\<lparr>pg_message := Some msg, pg_timestamp := now\<rparr>"

definition progress_get :: "progress \<Rightarrow> string \<times> int" where
  "progress_get p = (case pg_message p of
       None \<Rightarrow> (''No progress'', pg_timestamp p)
     | Some msg \<Rightarrow> (let prefix = (if jm_ID msg \<noteq> [] then jm_ID msg @ '': '' else []) in
         (case jm_Progress msg of None \<Rightarrow> prefix @ jm_Status msg
          | Some bar \<Rightarrow> prefix @ jm_Status msg @ '' '' @ bar, pg_timestamp p)))"

datatype reporter_event = Pulled JSONMessage int | Tick int

fun reporter :: "int \<Rightarrow> progress \<Rightarrow> reporter_event list \<Rightarrow> bool" where
  "reporter deadline p [] = False"
| "reporter deadline p (Pulled msg now # es) = reporter deadline (progress_set msg now p) es"
| "reporter deadline p (Tick now # es) =
     (if now - snd (progress_get p) > deadline then True else reporter deadline p es)"

definition pull_deadline :: int where "pull_deadline = 10 * 1000000000"

definition pull_cancelled :: "int \<Rightarrow> reporter_event list \<Rightarrow> bool" where
  "pull_cancelled now es = reporter pull_deadline (newProgress now) es"

definition docker_ImageInspect :: "'e docker_api \<Rightarrow> string \<Rightarrow> 'e \<Rightarrow> ImageInspect result" where
  "docker_ImageInspect c cid e = rbind (timed_ask (api_ImageInspect c cid) e) (\<lambda>data.
     Inr \<lparr>ii_ID = di_ID data, ii_Created = 0, ii_RepoTags = di_RepoTags data, ii_Size = di_Size data\<rparr>)"

definition docker_image_summary :: "docker_Image \<Rightarrow> ImageSummary" where
  "docker_image_summary img = \<lparr>is_ID = di_ID img, is_Created = 0, is_Labels = di_Labels img,
     is_RepoTags = di_RepoTags img, is_RepoDigests = di_RepoDigests img, is_Size = 0\<rparr>"

definition docker_ImagesList ::
  "'e docker_api \<Rightarrow> ContainerListOptions \<Rightarrow> 'e \<Rightarrow> ImageSummary list result" where
  "docker_ImagesList c options e = rbind (timed_ask (api_ImageList c) e) (\<lambda>images.
     Inr (map docker_image_summary images))"

definition image_version :: "string \<Rightarrow> string list \<Rightarrow> string result" where
  "image_version cid digests = (case digests of [] \<Rightarrow> Inl index_out_of_range
     | digest # _ \<Rightarrow> (let parts = Split digest (CHR ''@'') in
         if length parts > 1 \<and> length (parts ! 1) \<ge> 19
         then Inr (cid @ '' ('' @ take 19 (parts ! 1) @ '')'') else Inr digest))"

definition docker_ImageVersion :: "'e docker_api \<Rightarrow> string \<Rightarrow> 'e \<Rightarrow> string result" where
  "docker_ImageVersion c cid e = rbind (timed_ask (api_ImageInspect c cid) e) (\<lambda>iibd.
     image_version cid (di_RepoDigests iibd))"

section \<open>Networks\<close>

definition bridge_network :: docker_NetworkOptions where
  "bridge_network = \<lparr>dn_CheckDuplicate = True, dn_Driver = ''bridge'',
     dn_Options = fmap_of_list [(''com.docker.network.bridge.name'', ''skupper0''),
       (''com.docker.network.bridge.enable_icc'', ''true''),
       (''com.docker.network.bridge.enable_ip_masquerade'', ''true'')]\<rparr>"

definition docker_NetworkCreate ::
  "'e docker_api \<Rightarrow> string \<Rightarrow> NetworkCreateOptions \<Rightarrow> ('e, NetworkCreateResponse) io" where
  "docker_NetworkCreate c name options =
     io_bind (timed_do (api_NetworkCreate c name bridge_network)) (\<lambda>(cid, warning).
       io_return \<lparr>ncr_ID = cid, ncr_Warning = warning\<rparr>)"

definition docker_NetworkInspect :: "'e docker_api \<Rightarrow> string \<Rightarrow> 'e \<Rightarrow> NetworkInspect result" where
  "docker_NetworkInspect c cid e = rbind (timed_ask (api_NetworkInspect c cid) e) (\<lambda>containers.
     Inr \<lparr>ni_Name = [], ni_NetworkID = [], ni_Containers = fmmap (\<lambda>endPoint.
       \<lparr>er_Name = de_Name endPoint, er_EndpointID = de_EndpointID endPoint\<rparr>) containers\<rparr>)"

section \<open>Running a command\<close>

definition docker_ContainerExec :: "'e docker_api \<Rightarrow> string \<Rightarrow> string list \<Rightarrow> ('e, ExecResult) io" where
  "docker_ContainerExec c cid cmd =
     io_bind (api_ExecCreate c cid \<lparr>xc_AttachStdout = True, xc_AttachStderr = True, xc_Cmd = cmd\<rparr>) (\<lambda>execID.
     io_bind (api_ExecAttach c execID) (\<lambda>attachResponse.
     io_bind (io_lift attachResponse) (\<lambda>(outBuf, errBuf).
     io_bind (io_ask (api_ExecInspect c execID)) (\<lambda>code.
       io_return \<lparr>ex_ExitCode = code, ex_OutBuffer = outBuf, ex_ErrBuffer = errBuf\<rparr>))))"

section \<open>The driver\<close>

definition docker_Info :: "'e docker_api \<Rightarrow> 'e \<Rightarrow> Info result" where
  "docker_Info c e = rbind (timed_ask (api_Info c) e) (\<lambda>info.
     Inr \<lparr>in_ID = dki_ID info, in_Name = dki_Name info, in_KernelVersion = dki_KernelVersion info,
       in_OperatingSystem = dki_OperatingSystem info, in_OSVersion = dki_OSVersion info,
       in_OSType = dki_OSType info, in_Architecture = dki_Architecture info,
       in_ServerVersion = dki_ServerVersion info\<rparr>)"

definition docker_New :: "'e docker_api \<Rightarrow> ('e, unit) io" where
  "docker_New c = io_wrap ''Couldn't connect to docker'' (api_NewClient c)"

definition docker_ContainerStart :: "'e docker_api \<Rightarrow> string \<Rightarrow> ('e, unit) io" where
  "docker_ContainerStart c cid = timed_do (api_ContainerStart c cid)"

definition docker_ContainerRestart :: "'e docker_api \<Rightarrow> string \<Rightarrow> ('e, unit) io" where
  "docker_ContainerRestart c cid = timed_do (api_ContainerRestart c cid)"

definition docker_ContainerStop :: "'e docker_api \<Rightarrow> string \<Rightarrow> ('e, unit) io" where
  "docker_ContainerStop c cid = timed_do (api_ContainerStop c cid)"

definition docker_ContainerRemove :: "'e docker_api \<Rightarrow> string \<Rightarrow> ('e, unit) io" where
  "docker_ContainerRemove c cid = timed_do (api_ContainerRemove c cid)"

definition docker_NetworkRemove :: "'e docker_api \<Rightarrow> string \<Rightarrow> ('e, unit) io" where
  "docker_NetworkRemove c cid = timed_do (api_NetworkRemove c cid)"

text \<open>The aliases are not passed on.\<close>

definition docker_NetworkConnect :: "'e docker_api \<Rightarrow> string \<Rightarrow> string \<Rightarrow> string list \<Rightarrow> ('e, unit) io" where
  "docker_NetworkConnect c cid container aliases = timed_do (api_NetworkConnect c cid container)"

definition docker_NetworkDisconnect :: "'e docker_api \<Rightarrow> string \<Rightarrow> string \<Rightarrow> bool \<Rightarrow> ('e, unit) io" where
  "docker_NetworkDisconnect c cid container force = timed_do (api_NetworkDisconnect c cid container force)"

definition DockerDriver ::
  "((string, string) fmap \<Rightarrow> (string \<times> string) list) \<Rightarrow> 'e docker_api \<Rightarrow> 'e Driver" where
  "DockerDriver rng c = \<lparr>New = docker_New c,
     ImageInspect = docker_ImageInspect c,
     ImagesList = docker_ImagesList c,
     ImagesPull = docker_ImagesPull c,
     ImageVersion = docker_ImageVersion c,
     ContainerCreate = docker_ContainerCreate rng c,
     ContainerStart = docker_ContainerStart c,
     ContainerWait = docker_ContainerWait c,
     ContainerList = docker_ContainerList c,
     ContainerInspect = docker_ContainerInspect c,
     ContainerRestart = docker_ContainerRestart c,
     ContainerStop = docker_ContainerStop c,
     ContainerRemove = docker_ContainerRemove c,
     ContainerExec = docker_ContainerExec c,
     NetworkCreate = docker_NetworkCreate c,
     NetworkInspect = docker_NetworkInspect c,
     NetworkRemove = docker_NetworkRemove c,
     NetworkConnect = docker_NetworkConnect c,
     NetworkDisconnect = docker_NetworkDisconnect c,
     Info = docker_Info c\<rparr>"

end
