(* ===== verification/Docker_Wrapper.thy ===== *)
theory Docker_Wrapper imports Docker_Driver begin

text \<open>
  \<open>pkg/docker/libdocker\<close>: the interface \<open>libdocker.Interface\<close> (\<open>client.go\<close>), here the record
  \<open>docker_interface\<close>, and the client \<open>skupDockerClient\<close> that implements it on the docker library
  (\<open>skupper_docker_client.go\<close>).

  The library is the parameter \<open>docker_lib\<close>. A call of it is made with the deadline of its context, in
  nanoseconds, where it has one, and says whether the deadline had passed when it came back. What only passes through the
  client, such as the options of a listing, is the map of its fields.
\<close>

section \<open>The library\<close>

type_synonym ('e, 'a) call = "int option \<Rightarrow> 'e \<Rightarrow> 'e \<times> 'a timed"

type_synonym docker_options = "(string, string) fmap"

record host_config = docker_HostConfig +
  hcf_ShmSize :: goint
  hcf_NetworkMode :: string
  hcf_ExtraHosts :: "string list"
  hcf_PortBindings :: "(string, string list) fmap"

record create_config =
  ccf_Name :: string
  ccf_Config :: docker_Config
  ccf_HostConfig :: "host_config option"
  ccf_EndpointsConfig :: "(string, EndpointSettings) fmap"

record docker_Version =
  dv_Version :: string
  dv_Os :: string

record NetworkResource =
  nr_Name :: string
  nr_Containers :: "(string, docker_Endpoint) fmap"

record ExecStartCheck =
  xs_Detach :: bool
  xs_Tty :: bool

text \<open>\<open>lib_NotFound\<close> is \<open>dockerapi.IsErrNotFound\<close>, \<open>lib_AuthText\<close> the JSON text of the credentials.\<close>

record 'e docker_lib =
  lib_NegotiateAPIVersion :: "int \<Rightarrow> 'e \<Rightarrow> 'e"
  lib_ContainerList :: "docker_options \<Rightarrow> ('e, docker_Container list) call"
  lib_ContainerInspect :: "string \<Rightarrow> ('e, ContainerJSON) call"
  lib_ContainerCreate :: "create_config \<Rightarrow> ('e, string) call"
  lib_ContainerStart :: "string \<Rightarrow> ('e, unit) call"
  lib_ContainerRestart :: "string \<Rightarrow> int \<Rightarrow> ('e, unit) call"
  lib_ContainerStop :: "string \<Rightarrow> int \<Rightarrow> ('e, unit) call"
  lib_ContainerWait :: "string \<Rightarrow> int \<Rightarrow> ('e, unit) io"
  lib_ContainerRemove :: "string \<Rightarrow> docker_options \<Rightarrow> ('e, unit) call"
  lib_ContainerUpdate :: "string \<Rightarrow> docker_options \<Rightarrow> ('e, unit) call"
  lib_ContainerLogs :: "string \<Rightarrow> docker_options \<Rightarrow> 'e \<Rightarrow> string result"
  lib_ContainerAttach :: "string \<Rightarrow> docker_options \<Rightarrow> ('e, string) io"
  lib_ImageInspectWithRaw :: "string \<Rightarrow> ('e, docker_Image) call"
  lib_ImageList :: "docker_options \<Rightarrow> ('e, docker_Image list) call"
  lib_ImagePull :: "string \<Rightarrow> docker_options \<Rightarrow> ('e, pull_event list) io"
  lib_ImageRemove :: "string \<Rightarrow> docker_options \<Rightarrow> ('e, string list) call"
  lib_ServerVersion :: "('e, docker_Version) call"
  lib_Info :: "('e, docker_InfoData) call"
  lib_ExecCreate :: "string \<Rightarrow> ExecConfig \<Rightarrow> ('e, string) call"
  lib_ExecAttach :: "string \<Rightarrow> ExecStartCheck \<Rightarrow> ('e, string) call"
  lib_ExecStart :: "string \<Rightarrow> ExecStartCheck \<Rightarrow> ('e, unit) io"
  lib_ExecInspect :: "string \<Rightarrow> ('e, goint) call"
  lib_NetworkInspect :: "string \<Rightarrow> ('e, NetworkResource) call"
  lib_NetworkCreate :: "string \<Rightarrow> docker_NetworkOptions \<Rightarrow> ('e, string) call"
  lib_NetworkConnect :: "string \<Rightarrow> string \<Rightarrow> EndpointSettings \<Rightarrow> ('e, unit) call"
  lib_NetworkDisconnect :: "string \<Rightarrow> string \<Rightarrow> bool \<Rightarrow> ('e, unit) call"
  lib_NetworkRemove :: "string \<Rightarrow> ('e, unit) call"
  lib_NotFound :: "error \<Rightarrow> bool"
  lib_AuthText :: "docker_options \<Rightarrow> string result"
  lib_StdCopy :: "string \<Rightarrow> (string \<times> string) \<times> unit result"

section \<open>The interface\<close>

text \<open>What a caller hands over for the streams of a command: \<open>None\<close> is a nil reader.\<close>

record StreamOptions =
  so_RawTerminal :: bool
  so_InputStream :: "string option"
  so_OutputStream :: bool
  so_ErrorStream :: bool
  so_ExecStarted :: bool

text \<open>What arrives on the streams, and on the connection of the container.\<close>

record streams =
  st_out :: string
  st_err :: string
  st_sent :: string
  st_started :: bool

record 'e docker_interface =
  ListContainers :: "docker_options \<Rightarrow> ('e, docker_Container list) io"
  InspectContainer :: "string \<Rightarrow> ('e, ContainerJSON) io"
  CreateContainer :: "create_config \<Rightarrow> ('e, string) io"
  StartContainer :: "string \<Rightarrow> ('e, unit) io"
  RestartContainer :: "string \<Rightarrow> int \<Rightarrow> ('e, unit) io"
  StopContainer :: "string \<Rightarrow> int \<Rightarrow> ('e, unit) io"
  WaitContainer :: "string \<Rightarrow> int \<Rightarrow> ('e, unit) io"
  UpdateContainerResources :: "string \<Rightarrow> docker_options \<Rightarrow> ('e, unit) io"
  RemoveContainer :: "string \<Rightarrow> docker_options \<Rightarrow> ('e, unit) io"
  InspectImageByRef :: "string \<Rightarrow> ('e, docker_Image) io"
  InspectImageByID :: "string \<Rightarrow> ('e, docker_Image) io"
  ListImages :: "docker_options \<Rightarrow> ('e, docker_Image list) io"
  PullImage :: "string \<Rightarrow> docker_options \<Rightarrow> docker_options \<Rightarrow> ('e, unit) io"
  RemoveImage :: "string \<Rightarrow> docker_options \<Rightarrow> ('e, string list) io"
  Logs :: "string \<Rightarrow> docker_options \<Rightarrow> StreamOptions \<Rightarrow> ('e, streams) io"
  DockerVersion :: "('e, docker_Version) io"
  DockerInfo :: "('e, docker_InfoData) io"
  AttachExec :: "string \<Rightarrow> ExecStartCheck \<Rightarrow> ('e, string) io"
  CreateExec :: "string \<Rightarrow> ExecConfig \<Rightarrow> ('e, string) io"
  StartExec :: "string \<Rightarrow> ExecStartCheck \<Rightarrow> StreamOptions \<Rightarrow> ('e, streams) io"
  InspectExec :: "string \<Rightarrow> ('e, goint) io"
  InspectNetwork :: "string \<Rightarrow> ('e, NetworkResource) io"
  CreateNetwork :: "string \<Rightarrow> ('e, string) io"
  ConnectContainerToNetwork :: "string \<Rightarrow> string \<Rightarrow> ('e, unit) io"
  DisconnectContainerFromNetwork :: "string \<Rightarrow> string \<Rightarrow> bool \<Rightarrow> ('e, unit) io"
  RemoveNetwork :: "string \<Rightarrow> ('e, unit) io"
  ServerVersion :: "('e, docker_Version) io"

section \<open>The client\<close>

record 'e skupDockerClient =
  sk_timeout :: int
  sk_imagePullProgressDeadline :: int
  sk_client :: "'e docker_lib"

definition nanosecond_second :: int where "nanosecond_second = 1000000000"

definition defaultTimeout :: int where
  "defaultTimeout = 2 * 60 * nanosecond_second - 1 * nanosecond_second"

definition defaultShmSize :: goint where
  "defaultShmSize = 1024 * 1024 * 64"

definition defaultImagePullingProgressReportInterval :: int where
  "defaultImagePullingProgressReportInterval = 10 * nanosecond_second"

definition newSkupDockerClient :: "'e docker_lib \<Rightarrow> int \<Rightarrow> int \<Rightarrow> ('e, 'e skupDockerClient) io" where
  "newSkupDockerClient dockerClient requestTimeout deadline =
     (let requestTimeout = (if requestTimeout = 0 then defaultTimeout else requestTimeout)
      in (\<lambda>e. (lib_NegotiateAPIVersion dockerClient requestTimeout e,
           Inr \<lparr>sk_timeout = requestTimeout, sk_imagePullProgressDeadline = deadline, sk_client = dockerClient\<rparr>)))"

text \<open>\<open>getTimeoutContext\<close> and \<open>getCustomTimeoutContext\<close> with the look at the context after the call.\<close>

definition in_time :: "'e skupDockerClient \<Rightarrow> ('e, 'a) call \<Rightarrow> ('e, 'a) io" where
  "in_time d f = timed_do (f (Some (sk_timeout d)))"

definition customTimeout :: "'e skupDockerClient \<Rightarrow> int \<Rightarrow> int" where
  "customTimeout d timeout = (if sk_timeout d > timeout then sk_timeout d else timeout)"

definition skup_ListContainers :: "'e skupDockerClient \<Rightarrow> docker_options \<Rightarrow> ('e, docker_Container list) io" where
  "skup_ListContainers d options = in_time d (lib_ContainerList (sk_client d) options)"

definition skup_InspectContainer :: "'e skupDockerClient \<Rightarrow> string \<Rightarrow> ('e, ContainerJSON) io" where
  "skup_InspectContainer d cid = in_time d (lib_ContainerInspect (sk_client d) cid)"

definition with_shm :: "create_config \<Rightarrow> create_config" where
  "with_shm opts = opts\<lparr>ccf_HostConfig := map_option
     (\<lambda>h. if hcf_ShmSize h <=s 0 then h\<lparr>hcf_ShmSize := defaultShmSize\<rparr> else h) (ccf_HostConfig opts)\<rparr>"

definition skup_CreateContainer :: "'e skupDockerClient \<Rightarrow> create_config \<Rightarrow> ('e, string) io" where
  "skup_CreateContainer d opts = in_time d (lib_ContainerCreate (sk_client d) (with_shm opts))"

definition skup_StartContainer :: "'e skupDockerClient \<Rightarrow> string \<Rightarrow> ('e, unit) io" where
  "skup_StartContainer d cid = in_time d (lib_ContainerStart (sk_client d) cid)"

definition skup_RestartContainer :: "'e skupDockerClient \<Rightarrow> string \<Rightarrow> int \<Rightarrow> ('e, unit) io" where
  "skup_RestartContainer d cid timeout = in_time d (lib_ContainerRestart (sk_client d) cid timeout)"

definition skup_StopContainer :: "'e skupDockerClient \<Rightarrow> string \<Rightarrow> int \<Rightarrow> ('e, unit) io" where
  "skup_StopContainer d cid timeout =
     timed_do (lib_ContainerStop (sk_client d) cid timeout (Some (customTimeout d timeout)))"

text \<open>
  The container that is waited for is the router, whatever \<open>cid\<close> says. \<open>lib_ContainerWait\<close> is what arrives on the
  channel of errors; a wait on which nothing arrives there does not return.
\<close>

definition skup_WaitContainer :: "'e skupDockerClient \<Rightarrow> string \<Rightarrow> int \<Rightarrow> ('e, unit) io" where
  "skup_WaitContainer d cid timeout = lib_ContainerWait (sk_client d) ''skupper-router'' (sk_timeout d)"

definition skup_RemoveContainer :: "'e skupDockerClient \<Rightarrow> string \<Rightarrow> docker_options \<Rightarrow> ('e, unit) io" where
  "skup_RemoveContainer d cid opts = in_time d (lib_ContainerRemove (sk_client d) cid opts)"

definition skup_UpdateContainerResources :: "'e skupDockerClient \<Rightarrow> string \<Rightarrow> docker_options \<Rightarrow> ('e, unit) io" where
  "skup_UpdateContainerResources d cid cfg = in_time d (lib_ContainerUpdate (sk_client d) cid cfg)"

section \<open>Images\<close>

definition ImageNotFoundError :: "string \<Rightarrow> error" where
  "ImageNotFoundError cid = Err (''no such image: '' @ [CHR 0x22] @ cid @ [CHR 0x22])"

definition not_found_as :: "'e skupDockerClient \<Rightarrow> string \<Rightarrow> 'a result \<Rightarrow> 'a result" where
  "not_found_as d ref r = (case r of
       Inl err \<Rightarrow> Inl (if lib_NotFound (sk_client d) err then ImageNotFoundError ref else err)
     | Inr x \<Rightarrow> Inr x)"

text \<open>A time-out is looked at before the error, so it is never taken for a missing image.\<close>

fun timed_image :: "'e skupDockerClient \<Rightarrow> string \<Rightarrow> 'a timed \<Rightarrow> 'a result" where
  "timed_image d ref (True, r) = Inl operationTimeout"
| "timed_image d ref (False, r) = not_found_as d ref r"

definition inspectImageRaw :: "'e skupDockerClient \<Rightarrow> string \<Rightarrow> ('e, docker_Image) io" where
  "inspectImageRaw d ref = (\<lambda>e. case lib_ImageInspectWithRaw (sk_client d) ref (Some (sk_timeout d)) e of
       (e', t) \<Rightarrow> (e', timed_image d ref t))"

definition skup_InspectImageByID :: "'e skupDockerClient \<Rightarrow> string \<Rightarrow> ('e, docker_Image) io" where
  "skup_InspectImageByID d imageID = inspectImageRaw d imageID"

definition skup_InspectImageByRef :: "'e skupDockerClient \<Rightarrow> string \<Rightarrow> ('e, docker_Image) io" where
  "skup_InspectImageByRef d imageRef = inspectImageRaw d imageRef"

definition skup_ListImages :: "'e skupDockerClient \<Rightarrow> docker_options \<Rightarrow> ('e, docker_Image list) io" where
  "skup_ListImages d opts = in_time d (lib_ImageList (sk_client d) opts)"

definition skup_RemoveImage :: "'e skupDockerClient \<Rightarrow> string \<Rightarrow> docker_options \<Rightarrow> ('e, string list) io" where
  "skup_RemoveImage d img opts = (\<lambda>e. case lib_ImageRemove (sk_client d) img opts (Some (sk_timeout d)) e of
       (e', t) \<Rightarrow> (e', timed_image d img t))"

text \<open>\<open>base64.URLEncoding\<close>, three characters to four.\<close>

definition base64_char :: "nat \<Rightarrow> char" where
  "base64_char n = (if n < 26 then char_of (65 + n) else if n < 52 then char_of (97 + (n - 26))
     else if n < 62 then char_of (48 + (n - 52)) else if n = 62 then CHR ''-'' else CHR ''_'')"

fun base64_url :: "string \<Rightarrow> string" where
  "base64_url [] = []"
| "base64_url [a] = (let x = of_char a :: nat in
     [base64_char (x div 4), base64_char (x mod 4 * 16), CHR ''='', CHR ''=''])"
| "base64_url [a, b] = (let x = of_char a :: nat; y = of_char b in
     [base64_char (x div 4), base64_char (x mod 4 * 16 + y div 16), base64_char (y mod 16 * 4), CHR ''=''])"
| "base64_url (a # b # c # rest) = (let x = of_char a :: nat; y = of_char b; z = of_char c in
     [base64_char (x div 4), base64_char (x mod 4 * 16 + y div 16), base64_char (y mod 16 * 4 + z div 64),
      base64_char (z mod 64)] @ base64_url rest)"

text \<open>The encoder ends the document with a new line.\<close>

definition base64EncodeAuth :: "'e docker_lib \<Rightarrow> docker_options \<Rightarrow> string result" where
  "base64EncodeAuth lib auth = rbind (lib_AuthText lib auth) (\<lambda>buf. Inr (base64_url (buf @ [CHR 0x0A])))"

text \<open>The stream of a pull is read as the driver reads it, with the reporter of \<open>Docker_Driver\<close> beside it.\<close>

definition skup_PullImage ::
  "'e skupDockerClient \<Rightarrow> string \<Rightarrow> docker_options \<Rightarrow> docker_options \<Rightarrow> ('e, unit) io" where
  "skup_PullImage d img auth opts =
     io_bind (io_lift (base64EncodeAuth (sk_client d) auth)) (\<lambda>base64Auth.
     io_bind (lib_ImagePull (sk_client d) img (fmupd ''RegistryAuth'' base64Auth opts)) (\<lambda>resp.
     io_bind (io_lift (pull_stream resp)) (\<lambda>_. io_return ())))"

text \<open>The reporter: does it cancel a pull that began at \<open>now\<close>? Its code is that of the driver, but the deadline is the client's.\<close>

definition skup_pull_cancelled :: "'e skupDockerClient \<Rightarrow> int \<Rightarrow> reporter_event list \<Rightarrow> bool" where
  "skup_pull_cancelled d now es = reporter (sk_imagePullProgressDeadline d) (newProgress now) es"

section \<open>Versions, commands and streams\<close>

definition skup_ServerVersion :: "'e skupDockerClient \<Rightarrow> ('e, docker_Version) io" where
  "skup_ServerVersion d = in_time d (lib_ServerVersion (sk_client d))"

definition skup_Version :: "'e skupDockerClient \<Rightarrow> ('e, docker_Version) io" where
  "skup_Version d = in_time d (lib_ServerVersion (sk_client d))"

definition skup_Info :: "'e skupDockerClient \<Rightarrow> ('e, docker_InfoData) io" where
  "skup_Info d = in_time d (lib_Info (sk_client d))"

definition skup_AttachExec :: "'e skupDockerClient \<Rightarrow> string \<Rightarrow> ExecStartCheck \<Rightarrow> ('e, string) io" where
  "skup_AttachExec d cid opts = in_time d (lib_ExecAttach (sk_client d) cid opts)"

definition skup_CreateExec :: "'e skupDockerClient \<Rightarrow> string \<Rightarrow> ExecConfig \<Rightarrow> ('e, string) io" where
  "skup_CreateExec d cid opts = in_time d (lib_ExecCreate (sk_client d) cid opts)"

definition skup_InspectExec :: "'e skupDockerClient \<Rightarrow> string \<Rightarrow> ('e, goint) io" where
  "skup_InspectExec d cid = in_time d (lib_ExecInspect (sk_client d) cid)"

text \<open>
  The output of a container goes to the streams the caller gave, what has no stream is discarded. With a
  terminal the output is one stream of bytes, without one \<open>StdCopy\<close> separates the two.
\<close>

definition redirectResponseToOutputStream ::
  "'e docker_lib \<Rightarrow> bool \<Rightarrow> bool \<Rightarrow> bool \<Rightarrow> string \<Rightarrow> (string \<times> string) \<times> unit result" where
  "redirectResponseToOutputStream lib tty outputStream errorStream resp =
     (let ((out, err), r) = (if tty then ((resp, []), Inr ()) else lib_StdCopy lib resp)
      in ((if outputStream then out else [], if errorStream then err else []), r))"

definition no_streams :: streams where
  "no_streams = \<lparr>st_out = [], st_err = [], st_sent = [], st_started = False\<rparr>"

text \<open>
  The two goroutines run until the output has ended, when there is a stream for it, or else until the input
  has been sent. \<open>sent\<close> says how much of the input was sent when the output ended first.
\<close>

definition holdHijackedConnection ::
  "'e docker_lib \<Rightarrow> nat \<Rightarrow> bool \<Rightarrow> StreamOptions \<Rightarrow> string \<Rightarrow> streams \<times> unit result" where
  "holdHijackedConnection lib sent tty so resp =
     (let input = (case so_InputStream so of None \<Rightarrow> [] | Some i \<Rightarrow> i) in
      if so_OutputStream so \<or> so_ErrorStream so then
        (let ((out, err), r) = redirectResponseToOutputStream lib tty (so_OutputStream so) (so_ErrorStream so) resp
         in (no_streams\<lparr>st_out := out, st_err := err, st_sent := take sent input\<rparr>, r))
      else (no_streams\<lparr>st_sent := input\<rparr>, Inr ()))"

definition skup_Logs ::
  "'e skupDockerClient \<Rightarrow> string \<Rightarrow> docker_options \<Rightarrow> StreamOptions \<Rightarrow> ('e, streams) io" where
  "skup_Logs d cid opts sopts = io_bind (io_ask (lib_ContainerLogs (sk_client d) cid opts)) (\<lambda>resp.
     (let ((out, err), r) = redirectResponseToOutputStream (sk_client d) (so_RawTerminal sopts)
          (so_OutputStream sopts) (so_ErrorStream sopts) resp
      in io_bind (io_lift r) (\<lambda>_. io_return (no_streams\<lparr>st_out := out, st_err := err\<rparr>))))"

text \<open>A context without a deadline: only the error of the call counts.\<close>

definition skup_StartExec ::
  "nat \<Rightarrow> 'e skupDockerClient \<Rightarrow> string \<Rightarrow> ExecStartCheck \<Rightarrow> StreamOptions \<Rightarrow> ('e, streams) io" where
  "skup_StartExec sent d startExec opts sopts =
     (if xs_Detach opts then io_bind (lib_ExecStart (sk_client d) startExec opts) (\<lambda>_. io_return no_streams)
      else io_bind (\<lambda>e. case lib_ExecAttach (sk_client d) startExec
             \<lparr>xs_Detach = xs_Detach opts, xs_Tty = xs_Tty opts\<rparr> None e of (e', t) \<Rightarrow> (e', snd t)) (\<lambda>resp.
        (let (s, r) = holdHijackedConnection (sk_client d) sent (so_RawTerminal sopts \<or> xs_Tty opts) sopts resp
         in io_bind (io_lift r) (\<lambda>_. io_return (s\<lparr>st_started := so_ExecStarted sopts\<rparr>)))))"

definition skup_AttachToContainer ::
  "nat \<Rightarrow> 'e skupDockerClient \<Rightarrow> string \<Rightarrow> docker_options \<Rightarrow> StreamOptions \<Rightarrow> ('e, streams) io" where
  "skup_AttachToContainer sent d cid opts sopts =
     io_bind (lib_ContainerAttach (sk_client d) cid opts) (\<lambda>resp.
       (let (s, r) = holdHijackedConnection (sk_client d) sent (so_RawTerminal sopts) sopts resp
        in io_bind (io_lift r) (\<lambda>_. io_return s)))"

text \<open>\<open>No such container: [0-9a-z]+\<close>, anywhere in the text of the error.\<close>

definition lower_alnum :: "char \<Rightarrow> bool" where
  "lower_alnum c \<longleftrightarrow> is_digit c \<or> (97 \<le> (of_char c :: nat) \<and> (of_char c :: nat) \<le> 122)"

fun names_container :: "string \<Rightarrow> bool" where
  "names_container [] = False"
| "names_container (c # s) =
     ((HasPrefix (c # s) ''No such container: '' \<and> (case drop 19 (c # s) of [] \<Rightarrow> False | x # _ \<Rightarrow> lower_alnum x))
      \<or> names_container s)"

fun error_string :: "error \<Rightarrow> string" where
  "error_string (Err s) = s"
| "error_string (Wrap s e) = s @ '': '' @ error_string e"
| "error_string (Panic s) = s"

definition IsContainerNotFoundError :: "error \<Rightarrow> bool" where
  "IsContainerNotFoundError err = names_container (error_string err)"

section \<open>Networks\<close>

definition skup_InspectNetwork :: "'e skupDockerClient \<Rightarrow> string \<Rightarrow> ('e, NetworkResource) io" where
  "skup_InspectNetwork d cid = in_time d (lib_NetworkInspect (sk_client d) cid)"

definition skup_CreateNetwork :: "'e skupDockerClient \<Rightarrow> string \<Rightarrow> ('e, string) io" where
  "skup_CreateNetwork d cid = in_time d (lib_NetworkCreate (sk_client d) cid \<lparr>dn_CheckDuplicate = True,
     dn_Driver = ''bridge'', dn_Options = fmap_of_list [(''com.docker.network.bridge.name'', ''skupper0''),
       (''com.docker.network.bridge.enable_icc'', ''true''),
       (''com.docker.network.bridge.enable_ip_masquerade'', ''true'')]\<rparr>)"

definition skup_ConnectContainerToNetwork :: "'e skupDockerClient \<Rightarrow> string \<Rightarrow> string \<Rightarrow> ('e, unit) io" where
  "skup_ConnectContainerToNetwork d cid containerid =
     in_time d (lib_NetworkConnect (sk_client d) cid containerid zero_EndpointSettings)"

definition skup_DisconnectContainerFromNetwork ::
  "'e skupDockerClient \<Rightarrow> string \<Rightarrow> string \<Rightarrow> bool \<Rightarrow> ('e, unit) io" where
  "skup_DisconnectContainerFromNetwork d cid containerid force =
     in_time d (lib_NetworkDisconnect (sk_client d) cid containerid force)"

definition skup_RemoveNetwork :: "'e skupDockerClient \<Rightarrow> string \<Rightarrow> ('e, unit) io" where
  "skup_RemoveNetwork d cid = in_time d (lib_NetworkRemove (sk_client d) cid)"

section \<open>The client as the interface\<close>

definition skup_interface :: "nat \<Rightarrow> 'e skupDockerClient \<Rightarrow> 'e docker_interface" where
  "skup_interface sent d = \<lparr>ListContainers = skup_ListContainers d, InspectContainer = skup_InspectContainer d,
     CreateContainer = skup_CreateContainer d, StartContainer = skup_StartContainer d,
     RestartContainer = skup_RestartContainer d, StopContainer = skup_StopContainer d,
     WaitContainer = skup_WaitContainer d, UpdateContainerResources = skup_UpdateContainerResources d,
     RemoveContainer = skup_RemoveContainer d, InspectImageByRef = skup_InspectImageByRef d,
     InspectImageByID = skup_InspectImageByID d, ListImages = skup_ListImages d, PullImage = skup_PullImage d,
     RemoveImage = skup_RemoveImage d, Logs = skup_Logs d, DockerVersion = skup_Version d,
     DockerInfo = skup_Info d, AttachExec = skup_AttachExec d, CreateExec = skup_CreateExec d,
     StartExec = skup_StartExec sent d, InspectExec = skup_InspectExec d,
     InspectNetwork = skup_InspectNetwork d, CreateNetwork = skup_CreateNetwork d,
     ConnectContainerToNetwork = skup_ConnectContainerToNetwork d,
     DisconnectContainerFromNetwork = skup_DisconnectContainerFromNetwork d,
     RemoveNetwork = skup_RemoveNetwork d, ServerVersion = skup_ServerVersion d\<rparr>"

text \<open>\<open>NewClient\<close> with an endpoint, \<open>NewClientWithOpts\<close> without; nothing calls it.\<close>

definition getDockerClient :: "(string \<Rightarrow> 'e docker_lib result) \<Rightarrow> 'e docker_lib result \<Rightarrow> string \<Rightarrow> 'e docker_lib result" where
  "getDockerClient newClient fromEnv dockerEndpoint = (if dockerEndpoint \<noteq> [] then newClient dockerEndpoint else fromEnv)"

text \<open>\<open>ConnectToDockerOrDie\<close> ends the program where the library gives no client.\<close>

definition ConnectToDockerOrDie ::
  "nat \<Rightarrow> 'e docker_lib result \<Rightarrow> int \<Rightarrow> int \<Rightarrow> ('e, 'e docker_interface) io" where
  "ConnectToDockerOrDie sent newClient requestTimeout deadline =
     (case newClient of
        Inl err \<Rightarrow> io_fail (wrap_error ''Couldn't connect to docker'' err)
      | Inr client \<Rightarrow> io_bind (newSkupDockerClient client requestTimeout deadline)
          (\<lambda>d. io_return (skup_interface sent d)))"

end
