(* ===== verification/Docker_Access.thy ===== *)
theory Docker_Access imports Docker_Wrapper Router_Spec begin

text \<open>
  \<open>pkg/docker\<close>: containers, networks and environment variables on the interface \<open>libdocker.Interface\<close>,
  and \<open>Exec\<close> of \<open>pkg/qdr/container.go\<close>. It is the access to docker from before the drivers; the controller
  still imports it.

  \<open>dd\<close> is the interface, \<open>txt\<close> the text the JSON encoder writes for a document, \<open>ev\<close> the environment of
  the process. A loop over a map takes its order from a function \<open>rng\<close> (\<open>rm\<close> for the mounts, \<open>re\<close> for the
  environment) that lists the entries. Requests are values: that \<open>CreateContainer\<close> of the client also fills
  in the size of the shared memory in the caller's copy of a request is not seen in what the \<open>New\<close> functions
  give back.
\<close>

type_synonym map_entries = "(string, string) fmap \<Rightarrow> (string \<times> string) list"

section \<open>Environment variables\<close>

fun FindEnvVar :: "string list \<Rightarrow> string \<Rightarrow> string" where
  "FindEnvVar [] name = []"
| "FindEnvVar (v # ev) name = (if HasPrefix v name then TrimPrefix v (name @ ''='') else FindEnvVar ev name)"

definition SetEnvVar :: "string list \<Rightarrow> string \<Rightarrow> string \<Rightarrow> string list" where
  "SetEnvVar current name val = map (\<lambda>v. if HasPrefix v name then name @ ''='' @ val else v) current"

text \<open>\<open>equivalentProxyConfig\<close> of the controller.\<close>

definition equivalentProxyConfig :: "(json \<Rightarrow> string) \<Rightarrow> ServiceInterface \<Rightarrow> string list \<Rightarrow> bool" where
  "equivalentProxyConfig txt desired ev \<longleftrightarrow>
     txt (enc_ServiceInterface desired) = FindEnvVar ev ''SKUPPER_PROXY_CONFIG''"

section \<open>Networks\<close>

definition pkg_InspectNetwork :: "string \<Rightarrow> 'e docker_interface \<Rightarrow> ('e, NetworkResource) io" where
  "pkg_InspectNetwork name dd = InspectNetwork dd name"

definition pkg_RemoveNetwork ::
  "((string, docker_Endpoint) fmap \<Rightarrow> (string \<times> docker_Endpoint) list) \<Rightarrow> string \<Rightarrow> 'e docker_interface
    \<Rightarrow> ('e, unit) io" where
  "pkg_RemoveNetwork rng name dd = io_bind (InspectNetwork dd name) (\<lambda>tnr.
     io_bind (io_each (\<lambda>(_, container). DisconnectContainerFromNetwork dd name (de_Name container) True)
       (rng (nr_Containers tnr))) (\<lambda>_.
       RemoveNetwork dd name))"

definition NewTransportNetwork :: "string \<Rightarrow> 'e docker_interface \<Rightarrow> ('e, string) io" where
  "NewTransportNetwork name dd =
     (if name \<noteq> [] then CreateNetwork dd name else io_fail (Err ''Unable to create network''))"

section \<open>Calls on one container\<close>

definition ten_seconds :: int where "ten_seconds = 10 * nanosecond_second"

definition pkg_CreateContainer :: "create_config \<Rightarrow> 'e docker_interface \<Rightarrow> ('e, string) io" where
  "pkg_CreateContainer opts dd = CreateContainer dd opts"

definition pkg_InspectContainer :: "string \<Rightarrow> 'e docker_interface \<Rightarrow> ('e, ContainerJSON) io" where
  "pkg_InspectContainer name dd = InspectContainer dd name"

definition pkg_ListContainers :: "docker_options \<Rightarrow> 'e docker_interface \<Rightarrow> ('e, docker_Container list) io" where
  "pkg_ListContainers opts dd = ListContainers dd opts"

definition pkg_ConnectContainerToNetwork :: "string \<Rightarrow> string \<Rightarrow> 'e docker_interface \<Rightarrow> ('e, unit) io" where
  "pkg_ConnectContainerToNetwork network name dd = ConnectContainerToNetwork dd network name"

definition pkg_RestartContainer :: "string \<Rightarrow> 'e docker_interface \<Rightarrow> ('e, unit) io" where
  "pkg_RestartContainer name dd = RestartContainer dd name ten_seconds"

definition pkg_RemoveContainer :: "string \<Rightarrow> 'e docker_interface \<Rightarrow> ('e, unit) io" where
  "pkg_RemoveContainer name dd = RemoveContainer dd name fmempty"

definition pkg_StopContainer :: "string \<Rightarrow> 'e docker_interface \<Rightarrow> ('e, unit) io" where
  "pkg_StopContainer name dd = StopContainer dd name ten_seconds"

definition pkg_StartContainer :: "string \<Rightarrow> 'e docker_interface \<Rightarrow> ('e, unit) io" where
  "pkg_StartContainer name dd = StartContainer dd name"

definition pkg_WaitContainer :: "string \<Rightarrow> 'e docker_interface \<Rightarrow> ('e, unit) io" where
  "pkg_WaitContainer name dd = WaitContainer dd name ten_seconds"

section \<open>The proxy of a service\<close>

definition getLabels :: "(json \<Rightarrow> string) \<Rightarrow> ServiceInterface \<Rightarrow> bool \<Rightarrow> (string, string) fmap" where
  "getLabels txt service isLocal = fmap_of_list [(''skupper.io/application'', ''skupper-proxy''),
     (''skupper.io/address'', si_Address service), (''skupper.io/target'', ''''),
     (''skupper.io/targetType'', if isLocal then ''host'' else ''container''),
     (''skupper.io/component'', ''proxy''), (''internal.skupper.io/type'', ''proxy''),
     (''internal.skupper.io/service'', si_Address service), (''skupper.io/origin'', si_Origin service),
     (''skupper.io/last-applied'', txt (enc_ServiceInterface service))]"

text \<open>The first entry of the environment is the value of \<open>SKUPPER_TMPDIR\<close> alone.\<close>

definition proxy_env :: "(string \<Rightarrow> string) \<Rightarrow> string \<Rightarrow> string list" where
  "proxy_env ev qdrConfig = [ev ''SKUPPER_TMPDIR'', ''QDROUTERD_CONF='' @ qdrConfig,
     ''QDROUTERD_CONF_TYPE=json'', ''NAMESPACE=skupper'']
     @ (if ev ''PN_TRACE_FRM'' \<noteq> [] then [''PN_TRACE_FRM=1''] else [])"

definition extra_host :: "string \<Rightarrow> string \<Rightarrow> ServiceInterfaceTarget \<Rightarrow> string list" where
  "extra_host host osType t =
     (if t_Selector t = host_selector then (case SplitN2 (t_Name t) (CHR '':'') of
        [n, a] \<Rightarrow> [n @ '':'' @ (if osType = ''linux'' \<and> a = ''host-gateway'' then host else a)] | _ \<Rightarrow> [])
      else [])"

definition proxy_port :: "ServiceInterface \<Rightarrow> string" where
  "proxy_port service = Itoa (sint (si_Port service)) @ ''/'' @ si_Protocol service"

definition bind_of :: "string \<Rightarrow> string \<Rightarrow> docker_Bind" where
  "bind_of source target = \<lparr>db_Type = ''bind'', db_Source = source, db_Target = target\<rparr>"

definition host_config_of :: "docker_Bind list \<Rightarrow> host_config" where
  "host_config_of mounts = \<lparr>dh_Mounts = mounts, dh_Privileged = True, hcf_ShmSize = 0, hcf_NetworkMode = [],
     hcf_ExtraHosts = [], hcf_PortBindings = fmempty\<rparr>"

definition transport_endpoint :: "(string, EndpointSettings) fmap" where
  "transport_endpoint = fmap_of_list [(TransportNetworkName, zero_EndpointSettings)]"

definition getProxyContainerCreateConfig ::
  "(json \<Rightarrow> string) \<Rightarrow> (string \<Rightarrow> string) \<Rightarrow> ServiceInterface \<Rightarrow> string \<Rightarrow> bool \<Rightarrow> string \<Rightarrow> create_config" where
  "getProxyContainerCreateConfig txt ev service qdrConfig mapToHost osType =
     (let imageName = (if ev ''QDROUTERD_IMAGE'' \<noteq> [] then ev ''QDROUTERD_IMAGE'' else DefaultTransportImage);
          host = (if ev ''SKUPPER_HOST'' \<noteq> [] then ev ''SKUPPER_HOST'' else ''172.17.0.1'')
      in \<lparr>ccf_Name = si_Address service,
        ccf_Config = \<lparr>dc_Hostname = si_Address service, dc_Image = imageName, dc_Env = proxy_env ev qdrConfig,
          dc_Cmd = [], dc_Healthcheck = None, dc_Labels = getLabels txt service True,
          dc_ExposedPorts = (if mapToHost then {|proxy_port service|} else {||})\<rparr>,
        ccf_HostConfig = Some ((host_config_of [bind_of
            (GetSkupperPath (ev ''SKUPPER_TMPDIR'') CertsPath @ ''/'' @ ''skupper-internal'')
            ''/etc/qpid-dispatch-certs/skupper-internal/''])
          \<lparr>hcf_NetworkMode := ''skupper-network'',
           hcf_ExtraHosts := concat (map (extra_host host osType) (si_Targets service)),
           hcf_PortBindings := (if mapToHost
             then fmap_of_list [(proxy_port service, [Itoa (sint (si_Port service))])] else fmempty)\<rparr>),
        ccf_EndpointsConfig = transport_endpoint\<rparr>)"

definition NewProxyContainer ::
  "(json \<Rightarrow> string) \<Rightarrow> (string \<Rightarrow> string) \<Rightarrow> ServiceInterface \<Rightarrow> string \<Rightarrow> bool \<Rightarrow> 'e docker_interface
    \<Rightarrow> ('e, create_config) io" where
  "NewProxyContainer txt ev svcDef qdrConfig mapToHost dd = io_bind (ServerVersion dd) (\<lambda>version.
     (let opts = getProxyContainerCreateConfig txt ev svcDef qdrConfig mapToHost (dv_Os version)
      in io_bind (CreateContainer dd opts) (\<lambda>_. io_return opts)))"

section \<open>Router and controller\<close>

definition mount_again :: "docker_Mount \<Rightarrow> docker_Bind" where
  "mount_again v = \<lparr>db_Type = dm_Type v, db_Source = dm_Source v, db_Target = dm_Destination v\<rparr>"

definition legacy_health :: HealthConfig where
  "legacy_health = \<lparr>hc_Test = [''curl --fail -s http://localhost:9090/healthz || exit 1''], hc_Interval = 0,
     hc_Timeout = 0, hc_StartPeriod = 60 * nanosecond_second, hc_Retries = 0\<rparr>"

text \<open>Of the steps after the inspection every failure is logged and the next step follows.\<close>

definition replace_container :: "create_config \<Rightarrow> 'e docker_interface \<Rightarrow> ('e, unit) io" where
  "replace_container opts dd = (let name = ccf_Name opts in
     io_bind (io_logged (pkg_StopContainer name dd)) (\<lambda>_.
     io_bind (io_logged (pkg_RemoveContainer name dd)) (\<lambda>_.
     io_bind (io_logged (pkg_CreateContainer opts dd)) (\<lambda>_.
       io_logged (pkg_StartContainer name dd)))))"

definition controller_again :: "ContainerJSON \<Rightarrow> create_config" where
  "controller_again current = (let cfg = cj_Config current in
     \<lparr>ccf_Name = ControllerDeploymentName,
      ccf_Config = \<lparr>dc_Hostname = dc_Hostname cfg, dc_Image = dc_Image cfg,
        dc_Env = SetEnvVar (dc_Env cfg) ''SKUPPER_PROXY_CONTROLLER_RESTART'' ''true'', dc_Cmd = dc_Cmd cfg,
        dc_Healthcheck = None, dc_Labels = dc_Labels cfg, dc_ExposedPorts = dc_ExposedPorts cfg\<rparr>,
      ccf_HostConfig = Some (host_config_of (map mount_again (cj_Mounts current))),
      ccf_EndpointsConfig = transport_endpoint\<rparr>)"

definition RestartControllerContainer :: "'e docker_interface \<Rightarrow> ('e, unit) io" where
  "RestartControllerContainer dd = io_bind (pkg_InspectContainer ControllerDeploymentName dd) (\<lambda>current.
     replace_container (controller_again current) dd)"

definition getControllerContainerCreateConfig :: "map_entries \<Rightarrow> map_entries \<Rightarrow> RouterSpec \<Rightarrow> create_config" where
  "getControllerContainerCreateConfig rm re van = \<lparr>ccf_Name = ControllerDeploymentName,
     ccf_Config = \<lparr>dc_Hostname = ControllerDeploymentName, dc_Image = ds_Image (rs_Controller van),
       dc_Env = map (\<lambda>(key, val). key @ ''='' @ val) (re (ds_EnvVar (rs_Controller van))), dc_Cmd = [''/app/controller''], dc_Healthcheck = None,
       dc_Labels = ds_Labels (rs_Controller van), dc_ExposedPorts = {||}\<rparr>,
     ccf_HostConfig = Some (host_config_of (map (\<lambda>(source, target). bind_of source target)
       (rm (ds_Mounts (rs_Controller van))))),
     ccf_EndpointsConfig = transport_endpoint\<rparr>"

definition NewControllerContainer ::
  "map_entries \<Rightarrow> map_entries \<Rightarrow> RouterSpec \<Rightarrow> 'e docker_interface \<Rightarrow> ('e, create_config) io" where
  "NewControllerContainer rm re van dd = (let opts = getControllerContainerCreateConfig rm re van
     in io_bind (CreateContainer dd opts) (\<lambda>_. io_return opts))"

definition transport_again :: "ContainerJSON \<Rightarrow> create_config" where
  "transport_again current = (let cfg = cj_Config current in
     \<lparr>ccf_Name = ''skupper-router'',
      ccf_Config = \<lparr>dc_Hostname = dc_Hostname cfg, dc_Image = dc_Image cfg, dc_Env = dc_Env cfg, dc_Cmd = [],
        dc_Healthcheck = Some legacy_health, dc_Labels = dc_Labels cfg, dc_ExposedPorts = dc_ExposedPorts cfg\<rparr>,
      ccf_HostConfig = Some (host_config_of (map mount_again (cj_Mounts current))),
      ccf_EndpointsConfig = transport_endpoint\<rparr>)"

definition RestartTransportContainer :: "'e docker_interface \<Rightarrow> ('e, unit) io" where
  "RestartTransportContainer dd = io_bind (pkg_InspectContainer ''skupper-router'' dd) (\<lambda>current.
     replace_container (transport_again current) dd)"

definition getTransportContainerCreateConfig :: "map_entries \<Rightarrow> map_entries \<Rightarrow> RouterSpec \<Rightarrow> create_config" where
  "getTransportContainerCreateConfig rm re van = \<lparr>ccf_Name = TransportDeploymentName,
     ccf_Config = \<lparr>dc_Hostname = TransportDeploymentName, dc_Image = ds_Image (rs_Transport van),
       dc_Env = map (\<lambda>(key, val). key @ ''='' @ val) (re (ds_EnvVar (rs_Transport van))), dc_Cmd = [], dc_Healthcheck = Some legacy_health,
       dc_Labels = ds_Labels (rs_Transport van), dc_ExposedPorts = ds_Ports (rs_Transport van)\<rparr>,
     ccf_HostConfig = Some (host_config_of (map (\<lambda>(source, target). bind_of source target)
       (rm (ds_Mounts (rs_Transport van))))),
     ccf_EndpointsConfig = transport_endpoint\<rparr>"

definition NewTransportContainer ::
  "map_entries \<Rightarrow> map_entries \<Rightarrow> RouterSpec \<Rightarrow> 'e docker_interface \<Rightarrow> ('e, create_config) io" where
  "NewTransportContainer rm re van dd = (let opts = getTransportContainerCreateConfig rm re van
     in io_bind (CreateContainer dd opts) (\<lambda>_. io_return opts))"

section \<open>Waiting, versions and commands\<close>

text \<open>
  \<open>RetryWithContext\<close> is outside the repository: the parameter \<open>retry\<close> makes the attempts on the state of
  the engine and the container inspected last. Both this container, nil where the last inspection failed,
  and the error of the retry are returned.
\<close>

type_synonym 'e polling = "'e \<times> ContainerJSON option"

definition status_reached :: "string \<Rightarrow> string \<Rightarrow> 'e docker_interface \<Rightarrow> ('e polling, bool) io" where
  "status_reached name status dd = (\<lambda>(e, _). case pkg_InspectContainer name dd e of
       (e', Inl err) \<Rightarrow> ((e', None), Inr False)
     | (e', Inr container) \<Rightarrow> ((e', Some container), Inr (cj_Status container = status)))"

definition WaitForContainerStatus ::
  "(('e polling, bool) io \<Rightarrow> ('e polling, unit) io) \<Rightarrow> string \<Rightarrow> string \<Rightarrow> 'e docker_interface
    \<Rightarrow> 'e \<Rightarrow> 'e \<times> ContainerJSON option \<times> unit result" where
  "WaitForContainerStatus retry name status dd e =
     (case retry (status_reached name status dd) (e, None) of ((e', container), r) \<Rightarrow> (e', container, r))"

definition GetImageVersion :: "string \<Rightarrow> 'e docker_interface \<Rightarrow> ('e, string) io" where
  "GetImageVersion img dd = io_bind (InspectImageByID dd img) (\<lambda>iibd.
     io_lift (case di_RepoDigests iibd of [] \<Rightarrow> Inl index_out_of_range
       | digest # _ \<Rightarrow> (let parts = Split digest (CHR ''@'') in
           if length parts > 1 \<and> length (parts ! 1) \<ge> 19
           then Inr (img @ '' ('' @ take 19 (parts ! 1) @ '')'') else Inr digest)))"

text \<open>\<open>StdCopy\<close> of the library is the parameter \<open>copy\<close>.\<close>

record qdr_ExecResult =
  qx_ExitCode :: goint
  qx_outBuffer :: string
  qx_errBuffer :: string

definition qdr_Stderr :: "qdr_ExecResult \<Rightarrow> string" where "qdr_Stderr res = qx_errBuffer res"

definition qdr_Stdout :: "qdr_ExecResult \<Rightarrow> string" where "qdr_Stdout res = qx_outBuffer res"

definition Exec ::
  "(string \<Rightarrow> (string \<times> string) \<times> unit result) \<Rightarrow> 'e docker_interface \<Rightarrow> string \<Rightarrow> string list
    \<Rightarrow> ('e, qdr_ExecResult) io" where
  "Exec copy dd cid cmd =
     io_bind (CreateExec dd cid \<lparr>xc_AttachStdout = True, xc_AttachStderr = True, xc_Cmd = cmd\<rparr>) (\<lambda>execID.
     io_bind (AttachExec dd execID \<lparr>xs_Detach = False, xs_Tty = False\<rparr>) (\<lambda>attachResponse.
       (let ((outBuf, errBuf), r) = copy attachResponse in
        io_bind (io_lift r) (\<lambda>_.
        io_bind (InspectExec dd execID) (\<lambda>code.
          io_return \<lparr>qx_ExitCode = code, qx_outBuffer = outBuf, qx_errBuffer = errBuf\<rparr>)))))"

text \<open>\<open>mode:[ ]+interior\<close>, anywhere in the variable that holds the configuration of the router.\<close>

definition mode_interior :: "string \<Rightarrow> bool" where
  "mode_interior s \<longleftrightarrow> HasPrefix s ''mode:'' \<and> (case drop 5 s of [] \<Rightarrow> False
     | c # rest \<Rightarrow> c = CHR '' '' \<and> HasPrefix (dropWhile (\<lambda>x. x = CHR '' '') rest) ''interior'')"

fun matches_interior :: "string \<Rightarrow> bool" where
  "matches_interior [] = False"
| "matches_interior (c # s) = (mode_interior (c # s) \<or> matches_interior s)"

definition IsInterior :: "ContainerJSON \<Rightarrow> bool" where
  "IsInterior qdr = (let config = FindEnvVar (dc_Env (cj_Config qdr)) TransportEnvConfig
     in if config = [] then False else matches_interior config)"

definition TransportModeInterior :: string where "TransportModeInterior = ''interior''"

definition TransportModeEdge :: string where "TransportModeEdge = ''edge''"

definition GetTransportMode :: "ContainerJSON \<Rightarrow> string" where
  "GetTransportMode qdr = (if IsInterior qdr then TransportModeInterior else TransportModeEdge)"

end
