(* ===== verification/Docker_Access_Laws.thy ===== *)
theory Docker_Access_Laws imports Docker_Access begin

text \<open>
  What the access to docker of \<open>pkg/docker\<close> and its client do: the client never lets a call outlive its
  deadline unnoticed, the containers it asks for are those the drivers ask for, and the functions on the
  environment and on running containers behave as written, with the cases in which that is not what their
  names promise.
\<close>

section \<open>The client\<close>

lemma in_time_late: "f (Some (sk_timeout d)) e = (e', True, r) \<Longrightarrow> in_time d f e = (e', Inl operationTimeout)"
  by (simp add: in_time_def timed_do_def)

lemma in_time_Inr: "in_time d f e = (e', Inr x) \<longleftrightarrow> f (Some (sk_timeout d)) e = (e', False, Inr x)"
proof -
  have "contextError t = Inr x \<longleftrightarrow> t = (False, Inr x)" for t :: "'b timed"
    by (cases t rule: contextError.cases) auto
  then show ?thesis by (auto simp: in_time_def timed_do_def split: prod.split)
qed

lemma with_shm_size:
  assumes "ccf_HostConfig (with_shm opts) = Some h"
  shows "0 <s hcf_ShmSize h"
proof -
  have "0 <s defaultShmSize" by (simp add: defaultShmSize_def word_sless_alt)
  with assms show ?thesis by (auto simp: with_shm_def word_sless_alt word_sle_eq)
qed

lemma customTimeout_max: "customTimeout d timeout = max (sk_timeout d) timeout"
  by (simp add: customTimeout_def max_def)

text \<open>
  What the client makes of a call, whatever the library does: a container is never asked for without a size
  for its shared memory, and only that size is filled in; the deadline of a stop is never shorter than the
  time the container has to stop; a call that comes back late is a time-out whatever its answer was; and a
  missing image is reported as such only when the library says so in time.
\<close>

theorem client_calls:
  "(\<forall>h. ccf_HostConfig (with_shm opts) = Some h \<longrightarrow> 0 <s hcf_ShmSize h)
   \<and> (\<forall>h. ccf_HostConfig opts = Some h \<longrightarrow> 0 <s hcf_ShmSize h \<longrightarrow> with_shm opts = opts)
   \<and> timeout \<le> customTimeout d timeout \<and> sk_timeout d \<le> customTimeout d timeout
   \<and> (fst (snd (lib_ContainerCreate (sk_client d) (with_shm opts) (Some (sk_timeout d)) e))
      \<longrightarrow> snd (skup_CreateContainer d opts e) = Inl operationTimeout)
   \<and> (snd (inspectImageRaw d ref e) = Inl (ImageNotFoundError ref)
      \<longrightarrow> (\<exists>e' err. lib_ImageInspectWithRaw (sk_client d) ref (Some (sk_timeout d)) e = (e', False, Inl err)
          \<and> (lib_NotFound (sk_client d) err \<or> err = ImageNotFoundError ref)))"
proof (intro conjI allI impI)
  show "0 <s hcf_ShmSize h" if "ccf_HostConfig (with_shm opts) = Some h" for h using that by (rule with_shm_size)
  show "with_shm opts = opts" if h: "ccf_HostConfig opts = Some h" "0 <s hcf_ShmSize h" for h
  proof -
    have "\<not> hcf_ShmSize h <=s 0" using h(2) by (simp add: word_sless_alt word_sle_eq)
    then show ?thesis using h(1) by (cases opts) (simp add: with_shm_def)
  qed
  show "timeout \<le> customTimeout d timeout" "sk_timeout d \<le> customTimeout d timeout"
    by (simp_all add: customTimeout_max)
  show "snd (skup_CreateContainer d opts e) = Inl operationTimeout"
    if "fst (snd (lib_ContainerCreate (sk_client d) (with_shm opts) (Some (sk_timeout d)) e))"
    using that by (cases "lib_ContainerCreate (sk_client d) (with_shm opts) (Some (sk_timeout d)) e")
      (auto simp: skup_CreateContainer_def in_time_late)
  show "\<exists>e' err. lib_ImageInspectWithRaw (sk_client d) ref (Some (sk_timeout d)) e = (e', False, Inl err)
      \<and> (lib_NotFound (sk_client d) err \<or> err = ImageNotFoundError ref)"
    if i: "snd (inspectImageRaw d ref e) = Inl (ImageNotFoundError ref)"
  proof -
    obtain e' late r where r: "lib_ImageInspectWithRaw (sk_client d) ref (Some (sk_timeout d)) e = (e', late, r)"
      by (metis prod.collapse)
    with i show ?thesis
      by (cases late; cases r) (auto simp: inspectImageRaw_def not_found_as_def operationTimeout_def
          ImageNotFoundError_def split: if_splits)
  qed
qed

lemma wait_ignores_container: "skup_WaitContainer d cid t = skup_WaitContainer d cid' t'"
  by (simp add: skup_WaitContainer_def)

section \<open>The same containers\<close>

text \<open>What the driver sends, as a request of the client.\<close>

definition as_create_config :: "ContainerCreateConfig \<Rightarrow> create_config" where
  "as_create_config c = \<lparr>ccf_Name = dcc_Name c, ccf_Config = dcc_Config c,
     ccf_HostConfig = Some \<lparr>dh_Mounts = dh_Mounts (dcc_HostConfig c), dh_Privileged = dh_Privileged (dcc_HostConfig c),
       hcf_ShmSize = 0, hcf_NetworkMode = [], hcf_ExtraHosts = [], hcf_PortBindings = fmempty\<rparr>,
     ccf_EndpointsConfig = dcc_EndpointsConfig c\<rparr>"

lemma same_network: "fmmap (\<lambda>_. zero_EndpointSettings) (cn_EndpointsConfig skupper_network) = transport_endpoint"
  by (rule fmap_ext) (simp add: skupper_network_def transport_endpoint_def fmlookup_of_list)

lemma same_mounts: "map docker_mount (bind_mounts ms) = map (\<lambda>(source, target). bind_of source target) ms"
  by (simp add: bind_mounts_def docker_mount_def bind_of_def zero_MountPoint_def split: prod.split)

lemma same_env: "map env_var es = map (\<lambda>(key, val). key @ ''='' @ val) es"
  by (simp add: env_var_def case_prod_unfold)

lemma same_health: "health_check [''curl --fail -s http://localhost:9090/healthz || exit 1''] = legacy_health"
  by (simp add: health_check_def legacy_health_def nanosecond_second_def)

text \<open>
  Property C17. The two ways to docker agree on the router: for any site, what the docker driver sends for the
  router container the client asks for is what \<open>getTransportContainerCreateConfig\<close> makes of the same
  description, in the same orders of its maps. For the controller they agree but for the command, the health
  check and the ports.
\<close>

theorem same_containers:
  "(\<exists>t. newDockerContainerSpec rng (getTransportContainerCreateOptions (rm (ds_Mounts (rs_Transport van))) van) = Inr t
     \<and> as_create_config t = getTransportContainerCreateConfig rm rng van)
   \<and> (\<exists>c. newDockerContainerSpec rng (getControllerContainerCreateOptions (rm (ds_Mounts (rs_Controller van))) van) = Inr c
     \<and> (let old = getControllerContainerCreateConfig rm rng van in
        as_create_config c = old\<lparr>ccf_Config := (ccf_Config old)\<lparr>dc_Cmd := [''/go/src/app/controller''],
          dc_Healthcheck := Some (health_check []), dc_ExposedPorts := ds_Ports (rs_Controller van)\<rparr>\<rparr>))"
  by (simp add: newDockerContainerSpec_def getTransportContainerCreateOptions_def
      getControllerContainerCreateOptions_def as_create_config_def getTransportContainerCreateConfig_def
      getControllerContainerCreateConfig_def host_config_of_def same_network same_mounts same_env
      same_health [symmetric] Let_def) (simp add: health_check_def)

section \<open>The environment\<close>

lemma TrimPrefix_var: "TrimPrefix (name @ ''='' @ val) (name @ ''='') = val"
  using TrimPrefix_append [of "name @ ''=''" val] by simp

lemma HasPrefix_var [simp]: "HasPrefix (name @ s) name"
  by (rule HasPrefix_append)

lemma find_none: "\<forall>v \<in> set vs. \<not> HasPrefix v name \<Longrightarrow> FindEnvVar vs name = []"
  by (induction vs) auto

lemma find_set: "\<exists>v \<in> set vs. HasPrefix v name \<Longrightarrow> FindEnvVar (SetEnvVar vs name val) name = val"
proof (induction vs)
  case (Cons v vs)
  show ?case
  proof (cases "HasPrefix v name")
    case True
    then show ?thesis by (simp add: SetEnvVar_def TrimPrefix_var [simplified])
  next
    case False
    with Cons show ?thesis by (auto simp: SetEnvVar_def)
  qed
qed simp

text \<open>
  \<open>SetEnvVar\<close> only replaces: where some entry starts with the name, \<open>FindEnvVar\<close> finds the new value
  afterwards; where none does, nothing is added and nothing is found. An entry counts when its text starts
  with the name, so the value of a variable with a longer name is replaced with it.
\<close>

theorem environment_replaced:
  "(if \<exists>v \<in> set vs. HasPrefix v name then FindEnvVar (SetEnvVar vs name val) name = val
    else SetEnvVar vs name val = vs \<and> FindEnvVar vs name = [])
   \<and> (\<forall>v \<in> set vs. \<not> HasPrefix v name \<longrightarrow> v \<in> set (SetEnvVar vs name val))
   \<and> length (SetEnvVar vs name val) = length vs"
proof -
  have "SetEnvVar vs name val = vs" if "\<forall>v \<in> set vs. \<not> HasPrefix v name"
    using that by (simp add: SetEnvVar_def map_idI)
  moreover have "v \<in> set (SetEnvVar vs name val)" if "v \<in> set vs" "\<not> HasPrefix v name" for v
    using that by (force simp: SetEnvVar_def image_iff)
  ultimately show ?thesis using find_set [of vs name val] find_none [of vs name]
    by (auto simp: SetEnvVar_def)
qed

lemma environment_replaced_witness:
  "FindEnvVar (SetEnvVar [''PATH=/bin'', ''SKUPPER_HOST=a''] ''SKUPPER_HOST'' ''b'') ''SKUPPER_HOST'' = ''b''"
  using environment_replaced [of "[''PATH=/bin'', ''SKUPPER_HOST=a'']" "''SKUPPER_HOST''" "''b''"]
  by (simp add: HasPrefix_def)

text \<open>The mark a restart is to leave in the environment of the controller is left only where it is already.\<close>

lemma restart_leaves_no_mark:
  assumes "\<forall>v \<in> set (dc_Env (cj_Config current)). \<not> HasPrefix v ''SKUPPER_PROXY_CONTROLLER_RESTART''"
  shows "dc_Env (ccf_Config (controller_again current)) = dc_Env (cj_Config current)"
  using assms by (simp add: controller_again_def Let_def SetEnvVar_def map_idI)

lemma longer_name_lost:
  "SetEnvVar [''SKUPPER_HOST=a'', ''SKUPPER_HOSTNAME=b''] ''SKUPPER_HOST'' ''c'' = [''SKUPPER_HOST=c'', ''SKUPPER_HOST=c'']"
  by (simp add: SetEnvVar_def HasPrefix_def)

text \<open>The environment of a proxy has an entry that is no assignment, over which the driver panics.\<close>

lemma proxy_env_unreadable:
  assumes "CHR ''='' \<notin> set (ev ''SKUPPER_TMPDIR'')"
    and "cj_Config c = ccf_Config (getProxyContainerCreateConfig txt ev s conf mapToHost osType)"
  shows "docker_inspection c = Inl slice_out_of_range"
  using assms by (simp add: docker_inspection_def Let_def getProxyContainerCreateConfig_def proxy_env_def SplitN2_def)

section \<open>Restarting\<close>

text \<open>An interface that does not panic.\<close>

definition quiet :: "'e docker_interface \<Rightarrow> bool" where
  "quiet dd \<longleftrightarrow> (\<forall>e s. (\<forall>n. snd (StopContainer dd n ten_seconds e) \<noteq> Inl (Panic s))
     \<and> (\<forall>n. snd (RemoveContainer dd n fmempty e) \<noteq> Inl (Panic s)) \<and> (\<forall>c. snd (CreateContainer dd c e) \<noteq> Inl (Panic s))
     \<and> (\<forall>n. snd (StartContainer dd n e) \<noteq> Inl (Panic s)))"

lemma logged_Inr: "(\<And>s. snd (m e) \<noteq> Inl (Panic s)) \<Longrightarrow> io_logged m e = (fst (m e), Inr ())"
  by (cases "m e") (auto simp: io_logged_def io_bind_apply io_try_apply split: sum.split error.split)

text \<open>A request without a size for the shared memory gets one.\<close>

definition small_request :: create_config where
  "small_request = \<lparr>ccf_Name = ''a'', ccf_Config = \<lparr>dc_Hostname = [], dc_Image = ''a'', dc_Env = [],
     dc_Cmd = [], dc_Healthcheck = None, dc_Labels = fmempty, dc_ExposedPorts = {||}\<rparr>,
     ccf_HostConfig = Some (host_config_of []), ccf_EndpointsConfig = fmempty\<rparr>"

lemma client_calls_witness:
  "hcf_ShmSize (host_config_of []) = 0 \<and> 0 <s hcf_ShmSize (the (ccf_HostConfig (with_shm small_request)))"
proof -
  obtain h where h: "ccf_HostConfig (with_shm small_request) = Some h"
    by (simp add: with_shm_def small_request_def)
  then have "0 <s hcf_ShmSize h" using client_calls [of small_request, THEN conjunct1] by blast
  with h show ?thesis by (simp add: host_config_of_def)
qed

lemma replace_container_run:
  fixes dd :: "'e docker_interface" and opts :: create_config
  assumes "quiet dd"
  defines "n \<equiv> ccf_Name opts"
  shows "replace_container opts dd e = (fst (StartContainer dd n (fst (CreateContainer dd opts
      (fst (RemoveContainer dd n fmempty (fst (StopContainer dd n ten_seconds e))))))), Inr ())"
proof -
  have q: "snd (StopContainer dd m ten_seconds e1) \<noteq> Inl (Panic s)" "snd (RemoveContainer dd m fmempty e1) \<noteq> Inl (Panic s)"
    "snd (CreateContainer dd opts e1) \<noteq> Inl (Panic s)" "snd (StartContainer dd m e1) \<noteq> Inl (Panic s)" for m e1 s
    using assms(1) by (simp_all add: quiet_def)
  show ?thesis
    by (simp add: replace_container_def Let_def n_def pkg_StopContainer_def pkg_RemoveContainer_def
        pkg_CreateContainer_def pkg_StartContainer_def io_bind_Inr [OF logged_Inr [OF q(1)]]
        io_bind_Inr [OF logged_Inr [OF q(2)]] io_bind_Inr [OF logged_Inr [OF q(3)]] logged_Inr [OF q(4)])
qed

text \<open>
  Restarting the router or the controller by hand reports an error only when the container cannot be
  inspected. After that the four calls are made whatever the ones before ended with, and the answer is
  success, also when the old container was removed and the new one could not be created.
\<close>

theorem restart_reports_success:
  assumes "quiet dd" "InspectContainer dd ''skupper-router'' e = (e1, r)"
  shows "case r of
      Inl err \<Rightarrow> RestartTransportContainer dd e = (e1, Inl err)
    | Inr current \<Rightarrow> RestartTransportContainer dd e = (fst (StartContainer dd ''skupper-router''
          (fst (CreateContainer dd (transport_again current) (fst (RemoveContainer dd ''skupper-router'' fmempty
            (fst (StopContainer dd ''skupper-router'' ten_seconds e1))))))), Inr ())"
proof -
  have "ccf_Name (transport_again current) = ''skupper-router''" for current
    by (simp add: transport_again_def Let_def)
  with assms show ?thesis
    by (auto simp: RestartTransportContainer_def pkg_InspectContainer_def replace_container_run io_bind_apply
        split: sum.split)
qed

text \<open>An engine with a router that can be removed and nothing else; the state says whether it is there.\<close>

definition refused :: "('e, 'a) io" where
  "refused = io_fail (Err ''refused'')"

definition router_json :: ContainerJSON where
  "router_json = \<lparr>cj_ID = ''1'', cj_Path = [], cj_Args = [], cj_Status = ''running'', cj_Image = ''router'',
     cj_Name = ''skupper-router'', cj_Mounts = [], cj_Config = \<lparr>dc_Hostname = [], dc_Image = ''router'', dc_Env = [],
     dc_Cmd = [], dc_Healthcheck = None, dc_Labels = fmempty, dc_ExposedPorts = {||}\<rparr>,
     cj_Default = zero_EndpointSettings, cj_Networks = fmempty\<rparr>"

definition full_disk :: "bool docker_interface" where
  "full_disk = \<lparr>ListContainers = \<lambda>_. refused,
     InspectContainer = \<lambda>_ there. (there, if there then Inr router_json else Inl (Err ''No such container: 1'')),
     CreateContainer = \<lambda>_. refused, StartContainer = \<lambda>_. refused, RestartContainer = \<lambda>_ _. refused,
     StopContainer = \<lambda>_ _. io_return (), WaitContainer = \<lambda>_ _. refused, UpdateContainerResources = \<lambda>_ _. refused,
     RemoveContainer = \<lambda>_ _ _. (False, Inr ()), InspectImageByRef = \<lambda>_. refused, InspectImageByID = \<lambda>_. refused,
     ListImages = \<lambda>_. refused, PullImage = \<lambda>_ _ _. refused, RemoveImage = \<lambda>_ _. refused, Logs = \<lambda>_ _ _. refused,
     DockerVersion = refused, DockerInfo = refused, AttachExec = \<lambda>_ _. refused, CreateExec = \<lambda>_ _. refused,
     StartExec = \<lambda>_ _ _. refused, InspectExec = \<lambda>_. refused, InspectNetwork = \<lambda>_. refused,
     CreateNetwork = \<lambda>_. refused, ConnectContainerToNetwork = \<lambda>_ _. refused,
     DisconnectContainerFromNetwork = \<lambda>_ _ _. refused, RemoveNetwork = \<lambda>_. refused, ServerVersion = refused\<rparr>"

lemma restart_reports_success_witness:
  "RestartTransportContainer full_disk True = (False, Inr ()) \<and> snd (InspectContainer full_disk ''skupper-router'' False) \<noteq> Inr router_json"
proof -
  have q: "quiet full_disk" by (simp add: quiet_def full_disk_def refused_def)
  have i: "InspectContainer full_disk ''skupper-router'' True = (True, Inr router_json)" by (simp add: full_disk_def)
  show ?thesis using restart_reports_success [OF q i] by (simp add: full_disk_def refused_def)
qed

section \<open>Waiting\<close>

text \<open>A retry reports success only after an attempt that was done.\<close>

definition sound_retry :: "(('s, bool) io \<Rightarrow> ('s, unit) io) \<Rightarrow> bool" where
  "sound_retry retry \<longleftrightarrow> (\<forall>f s s'. retry f s = (s', Inr ()) \<longrightarrow> (\<exists>s0. f s0 = (s', Inr True)))"

theorem waited_for_status:
  assumes "sound_retry retry" "WaitForContainerStatus retry name status dd e = (e', container, Inr ())"
  shows "\<exists>c e0. container = Some c \<and> cj_Status c = status \<and> InspectContainer dd name e0 = (e', Inr c)"
proof -
  have "retry (status_reached name status dd) (e, None) = ((e', container), Inr ())"
    using assms(2) by (auto simp: WaitForContainerStatus_def split: prod.splits)
  then obtain s0 where "status_reached name status dd s0 = ((e', container), Inr True)"
    using assms(1) unfolding sound_retry_def by blast
  then show ?thesis
    by (auto simp: status_reached_def pkg_InspectContainer_def split: prod.splits sum.splits)
qed

text \<open>Attempts until one is done, three at most.\<close>

definition retry_three :: "('s, bool) io \<Rightarrow> ('s, unit) io" where
  "retry_three f = (let again = (\<lambda>k s. case f s of (s', Inr True) \<Rightarrow> (s', Inr ()) | (s', Inr False) \<Rightarrow> k s'
     | (s', Inl err) \<Rightarrow> (s', Inl err)) in again (again (again (\<lambda>s. (s, Inl (Err ''timed out''))))))"

lemma waited_for_status_witness:
  "sound_retry retry_three \<and> cj_Status (the (fst (snd (WaitForContainerStatus retry_three ''skupper-router'' ''running'' full_disk True)))) = ''running''"
proof -
  have s: "sound_retry retry_three"
    by (auto simp: sound_retry_def retry_three_def Let_def split: prod.splits sum.splits bool.splits)
  have "WaitForContainerStatus retry_three ''skupper-router'' ''running'' full_disk True = (True, Some router_json, Inr ())"
    by (simp add: WaitForContainerStatus_def retry_three_def Let_def status_reached_def pkg_InspectContainer_def
        full_disk_def router_json_def)
  with waited_for_status [OF s this] s show ?thesis by auto
qed

section \<open>The mode of a router\<close>

text \<open>
  The expression looks for the mode as the old format of the configuration wrote it. In a JSON document the
  name of the attribute ends with a quotation mark, so a router that is given one counts as an edge router
  whatever its mode is.
\<close>

lemma json_is_edge:
  assumes "\<forall>a b. FindEnvVar (dc_Env (cj_Config qdr)) TransportEnvConfig \<noteq> a @ ''mode:'' @ b"
  shows "GetTransportMode qdr = TransportModeEdge"
proof -
  have "matches_interior s \<Longrightarrow> \<exists>a b. s = a @ ''mode:'' @ b" for s
  proof (induction s)
    case (Cons c s)
    then show ?case
    proof (cases "mode_interior (c # s)")
      case True
      then have "\<exists>b. c # s = [] @ ''mode:'' @ b" by (auto simp: mode_interior_def HasPrefix_iff)
      then show ?thesis by blast
    next
      case False
      with Cons obtain a b where "s = a @ ''mode:'' @ b" by auto
      then have "c # s = (c # a) @ ''mode:'' @ b" by simp
      then show ?thesis by blast
    qed
  qed simp
  with assms have "\<not> matches_interior (FindEnvVar (dc_Env (cj_Config qdr)) TransportEnvConfig)" by blast
  then show ?thesis by (simp add: GetTransportMode_def IsInterior_def Let_def)
qed

lemma old_format_is_interior: "matches_interior ''router { mode:  interior }''"
  by (simp add: mode_interior_def HasPrefix_def)

end
