(* ===== verification/Podman_Driver.thy ===== *)
theory Podman_Driver imports Client_Base begin

text \<open>
  \<open>driver/podman.go\<close>: the interface \<open>Driver\<close> on the podman bindings, which are a parameter, the record
  \<open>podman_api\<close>. \<open>ContainerExec\<close> redirects the standard output of the program into a pipe while the command
  runs: \<open>podman_ContainerExec\<close> is what it collects, \<open>exec_stdout\<close> where the output goes when it returns.
\<close>

section \<open>Types of the library\<close>

record podman_Mount =
  pm_Type :: string
  pm_Destination :: string
  pm_Source :: string

text \<open>The fields of the specification that the driver sets.\<close>

record SpecGenerator =
  sg_Name :: string
  sg_Command :: "string list"
  sg_Env :: "(string, string) fmap"
  sg_Mounts :: "podman_Mount list"
  sg_Image :: string
  sg_Privileged :: bool
  sg_CNINetworks :: "string list"

record podman_Setting =
  pn_Gateway :: string
  pn_IPAddress :: string
  pn_IPPrefixLen :: goint

record InspectContainerData =
  pi_ID :: string
  pi_Created :: int
  pi_Path :: string
  pi_Args :: "string list"
  pi_Image :: string
  pi_ImageName :: string
  pi_Name :: string
  pi_Gateway :: string
  pi_IPAddress :: string
  pi_IPPrefixLen :: goint
  pi_SecondaryIPAddresses :: "string list"
  pi_Networks :: "(string, podman_Setting) fmap"

record ListContainer =
  pl_ID :: string
  pl_Names :: "string list"
  pl_Image :: string
  pl_ImageID :: string
  pl_Labels :: "(string, string) fmap"
  pl_State :: string
  pl_Status :: string

record podman_Image =
  pg_ID :: string
  pg_Created :: goint
  pg_Labels :: "(string, string) fmap"
  pg_RepoTags :: "string list"
  pg_Size :: goint

text \<open>
  \<open>papi_NetworkInspect\<close> gives the reports on a network: maps from a key to a value, here as it prints.
  The other calls take the arguments the driver gives them.
\<close>

record 'e podman_api =
  papi_NewConnection :: "string \<Rightarrow> ('e, unit) io"
  papi_GetImage :: "string \<Rightarrow> 'e \<Rightarrow> podman_Image result"
  papi_Pull :: "string \<Rightarrow> ('e, string list) io"
  papi_ImageList :: "'e \<Rightarrow> podman_Image list result"
  papi_CreateWithSpec :: "SpecGenerator \<Rightarrow> ('e, string) io"
  papi_Start :: "string \<Rightarrow> ('e, unit) io"
  papi_Wait :: "string \<Rightarrow> string \<Rightarrow> ('e, unit) io"
  papi_List :: "nat \<Rightarrow> 'e \<Rightarrow> ListContainer list result"
  papi_Inspect :: "string \<Rightarrow> 'e \<Rightarrow> InspectContainerData result"
  papi_Restart :: "string \<Rightarrow> ('e, unit) io"
  papi_Stop :: "string \<Rightarrow> ('e, unit) io"
  papi_Remove :: "string \<Rightarrow> bool \<Rightarrow> bool \<Rightarrow> ('e, unit) io"
  papi_ExecCreate :: "string \<Rightarrow> string list \<Rightarrow> ('e, string) io"
  papi_ExecStartAndAttach :: "string \<Rightarrow> ('e, content) io"
  papi_ExecInspect :: "string \<Rightarrow> 'e \<Rightarrow> goint result"
  papi_NetworkCreate :: "string \<Rightarrow> string \<Rightarrow> ('e, unit) io"
  papi_NetworkInspect :: "string \<Rightarrow> 'e \<Rightarrow> (string, string) fmap list result"
  papi_NetworkRemove :: "string \<Rightarrow> bool \<Rightarrow> ('e, unit) io"
  papi_NetworkConnect :: "string \<Rightarrow> string \<Rightarrow> string list \<Rightarrow> ('e, unit) io"
  papi_NetworkDisconnect :: "string \<Rightarrow> string \<Rightarrow> bool \<Rightarrow> ('e, unit) io"

section \<open>Containers\<close>

definition podman_mount :: "MountPoint \<Rightarrow> podman_Mount" where
  "podman_mount mount = \<lparr>pm_Type = ''bind'', pm_Destination = mp_Destination mount, pm_Source = mp_Source mount\<rparr>"

text \<open>The loop over the networks visits them in the order \<open>rng\<close>.\<close>

type_synonym network_order = "(string, NetworkEndpointSetting) fmap \<Rightarrow> (string \<times> NetworkEndpointSetting) list"

definition newPodmanContainerSpec :: "network_order \<Rightarrow> ContainerCreateOptions \<Rightarrow> SpecGenerator" where
  "newPodmanContainerSpec rng options = (let cb = cco_ContainerConfig options in
     \<lparr>sg_Name = cco_Name options, sg_Command = cb_Cmd cb, sg_Env = cb_Env cb,
      sg_Mounts = map podman_mount (chc_Mounts (cco_HostConfig options)), sg_Image = cb_Image cb,
      sg_Privileged = True,
      sg_CNINetworks = map fst (rng (cn_EndpointsConfig (cco_NetworkingConfig options)))\<rparr>)"

definition podman_ContainerCreate ::
  "network_order \<Rightarrow> 'e podman_api \<Rightarrow> ContainerCreateOptions \<Rightarrow> ('e, ContainerCreateResponse) io" where
  "podman_ContainerCreate rng c options =
     io_bind (papi_CreateWithSpec c (newPodmanContainerSpec rng options)) (\<lambda>cid.
       io_return \<lparr>ccr_ID = cid, ccr_Warnings = []\<rparr>)"

text \<open>The options of a listing are not used; one container is asked for.\<close>

definition podman_summary :: "ListContainer \<Rightarrow> ContainerSummary" where
  "podman_summary container = \<lparr>csu_ID = pl_ID container, csu_Names = pl_Names container,
     csu_Image = pl_Image container, csu_ImageID = pl_ImageID container, csu_Command = [],
     csu_Created = 0, csu_Ports = [], csu_Labels = pl_Labels container, csu_State = pl_State container,
     csu_Status = pl_Status container, csu_Mounts = []\<rparr>"

fun podman_summaries :: "ListContainer list \<Rightarrow> ContainerSummary list result" where
  "podman_summaries [] = Inr []"
| "podman_summaries (container # cl) = (case pl_Names container of
       [] \<Rightarrow> Inl (Panic ''index out of range [0] with length 0'')
     | name # _ \<Rightarrow> rbind (podman_summaries cl) (\<lambda>dc.
         Inr (if name \<noteq> ''skupper-service-controller'' then podman_summary container # dc else dc)))"

definition podman_ContainerList ::
  "'e podman_api \<Rightarrow> ContainerListOptions \<Rightarrow> 'e \<Rightarrow> ContainerSummary list result" where
  "podman_ContainerList c options e = rbind (papi_List c 1 e) podman_summaries"

definition podman_endpoint :: "string \<Rightarrow> podman_Setting \<Rightarrow> NetworkEndpointSetting" where
  "podman_endpoint net setting = zero_NetworkEndpointSetting\<lparr>nes_NetworkID := net,
     nes_Gateway := pn_Gateway setting, nes_IPAddress := pn_IPAddress setting,
     nes_IPPrefixLen := pn_IPPrefixLen setting\<rparr>"

text \<open>The state, the mounts and the configuration of the container are left at their zero values.\<close>

definition zero_ContainerConfig :: ContainerConfig where
  "zero_ContainerConfig = \<lparr>cc_Hostname = [], cc_ExposedPorts = {||}, cc_Env = fmempty,
     cc_Healthcheck = None, cc_Image = [], cc_Labels = fmempty\<rparr>"

definition podman_inspection :: "InspectContainerData \<Rightarrow> ContainerInspect" where
  "podman_inspection container = \<lparr>cin_ID = pi_ID container, cin_Created = pi_Created container,
     cin_Path = pi_Path container, cin_Args = pi_Args container, cin_State = None,
     cin_Image = pi_Image container, cin_ImageName = pi_ImageName container,
     cin_Name = pi_Name container, cin_Mounts = [], cin_Config = zero_ContainerConfig,
     cin_NetworkSettings = \<lparr>cnc_Gateway = pi_Gateway container, cnc_IPAddress = pi_IPAddress container,
       cnc_IPPrefixLen = pi_IPPrefixLen container,
       cnc_SecondaryIPAddresses = pi_SecondaryIPAddresses container,
       cnc_Networks = fmmap_keys podman_endpoint (pi_Networks container)\<rparr>\<rparr>"

definition podman_ContainerInspect :: "'e podman_api \<Rightarrow> string \<Rightarrow> 'e \<Rightarrow> ContainerInspect result" where
  "podman_ContainerInspect c cid e = rbind (papi_Inspect c cid e) (\<lambda>container.
     Inr (podman_inspection container))"

text \<open>The status waited for is always that of a running container.\<close>

definition podman_ContainerWait :: "'e podman_api \<Rightarrow> string \<Rightarrow> string \<Rightarrow> ('e, unit) io" where
  "podman_ContainerWait c cid status = papi_Wait c cid ''running''"

definition podman_ContainerStart :: "'e podman_api \<Rightarrow> string \<Rightarrow> ('e, unit) io" where
  "podman_ContainerStart c cid = papi_Start c cid"

definition podman_ContainerRestart :: "'e podman_api \<Rightarrow> string \<Rightarrow> ('e, unit) io" where
  "podman_ContainerRestart c cid = papi_Restart c cid"

definition podman_ContainerStop :: "'e podman_api \<Rightarrow> string \<Rightarrow> ('e, unit) io" where
  "podman_ContainerStop c cid = papi_Stop c cid"

definition podman_ContainerRemove :: "'e podman_api \<Rightarrow> string \<Rightarrow> ('e, unit) io" where
  "podman_ContainerRemove c cid = papi_Remove c cid True True"

definition podman_ContainerExec :: "'e podman_api \<Rightarrow> string \<Rightarrow> string list \<Rightarrow> ('e, ExecResult) io" where
  "podman_ContainerExec c cid cmd =
     io_bind (papi_ExecCreate c cid cmd) (\<lambda>execID.
     io_bind (papi_ExecStartAndAttach c execID) (\<lambda>outBuf.
     io_bind (io_ask (papi_ExecInspect c execID)) (\<lambda>code.
       io_return \<lparr>ex_ExitCode = code, ex_OutBuffer = outBuf, ex_ErrBuffer = Text []\<rparr>)))"

text \<open>
  \<open>ContainerExecKeeper\<close> is the same but for the buffer of the errors, a nil pointer that prints as
  \<open><nil>\<close>.
\<close>

definition podman_ContainerExecKeeper :: "'e podman_api \<Rightarrow> string \<Rightarrow> string list \<Rightarrow> ('e, ExecResult) io" where
  "podman_ContainerExecKeeper c cid cmd =
     io_bind (papi_ExecCreate c cid cmd) (\<lambda>execID.
     io_bind (papi_ExecStartAndAttach c execID) (\<lambda>outBuf.
     io_bind (io_ask (papi_ExecInspect c execID)) (\<lambda>code.
       io_return \<lparr>ex_ExitCode = code, ex_OutBuffer = outBuf, ex_ErrBuffer = Text ''<nil>''\<rparr>)))"

text \<open>The deferred function that restores the output is registered only after the command has run.\<close>

datatype stdout = Terminal | Pipe

definition exec_stdout :: "'e podman_api \<Rightarrow> string \<Rightarrow> string list \<Rightarrow> 'e \<Rightarrow> stdout" where
  "exec_stdout c cid cmd e = (case papi_ExecCreate c cid cmd e of
       (_, Inl _) \<Rightarrow> Pipe
     | (e1, Inr execID) \<Rightarrow> (case papi_ExecStartAndAttach c execID e1 of (_, Inl _) \<Rightarrow> Pipe | _ \<Rightarrow> Terminal))"

section \<open>Images and networks\<close>

definition podman_ImageInspect :: "'e podman_api \<Rightarrow> string \<Rightarrow> 'e \<Rightarrow> ImageInspect result" where
  "podman_ImageInspect c cid e = rbind (papi_GetImage c cid e) (\<lambda>data.
     Inr \<lparr>ii_ID = pg_ID data, ii_Created = 0, ii_RepoTags = pg_RepoTags data, ii_Size = pg_Size data\<rparr>)"

definition podman_ImagesPull ::
  "'e podman_api \<Rightarrow> string \<Rightarrow> ContainerListOptions \<Rightarrow> ('e, string list) io" where
  "podman_ImagesPull c refStr options = io_wrap ''Could not pull image'' (papi_Pull c refStr)"

definition podman_image_summary :: "podman_Image \<Rightarrow> ImageSummary" where
  "podman_image_summary img = \<lparr>is_ID = pg_ID img, is_Created = pg_Created img, is_Labels = pg_Labels img,
     is_RepoTags = pg_RepoTags img, is_RepoDigests = [], is_Size = pg_Size img\<rparr>"

definition podman_ImagesList ::
  "'e podman_api \<Rightarrow> ContainerListOptions \<Rightarrow> 'e \<Rightarrow> ImageSummary list result" where
  "podman_ImagesList c options e = rbind (papi_ImageList c e) (\<lambda>imgs. Inr (map podman_image_summary imgs))"

definition podman_ImageVersion :: "string \<Rightarrow> 'e \<Rightarrow> string result" where
  "podman_ImageVersion cid e = Inr ''no-image''"

definition podman_NetworkCreate ::
  "'e podman_api \<Rightarrow> string \<Rightarrow> NetworkCreateOptions \<Rightarrow> ('e, NetworkCreateResponse) io" where
  "podman_NetworkCreate c name options =
     io_bind (papi_NetworkCreate c (nco_Driver options) name) (\<lambda>_.
       io_return \<lparr>ncr_ID = [], ncr_Warning = []\<rparr>)"

text \<open>
  The first report is read before the error is looked at: without one, as after an error, the index is
  out of range. A missing key prints as \<open><nil>\<close>.
\<close>

definition podman_NetworkInspect :: "'e podman_api \<Rightarrow> string \<Rightarrow> 'e \<Rightarrow> NetworkInspect result" where
  "podman_NetworkInspect c cid e =
     (case papi_NetworkInspect c cid e of
        Inr (report # _) \<Rightarrow> Inr \<lparr>ni_Name = (case fmlookup report ''name'' of Some v \<Rightarrow> v | None \<Rightarrow> ''<nil>''),
          ni_NetworkID = [], ni_Containers = fmempty\<rparr>
      | _ \<Rightarrow> Inl (Panic ''index out of range [0] with length 0''))"

definition podman_NetworkRemove :: "'e podman_api \<Rightarrow> string \<Rightarrow> ('e, unit) io" where
  "podman_NetworkRemove c cid = papi_NetworkRemove c cid True"

definition podman_NetworkConnect :: "'e podman_api \<Rightarrow> string \<Rightarrow> string \<Rightarrow> string list \<Rightarrow> ('e, unit) io" where
  "podman_NetworkConnect c cid container aliases = papi_NetworkConnect c cid container aliases"

definition podman_NetworkDisconnect :: "'e podman_api \<Rightarrow> string \<Rightarrow> string \<Rightarrow> bool \<Rightarrow> ('e, unit) io" where
  "podman_NetworkDisconnect c cid container force = papi_NetworkDisconnect c cid container force"

section \<open>The driver\<close>

definition podman_New :: "'e podman_api \<Rightarrow> ('e, unit) io" where
  "podman_New c = io_wrap ''Coudnt's connect to podman''
     (papi_NewConnection c ''unix:/var/run/podman/podman.sock'')"

definition podman_Info :: "'e \<Rightarrow> Info result" where
  "podman_Info e = Inr \<lparr>in_ID = [], in_Name = [], in_KernelVersion = [], in_OperatingSystem = [],
     in_OSVersion = [], in_OSType = [], in_Architecture = [], in_ServerVersion = []\<rparr>"

definition PodmanDriver :: "network_order \<Rightarrow> 'e podman_api \<Rightarrow> 'e Driver" where
  "PodmanDriver rng c = \<lparr>New = podman_New c,
     ImageInspect = podman_ImageInspect c,
     ImagesList = podman_ImagesList c,
     ImagesPull = podman_ImagesPull c,
     ImageVersion = podman_ImageVersion,
     ContainerCreate = podman_ContainerCreate rng c,
     ContainerStart = podman_ContainerStart c,
     ContainerWait = podman_ContainerWait c,
     ContainerList = podman_ContainerList c,
     ContainerInspect = podman_ContainerInspect c,
     ContainerRestart = podman_ContainerRestart c,
     ContainerStop = podman_ContainerStop c,
     ContainerRemove = podman_ContainerRemove c,
     ContainerExec = podman_ContainerExec c,
     NetworkCreate = podman_NetworkCreate c,
     NetworkInspect = podman_NetworkInspect c,
     NetworkRemove = podman_NetworkRemove c,
     NetworkConnect = podman_NetworkConnect c,
     NetworkDisconnect = podman_NetworkDisconnect c,
     Info = podman_Info\<rparr>"

end
