(* ===== verification/Plugins.thy ===== *)
theory Plugins imports Docker_Driver Podman_Driver begin

text \<open>
  \<open>plug-ins/docker/docker.go\<close> and \<open>plug-ins/podman/podman.go\<close>: the two drivers as plug-ins, and
  \<open>init2\<close> of \<open>client/client.go\<close>, which loads one of them in place of a driver of the binary.

  The plug-in for docker is the text of \<open>driver/docker.go\<close> with the types of the package \<open>driver\<close>
  imported, so each of its functions is the one of \<open>Docker_Driver\<close>. The plug-in for podman differs from
  \<open>driver/podman.go\<close> in the specification of a container and in the listing; what is the same is again the
  function of \<open>Podman_Driver\<close>.
\<close>

section \<open>The plug-in for docker\<close>

definition docker_plugin_newContainerSpec ::
  "((string, string) fmap \<Rightarrow> (string \<times> string) list) \<Rightarrow> ContainerCreateOptions \<Rightarrow> ContainerCreateConfig result" where
  "docker_plugin_newContainerSpec = newDockerContainerSpec"

definition docker_plugin_ContainerCreate ::
  "((string, string) fmap \<Rightarrow> (string \<times> string) list) \<Rightarrow> 'e docker_api \<Rightarrow> ContainerCreateOptions
    \<Rightarrow> ('e, ContainerCreateResponse) io" where
  "docker_plugin_ContainerCreate rng c options =
     io_bind (io_lift (docker_plugin_newContainerSpec rng options)) (\<lambda>opts.
     io_bind (api_ContainerCreate c opts) (\<lambda>cid. io_return \<lparr>ccr_ID = cid, ccr_Warnings = []\<rparr>))"

definition docker_plugin_New :: "'e docker_api \<Rightarrow> ('e, unit) io" where
  "docker_plugin_New = docker_New"

definition docker_plugin_progress :: "int \<Rightarrow> progress \<Rightarrow> reporter_event list \<Rightarrow> bool" where
  "docker_plugin_progress = reporter"

definition docker_plugin_ImagesPull :: "'e docker_api \<Rightarrow> string \<Rightarrow> ContainerListOptions \<Rightarrow> ('e, string list) io" where
  "docker_plugin_ImagesPull = docker_ImagesPull"

definition docker_plugin_ImageInspect :: "'e docker_api \<Rightarrow> string \<Rightarrow> 'e \<Rightarrow> ImageInspect result" where
  "docker_plugin_ImageInspect = docker_ImageInspect"

definition docker_plugin_ImagesList :: "'e docker_api \<Rightarrow> ContainerListOptions \<Rightarrow> 'e \<Rightarrow> ImageSummary list result" where
  "docker_plugin_ImagesList = docker_ImagesList"

definition docker_plugin_ImageVersion :: "'e docker_api \<Rightarrow> string \<Rightarrow> 'e \<Rightarrow> string result" where
  "docker_plugin_ImageVersion = docker_ImageVersion"

definition docker_plugin_ContainerStart :: "'e docker_api \<Rightarrow> string \<Rightarrow> ('e, unit) io" where
  "docker_plugin_ContainerStart = docker_ContainerStart"

definition docker_plugin_ContainerWait :: "'e docker_api \<Rightarrow> string \<Rightarrow> string \<Rightarrow> ('e, unit) io" where
  "docker_plugin_ContainerWait = docker_ContainerWait"

definition docker_plugin_ContainerList ::
  "'e docker_api \<Rightarrow> ContainerListOptions \<Rightarrow> 'e \<Rightarrow> ContainerSummary list result" where
  "docker_plugin_ContainerList = docker_ContainerList"

definition docker_plugin_ContainerInspect :: "'e docker_api \<Rightarrow> string \<Rightarrow> 'e \<Rightarrow> ContainerInspect result" where
  "docker_plugin_ContainerInspect = docker_ContainerInspect"

definition docker_plugin_ContainerRestart :: "'e docker_api \<Rightarrow> string \<Rightarrow> ('e, unit) io" where
  "docker_plugin_ContainerRestart = docker_ContainerRestart"

definition docker_plugin_ContainerStop :: "'e docker_api \<Rightarrow> string \<Rightarrow> ('e, unit) io" where
  "docker_plugin_ContainerStop = docker_ContainerStop"

definition docker_plugin_ContainerRemove :: "'e docker_api \<Rightarrow> string \<Rightarrow> ('e, unit) io" where
  "docker_plugin_ContainerRemove = docker_ContainerRemove"

definition docker_plugin_ContainerExec :: "'e docker_api \<Rightarrow> string \<Rightarrow> string list \<Rightarrow> ('e, ExecResult) io" where
  "docker_plugin_ContainerExec = docker_ContainerExec"

definition docker_plugin_NetworkCreate ::
  "'e docker_api \<Rightarrow> string \<Rightarrow> NetworkCreateOptions \<Rightarrow> ('e, NetworkCreateResponse) io" where
  "docker_plugin_NetworkCreate = docker_NetworkCreate"

definition docker_plugin_NetworkInspect :: "'e docker_api \<Rightarrow> string \<Rightarrow> 'e \<Rightarrow> NetworkInspect result" where
  "docker_plugin_NetworkInspect = docker_NetworkInspect"

definition docker_plugin_NetworkRemove :: "'e docker_api \<Rightarrow> string \<Rightarrow> ('e, unit) io" where
  "docker_plugin_NetworkRemove = docker_NetworkRemove"

definition docker_plugin_NetworkConnect :: "'e docker_api \<Rightarrow> string \<Rightarrow> string \<Rightarrow> string list \<Rightarrow> ('e, unit) io" where
  "docker_plugin_NetworkConnect = docker_NetworkConnect"

definition docker_plugin_NetworkDisconnect :: "'e docker_api \<Rightarrow> string \<Rightarrow> string \<Rightarrow> bool \<Rightarrow> ('e, unit) io" where
  "docker_plugin_NetworkDisconnect = docker_NetworkDisconnect"

definition docker_plugin_Info :: "'e docker_api \<Rightarrow> 'e \<Rightarrow> Info result" where
  "docker_plugin_Info = docker_Info"

definition DockerPlugin ::
  "((string, string) fmap \<Rightarrow> (string \<times> string) list) \<Rightarrow> 'e docker_api \<Rightarrow> 'e Driver" where
  "DockerPlugin rng c = \<lparr>New = docker_plugin_New c, ImageInspect = docker_plugin_ImageInspect c,
     ImagesList = docker_plugin_ImagesList c, ImagesPull = docker_plugin_ImagesPull c,
     ImageVersion = docker_plugin_ImageVersion c, ContainerCreate = docker_plugin_ContainerCreate rng c,
     ContainerStart = docker_plugin_ContainerStart c, ContainerWait = docker_plugin_ContainerWait c,
     ContainerList = docker_plugin_ContainerList c, ContainerInspect = docker_plugin_ContainerInspect c,
     ContainerRestart = docker_plugin_ContainerRestart c, ContainerStop = docker_plugin_ContainerStop c,
     ContainerRemove = docker_plugin_ContainerRemove c, ContainerExec = docker_plugin_ContainerExec c,
     NetworkCreate = docker_plugin_NetworkCreate c, NetworkInspect = docker_plugin_NetworkInspect c,
     NetworkRemove = docker_plugin_NetworkRemove c, NetworkConnect = docker_plugin_NetworkConnect c,
     NetworkDisconnect = docker_plugin_NetworkDisconnect c, Info = docker_plugin_Info c\<rparr>"

lemmas docker_plugin_defs = docker_plugin_newContainerSpec_def docker_plugin_ContainerCreate_def docker_plugin_New_def
  docker_plugin_ImagesPull_def docker_plugin_ImageInspect_def docker_plugin_ImagesList_def
  docker_plugin_ImageVersion_def docker_plugin_ContainerStart_def docker_plugin_ContainerWait_def
  docker_plugin_ContainerList_def docker_plugin_ContainerInspect_def docker_plugin_ContainerRestart_def
  docker_plugin_ContainerStop_def docker_plugin_ContainerRemove_def docker_plugin_ContainerExec_def
  docker_plugin_NetworkCreate_def docker_plugin_NetworkInspect_def docker_plugin_NetworkRemove_def
  docker_plugin_NetworkConnect_def docker_plugin_NetworkDisconnect_def docker_plugin_Info_def

lemma docker_plugin_is_driver: "DockerPlugin rng c = DockerDriver rng c"
  by (simp add: DockerPlugin_def DockerDriver_def docker_plugin_defs docker_ContainerCreate_def fun_eq_iff)

section \<open>The plug-in for podman\<close>

text \<open>Neither the privileges nor the networks of the container are set.\<close>

definition podman_plugin_newContainerSpec :: "ContainerCreateOptions \<Rightarrow> SpecGenerator" where
  "podman_plugin_newContainerSpec options = (let cb = cco_ContainerConfig options in
     \<lparr>sg_Name = cco_Name options, sg_Command = cb_Cmd cb, sg_Env = cb_Env cb,
      sg_Mounts = map podman_mount (chc_Mounts (cco_HostConfig options)), sg_Image = cb_Image cb,
      sg_Privileged = False, sg_CNINetworks = []\<rparr>)"

definition podman_plugin_ContainerCreate ::
  "'e podman_api \<Rightarrow> ContainerCreateOptions \<Rightarrow> ('e, ContainerCreateResponse) io" where
  "podman_plugin_ContainerCreate c options =
     io_bind (papi_CreateWithSpec c (podman_plugin_newContainerSpec options)) (\<lambda>cid.
       io_return \<lparr>ccr_ID = cid, ccr_Warnings = []\<rparr>)"

definition podman_plugin_ContainerList ::
  "'e podman_api \<Rightarrow> ContainerListOptions \<Rightarrow> 'e \<Rightarrow> ContainerSummary list result" where
  "podman_plugin_ContainerList c options e = rbind (papi_List c 1 e) (\<lambda>cl. Inr (map podman_summary cl))"

definition podman_plugin_New :: "'e podman_api \<Rightarrow> ('e, unit) io" where
  "podman_plugin_New = podman_New"

definition podman_plugin_ImageInspect :: "'e podman_api \<Rightarrow> string \<Rightarrow> 'e \<Rightarrow> ImageInspect result" where
  "podman_plugin_ImageInspect = podman_ImageInspect"

definition podman_plugin_ImagesPull :: "'e podman_api \<Rightarrow> string \<Rightarrow> ContainerListOptions \<Rightarrow> ('e, string list) io" where
  "podman_plugin_ImagesPull = podman_ImagesPull"

definition podman_plugin_ImagesList :: "'e podman_api \<Rightarrow> ContainerListOptions \<Rightarrow> 'e \<Rightarrow> ImageSummary list result" where
  "podman_plugin_ImagesList = podman_ImagesList"

definition podman_plugin_ImageVersion :: "string \<Rightarrow> 'e \<Rightarrow> string result" where
  "podman_plugin_ImageVersion = podman_ImageVersion"

definition podman_plugin_ContainerStart :: "'e podman_api \<Rightarrow> string \<Rightarrow> ('e, unit) io" where
  "podman_plugin_ContainerStart = podman_ContainerStart"

definition podman_plugin_ContainerWait :: "'e podman_api \<Rightarrow> string \<Rightarrow> string \<Rightarrow> ('e, unit) io" where
  "podman_plugin_ContainerWait = podman_ContainerWait"

definition podman_plugin_ContainerInspect :: "'e podman_api \<Rightarrow> string \<Rightarrow> 'e \<Rightarrow> ContainerInspect result" where
  "podman_plugin_ContainerInspect = podman_ContainerInspect"

definition podman_plugin_ContainerRestart :: "'e podman_api \<Rightarrow> string \<Rightarrow> ('e, unit) io" where
  "podman_plugin_ContainerRestart = podman_ContainerRestart"

definition podman_plugin_ContainerStop :: "'e podman_api \<Rightarrow> string \<Rightarrow> ('e, unit) io" where
  "podman_plugin_ContainerStop = podman_ContainerStop"

definition podman_plugin_ContainerRemove :: "'e podman_api \<Rightarrow> string \<Rightarrow> ('e, unit) io" where
  "podman_plugin_ContainerRemove = podman_ContainerRemove"

definition podman_plugin_ContainerExecKeeper :: "'e podman_api \<Rightarrow> string \<Rightarrow> string list \<Rightarrow> ('e, ExecResult) io" where
  "podman_plugin_ContainerExecKeeper = podman_ContainerExecKeeper"

definition podman_plugin_ContainerExec :: "'e podman_api \<Rightarrow> string \<Rightarrow> string list \<Rightarrow> ('e, ExecResult) io" where
  "podman_plugin_ContainerExec = podman_ContainerExec"

definition podman_plugin_NetworkCreate ::
  "'e podman_api \<Rightarrow> string \<Rightarrow> NetworkCreateOptions \<Rightarrow> ('e, NetworkCreateResponse) io" where
  "podman_plugin_NetworkCreate = podman_NetworkCreate"

definition podman_plugin_NetworkInspect :: "'e podman_api \<Rightarrow> string \<Rightarrow> 'e \<Rightarrow> NetworkInspect result" where
  "podman_plugin_NetworkInspect = podman_NetworkInspect"

definition podman_plugin_NetworkRemove :: "'e podman_api \<Rightarrow> string \<Rightarrow> ('e, unit) io" where
  "podman_plugin_NetworkRemove = podman_NetworkRemove"

definition podman_plugin_NetworkConnect :: "'e podman_api \<Rightarrow> string \<Rightarrow> string \<Rightarrow> string list \<Rightarrow> ('e, unit) io" where
  "podman_plugin_NetworkConnect = podman_NetworkConnect"

definition podman_plugin_NetworkDisconnect :: "'e podman_api \<Rightarrow> string \<Rightarrow> string \<Rightarrow> bool \<Rightarrow> ('e, unit) io" where
  "podman_plugin_NetworkDisconnect = podman_NetworkDisconnect"

definition podman_plugin_Info :: "'e \<Rightarrow> Info result" where
  "podman_plugin_Info = podman_Info"

definition PodmanPlugin :: "'e podman_api \<Rightarrow> 'e Driver" where
  "PodmanPlugin c = \<lparr>New = podman_plugin_New c, ImageInspect = podman_plugin_ImageInspect c,
     ImagesList = podman_plugin_ImagesList c, ImagesPull = podman_plugin_ImagesPull c,
     ImageVersion = podman_plugin_ImageVersion, ContainerCreate = podman_plugin_ContainerCreate c,
     ContainerStart = podman_plugin_ContainerStart c, ContainerWait = podman_plugin_ContainerWait c,
     ContainerList = podman_plugin_ContainerList c, ContainerInspect = podman_plugin_ContainerInspect c,
     ContainerRestart = podman_plugin_ContainerRestart c, ContainerStop = podman_plugin_ContainerStop c,
     ContainerRemove = podman_plugin_ContainerRemove c, ContainerExec = podman_plugin_ContainerExec c,
     NetworkCreate = podman_plugin_NetworkCreate c, NetworkInspect = podman_plugin_NetworkInspect c,
     NetworkRemove = podman_plugin_NetworkRemove c, NetworkConnect = podman_plugin_NetworkConnect c,
     NetworkDisconnect = podman_plugin_NetworkDisconnect c, Info = podman_plugin_Info\<rparr>"

lemmas podman_plugin_defs = podman_plugin_New_def podman_plugin_ImageInspect_def podman_plugin_ImagesPull_def
  podman_plugin_ImagesList_def podman_plugin_ImageVersion_def podman_plugin_ContainerStart_def
  podman_plugin_ContainerWait_def podman_plugin_ContainerInspect_def podman_plugin_ContainerRestart_def
  podman_plugin_ContainerStop_def podman_plugin_ContainerRemove_def podman_plugin_ContainerExec_def
  podman_plugin_NetworkCreate_def podman_plugin_NetworkInspect_def podman_plugin_NetworkRemove_def
  podman_plugin_NetworkConnect_def podman_plugin_NetworkDisconnect_def podman_plugin_Info_def

lemma podman_plugin_is_driver:
  "PodmanPlugin c = (PodmanDriver rng c)\<lparr>ContainerCreate := podman_plugin_ContainerCreate c,
     ContainerList := podman_plugin_ContainerList c\<rparr>"
  by (simp add: PodmanPlugin_def PodmanDriver_def podman_plugin_defs)

section \<open>Loading a plug-in\<close>

text \<open>
  \<open>glob\<close> is \<open>filepath.Glob\<close> and \<open>open_plugin\<close> the package \<open>plugin\<close>: opening the module gives an
  error, a module whose symbol \<open>Driver\<close> is missing or no driver, or the plug-in of an engine, whose driver is
  given by \<open>P\<close>.
\<close>

definition no_driver :: "string \<Rightarrow> error" where
  "no_driver module = Err (''Plugin %!i(string='' @ module @ '')s not a driver'')"

definition plugin_module :: "string \<Rightarrow> string \<Rightarrow> string" where
  "plugin_module path ced = path @ ''/'' @ ced @ ''.so''"

definition init2 ::
  "(ce_kind \<Rightarrow> 'e Driver) \<Rightarrow> (string \<Rightarrow> string list result) \<Rightarrow> (string \<Rightarrow> ce_kind option result)
    \<Rightarrow> string \<Rightarrow> string \<Rightarrow> ('e world, unit) io" where
  "init2 P glob open_plugin path ced = (\<lambda>w.
     if CeDriver w \<noteq> None then (w, Inr ())
     else (let module = plugin_module path ced in
       case glob module of
         Inl err \<Rightarrow> (w, Inl err)
       | Inr [] \<Rightarrow> (w, Inl index_out_of_range)
       | Inr (_ # _) \<Rightarrow> (case open_plugin module of
             Inl err \<Rightarrow> (w, Inl err)
           | Inr None \<Rightarrow> (w, Inl (no_driver module))
           | Inr (Some k) \<Rightarrow> io_bind (io_wrap ''Error connecting to ce backend'' (on_engine (New (P k))))
               (\<lambda>_. set_driver k) w)))"

text \<open>The name of an engine, as \<open>Init\<close> knows it.\<close>

fun engine_name :: "ce_kind \<Rightarrow> string" where
  "engine_name Docker = ''docker''"
| "engine_name Podman = ''podman''"

lemma same_connection:
  "case connect_driver D k w of (w1, r1) \<Rightarrow>
     case io_bind (io_wrap ''Error connecting to ce backend'' (on_engine (New (D k)))) (\<lambda>_. set_driver k) w of
       (w2, r2) \<Rightarrow> w1 = w2 \<and> (r1 = Inr () \<longleftrightarrow> r2 = Inr ())"
  by (auto simp: connect_driver_def io_simps set_driver_def split: prod.split sum.split)

text \<open>
  Loading the docker plug-in is the same as using the driver of the binary: with the plug-in in its
  place, \<open>init2\<close> leaves the same world as \<open>Init\<close>, succeeds in the same cases, and the client has a driver
  whose every operation is that of the binary. Without a file of that name it panics, with a module that has
  no driver it reports an error, and either leaves the client without a driver.
\<close>

theorem plugin_loading:
  assumes "CeDriver w = None" "P Docker = DockerPlugin rng c" "D Docker = DockerDriver rng c"
  shows "(\<forall>f fs. glob (plugin_module path ''docker'') = Inr (f # fs) \<longrightarrow> open_plugin (plugin_module path ''docker'') = Inr (Some Docker)
      \<longrightarrow> P Docker = D Docker \<and> (case Init D ''docker'' w of (w1, r1) \<Rightarrow> case init2 P glob open_plugin path ''docker'' w of
          (w2, r2) \<Rightarrow> w1 = w2 \<and> (r1 = Inr () \<longleftrightarrow> r2 = Inr ())))
    \<and> (glob (plugin_module path ced) = Inr [] \<longrightarrow> init2 P glob open_plugin path ced w = (w, Inl index_out_of_range))
    \<and> (\<forall>f fs. glob (plugin_module path ced) = Inr (f # fs) \<longrightarrow> open_plugin (plugin_module path ced) = Inr None
      \<longrightarrow> init2 P glob open_plugin path ced w = (w, Inl (no_driver (plugin_module path ced))))"
proof -
  have same: "P Docker = D Docker" using assms(2,3) by (simp add: docker_plugin_is_driver)
  show ?thesis
    using assms(1) same_connection [of D Docker w] by (auto simp: same init2_def Init_def Let_def)
qed

section \<open>What the podman plug-in leaves out\<close>

text \<open>
  The podman plug-in runs the containers without the network of the site: the specification it makes is that
  of the driver with no privileges and no network, whatever networks were asked for. It lists the containers as they
  are, where the driver of the binary leaves the controller out and panics over a container without a name.
\<close>

theorem podman_plugin_differs:
  "podman_plugin_newContainerSpec options
      = (newPodmanContainerSpec rng options)\<lparr>sg_Privileged := False, sg_CNINetworks := []\<rparr>
   \<and> (case papi_List c 1 e of
        Inl err \<Rightarrow> podman_plugin_ContainerList c opts e = Inl err \<and> podman_ContainerList c opts e = Inl err
      | Inr cl \<Rightarrow> podman_plugin_ContainerList c opts e = Inr (map podman_summary cl)
          \<and> (if \<forall>x \<in> set cl. pl_Names x \<noteq> []
             then podman_ContainerList c opts e
               = Inr (map podman_summary (filter (\<lambda>x. hd (pl_Names x) \<noteq> ''skupper-service-controller'') cl))
             else podman_ContainerList c opts e = Inl (Panic ''index out of range [0] with length 0'')))"
proof -
  have "podman_summaries cl = (if \<forall>x \<in> set cl. pl_Names x \<noteq> []
      then Inr (map podman_summary (filter (\<lambda>x. hd (pl_Names x) \<noteq> ''skupper-service-controller'') cl))
      else Inl (Panic ''index out of range [0] with length 0''))" for cl
    by (induction cl) (auto split: list.split)
  then show ?thesis
    by (auto simp: podman_plugin_newContainerSpec_def newPodmanContainerSpec_def Let_def
        podman_plugin_ContainerList_def podman_ContainerList_def split: sum.split)
qed

text \<open>
  \<open>ContainerExec\<close> on podman gives the program its output back when the command ran; where the command
  could not be created or attached to, which is an error, the standard output stays in the pipe, which nobody reads.
\<close>

theorem exec_loses_stdout:
  "case podman_ContainerExec c cid cmd e of
     (e', Inr _) \<Rightarrow> exec_stdout c cid cmd e = Terminal
   | (e', Inl err) \<Rightarrow> (case papi_ExecCreate c cid cmd e of
         (e1, Inl err1) \<Rightarrow> err = err1 \<and> exec_stdout c cid cmd e = Pipe
       | (e1, Inr execID) \<Rightarrow> (case papi_ExecStartAndAttach c execID e1 of
             (e2, Inl err2) \<Rightarrow> err = err2 \<and> exec_stdout c cid cmd e = Pipe
           | (e2, Inr _) \<Rightarrow> papi_ExecInspect c execID e2 = Inl err \<and> exec_stdout c cid cmd e = Terminal))"
  by (auto simp: podman_ContainerExec_def exec_stdout_def io_bind_apply split: prod.split sum.split)

section \<open>Examples\<close>

text \<open>A client that is not connected, with the plug-in in its place.\<close>

definition fresh_client :: "unit world" where
  "fresh_client = \<lparr>env = \<lambda>_. [], fs = \<lparr>dirs = {||}, files = fmempty, denied = {||}\<rparr>, ifaces = \<lambda>_. [], engine = (),
     CeDriver = None\<rparr>"

lemma plugin_loading_witness:
  "\<forall>c :: unit docker_api. (case Init (\<lambda>_. DockerDriver sorted_list_of_fmap c) ''docker'' fresh_client of (w1, r1) \<Rightarrow>
      case init2 (\<lambda>_. DockerPlugin sorted_list_of_fmap c) (\<lambda>m. Inr [m]) (\<lambda>_. Inr (Some Docker)) ''/opt'' ''docker'' fresh_client of
        (w2, r2) \<Rightarrow> w1 = w2 \<and> (r1 = Inr () \<longleftrightarrow> r2 = Inr ()))"
proof
  fix c :: "unit docker_api"
  have "CeDriver fresh_client = None" by (simp add: fresh_client_def)
  from plugin_loading [of fresh_client "\<lambda>_. DockerPlugin sorted_list_of_fmap c" sorted_list_of_fmap c
      "\<lambda>_. DockerDriver sorted_list_of_fmap c" "\<lambda>m. Inr [m]" "''/opt''" "\<lambda>_. Inr (Some Docker)", OF this refl refl,
      THEN conjunct1, rule_format, OF refl refl, THEN conjunct2]
  show "case Init (\<lambda>_. DockerDriver sorted_list_of_fmap c) ''docker'' fresh_client of (w1, r1) \<Rightarrow>
      case init2 (\<lambda>_. DockerPlugin sorted_list_of_fmap c) (\<lambda>m. Inr [m]) (\<lambda>_. Inr (Some Docker)) ''/opt'' ''docker'' fresh_client of
        (w2, r2) \<Rightarrow> w1 = w2 \<and> (r1 = Inr () \<longleftrightarrow> r2 = Inr ())"
    .
qed

end
