(* ===== verification/Controller_Main.thy ===== *)
theory Controller_Main imports Controller_Examples Router_Spec begin

text \<open>
  The program of the controller: \<open>cmd/service-controller/main.go\<close>, and of \<open>controller.go\<close> and
  \<open>service_sync.go\<close> what starts the goroutines and what each of them does with the events it waits for.

  Where the code calls \<open>log.Fatal\<close> the program ends; here that is an error of \<open>controller_main\<close> like one
  that is returned. The AMQP library is a parameter, the answers of \<open>Dial\<close>, \<open>NewSession\<close>,
  \<open>NewReceiver\<close> and \<open>NewSender\<close>; a goroutine is a function of the events it receives, in their order.
\<close>

section \<open>Signals\<close>

text \<open>
  \<open>closed\<close> says whether the handler was set up before: closing the channel again panics. The handler
  counts: the first signal closes the stop channel, the second ends the program.
\<close>

definition SetupSignalHandler :: "bool \<Rightarrow> unit result" where
  "SetupSignalHandler closed = (if closed then Inl (Panic ''close of closed channel'') else Inr ())"

datatype run_state = Running | Stopping | Exited

fun on_signals :: "nat \<Rightarrow> run_state" where
  "on_signals 0 = Running"
| "on_signals (Suc 0) = Stopping"
| "on_signals (Suc (Suc n)) = Exited"

section \<open>The TLS configuration\<close>

text \<open>\<open>parse\<close> is the check of \<open>tls.LoadX509KeyPair\<close> on the contents of the two files.\<close>

record tls_Config =
  tc_InsecureSkipVerify :: bool
  tc_RootCAs :: "content option"
  tc_Certificates :: "(content \<times> content) list"
  tc_MinVersion :: nat

definition VersionTLS10 :: nat where "VersionTLS10 = 769"

definition path_exists :: "string \<Rightarrow> fsys \<Rightarrow> bool" where
  "path_exists p s \<longleftrightarrow> p |\<notin>| denied s \<and> (p |\<in>| dirs s \<or> p |\<in>| fmdom (files s))"

definition LoadX509KeyPair ::
  "(content \<Rightarrow> content \<Rightarrow> unit result) \<Rightarrow> string \<Rightarrow> string \<Rightarrow> ('e world, content \<times> content) io" where
  "LoadX509KeyPair parse cert key = io_bind (ReadFile cert) (\<lambda>c. io_bind (ReadFile key) (\<lambda>k.
     io_bind (io_lift (parse c k)) (\<lambda>_. io_return (c, k))))"

definition getTlsConfig ::
  "(content \<Rightarrow> content \<Rightarrow> unit result) \<Rightarrow> bool \<Rightarrow> string \<Rightarrow> string \<Rightarrow> string \<Rightarrow> ('e world, tls_Config) io" where
  "getTlsConfig parse verify cert key ca =
     io_bind (if verify then io_bind (ReadFile ca) (\<lambda>file. io_return (Some file)) else io_return None) (\<lambda>pool w.
     (let config = \<lparr>tc_InsecureSkipVerify = (pool = None), tc_RootCAs = pool, tc_Certificates = [],
            tc_MinVersion = VersionTLS10\<rparr>
      in if path_exists cert (fs w) \<or> path_exists key (fs w)
         then io_bind (io_wrap ''Could not load x509 key pair'' (LoadX509KeyPair parse cert key)) (\<lambda>tlsCert.
           io_return (config\<lparr>tc_Certificates := [tlsCert]\<rparr>)) w
         else (w, Inr config)))"

section \<open>The program\<close>

definition ControllerConfigPath :: string where "ControllerConfigPath = ''/etc/messaging/''"

record controller_run =
  cr_controller :: Controller
  cr_tls :: tls_Config

definition container_engine :: "string \<Rightarrow> string" where
  "container_engine val = (if val \<noteq> [] then val else ''docker'')"

definition controller_main ::
  "(ce_kind \<Rightarrow> 'e Driver) \<Rightarrow> (content \<Rightarrow> content \<Rightarrow> unit result) \<Rightarrow> ('e world, controller_run) io" where
  "controller_main D parse =
     io_bind (Getenv ''SKUPPER_SITE_ID'') (\<lambda>siteId.
     io_bind (Getenv ''SKUPPER_CONTAINER_ENGINE'') (\<lambda>ced.
     io_bind (io_lift (SetupSignalHandler False)) (\<lambda>_.
     io_bind (io_wrap ''Error van client init'' (Init D (container_engine ced))) (\<lambda>_.
     io_bind (io_wrap ''Error getting tls config'' (getTlsConfig parse True
       (ControllerConfigPath @ ''tls.crt'') (ControllerConfigPath @ ''tls.key'') (ControllerConfigPath @ ''ca.crt''))) (\<lambda>tls.
     io_bind (io_wrap ''Error running controller'' (Run D)) (\<lambda>_.
       io_return \<lparr>cr_controller = NewController siteId, cr_tls = tls\<rparr>))))))"

section \<open>Receiving\<close>

definition ServiceSyncAddress :: string where "ServiceSyncAddress = ''mc/$skupper-service-sync''"

definition router_url :: string where "router_url = ''amqps://skupper-router:5671''"

text \<open>What the library answers when the connection, the session and the two links are made.\<close>

record amqp =
  am_Dial :: "string \<Rightarrow> unit result"
  am_NewSession :: "unit result"
  am_NewReceiver :: "string \<Rightarrow> unit result"
  am_NewSender :: "string \<Rightarrow> unit result"

text \<open>A message, with the time and the orders of the loops when it is handled, or the error of \<open>Receive\<close>.\<close>

datatype received = Got int map_order map_order Message | Lost error

fun receive_loop :: "received list \<Rightarrow> ('e node, unit) io" where
  "receive_loop [] = io_return ()"
| "receive_loop (Lost err # es) = io_fail (wrap_error ''Failed reading message from service sync'' err)"
| "receive_loop (Got t r1 r2 msg # es) = io_bind (handle_message t r1 r2 msg) (\<lambda>_. receive_loop es)"

definition sync_connect :: "amqp \<Rightarrow> unit result" where
  "sync_connect am = rbind (rwrap ''Failed to create amqp connection'' (am_Dial am router_url)) (\<lambda>_.
     rbind (rwrap ''Failed to create amqp session'' (am_NewSession am)) (\<lambda>_.
     rwrap ''Failed to create amqp receiver'' (am_NewReceiver am ServiceSyncAddress)))"

text \<open>The goroutine; its error is dropped by \<open>Run\<close>.\<close>

definition runServiceSync :: "amqp \<Rightarrow> received list \<Rightarrow> ('e node, unit) io" where
  "runServiceSync am es = io_bind (io_lift (sync_connect am)) (\<lambda>_. receive_loop es)"

section \<open>Sending\<close>

text \<open>
  The two tickers: every five seconds the local services are sent, in the order the loop visits them, and
  every thirty the origins age. Whether a message could be sent is not looked at. \<open>sender_loop\<close> gives
  the messages that were handed to the link.
\<close>

datatype tick = SendTick "(string \<times> ServiceInterface) list" | AgeTick int map_order "(string \<times> service_defs) list"

fun sender_loop :: "tick list \<Rightarrow> ('e node, Message list) io" where
  "sender_loop [] = io_return []"
| "sender_loop (SendTick es # ts) = (\<lambda>n. io_bind (sender_loop ts) (\<lambda>msgs. io_return (sync_message es (ctl n) # msgs)) n)"
| "sender_loop (AgeTick now rng es # ts) = io_bind (age_tick now rng es) (\<lambda>goes_on.
     if goes_on then sender_loop ts else io_return [])"

definition syncSender :: "amqp \<Rightarrow> tick list \<Rightarrow> ('e node, Message list) io" where
  "syncSender am ts = io_bind (io_lift (rwrap ''Failed to create sender'' (am_NewSender am ServiceSyncAddress)))
     (\<lambda>_. sender_loop ts)"

section \<open>Watching\<close>

text \<open>The events of the watcher: whether each is a write, with the orders of the loops that handle it.\<close>

fun watch_loop :: "(ce_kind \<Rightarrow> 'e Driver) \<Rightarrow> (loop_orders \<times> bool) list \<Rightarrow> ('e node, unit) io" where
  "watch_loop D [] = io_return ()"
| "watch_loop D ((os, is_write) # es) = io_bind (watch_event D os is_write) (\<lambda>_. watch_loop D es)"

definition runServiceDefsWatcher ::
  "(ce_kind \<Rightarrow> 'e Driver) \<Rightarrow> loop_orders \<Rightarrow> (string \<Rightarrow> int) \<Rightarrow> bool \<Rightarrow> (loop_orders \<times> bool) list \<Rightarrow> ('e node, unit) io" where
  "runServiceDefsWatcher D os now added es = io_bind (start_watcher D os now added) (\<lambda>started.
     if started then watch_loop D es else io_return ())"

section \<open>What the program ensures\<close>

lemma untouched_Run [simp]: "untouched (Run D)"
proof -
  have "untouched (Getenv n)" for n :: string by (simp add: untouched_def Getenv_def host_of_def)
  then show ?thesis unfolding Run_def by auto
qed

lemma getTlsConfig_Inr:
  "getTlsConfig parse verify cert key ca w = (w', Inr c) \<Longrightarrow> w' = w \<and> tc_InsecureSkipVerify c = (\<not> verify)
    \<and> (if verify then \<exists>file. fs_read ca (fs w) = Inr file \<and> tc_RootCAs c = Some file else tc_RootCAs c = None)
    \<and> (if path_exists cert (fs w) \<or> path_exists key (fs w)
       then \<exists>p k. fs_read cert (fs w) = Inr p \<and> fs_read key (fs w) = Inr k \<and> parse p k = Inr ()
         \<and> tc_Certificates c = [(p, k)]
       else tc_Certificates c = [])"
  by (auto simp: getTlsConfig_def LoadX509KeyPair_def io_bind_apply io_wrap_apply ReadFile_def Let_def
      split: sum.splits prod.splits if_splits)

text \<open>
  Property C19. The controller never speaks to the router without checking its certificate: when the program starts its
  workers the configuration verifies against the certificate authority read from the file of the site, and
  presents a certificate whenever there is one, both parts of it read and accepted; the origin it stamps its
  services with is the site's and the engine is the one the environment names.
\<close>

theorem controller_verifies:
  assumes "controller_main D parse w = (w', Inr r)"
  shows "\<not> tc_InsecureSkipVerify (cr_tls r)
    \<and> (\<exists>file. fs_read ''/etc/messaging/ca.crt'' (fs w) = Inr file \<and> tc_RootCAs (cr_tls r) = Some file)
    \<and> (path_exists ''/etc/messaging/tls.crt'' (fs w) \<or> path_exists ''/etc/messaging/tls.key'' (fs w) \<longrightarrow>
        (\<exists>c k. fs_read ''/etc/messaging/tls.crt'' (fs w) = Inr c \<and> fs_read ''/etc/messaging/tls.key'' (fs w) = Inr k
          \<and> parse c k = Inr () \<and> tc_Certificates (cr_tls r) = [(c, k)]))
    \<and> k_origin (cr_controller r) = env w ''SKUPPER_SITE_ID'' \<and> CeDriver w' \<noteq> None
    \<and> (CeDriver w = None \<longrightarrow> CeDriver w' =
        (if container_engine (env w ''SKUPPER_CONTAINER_ENGINE'') = ''docker'' then Some Docker else Some Podman))"
proof -
  let ?ce = "container_engine (env w ''SKUPPER_CONTAINER_ENGINE'')"
  let ?tls = "getTlsConfig parse True ''/etc/messaging/tls.crt'' ''/etc/messaging/tls.key'' ''/etc/messaging/ca.crt''"
  obtain w1 where i: "Init D ?ce w = (w1, Inr ())"
    and "io_bind (io_wrap ''Error getting tls config'' ?tls) (\<lambda>tls.
      io_bind (io_wrap ''Error running controller'' (Run D)) (\<lambda>_.
       io_return \<lparr>cr_controller = NewController (env w ''SKUPPER_SITE_ID''), cr_tls = tls\<rparr>)) w1 = (w', Inr r)"
    using assms by (auto simp: controller_main_def Getenv_def SetupSignalHandler_def ControllerConfigPath_def io_wrap_Inr
        io_bind_apply split: prod.splits sum.splits)
  then obtain tls w2 where t: "?tls w1 = (w2, Inr tls)"
    and run: "Run D w2 = (w', Inr ())" "r = \<lparr>cr_controller = NewController (env w ''SKUPPER_SITE_ID''), cr_tls = tls\<rparr>"
    by (auto simp: io_wrap_Inr elim!: io_bind_InrE)
  have h: "fs w1 = fs w" using untouchedD [OF untouched_Init i] by (simp add: host_of_def)
  note tls = getTlsConfig_Inr [OF t, simplified h]
  have "CeDriver w' = CeDriver w2"
    using run(1) by (auto simp: Run_def Getenv_def io_bind_apply io_wrap_apply ce_def on_engine_def
        split: prod.splits sum.splits option.splits)
  moreover have "CeDriver w1 = (case CeDriver w of Some k \<Rightarrow> Some k
      | None \<Rightarrow> if ?ce = ''docker'' then Some Docker else Some Podman)" "CeDriver w1 \<noteq> None"
    using i by (auto simp: Init_def connect_driver_def io_bind_apply io_wrap_apply on_engine_def set_driver_def
        split: option.splits if_splits prod.splits sum.splits)
  moreover have "k_origin (cr_controller r) = env w ''SKUPPER_SITE_ID''" "cr_tls r = tls" using run(2) by (simp_all add: NewController_def)
  ultimately show ?thesis using tls by (auto split: option.splits if_splits)
qed

text \<open>The variables the client gives the controller's container are the ones the controller reads.\<close>

lemma controller_of_site:
  assumes "controller_main D parse v = (v', Inr r)" "CeDriver v = None" "ss_ContainerEngineDriver options \<in> {''docker'', ''podman''}"
    and "\<And>n val. fmlookup (ds_EnvVar (controller_spec goos w options siteId)) n = Some val \<Longrightarrow> env v n = val"
  shows "k_origin (cr_controller r) = siteId
    \<and> CeDriver v' = Some (if ss_ContainerEngineDriver options = ''docker'' then Docker else Podman)"
proof -
  have "env v ''SKUPPER_SITE_ID'' = siteId" "env v ''SKUPPER_CONTAINER_ENGINE'' = ss_ContainerEngineDriver options"
    by (rule assms(4); simp add: controller_spec_def Let_def controller_env_def fmlookup_of_list)+
  with controller_verifies [OF assms(1)] assms(2,3) show ?thesis by (auto simp: container_engine_def split: if_splits)
qed

section \<open>How the exchange ends\<close>

lemma receive_append: "receive_loop (es @ es') = io_bind (receive_loop es) (\<lambda>_. receive_loop es')"
proof (induction es)
  case (Cons x es)
  then show ?case by (cases x) (auto simp: fun_eq_iff io_bind_apply split: prod.split sum.split)
qed (simp add: fun_eq_iff io_bind_apply)

lemma receive_ends: "snd (receive_loop (es @ [Lost err]) n) \<noteq> Inr ()"
  by (auto simp: receive_append io_bind_apply split: prod.split sum.split)


text \<open>Every message that is sent announces the site, with the services it had when it was sent.\<close>

lemma age_tick_same_site: "age_tick now rng es n = (n', r) \<Longrightarrow> k_origin (ctl n') = k_origin (ctl n) \<and> localServices (ctl n') = localServices (ctl n)"
  by (auto simp: age_tick_def split: prod.splits sum.splits option.splits)

lemma sender_announces:
  assumes "sender_loop ts n = (n', Inr msgs)" "\<forall>es. SendTick es \<in> set ts \<longrightarrow> ranges_over es (localServices (ctl n))"
    and "msg \<in> set msgs"
  shows "\<exists>es. ranges_over es (localServices (ctl n)) \<and> msg = sync_message es (ctl n)"
proof -
  have "\<exists>es. SendTick es \<in> set ts \<and> (\<forall>c. k_origin c = k_origin (ctl n) \<longrightarrow> msg = sync_message es c)"
    using assms(1,3)
  proof (induction ts arbitrary: n n' msgs)
    case (Cons t ts)
    show ?case
    proof (cases t)
      case (SendTick es)
      then obtain ms where "sender_loop ts n = (n', Inr ms)" "msgs = sync_message es (ctl n) # ms"
        using Cons.prems(1) by (auto elim!: io_bind_InrE)
      with Cons.IH [of n n' ms] Cons.prems(2) SendTick show ?thesis by (auto simp: sync_message_def)
    next
      case (AgeTick now rng es)
      then obtain n1 b where a: "age_tick now rng es n = (n1, Inr b)"
        "(if b then sender_loop ts else io_return []) n1 = (n', Inr msgs)"
        using Cons.prems(1) by (auto elim!: io_bind_InrE)
      then have b: "sender_loop ts n1 = (n', Inr msgs)" using Cons.prems(2) by (cases b) auto
      have "k_origin (ctl n1) = k_origin (ctl n)" using age_tick_same_site [OF a(1)] by simp
      with Cons.IH [OF b Cons.prems(2)] show ?thesis by auto
    qed
  qed simp
  with assms(2) show ?thesis by blast
qed

text \<open>The address the controllers meet at is one the routers deliver to every subscriber.\<close>

lemma sync_address_multicast:
  "\<exists>a. fmlookup (Addresses (site_router options name siteId)) (a_Prefix a) = Some a
    \<and> HasPrefix ServiceSyncAddress (a_Prefix a @ ''/'') \<and> a_Distribution a = ''multicast''"
  by (auto simp: site_router_def base_router_def add_interior_def add_console_def Let_def AddAddress_def AddListener_def
      AddSslProfile_def HasPrefix_def ServiceSyncAddress_def intro: exI [of _ "\<lparr>a_Prefix = ''mc'', a_Distribution = ''multicast''\<rparr>"])

section \<open>An example\<close>

text \<open>A container with the certificates of the site, whose key pair is accepted.\<close>

definition controller_host :: "demo world" where
  "controller_host = \<lparr>env = (\<lambda>n. if n = ''SKUPPER_SITE_ID'' then ''site-1'' else []),
     fs = \<lparr>dirs = {|''/etc/messaging''|}, files = fmap_of_list [(''/etc/messaging/ca.crt'', Text ''ca''),
       (''/etc/messaging/tls.crt'', Text ''crt''), (''/etc/messaging/tls.key'', Text ''key'')], denied = {||}\<rparr>,
     ifaces = \<lambda>_. [], engine = fmempty, CeDriver = None\<rparr>"

lemma controller_verifies_witness:
  "\<exists>w' r. controller_main demo_D (\<lambda>_ _. Inr ()) controller_host = (w', Inr r)
    \<and> tc_RootCAs (cr_tls r) = Some (Text ''ca'') \<and> tc_Certificates (cr_tls r) = [(Text ''crt'', Text ''key'')]
    \<and> k_origin (cr_controller r) = ''site-1'' \<and> CeDriver w' = Some Docker"
proof -
  have read: "fs_read ''/etc/messaging/ca.crt'' (fs controller_host) = Inr (Text ''ca'')"
    "fs_read ''/etc/messaging/tls.crt'' (fs controller_host) = Inr (Text ''crt'')"
    "fs_read ''/etc/messaging/tls.key'' (fs controller_host) = Inr (Text ''key'')"
    and there: "path_exists ''/etc/messaging/tls.crt'' (fs controller_host)"
    by (simp_all add: controller_host_def fs_read_def path_exists_def fmlookup_of_list)
  have tls: "\<exists>c. getTlsConfig (\<lambda>_ _. Inr ()) True ''/etc/messaging/tls.crt'' ''/etc/messaging/tls.key'' ''/etc/messaging/ca.crt''
      w = (w, Inr c)" if "fs w = fs controller_host" for w :: "demo world"
    using that read there by (auto simp: getTlsConfig_def LoadX509KeyPair_def io_bind_apply io_wrap_apply ReadFile_def Let_def)
  obtain w' r where run: "controller_main demo_D (\<lambda>_ _. Inr ()) controller_host = (w', Inr r)"
  proof -
    have e: "env controller_host ''SKUPPER_SITE_ID'' = ''site-1''" "env controller_host ''SKUPPER_CONTAINER_ENGINE'' = []"
      "env controller_host ''QDROUTERD_IMAGE'' = []" "CeDriver controller_host = None"
      by (simp_all add: controller_host_def)
    let ?w = "controller_host\<lparr>CeDriver := Some Docker\<rparr>"
    have "Init demo_D ''docker'' controller_host = (?w, Inr ())"
      by (simp add: Init_def e connect_driver_def io_bind_apply io_wrap_apply on_engine_def demo_driver_def set_driver_def)
    moreover obtain c where "getTlsConfig (\<lambda>_ _. Inr ()) True ''/etc/messaging/tls.crt'' ''/etc/messaging/tls.key''
        ''/etc/messaging/ca.crt'' ?w = (?w, Inr c)" using tls [of ?w] by auto
    moreover have "Run demo_D ?w = (?w, Inr ())"
      by (simp add: Run_def Getenv_def e io_bind_apply io_wrap_apply ce_def on_engine_def demo_driver_def)
    ultimately show thesis
      by (intro that [of ?w "\<lparr>cr_controller = NewController ''site-1'', cr_tls = c\<rparr>"])
        (simp add: controller_main_def Getenv_def e SetupSignalHandler_def container_engine_def ControllerConfigPath_def
          io_bind_apply io_wrap_apply)
  qed
  have e: "env controller_host ''SKUPPER_SITE_ID'' = ''site-1''" "env controller_host ''SKUPPER_CONTAINER_ENGINE'' = []"
    "CeDriver controller_host = None" by (simp_all add: controller_host_def)
  from controller_verifies [OF run] read there run show ?thesis unfolding e by (auto simp: container_engine_def)
qed

end
