(* ===== verification/Driver_Laws.thy ===== *)
theory Driver_Laws imports Docker_Driver Podman_Driver Router_Lifecycle Service_Laws begin

text \<open>
  What the two implementations of \<open>Driver\<close> do to the programs that run on them: what docker is asked to
  create again when a container is recreated, the containers that docker cannot show, and the programs
  that podman's inspections cannot carry.
\<close>

section \<open>The environment of a container\<close>

lemma SplitN2_env_var: "CHR ''='' \<notin> set k \<Longrightarrow> SplitN2 (k @ CHR ''='' # v) (CHR ''='') = [k, v]"
  by (simp add: SplitN2_def takeWhile_append dropWhile_append)

lemma env_vars_step:
  "CHR ''='' \<notin> set k \<Longrightarrow> env_vars (env_var (k, v) # vs) m = env_vars vs (if v \<noteq> [] then fmupd k v m else m)"
  by (simp add: env_var_def SplitN2_env_var)

definition set_vars :: "(string, string) fmap \<Rightarrow> (string, string) fmap" where
  "set_vars m = fmfilter (\<lambda>k. fmlookup m k \<noteq> Some []) m"

lemma env_vars_written:
  assumes "distinct (map fst es)" "\<forall>(k, v) \<in> set es. CHR ''='' \<notin> set k"
  shows "\<exists>m. env_vars (map env_var es) acc = Inr m \<and> (\<forall>k. fmlookup m k =
    (case map_of es k of Some v \<Rightarrow> if v \<noteq> [] then Some v else fmlookup acc k | None \<Rightarrow> fmlookup acc k))"
  using assms
proof (induction es arbitrary: acc)
  case (Cons e es)
  obtain k v where e: "e = (k, v)" by fastforce
  let ?acc = "if v \<noteq> [] then fmupd k v acc else acc"
  from Cons.IH [of ?acc] Cons.prems obtain m where m: "env_vars (map env_var es) ?acc = Inr m"
    "\<forall>j. fmlookup m j = (case map_of es j of Some v \<Rightarrow> if v \<noteq> [] then Some v else fmlookup ?acc j
       | None \<Rightarrow> fmlookup ?acc j)"
    by auto
  have n: "map_of es k = None" using Cons.prems(1) e by (simp add: map_of_eq_None_iff)
  have "env_vars (map env_var (e # es)) acc = Inr m"
    using env_vars_step [of k v] m(1) Cons.prems(2) e by (simp del: env_vars.simps(2))
  moreover have "fmlookup m j = (case map_of (e # es) j of Some v \<Rightarrow> if v \<noteq> [] then Some v else fmlookup acc j
       | None \<Rightarrow> fmlookup acc j)" for j
    using m(2) n e by (cases "j = k") (auto split: option.split)
  ultimately show ?case by blast
qed simp

lemma env_read_back:
  assumes "ranges_over (rng m) m" "\<forall>k. k |\<in>| fmdom m \<longrightarrow> CHR ''='' \<notin> set k"
  shows "env_vars (map env_var (rng m)) fmempty = Inr (set_vars m)"
proof -
  have "\<forall>(k, v) \<in> set (rng m). CHR ''='' \<notin> set k"
    using assms ranges_over_mem [OF assms(1)] by (fastforce intro: fmdomI)
  from env_vars_written [OF ranges_over_distinct [OF assms(1)] this, of fmempty]
  obtain m' where m': "env_vars (map env_var (rng m)) fmempty = Inr m'"
    "\<forall>k. fmlookup m' k = (case map_of (rng m) k of Some v \<Rightarrow> if v \<noteq> [] then Some v else None | None \<Rightarrow> None)"
    unfolding fmempty_lookup by blast
  have "m' = set_vars m"
    by (rule fmap_ext) (simp add: m' set_vars_def ranges_over_lookup [OF assms(1)] split: option.split)
  with m'(1) show ?thesis by simp
qed

text \<open>What a reading of an environment gives: names without \<open>=\<close>, values that are not empty.\<close>

definition clean_env :: "(string, string) fmap \<Rightarrow> bool" where
  "clean_env m \<longleftrightarrow> (\<forall>k v. fmlookup m k = Some v \<longrightarrow> CHR ''='' \<notin> set k \<and> v \<noteq> [])"

lemma env_vars_clean: "env_vars vs acc = Inr m \<Longrightarrow> clean_env acc \<Longrightarrow> clean_env m"
proof (induction vs acc rule: env_vars.induct)
  case (2 v rest acc)
  show ?case
  proof (cases "CHR ''='' \<in> set v")
    case True
    let ?n = "takeWhile (\<lambda>x. x \<noteq> CHR ''='') v" and ?v = "tl (dropWhile (\<lambda>x. x \<noteq> CHR ''='') v)"
    have s: "SplitN2 v (CHR ''='') = [?n, ?v]" using True by (simp add: SplitN2_def)
    have "CHR ''='' \<notin> set ?n" using set_takeWhileD by fast
    then have "clean_env (if ?v \<noteq> [] then fmupd ?n ?v acc else acc)"
      using "2.prems"(2) by (auto simp: clean_env_def)
    with "2.IH" [OF s refl] "2.prems"(1) s show ?thesis by simp
  qed (use "2.prems"(1) in \<open>simp add: SplitN2_def\<close>)
qed simp

lemma set_vars_clean: "clean_env m \<Longrightarrow> set_vars m = m"
  by (rule fmap_ext) (auto simp: set_vars_def clean_env_def)

lemma clean_env_again:
  "env_vars vs fmempty = Inr m \<Longrightarrow> ranges_over (rng m) m \<Longrightarrow> env_vars (map env_var (rng m)) fmempty = Inr m"
proof -
  assume a: "env_vars vs fmempty = Inr m" "ranges_over (rng m) m"
  have c: "clean_env m" using env_vars_clean [OF a(1)] by (simp add: clean_env_def)
  then have "\<forall>k. k |\<in>| fmdom m \<longrightarrow> CHR ''='' \<notin> set k" by (auto simp: clean_env_def fmdom_lookup)
  from env_read_back [of rng m, OF a(2) this] show ?thesis by (simp add: set_vars_clean [OF c])
qed

text \<open>
  The variables that docker is given for a container, written as \<open>name=value\<close> in any order, are
  read back as they were, but for those with an empty value, which are lost: provided that no name
  contains an equals sign.
\<close>

theorem docker_env_read_back:
  assumes "ranges_over (rng m) m" "\<forall>k. k |\<in>| fmdom m \<longrightarrow> CHR ''='' \<notin> set k"
  shows "env_vars (map env_var (rng m)) fmempty = Inr (fmfilter (\<lambda>k. fmlookup m k \<noteq> Some []) m)"
  using env_read_back [of rng m, OF assms] by (simp add: set_vars_def)

section \<open>Containers docker can show\<close>

lemma env_vars_total: "(\<exists>m. env_vars vs acc = Inr m) \<longleftrightarrow> (\<forall>v \<in> set vs. CHR ''='' \<in> set v)"
  by (induction vs acc rule: env_vars.induct) (auto simp: SplitN2_def)

lemma env_vars_panics: "env_vars vs acc = Inl err \<Longrightarrow> err = slice_out_of_range"
  by (induction vs acc rule: env_vars.induct) (auto simp: SplitN2_def split: if_splits)

definition can_show :: "ContainerJSON \<Rightarrow> bool" where
  "can_show j \<longleftrightarrow> (\<forall>v \<in> set (dc_Env (cj_Config j)). CHR ''='' \<in> set v) \<and> dc_Healthcheck (cj_Config j) \<noteq> None"

lemma docker_inspection_cases:
  "case docker_inspection j of Inl err \<Rightarrow> \<not> can_show j \<and> (\<exists>s. err = Panic s)
   | Inr ci \<Rightarrow> can_show j \<and> Inr (cc_Env (cin_Config ci)) = env_vars (dc_Env (cj_Config j)) fmempty
       \<and> cc_Healthcheck (cin_Config ci) = dc_Healthcheck (cj_Config j)
       \<and> fmdom (cnc_Networks (cin_NetworkSettings ci)) = fmdom (cj_Networks j)"
proof (cases "env_vars (dc_Env (cj_Config j)) fmempty")
  case (Inl err)
  with env_vars_panics [OF Inl] env_vars_total [of "dc_Env (cj_Config j)" fmempty] show ?thesis
    by (auto simp: docker_inspection_def can_show_def slice_out_of_range_def)
next
  case (Inr m)
  then have "\<forall>v \<in> set (dc_Env (cj_Config j)). CHR ''='' \<in> set v" using env_vars_total by blast
  with Inr show ?thesis
    by (auto simp: docker_inspection_def can_show_def nil_pointer_def Let_def split: option.split)
qed

lemma docker_inspection_Inr:
  assumes "docker_inspection j = Inr ci"
  shows "cc_Hostname (cin_Config ci) = dc_Hostname (cj_Config j)"
    "cc_Image (cin_Config ci) = dc_Image (cj_Config j)" "cc_Labels (cin_Config ci) = dc_Labels (cj_Config j)"
    "cc_ExposedPorts (cin_Config ci) = dc_ExposedPorts (cj_Config j)"
    "cc_Healthcheck (cin_Config ci) = dc_Healthcheck (cj_Config j)" "dc_Healthcheck (cj_Config j) \<noteq> None"
    "env_vars (dc_Env (cj_Config j)) fmempty = Inr (cc_Env (cin_Config ci))"
    "cin_Mounts ci = map docker_mount_point (cj_Mounts j)"
    "fmdom (cnc_Networks (cin_NetworkSettings ci)) = fmdom (cj_Networks j)"
  using assms by (auto simp: docker_inspection_def Let_def split: option.splits)

text \<open>
  Docker shows a container exactly when every variable of its environment contains an
  equals sign and it has a health check; for any other container the inspection does not fail, it panics.
\<close>

theorem docker_shows:
  "case docker_inspection j of
     Inr ci \<Rightarrow> (\<forall>v \<in> set (dc_Env (cj_Config j)). CHR ''='' \<in> set v)
       \<and> dc_Healthcheck (cj_Config j) \<noteq> None
       \<and> Inr (cc_Env (cin_Config ci)) = env_vars (dc_Env (cj_Config j)) fmempty
   | Inl err \<Rightarrow> (\<exists>s. err = Panic s)
       \<and> ((\<exists>v \<in> set (dc_Env (cj_Config j)). CHR ''='' \<notin> set v) \<or> dc_Healthcheck (cj_Config j) = None)"
  using docker_inspection_cases [of j] by (auto simp: can_show_def split: sum.splits)

section \<open>Recreating a container on docker\<close>

lemma contextError_Inr: "contextError t = Inr x \<longleftrightarrow> t = (False, Inr x)"
  by (cases t rule: contextError.cases) auto

lemma timed_do_Inr: "timed_do f e = (e', Inr x) \<longleftrightarrow> f e = (e', False, Inr x)"
  by (auto simp: timed_do_def contextError_Inr split: prod.splits)

lemma docker_inspect_Inr:
  assumes "docker_ContainerInspect c cid e = Inr ci"
  obtains j where "api_ContainerInspect c cid e = (False, Inr j)" "docker_inspection j = Inr ci"
  using assms by (auto simp: docker_ContainerInspect_def timed_ask_def contextError_Inr)

lemma docker_create_Inr:
  assumes "docker_ContainerCreate rng c opts e = (e', Inr resp)"
  obtains spec where "newDockerContainerSpec rng opts = Inr spec"
    "api_ContainerCreate c spec e = (e', Inr (ccr_ID resp))"
  using assms unfolding docker_ContainerCreate_def
  by (elim io_bind_InrE) auto

text \<open>The steps of a recreation that goes through, for any driver.\<close>

lemma RecreateContainer_Inr:
  assumes "RecreateContainer name d e = (e', Inr ())"
  obtains ci e0 e1 e2 resp where "ContainerInspect d name e = Inr ci"
    "ContainerStop d name e = (e0, Inr ())" "ContainerRemove d name e0 = (e1, Inr ())"
    "ContainerCreate d (recreate_options name ci) e1 = (e2, Inr resp)"
    "ContainerStart d (ccr_ID resp) e2 = (e', Inr ())"
  using assms unfolding RecreateContainer_def
  by (elim io_bind_InrE) (auto simp: io_wrap_Inr)

text \<open>The container that docker is asked for is the one it showed.\<close>

definition same_container :: "string \<Rightarrow> ContainerJSON \<Rightarrow> ContainerCreateConfig \<Rightarrow> bool" where
  "same_container name j spec \<longleftrightarrow> dcc_Name spec = name
    \<and> dc_Hostname (dcc_Config spec) = dc_Hostname (cj_Config j)
    \<and> dc_Image (dcc_Config spec) = dc_Image (cj_Config j)
    \<and> dc_Labels (dcc_Config spec) = dc_Labels (cj_Config j)
    \<and> dc_ExposedPorts (dcc_Config spec) = dc_ExposedPorts (cj_Config j)
    \<and> env_vars (dc_Env (dcc_Config spec)) fmempty = env_vars (dc_Env (cj_Config j)) fmempty
    \<and> map_option hc_Test (dc_Healthcheck (dcc_Config spec)) = map_option hc_Test (dc_Healthcheck (cj_Config j))
    \<and> map (\<lambda>b. (db_Source b, db_Target b)) (dh_Mounts (dcc_HostConfig spec))
      = map (\<lambda>b. (dm_Source b, dm_Destination b)) (cj_Mounts j)
    \<and> fmdom (dcc_EndpointsConfig spec) = fmdom (cj_Networks j)"

definition forgets_settings :: "ContainerCreateConfig \<Rightarrow> bool" where
  "forgets_settings spec \<longleftrightarrow> dc_Cmd (dcc_Config spec) = []
    \<and> (case dc_Healthcheck (dcc_Config spec) of None \<Rightarrow> False
       | Some hc \<Rightarrow> hc_Interval hc = 0 \<and> hc_Timeout hc = 0 \<and> hc_Retries hc = 0)"

lemma recreated_spec:
  assumes "\<And>m. ranges_over (rng m) m" "docker_inspection j = Inr ci"
    "newDockerContainerSpec rng (recreate_options name ci) = Inr spec"
  shows "same_container name j spec" "forgets_settings spec"
proof -
  note ci = docker_inspection_Inr [OF assms(2)]
  note env = clean_env_again [of _ _ rng, OF ci(7) assms(1)]
  obtain hc where hc: "dc_Healthcheck (cj_Config j) = Some hc" using ci(6) by blast
  note spec = assms(3) [unfolded newDockerContainerSpec_def recreate_options_def Let_def, simplified ci(5) hc, simplified]
  show "same_container name j spec"
    unfolding same_container_def
    by (simp add: spec [symmetric] ci hc env docker_mount_def plain_mount_def docker_mount_point_def)
  show "forgets_settings spec"
    by (simp add: forgets_settings_def spec [symmetric])
qed


section \<open>Exposing a container on docker\<close>

lemma svc_bind_engine:
  assumes "site_client D w = (w1, Inr sc)" "CeDriver w = Some k"
  shows "engine w1 = engine w" "CeDriver w1 = Some k"
  using assms site_client_ready [OF site_client_Inr(1) [OF assms(1)]] by simp_all

text \<open>
  With docker a container without a health check, or with a variable without a value, cannot be
  exposed: however the service is set up the binding does not succeed, and no file changes.
\<close>

theorem docker_exposes_only_shown:
  assumes "CeDriver w = Some Docker" "D Docker = DockerDriver rng c"
    "api_ContainerInspect c name (engine w) = (False, Inr j)" "\<not> can_show j"
  shows "(\<forall>u. snd (ServiceInterfaceBind D service ''container'' name protocol port w) \<noteq> Inr u)
    \<and> fs (fst (ServiceInterfaceBind D service ''container'' name protocol port w)) = fs w"
proof -
  have "docker_ContainerInspect c name (engine w) = docker_inspection j"
    using assms(3) by (simp add: docker_ContainerInspect_def timed_ask_def)
  then obtain err where err: "ContainerInspect (D Docker) name (engine w) = Inl err"
    using docker_inspection_cases [of j] assms(2,4) by (auto simp: DockerDriver_def split: sum.splits)
  have t: "getServiceInterfaceTarget D ''container'' name b w1 \<noteq> (w2, Inr x)"
    if "engine w1 = engine w" "CeDriver w1 = Some Docker" for w1 w2 b x
    using that err by (auto simp: getServiceInterfaceTarget_def io_bind_def io_wrap_def ce_def on_engine_def)
  have no: "snd (ServiceInterfaceBind D service ''container'' name protocol port w) \<noteq> Inr u" for u
  proof
    assume "snd (ServiceInterfaceBind D service ''container'' name protocol port w) = Inr u"
    then obtain w' where "ServiceInterfaceBind D service ''container'' name protocol port w = (w', Inr u)"
      by (metis prod.collapse)
    then show False
      unfolding ServiceInterfaceBind_def
    proof (elim io_bind_InrE)
      fix w1 sc w2 ci w3 v
      assume "site_client D w = (w1, Inr sc)"
      from svc_bind_engine [OF this assms(1)] have w1: "engine w1 = engine w" "CeDriver w1 = Some Docker" .
      assume "require_router D ''Failed to retrieve transport container (need init?)'' w1 = (w2, Inr ci)"
      with w1 have w2: "engine w2 = engine w" "CeDriver w2 = Some Docker"
        by (auto simp: require_router_def io_wrap_Inr ce_def on_engine_def)
      assume "io_lift (validateServiceInterface service) w2 = (w3, Inr v)"
        "(if protocol \<noteq> [] \<and> si_Protocol service \<noteq> protocol
          then io_fail (Err (''Invalid protocol '' @ protocol @ '' for service with mapping '' @ si_Protocol service))
          else io_bind (getServiceInterfaceTarget D ''container'' name (si_Port service = 0 \<and> port = 0))
            (\<lambda>target. io_bind (io_lift (bind_ports service target protocol port)) (\<lambda>(service, target).
              updateServiceInterface (addTargetToServiceInterface service target) True))) w3 = (w', Inr u)"
      with t [OF w2] show False by (auto split: if_splits elim!: io_bind_InrE)
    qed
  qed
  obtain w' r where b: "ServiceInterfaceBind D service ''container'' name protocol port w = (w', r)" by fastforce
  with no obtain e where "r = Inl e" by (cases r) auto
  with b svc_bind.error_atomic [of D] no show ?thesis by (metis fst_conv)
qed

section \<open>The progress of a pull\<close>

text \<open>When the last message of a run came, counted from the start where there was none.\<close>

fun last_message :: "int \<Rightarrow> reporter_event list \<Rightarrow> int" where
  "last_message t [] = t"
| "last_message t (Pulled msg now # es) = last_message now es"
| "last_message t (Tick now # es) = last_message t es"

lemma reporter_iff:
  "reporter d p es \<longleftrightarrow> (\<exists>pre now post. es = pre @ Tick now # post \<and> now - last_message (pg_timestamp p) pre > d)"
proof (induction d p es rule: reporter.induct)
  case (2 d p msg now es)
  show ?case
  proof
    assume "reporter d p (Pulled msg now # es)"
    with 2 obtain pre t post where "es = pre @ Tick t # post" "t - last_message now pre > d"
      by (auto simp: progress_set_def)
    then show "\<exists>pre t post. Pulled msg now # es = pre @ Tick t # post \<and> t - last_message (pg_timestamp p) pre > d"
      by (intro exI [of _ "Pulled msg now # pre"]) auto
  next
    assume "\<exists>pre t post. Pulled msg now # es = pre @ Tick t # post \<and> t - last_message (pg_timestamp p) pre > d"
    then obtain pre t post where "Pulled msg now # es = pre @ Tick t # post" "t - last_message (pg_timestamp p) pre > d"
      by blast
    with 2 show "reporter d p (Pulled msg now # es)"
      by (cases pre) (auto simp: progress_set_def)
  qed
next
  case (3 d p now es)
  have ts: "snd (progress_get p) = pg_timestamp p" by (simp add: progress_get_def Let_def split: option.split)
  show ?case
  proof (cases "now - pg_timestamp p > d")
    case True
    then have "Tick now # es = [] @ Tick now # es \<and> now - last_message (pg_timestamp p) [] > d" by simp
    with True ts show ?thesis by (metis reporter.simps(3))
  next
    case False
    then have r: "reporter d p (Tick now # es) = reporter d p es" by (simp add: ts)
    have "(\<exists>pre t post. Tick now # es = pre @ Tick t # post \<and> t - last_message (pg_timestamp p) pre > d)
        \<longleftrightarrow> (\<exists>pre t post. es = pre @ Tick t # post \<and> t - last_message (pg_timestamp p) pre > d)" (is "?l \<longleftrightarrow> ?r")
    proof
      assume ?l
      then obtain pre t post where "Tick now # es = pre @ Tick t # post" "t - last_message (pg_timestamp p) pre > d"
        by blast
      with False show ?r by (cases pre) auto
    next
      assume ?r
      then obtain pre t post where "es = pre @ Tick t # post" "t - last_message (pg_timestamp p) pre > d" by blast
      then show ?l by (intro exI [of _ "Tick now # pre"]) auto
    qed
    with 3 r False ts show ?thesis by simp
  qed
qed simp

text \<open>
  A pull is cancelled exactly when at some tick the last message, or the start, is more than ten
  seconds ago; how many messages there were before makes no difference.
\<close>

theorem pull_cancelled_iff:
  "pull_cancelled start es
    \<longleftrightarrow> (\<exists>pre now post. es = pre @ Tick now # post \<and> now - last_message start pre > 10 * 10 ^ 9)"
  by (simp add: pull_cancelled_def reporter_iff newProgress_def pull_deadline_def)

section \<open>Podman\<close>

lemma podman_inspect_Inr:
  "podman_ContainerInspect c cid e = Inr ci \<longleftrightarrow> (\<exists>p. papi_Inspect c cid e = Inr p \<and> ci = podman_inspection p)"
  by (auto simp: podman_ContainerInspect_def)

text \<open>
  Property C39. The inspection on podman leaves the configuration and the mounts of a container out: when a
  recreation on podman goes through, podman was asked for a container of the image with the empty
  name, without variables, mounts or a command, and that one was started. Only the name and the
  networks are those of the container it replaces.
\<close>

theorem podman_recreates_nothing:
  assumes "RecreateContainer name (PodmanDriver rng c) e = (e', Inr ())"
  shows "\<exists>p e1 e2 cid spec. papi_Inspect c name e = Inr p
    \<and> papi_CreateWithSpec c spec e1 = (e2, Inr cid) \<and> papi_Start c cid e2 = (e', Inr ())
    \<and> sg_Name spec = name \<and> sg_Image spec = [] \<and> sg_Env spec = fmempty \<and> sg_Mounts spec = []
    \<and> sg_Command spec = []
    \<and> sg_CNINetworks spec = map fst (rng (fmmap_keys podman_endpoint (pi_Networks p)))"
  using assms
proof (elim RecreateContainer_Inr)
  fix ci e0 e1 e2 resp
  assume "ContainerInspect (PodmanDriver rng c) name e = Inr ci"
    "ContainerCreate (PodmanDriver rng c) (recreate_options name ci) e1 = (e2, Inr resp)"
    "ContainerStart (PodmanDriver rng c) (ccr_ID resp) e2 = (e', Inr ())"
  then have i: "podman_ContainerInspect c name e = Inr ci"
    and cr: "podman_ContainerCreate rng c (recreate_options name ci) e1 = (e2, Inr resp)"
    and st: "papi_Start c (ccr_ID resp) e2 = (e', Inr ())"
    by (simp_all add: PodmanDriver_def podman_ContainerStart_def)
  from i obtain p where p: "papi_Inspect c name e = Inr p" "ci = podman_inspection p"
    by (auto simp: podman_inspect_Inr)
  from cr have "papi_CreateWithSpec c (newPodmanContainerSpec rng (recreate_options name ci)) e1
      = (e2, Inr (ccr_ID resp))"
    unfolding podman_ContainerCreate_def by (elim io_bind_InrE) auto
  with p st show ?thesis
    by (intro exI [of _ p] exI [of _ e1] exI [of _ e2] exI [of _ "ccr_ID resp"]
        exI [of _ "newPodmanContainerSpec rng (recreate_options name ci)"])
      (simp add: newPodmanContainerSpec_def recreate_options_def podman_inspection_def
        zero_ContainerConfig_def Let_def)
qed

text \<open>
  On podman the status of a site is never reported: the inspection of the router leaves its
  state nil, and \<open>RouterInspect\<close> reads it.
\<close>

theorem podman_has_no_status:
  assumes "CeDriver w = Some Podman" "D Podman = PodmanDriver rng c"
  shows "snd (RouterInspect D srng w) \<noteq> Inr status"
proof
  assume "snd (RouterInspect D srng w) = Inr status"
  then obtain w' where "RouterInspect D srng w = (w', Inr status)" by (metis prod.collapse)
  then show False
    unfolding RouterInspect_def
  proof (elim io_bind_InrE)
    fix w1 sc w2 tv
    assume "site_client D w = (w1, Inr sc)"
    from svc_bind_engine [OF this assms(1)] have w1: "CeDriver w1 = Some Podman" by simp
    assume "inspect_version D TransportDeploymentName w1 = (w2, Inr tv)"
    then obtain w3 transport v where tv: "tv = (transport, v)"
      "ce D (\<lambda>d. io_ask (ContainerInspect d TransportDeploymentName)) w1 = (w3, Inr transport)"
      unfolding inspect_version_def by (elim io_bind_InrE) (auto split: prod.splits)
    with w1 assms(2) have "podman_ContainerInspect c TransportDeploymentName (engine w1) = Inr transport"
      by (auto simp: ce_def on_engine_def PodmanDriver_def)
    then have "cin_State transport = None" by (auto simp: podman_inspect_Inr podman_inspection_def)
    moreover assume "(case tv of (transport, transportVersion) \<Rightarrow> case cin_State transport of None \<Rightarrow> io_fail nil_pointer
       | Some state \<Rightarrow> io_bind (inspect_version D ControllerDeploymentName) (\<lambda>(_, controllerVersion).
     io_bind (io_wrap ''Failed to retrieve router config''
       (at_path ConfigPath (\<lambda>p. GetRouterConfigFromFile (p @ ''/qdrouterd.json'')))) (\<lambda>routerConfig.
     case routerConfig of None \<Rightarrow> io_fail nil_pointer | Some routerConfig \<Rightarrow>
     io_bind (retry 5 (ce D GetConnectedSites)) (\<lambda>connected.
     io_bind (ServiceInterfaceList D srng) (\<lambda>vsis.
       io_return \<lparr>ri_Status = \<lparr>st_Mode = rm_Mode (Metadata routerConfig), st_State = cst_Status state,
           st_ConnectedSites = connected, st_BindingsCount = 0\<rparr>,
         ri_TransportVersion = transportVersion, ri_ControllerVersion = controllerVersion,
         ri_ExposedServices = of_nat (length vsis)\<rparr>))))) w2 = (w', Inr status)"
    ultimately show False using tv by simp
  qed
qed

text \<open>The steps of a removal before the network leave the files and the connection alone.\<close>

definition kept :: "fsys \<Rightarrow> 'e world \<Rightarrow> bool" where
  "kept s w \<longleftrightarrow> fs w = s \<and> CeDriver w = Some Podman"

lemma kept_ce [intro, simp]: "keeps (kept s) (ce D f)"
  by (rule keepsI) (simp add: kept_def)

lemma kept_collect [intro]: "keeps (kept s) m \<Longrightarrow> keeps (kept s) k \<Longrightarrow> keeps (kept s) (collect msg m k)"
  unfolding collect_def by (rule keeps_bind) (auto split: sum.split)

lemma kept_both [intro]: "keeps (kept s) m \<Longrightarrow> keeps (kept s) k \<Longrightarrow> keeps (kept s) (both m k)"
  unfolding both_def by blast

lemma kept_if_there [intro]: "keeps (kept s) k \<Longrightarrow> keeps (kept s) (if_there D look k)"
  unfolding if_there_def by (rule keeps_bind) (auto split: sum.split)

lemma kept_stop_and_remove [intro, simp]: "keeps (kept s) (stop_and_remove D m1 m2 n)"
  unfolding stop_and_remove_def by (rule kept_collect [OF kept_ce kept_collect [OF kept_ce keeps_basic(1)]])

lemma kept_proxies [intro, simp]: "keeps (kept s) (remove_proxies D cs)"
proof (induction cs)
  case (Cons c cs)
  then show ?case unfolding remove_proxies.simps by (intro kept_both) simp_all
qed (simp only: remove_proxies.simps keeps_basic)

lemma kept_steps [intro, simp]:
  "keeps (kept s) (remove_controller D)" "keeps (kept s) (remove_all_proxies D)" "keeps (kept s) (remove_transport D)"
  unfolding remove_controller_def remove_all_proxies_def remove_transport_def
  by (auto intro!: kept_if_there keeps_bind split: sum.split)

lemma both_stays:
  assumes "keeps P m" "\<And>w. P w \<Longrightarrow> P (fst (k w)) \<and> (\<exists>e. snd (k w) = Inl e)" "P w"
  shows "P (fst (both m k w)) \<and> (\<exists>e. snd (both m k w) = Inl e)"
proof (cases "m w")
  case (Pair w1 r)
  with keepsD [OF assms(1,3)] have "P w1" by simp
  from assms(2) [OF this] Pair \<open>P w1\<close> show ?thesis
    by (cases r) (auto simp: both_def io_bind_def split: prod.split sum.split)
qed

text \<open>
  On podman a site whose network is gone cannot be removed: the inspection of the network panics
  on the empty answer, so \<open>RouterRemove\<close> never comes to the files of the site. It ends with a panic, or with
  the error of a client that cannot be set up.
\<close>

theorem podman_removal_needs_network:
  assumes "CeDriver w = Some Podman" "D Podman = PodmanDriver rng c"
    "\<forall>e. \<exists>err. papi_NetworkInspect c ''skupper-network'' e = Inl err"
  shows "fs (fst (RouterRemove D w)) = fs w
    \<and> (case snd (RouterRemove D w) of Inl err \<Rightarrow> True | Inr errs \<Rightarrow> length errs = 1)"
proof -
  have net: "kept s (fst (both (remove_network D) remove_files w1))
      \<and> (\<exists>e. snd (both (remove_network D) remove_files w1) = Inl e)" if "kept s w1" for s w1
  proof -
    from assms(3) obtain err where "papi_NetworkInspect c ''skupper-network'' (engine w1) = Inl err" by blast
    with that assms(2) show ?thesis
      by (simp add: kept_def both_def remove_network_def if_there_def io_bind_def io_try_def ce_def on_engine_def
          PodmanDriver_def podman_NetworkInspect_def)
  qed
  obtain w1 r where c: "site_client D w = (w1, r)" by fastforce
  have "fs w1 = fs w" using host_of_fs [OF untouchedD [OF untouched_site_client c]] by blast
  show ?thesis
  proof (cases r)
    case (Inl e)
    with c \<open>fs w1 = fs w\<close> show ?thesis
      by (cases e) (simp_all add: RouterRemove_def io_bind_def io_try_def)
  next
    case (Inr sc)
    with c have "kept (fs w) w1" using svc_bind_engine [OF _ assms(1)] \<open>fs w1 = fs w\<close> by (auto simp: kept_def)
    then have "kept (fs w) (fst (both (remove_controller D) (both (remove_all_proxies D) (both (remove_transport D)
        (both (remove_network D) remove_files))) w1))
      \<and> (\<exists>e. snd (both (remove_controller D) (both (remove_all_proxies D) (both (remove_transport D)
        (both (remove_network D) remove_files))) w1) = Inl e)"
      by (intro both_stays [OF kept_steps(1)] both_stays [OF kept_steps(2)] both_stays [OF kept_steps(3)] net)
    with c Inr show ?thesis by (auto simp: RouterRemove_def io_bind_def io_try_def kept_def)
  qed
qed

end
