(* ===== verification/Router_Spec_Laws.thy ===== *)
theory Router_Spec_Laws imports Router_Spec begin

text \<open>
  What the specification of a site guarantees: the router lets no one in without a certificate, every
  port it listens on is exposed, and everything the configuration refers to is made.
\<close>

section \<open>The configuration, entity by entity\<close>

lemmas router_listeners = metrics_listener_def amqp_listener_def amqps_listener_def console_listener_def
  interior_listener_def edge_listener_def zero_Listener_def

definition named_metrics :: Listener where
  "named_metrics = metrics_listener\<lparr>l_Name := ''0.0.0.0@9090''\<rparr>"

lemma Itoa_ports: "Itoa 9090 = ''9090''" "Itoa 5671 = ''5671''"
  by (simp_all add: Itoa_def nat_digits.simps char_of_def bit_0)

lemma AddListener_named:
  "l_Name l \<noteq> [] \<Longrightarrow> AddListener l r = r\<lparr>Listeners := fmupd (l_Name l) l (Listeners r)\<rparr>"
  by (simp add: AddListener_def)

lemma names:
  "l_Name amqp_listener = ''amqp''" "l_Name amqps_listener = ''amqps''" "l_Name (console_listener a) = ''console''"
  "l_Name interior_listener = ''interior-listener''" "l_Name edge_listener = ''edge-listener''"
  by (simp_all add: router_listeners ConsolePortName_def)

lemma AddListener_metrics:
  "AddListener metrics_listener r = r\<lparr>Listeners := fmupd ''0.0.0.0@9090'' named_metrics (Listeners r)\<rparr>"
  by (simp add: AddListener_def named_metrics_def) (simp add: router_listeners Itoa_ports)

lemma Listeners_other [simp]:
  "Listeners (AddAddress a r) = Listeners r" "Listeners (AddSslProfile s r) = Listeners r"
  "Listeners (InitialConfig n i e) = fmempty"
  by (simp_all add: AddAddress_def AddSslProfile_def InitialConfig_def Let_def)

lemma base_listeners:
  "Listeners (base_router name siteId edge) =
     fmupd ''amqps'' amqps_listener (fmupd ''amqp'' amqp_listener (fmupd ''0.0.0.0@9090'' named_metrics fmempty))"
  by (simp add: base_router_def Let_def AddListener_named AddListener_metrics names)

definition has_console :: "SiteConfigSpec \<Rightarrow> bool" where
  "has_console options \<longleftrightarrow> ss_EnableRouterConsole options
     \<and> ss_AuthMode options \<in> {ConsoleAuthModeInternal, ConsoleAuthModeUnsecured}"

lemma console_listeners:
  "Listeners (add_console options r) = (if has_console options
     then fmupd ''console'' (console_listener (ss_AuthMode options = ConsoleAuthModeInternal)) (Listeners r)
     else Listeners r)"
  by (simp add: add_console_def has_console_def AddListener_named names
      ConsoleAuthModeInternal_def ConsoleAuthModeUnsecured_def)

lemma interior_listeners:
  "Listeners (add_interior options r) = (if ss_IsEdge options then Listeners r
     else fmupd ''edge-listener'' edge_listener (fmupd ''interior-listener'' interior_listener (Listeners r)))"
  by (simp add: add_interior_def AddListener_named names)

lemma fmran_upd_subset: "x |\<in>| fmran (fmupd k v m) \<Longrightarrow> x = v \<or> x |\<in>| fmran m"
  by (auto elim!: fmranE intro: fmranI split: if_splits)

lemma site_listener_cases:
  assumes "l |\<in>| fmran (Listeners (site_router options name siteId))"
  obtains "l = named_metrics" | "l = amqp_listener" | "l = amqps_listener"
  | "has_console options" "l = console_listener (ss_AuthMode options = ConsoleAuthModeInternal)"
  | "\<not> ss_IsEdge options" "l = interior_listener" | "\<not> ss_IsEdge options" "l = edge_listener"
  using assms
  by (auto simp: site_router_def interior_listeners console_listeners base_listeners split: if_splits
      dest!: fmran_upd_subset)

lemma Profiles_other [simp]:
  "SslProfiles (AddAddress a r) = SslProfiles r" "SslProfiles (AddListener l r) = SslProfiles r"
  "SslProfiles (InitialConfig n i e) = fmempty" "SslProfiles (add_console options r) = SslProfiles r"
  by (simp_all add: AddAddress_def AddListener_def InitialConfig_def add_console_def Let_def)

definition site_profile :: "string \<Rightarrow> SslProfile" where
  "site_profile n = (let dir = ''/etc/qpid-dispatch-certs/'' @ n in
     \<lparr>sp_Name = n, sp_CertFile = dir @ ''/tls.crt'', sp_PrivateKeyFile = dir @ ''/tls.key'',
      sp_CaCertFile = dir @ ''/ca.crt''\<rparr>)"

lemma AddSslProfile_named:
  "SslProfiles (AddSslProfile (zero_SslProfile\<lparr>sp_Name := n\<rparr>) r) = fmupd n (site_profile n) (SslProfiles r)"
  by (simp add: AddSslProfile_def zero_SslProfile_def site_profile_def Let_def)

lemma site_profiles:
  "SslProfiles (site_router options name siteId) =
     (if ss_IsEdge options then fmupd ''skupper-amqps'' (site_profile ''skupper-amqps'') fmempty
      else fmupd InterRouterProfile (site_profile InterRouterProfile)
        (fmupd ''skupper-amqps'' (site_profile ''skupper-amqps'') fmempty))"
  by (simp add: site_router_def add_interior_def base_router_def Let_def AddSslProfile_named)

section \<open>Access\<close>

text \<open>
  Property C18. Whatever the options, the router of a site admits no one without a certificate: a
  listener that is neither on the local host nor plain HTTP asks its peers to authenticate, allows
  nothing but EXTERNAL and uses a profile the configuration defines. The HTTP listeners are the
  health check and, where the router console is enabled, the console, which authenticates exactly in
  the internal mode.
\<close>

theorem router_admits_only_certified:
  assumes "l |\<in>| fmran (Listeners (site_router options name siteId))"
  shows "if l_Http l
    then l_Port l = TransportLivenessPort \<or>
      l_Port l = ConsoleDefaultServicePort \<and> has_console options
        \<and> l_AuthenticatePeer l = (ss_AuthMode options = ConsoleAuthModeInternal)
    else l_Host l = ''localhost'' \<or> l_AuthenticatePeer l \<and> l_SaslMechanisms l = ''EXTERNAL''
        \<and> l_SslProfile l |\<in>| fmdom (SslProfiles (site_router options name siteId))"
  using assms
  by (cases rule: site_listener_cases)
    (simp_all add: site_profiles named_metrics_def router_listeners TransportLivenessPort_def InterRouterProfile_def)

text \<open>
  Every port the router listens on beyond its own host is exposed by its container, and
  the ports for other routers are exposed only where there are listeners for them.
\<close>

theorem listening_ports_exposed:
  assumes "l |\<in>| fmran (Listeners (site_router options name siteId))" "l_Host l \<noteq> ''localhost''"
  shows "tcp_port (l_Port l) |\<in>| transport_ports options"
  using assms
  by (cases rule: site_listener_cases)
    (auto simp: transport_ports_def tcp_port_def Let_def named_metrics_def router_listeners has_console_def
      TransportLivenessPort_def ConsoleAuthModeInternal_def ConsoleAuthModeUnsecured_def AmqpsDefaultPort_def Itoa_ports)

section \<open>Certificates\<close>

lemma skupper_path_inj: "skupper_path w p = skupper_path w q \<longleftrightarrow> p = q"
  by (auto simp: skupper_path_def dest: GetSkupperPath_inj)

lemma mounts_lookup:
  "fmlookup (transport_mounts (skupper_path w)) (skupper_path w CertsPath) = Some ''/etc/qpid-dispatch-certs''"
  "fmlookup (transport_mounts (skupper_path w)) (skupper_path w ConnectionsPath) = Some ''/etc/qpid-dispatch/connections''"
  "fmlookup (transport_mounts (skupper_path w)) (skupper_path w ConfigPath) = Some ''/etc/qpid-dispatch/config''"
  by (simp_all add: transport_mounts_def skupper_path_inj)

text \<open>
  Property C34. What the configuration refers to is made: each profile has credentials of its name,
  signed by an authority of the site, for which a directory is created, and the files the profile
  names lie in the directory of that name as the container sees it. The credentials need no other
  authority.
\<close>

theorem profiles_have_credentials:
  assumes "fmlookup (SslProfiles (site_router options name siteId)) n = Some p"
  shows "\<exists>cr \<in> set (site_credentials options). cr_Name cr = n \<and> n \<in> set (transport_volumes options)
    \<and> \<lparr>ca_Name = cr_CA cr\<rparr> \<in> set (site_authorities options)
    \<and> (\<exists>certs. fmlookup (transport_mounts (skupper_path w)) (skupper_path w CertsPath) = Some certs
        \<and> sp_CertFile p = certs @ ''/'' @ n @ ''/tls.crt'' \<and> sp_PrivateKeyFile p = certs @ ''/'' @ n @ ''/tls.key''
        \<and> sp_CaCertFile p = certs @ ''/'' @ n @ ''/ca.crt'')"
proof -
  have "p = site_profile n" "n = ''skupper-amqps'' \<or> n = ''skupper-internal'' \<and> \<not> ss_IsEdge options"
    using assms by (auto simp: site_profiles InterRouterProfile_def split: if_splits)
  then show ?thesis
    by (auto simp: mounts_lookup site_credentials_def transport_volumes_def site_authorities_def site_profile_def Let_def)
qed

section \<open>The invariant of the sections\<close>

lemma wf_site_router: "wf_RouterConfig (site_router options name siteId)"
proof -
  have "wf_RouterConfig (add_interior options r)" if "wf_RouterConfig r" for r
    using that by (simp add: add_interior_def wf_adds)
  moreover have "wf_RouterConfig (add_console options r)" if "wf_RouterConfig r" for r
    using that by (simp add: add_console_def wf_adds)
  moreover have "wf_RouterConfig (base_router name siteId e)" for e
    by (simp add: base_router_def Let_def wf_adds wf_InitialConfig)
  ultimately show ?thesis by (simp add: site_router_def)
qed

end
