(* ===== verification/Router_Lifecycle_Laws.thy ===== *)
theory Router_Lifecycle_Laws imports Router_Lifecycle Router_Spec_Laws Io_Total begin

text \<open>
  What the life of a site guarantees: a site that was created is there to be inspected, and removing a
  site goes through whatever fails on the way.
\<close>

section \<open>Creation\<close>

lemma site_file_env: "in_env e w \<Longrightarrow> site_file w name = site_path e SitesPath @ ''/'' @ name @ ''.json''"
  by (simp add: site_file_def skupper_path_env)

lemma keeps_env_at: "(\<And>q. keeps (in_env e) (f q)) \<Longrightarrow> keeps (in_env e) (at_path p f)"
  unfolding at_path_def by (rule keeps_at_path) auto

lemma keeps_stored_at: "keeps (reads e q c) (f (site_path e p)) \<Longrightarrow> keeps (reads e q c) (at_path p f)"
  unfolding at_path_def by (rule keeps_at_path) (auto dest: stored_env)

lemma fresh_site_stores:
  "triple (in_env e) (fresh_site uid options) (\<lambda>sc w. sc = \<lparr>sc_Spec = options, sc_UID = uid\<rparr>
     \<and> stored e (site_path e SitesPath @ ''/skupper0.json'') (Doc (enc_SiteConfig sc)) w)"
proof -
  have "triple (in_env e) (SiteConfigCreate uid options) (\<lambda>sc w. sc = \<lparr>sc_Spec = options, sc_UID = uid\<rparr>
     \<and> stored e (site_path e SitesPath @ ''/skupper0.json'') (Doc (enc_SiteConfig sc)) w)" (is "triple ?P ?m ?Q")
  proof (rule tripleI)
    fix w w' sc
    assume e: "in_env e w" and run: "?m w = (w', Inr sc)"
    then obtain u where sc: "sc = \<lparr>sc_Spec = options, sc_UID = uid\<rparr>"
      and wr: "WriteFile (site_path e SitesPath @ ''/skupper0.json'') (Doc (enc_SiteConfig sc)) w = (w', Inr u)"
      by (auto simp: SiteConfigCreate_def site_file_env DefaultBridgeName_def Let_def elim!: io_bind_InrE)
    from tripleD [OF WriteFile_stores e wr] sc show "?Q sc w'" by simp
  qed
  then show ?thesis unfolding fresh_site_def
    by (intro triple_after keeps_try keeps_env_at keeping)
qed

text \<open>Nothing that follows changes a file of another directory than the ones it is about.\<close>

lemma keeps_certs:
  assumes "P \<noteq> CertsPath" "P \<noteq> HostPath"
  shows "keeps (stored e (site_path e P @ ''/'' @ x) c) (issue_certificates lib rng van)" (is "keeps ?S _")
proof -
  have d: "site_path e CertsPath @ ''/'' @ y \<noteq> site_path e P @ ''/'' @ x" for y
    using site_paths_differ [of CertsPath P e y x] assms by simp
  have cp: "cert_path w n = site_path e CertsPath @ ''/'' @ n" if "?S w" for w n
    using that by (simp add: cert_path_def reads_def skupper_path_env)
  have wr: "keeps ?S (write_certs msg (site_path e CertsPath @ ''/'' @ n) es)" for msg n es
    unfolding write_certs_def using d
    by (intro keeps_each) (auto intro!: keeps_wrap keeps_stored_WriteFile)
  have ca: "keeps ?S (ensureCA lib rng n)" for n
  proof (rule keepsI)
    fix w
    assume s: "?S w"
    have "keeps ?S (io_bind (io_wrap ''Failed to create certificate directory'' (Mkdir (site_path e CertsPath @ ''/'' @ n))) (\<lambda>_.
       io_bind (write_certs ''Failed to write CA certificate file'' (site_path e CertsPath @ ''/'' @ n)
         (rng (GenerateCACertificateData lib n n))) (\<lambda>_. io_return (GenerateCACertificateData lib n n))))"
      by (intro keeps_bind keeps_wrap wr keeping keeps_basic)
    from keepsD [OF this s] show "?S (fst (ensureCA lib rng n w))"
      using cp [OF s] by (simp add: ensureCA_def Let_def)
  qed
  have gen: "keeps ?S (generateCredentials lib rng a n s h j)" for a n s h j
  proof (rule keepsI)
    fix w
    assume s: "?S w"
    obtain ca er where g: "getCertData a w = (ca, er)" by fastforce
    have "keeps ?S (io_bind (write_certs ''Failed to write certificate file'' (site_path e CertsPath @ ''/'' @ n) es)
      (\<lambda>_. if j then io_wrap ''Failed to write connect file''
         (WriteFile ((site_path e CertsPath @ ''/'' @ n) @ ''/connect.json'') (Text ConnectJSON)) else io_return ()))" for es
      using d [of "n @ ''/connect.json''"] by (intro keeps_bind wr) (auto intro!: keeps_wrap keeps_stored_WriteFile)
    from keepsD [OF this s] show "?S (fst (generateCredentials lib rng a n s h j w))"
      unfolding generateCredentials_def Let_def g prod.case cp [OF s] .
  qed
  show ?thesis unfolding issue_certificates_def
    by (intro keeps_bind keeps_each keeps_try keeps_basic ca gen)
qed

lemma keeps_start:
  assumes "P \<noteq> CertsPath" "P \<noteq> HostPath"
  shows "keeps (stored e (site_path e P @ CHR ''/'' # x) c) (start_containers D lib ci van)"
proof -
  have "keeps (stored e (site_path e P @ CHR ''/'' # x) c) (issue_certificates lib (ci_certs ci) van)"
    using keeps_certs [OF assms, of e x c] by simp
  then show ?thesis unfolding start_containers_def
    by (intro keeps_bind keeps_wrap keeping)
qed

lemma keeps_pull: "keeps (stored e p c) (pull_images D van)"
  unfolding pull_images_def by (intro keeps_bind keeping keeps_basic)

lemma keeps_make: "keeps (stored e p c) (make_directories ci van)"
  unfolding make_directories_def
  by (intro keeps_bind keeps_each keeps_stored_at keeping) (auto intro: keeping)

lemma write_site_files_stores:
  "triple (in_env e) (write_site_files options van) (\<lambda>_ w.
     stored e (site_path e ServicesPath @ ''/skupper-services'') (Doc (enc_services (Some fmempty))) w
     \<and> stored e (site_path e ConfigPath @ ''/qdrouterd.json'') (Doc (rs_RouterConfig van)) w)"
proof -
  let ?A = "stored e (site_path e ServicesPath @ ''/skupper-services'') (Doc (enc_services (Some fmempty)))"
  let ?B = "stored e (site_path e ConfigPath @ ''/qdrouterd.json'') (Doc (rs_RouterConfig van))"
  have at: "triple (in_env e) (at_path p f) Q" if "triple (in_env e) (f (site_path e p)) Q" for p f Q
    using that unfolding triple_def at_path_def by (metis skupper_path_env)
  have other: "keeps (stored e (site_path e p @ ''/'' @ x) c) (at_path q (\<lambda>r. WriteFile (r @ ''/'' @ y) d))"
    if "p \<noteq> q" "p \<noteq> HostPath" "q \<noteq> HostPath" for p q x y c d
    using that site_paths_differ [of q p e y x] by (intro keeps_stored_at keeps_stored_WriteFile) auto
  have 1: "triple (in_env e) (at_path ServicesPath (\<lambda>p. WriteFile (p @ ''/skupper-services'') (Doc (enc_services (Some fmempty))))) (\<lambda>_. ?A)"
    by (intro at WriteFile_stores)
  have 2: "triple ?A (at_path ConfigPath (\<lambda>p. WriteFile (p @ ''/qdrouterd.json'') (Doc (rs_RouterConfig van)))) (\<lambda>_ w. ?A w \<and> ?B w)"
  proof -
    have "triple (in_env e) (at_path ConfigPath (\<lambda>p. WriteFile (p @ ''/qdrouterd.json'') (Doc (rs_RouterConfig van)))) (\<lambda>_. ?B)"
      by (intro at WriteFile_stores)
    from triple_frame [OF this] other [of ServicesPath ConfigPath "''skupper-services''" _ "''qdrouterd.json''"]
    show ?thesis by (auto intro: triple_mono dest: stored_env)
  qed
  have console: "keeps (stored e (site_path e p @ ''/'' @ x) cc)
      (if b then io_bind (at_path SaslConfigPath (\<lambda>p. WriteFile (p @ ''/qdrouterd.conf'') c)) (\<lambda>_.
        at_path ConsoleUsersPath (\<lambda>p. WriteFile (p @ ''/'' @ u) d)) else io_return ())"
    if "p \<noteq> SaslConfigPath" "p \<noteq> ConsoleUsersPath" "p \<noteq> HostPath" for p x cc b c u d
    using that other [of p SaslConfigPath x cc "''qdrouterd.conf''" c] other [of p ConsoleUsersPath x cc u d]
    by (auto intro!: keeps_bind)
  note 3 = console [of ServicesPath "''skupper-services''", simplified] console [of ConfigPath "''qdrouterd.json''", simplified]
  show ?thesis unfolding write_site_files_def
    by (intro triple_bind [OF 1] triple_bind [OF 2] triple_keeps keeps_conj) (simp_all add: 3)
qed

lemma keeps_site_file:
  "keeps (stored e (site_path e SitesPath @ CHR ''/'' # x) c) (write_site_files options van)"
proof -
  have other: "keeps (stored e (site_path e SitesPath @ ''/'' @ x) c) (at_path q (\<lambda>r. WriteFile (r @ ''/'' @ y) d))"
    if "q \<noteq> SitesPath" "q \<noteq> HostPath" for q y d
    using that site_paths_differ [of q SitesPath e y x] by (intro keeps_stored_at keeps_stored_WriteFile) auto
  show ?thesis unfolding write_site_files_def
    using other [of ServicesPath "''skupper-services''"] other [of ConfigPath "''qdrouterd.json''"]
      other [of SaslConfigPath "''qdrouterd.conf''"] other [of ConsoleUsersPath]
    by (auto intro!: keeps_bind)
qed

lemma spec_untouched: "untouched (GetRouterSpecFromOpts D goos ord options siteId)"
proof -
  have "untouched (machine_name D)"
    unfolding machine_name_def by (intro untouched_bind untouched_try) auto
  then show ?thesis unfolding GetRouterSpecFromOpts_def
    by (intro untouched_bind) (auto simp: untouched_def)
qed

lemma spec_config:
  assumes "GetRouterSpecFromOpts D goos ord options siteId w = (w', Inr van)"
  shows "\<exists>name. (ss_SkupperName options \<noteq> [] \<longrightarrow> name = ss_SkupperName options)
    \<and> rs_RouterConfig van = MarshalRouterConfig (ord (site_router options name siteId)) (site_router options name siteId)"
  using assms unfolding GetRouterSpecFromOpts_def Let_def
  by (elim io_bind_InrE) (auto split: if_splits)

lemma created_site:
  assumes run: "RouterCreate D lib ci options w = (w', Inr ())" and env: "in_env e w"
  shows "\<exists>options' name. console_options (RandomId (ci_random ci)) options = Inr options'
    \<and> (ss_SkupperName options' \<noteq> [] \<longrightarrow> name = ss_SkupperName options')
    \<and> stored e (site_path e SitesPath @ ''/skupper0.json'')
        (Doc (enc_SiteConfig \<lparr>sc_Spec = options', sc_UID = ci_uid ci\<rparr>)) w'
    \<and> stored e (site_path e ServicesPath @ ''/skupper-services'') (Doc (enc_services (Some fmempty))) w'
    \<and> stored e (site_path e ConfigPath @ ''/qdrouterd.json'')
        (Doc (MarshalRouterConfig (ci_sections ci (site_router options' name (ci_uid ci)))
           (site_router options' name (ci_uid ci)))) w'"
proof -
  from run obtain r w1 options' w2 sc w3 van w4 w5 w6 where
    s1: "io_try (Init D (ss_ContainerEngineDriver options)) w = (w1, Inr r)"
    and o: "console_options (RandomId (ci_random ci)) options = Inr options'"
    and s2: "fresh_site (ci_uid ci) options' w1 = (w2, Inr sc)"
    and s3: "GetRouterSpecFromOpts D (ci_goos ci) (ci_sections ci) options' (sc_UID sc) w2 = (w3, Inr van)"
    and s4: "pull_images D van w3 = (w4, Inr ())"
    and s5: "make_directories ci van w4 = (w5, Inr ())"
    and s6: "write_site_files options' van w5 = (w6, Inr ())"
    and s7: "start_containers D lib ci van w6 = (w', Inr ())"
    unfolding RouterCreate_def by (elim io_bind_InrE) auto
  let ?site = "stored e (site_path e SitesPath @ ''/skupper0.json'') (Doc (enc_SiteConfig sc))"
  have e1: "in_env e w1"
    by (rule keeps_run [OF keeps_try [OF keeps_untouched(1) [OF untouched_Init]] env s1])
  have sc: "sc = \<lparr>sc_Spec = options', sc_UID = ci_uid ci\<rparr>" and t2: "?site w2"
    using tripleD [OF fresh_site_stores e1 s2] by auto
  have "?site w3" by (rule keeps_run [OF keeps_untouched(2) [OF spec_untouched] t2 s3])
  then have "?site w4" by (rule keeps_run [OF keeps_pull _ s4])
  then have t5: "?site w5" by (rule keeps_run [OF keeps_make _ s5])
  then have t6: "?site w6" by (rule keeps_run [OF keeps_site_file _ s6])
  have t7: "?site w'" by (rule keeps_run [OF keeps_start t6 s7]) simp_all
  note f6 = tripleD [OF write_site_files_stores stored_env [OF t5] s6]
  have "stored e (site_path e ServicesPath @ ''/skupper-services'') (Doc (enc_services (Some fmempty))) w'"
    by (rule keeps_run [OF keeps_start conjunct1 [OF f6] s7]) simp_all
  moreover have "stored e (site_path e ConfigPath @ ''/qdrouterd.json'') (Doc (rs_RouterConfig van)) w'"
    by (rule keeps_run [OF keeps_start conjunct2 [OF f6] s7]) simp_all
  ultimately show ?thesis using o t7 spec_config [OF s3] by (auto simp: sc)
qed

text \<open>
  Property C6. When the creation of a site succeeds the site is there: its configuration is what was
  asked for, with the console's defaults and the fresh identifier, no service is defined, and the file
  of the router reads back as the configuration specified for these options. Nothing done after
  each file was written, neither directories, certificates nor the engine, changed it.
\<close>

theorem created_site_is_there:
  assumes "RouterCreate D lib ci options w = (w', Inr ())" "\<forall>r. valid_order (ci_sections ci r) r"
  shows "\<exists>options' name. console_options (RandomId (ci_random ci)) options = Inr options'
    \<and> (ss_SkupperName options' \<noteq> [] \<longrightarrow> name = ss_SkupperName options')
    \<and> SiteConfigInspect DefaultBridgeName w' = (w', Inr (Some \<lparr>sc_Spec = options', sc_UID = ci_uid ci\<rparr>))
    \<and> services_of w' = Inr (Some fmempty)
    \<and> GetRouterConfigFromFile (skupper_path w' ConfigPath @ ''/qdrouterd.json'') w'
        = (w', Inr (Some (site_router options' name (ci_uid ci))))"
proof -
  obtain options' name where f: "console_options (RandomId (ci_random ci)) options = Inr options'"
    "ss_SkupperName options' \<noteq> [] \<longrightarrow> name = ss_SkupperName options'"
    "stored (env w) (site_path (env w) SitesPath @ ''/skupper0.json'')
        (Doc (enc_SiteConfig \<lparr>sc_Spec = options', sc_UID = ci_uid ci\<rparr>)) w'"
    "stored (env w) (site_path (env w) ServicesPath @ ''/skupper-services'') (Doc (enc_services (Some fmempty))) w'"
    "stored (env w) (site_path (env w) ConfigPath @ ''/qdrouterd.json'')
        (Doc (MarshalRouterConfig (ci_sections ci (site_router options' name (ci_uid ci)))
           (site_router options' name (ci_uid ci)))) w'"
    using created_site [OF assms(1), of "env w"] by (auto simp: in_env_def)
  note p = skupper_path_env [OF stored_env [OF f(3)]]
  have "SiteConfigInspect DefaultBridgeName w' = (w', Inr (Some \<lparr>sc_Spec = options', sc_UID = ci_uid ci\<rparr>))"
    using f(3) by (simp add: SiteConfigInspect_def site_file_def p reads_def io_simps ReadFile_def
        DefaultBridgeName_def site_codec.ptr_round_trip enc_SiteConfig_not_null)
  moreover have "services_of w' = Inr (Some fmempty)"
    using f(4) by (simp add: services_of_def services_file_def p reads_def services_codec.dec_enc)
  moreover have "GetRouterConfigFromFile (skupper_path w' ConfigPath @ ''/qdrouterd.json'') w'
      = (w', Inr (Some (site_router options' name (ci_uid ci))))"
    using f(5) unmarshal_marshal [OF wf_site_router assms(2) [rule_format]]
    by (simp add: GetRouterConfigFromFile_def io_simps ReadFile_def p reads_def)
  ultimately show ?thesis using f(1,2) by blast
qed

section \<open>Removal\<close>

lemma untouched_collect: "untouched m \<Longrightarrow> untouched k \<Longrightarrow> untouched (collect msg m k)"
  unfolding collect_def by (intro untouched_bind untouched_try) (auto split: sum.split)

lemma untouched_both: "untouched m \<Longrightarrow> untouched k \<Longrightarrow> untouched (both m k)"
  unfolding both_def by (intro untouched_bind untouched_basic)

lemma untouched_if_there: "untouched k \<Longrightarrow> untouched (if_there D look k)"
  unfolding if_there_def by (intro untouched_bind untouched_try) (auto split: sum.split)

lemma untouched_stop_and_remove: "untouched (stop_and_remove D m1 m2 n)"
  unfolding stop_and_remove_def by (intro untouched_collect untouched_basic)

lemma untouched_remove_proxies: "untouched (remove_proxies D cs)"
proof (induction cs)
  case (Cons c cs)
  then show ?case unfolding remove_proxies.simps
    by (intro untouched_both untouched_if untouched_stop_and_remove untouched_basic)
qed (simp only: remove_proxies.simps untouched_basic)

lemmas untouched_removal = untouched_collect untouched_both untouched_if_there untouched_stop_and_remove
  untouched_remove_proxies

lemma both_InrE:
  assumes "both m k w = (w', Inr zs)"
  obtains w1 xs ys where "m w = (w1, Inr xs)" "k w1 = (w', Inr ys)" "zs = xs @ ys"
  using assms unfolding both_def by (auto elim!: io_bind_InrE)

lemma untouched_removals:
  "untouched (both (remove_controller D) (both (remove_all_proxies D) (both (remove_transport D) (remove_network D))))"
proof -
  have "untouched (remove_all_proxies D)"
    unfolding remove_all_proxies_def
    by (intro untouched_bind untouched_try) (auto split: sum.split intro: untouched_removal)
  then show ?thesis unfolding remove_controller_def remove_transport_def remove_network_def
    by (intro untouched_removal untouched_basic)
qed

lemma both_assoc: "both (both a b) c = both a (both b c)"
  by (rule ext) (auto simp: both_def io_simps split: prod.split sum.split)

lemma remove_files_run:
  assumes "remove_files w = (w', Inr errs)"
  shows "w' = w\<lparr>fs := fst (fs_remove_all (skupper_path w HostPath) (fs w))\<rparr>
    \<and> errs = (case snd (fs_remove_all (skupper_path w HostPath) (fs w)) of
        Inl e \<Rightarrow> [wrap_error ''Failed to remove skupper files and directory'' e] | Inr _ \<Rightarrow> [])"
proof (cases "stuck (fs w) (skupper_path w HostPath) (skupper_path w HostPath)")
  case True
  with assms show ?thesis
    by (simp add: remove_files_def collect_def at_path_def RemoveAll_def on_fs_def io_bind_def io_try_def
        fs_remove_all_def permission_denied_def)
next
  case False
  with assms show ?thesis
    by (simp add: remove_files_def collect_def at_path_def RemoveAll_def on_fs_def io_bind_def io_try_def
        fs_remove_all_def)
qed

lemma removal_run:
  assumes "RouterRemove D w = (w', Inr errs)" "site_client D w = (w1, Inr sc)"
  shows "fs w' = fst (fs_remove_all (skupper_path w HostPath) (fs w)) \<and> env w' = env w
    \<and> (\<forall>e. snd (fs_remove_all (skupper_path w HostPath) (fs w)) = Inl e \<longrightarrow>
        wrap_error ''Failed to remove skupper files and directory'' e \<in> set errs)"
proof -
  let ?r = "both (remove_controller D) (both (remove_all_proxies D) (both (remove_transport D) (remove_network D)))"
  have "both ?r remove_files w1 = (w', Inr errs)"
    using assms by (simp add: RouterRemove_def io_simps both_assoc)
  then obtain w2 xs ys where a: "?r w1 = (w2, Inr xs)" "remove_files w2 = (w', Inr ys)" "errs = xs @ ys"
    by (rule both_InrE)
  have "host_of w2 = host_of w"
    using untouchedD [OF untouched_removals a(1)] untouchedD [OF untouched_site_client assms(2)] by simp
  then have "fs w2 = fs w" "env w2 = env w" "skupper_path w2 p = skupper_path w p" for p
    by (simp_all add: host_of_def skupper_path_def)
  then show ?thesis using remove_files_run [OF a(2)] a(3) by (auto split: sum.splits)
qed

text \<open>A driver none of whose calls panics, which is all the removal asks of it.\<close>

definition driver_calm :: "'e Driver \<Rightarrow> bool" where
  "driver_calm d \<longleftrightarrow> (\<forall>n. calm (ContainerStop d n) \<and> calm (ContainerRemove d n) \<and> calm (NetworkRemove d n))
     \<and> (\<forall>n \<in> {TransportDeploymentName, ControllerDeploymentName}. calm (io_ask (ContainerInspect d n)))
     \<and> calm (io_ask (NetworkInspect d ''skupper-network'')) \<and> calm (io_ask (ContainerList d component_filter))"

definition connected :: "'e world \<Rightarrow> bool" where
  "connected w \<longleftrightarrow> CeDriver w \<noteq> None"

lemma try_runs:
  assumes "\<And>k. calm (f (D k))"
  shows "runs connected (io_try (ce D f)) (\<lambda>_. connected)"
proof (rule runsI)
  fix w :: "'a world"
  assume "connected w"
  then obtain k where k: "CeDriver w = Some k" by (auto simp: connected_def)
  obtain s r where r: "f (D k) (engine w) = (s, r)" by fastforce
  with assms [of k] have "r \<noteq> Inl (Panic p)" for p unfolding calm_def by (metis snd_conv)
  with k r show "\<exists>w' x. io_try (ce D f) w = (w', Inr x) \<and> connected w'"
    by (cases r; cases "projl r") (auto simp: io_try_def ce_def on_engine_def connected_def)
qed

lemma collect_runs:
  assumes "\<And>k. calm (f (D k))" "runs connected m (\<lambda>_. connected)"
  shows "runs connected (collect msg (ce D f) m) (\<lambda>_. connected)"
  unfolding collect_def
  by (rule runs_bind [OF try_runs]) (auto intro: assms runs_return split: sum.split)

lemma both_runs: "runs P m (\<lambda>_. P) \<Longrightarrow> runs P k (\<lambda>_. P) \<Longrightarrow> runs P (both m k) (\<lambda>_. P)"
  unfolding both_def by (auto intro: runs_bind runs_return)

lemma removals_run:
  assumes "\<forall>k. driver_calm (D k)"
  shows "runs connected (both (remove_controller D) (both (remove_all_proxies D) (both (remove_transport D)
    (both (remove_network D) remove_files)))) (\<lambda>_. connected)"
proof -
  have c: "calm (ContainerStop (D k) n)" "calm (ContainerRemove (D k) n)" "calm (NetworkRemove (D k) n)"
    "calm (io_ask (ContainerInspect (D k) TransportDeploymentName))"
    "calm (io_ask (ContainerInspect (D k) ControllerDeploymentName))"
    "calm (io_ask (NetworkInspect (D k) ''skupper-network''))" "calm (io_ask (ContainerList (D k) component_filter))" for k n
    using assms by (simp_all add: driver_calm_def)
  have ret: "runs connected (io_return x) (\<lambda>_. connected)" for x :: "error list" by (rule runs_return)
  have there: "runs connected (if_there D look k) (\<lambda>_. connected)" if "\<And>j. calm (io_ask (look (D j)))"
    "runs connected k (\<lambda>_. connected)" for k and look :: "'a Driver \<Rightarrow> 'a \<Rightarrow> 'b result"
    unfolding if_there_def by (rule runs_bind [OF try_runs]) (auto intro: that ret split: sum.split)
  have stop: "runs connected (stop_and_remove D a b n) (\<lambda>_. connected)" for a b n
    unfolding stop_and_remove_def by (intro collect_runs c ret)
  have proxies: "runs connected (remove_proxies D cs) (\<lambda>_. connected)" for cs
    by (induction cs) (simp_all only: remove_proxies.simps ret both_runs runs_if stop)
  have all: "runs connected (remove_all_proxies D) (\<lambda>_. connected)"
    unfolding remove_all_proxies_def by (rule runs_bind [OF try_runs]) (auto intro: c ret proxies split: sum.split)
  have net: "runs connected (remove_network D) (\<lambda>_. connected)"
    unfolding remove_network_def by (intro there collect_runs c ret)
  have "keeps connected (at_path HostPath RemoveAll)"
    by (simp add: keeps_def connected_def at_path_def RemoveAll_def on_fs_def split: prod.split)
  moreover have "calm (at_path HostPath RemoveAll)"
    by (simp add: calm_def at_path_def calm_fs(4) [unfolded calm_def, rule_format])
  ultimately have files: "runs connected remove_files (\<lambda>_. connected)"
    unfolding remove_files_def collect_def by (intro runs_bind [OF runs_try]) (auto intro: runs_return split: sum.split)
  show ?thesis unfolding remove_controller_def remove_transport_def
    by (intro both_runs there c stop all net files)
qed

lemma removal_returns:
  assumes "\<forall>k. driver_calm (D k)" "site_client D w = (w1, Inr sc)" "connected w1"
  shows "\<exists>w' errs. RouterRemove D w = (w', Inr errs)"
proof -
  have "RouterRemove D w = both (remove_controller D) (both (remove_all_proxies D) (both (remove_transport D)
      (both (remove_network D) remove_files))) w1"
    using assms(2) by (simp add: RouterRemove_def io_bind_def io_try_def)
  with runsD [OF removals_run [OF assms(1)], of w1] assms(3) show ?thesis by auto
qed

lemma site_client_connects: "site_client D w = (w', Inr sc) \<Longrightarrow> connected w'"
  by (auto simp: connected_def site_client_def Init_def connect_driver_def set_driver_def io_bind_def io_wrap_def
      split: prod.splits sum.splits option.splits if_splits)

text \<open>
  Property C24. The removal of a site goes through: once the site was found and the client is connected, the
  removal ends, whatever fails on the way short of a panic; the files that are gone are exactly those
  below the site's directory, and where some of them cannot be removed an error says so.
\<close>

theorem removal_goes_through:
  assumes "\<forall>k. driver_calm (D k)" "site_client D w = (w1, Inr sc)"
  shows "\<exists>w' errs. RouterRemove D w = (w', Inr errs)
    \<and> fs w' = fst (fs_remove_all (skupper_path w HostPath) (fs w)) \<and> env w' = env w
    \<and> (\<forall>e. snd (fs_remove_all (skupper_path w HostPath) (fs w)) = Inl e \<longrightarrow>
        wrap_error ''Failed to remove skupper files and directory'' e \<in> set errs)"
  using removal_returns [OF assms site_client_connects [OF assms(2)]] removal_run [OF _ assms(2)] by blast

lemma read_removed:
  assumes "denied s = {||}" "below p q"
  shows "fs_read q (fst (fs_remove_all p s)) = Inl (no_such_file q)"
  using assms by (simp add: fs_read_def fs_remove_all_def stuck_def)

lemma below_site: "p \<noteq> HostPath \<Longrightarrow> below (site_path e HostPath) (site_path e p @ ''/'' @ x)"
  by (simp add: below_def site_path_def GetSkupperPath_child HasPrefix_iff)

lemma ce_connected: "ce D f w = (w', Inr x) \<Longrightarrow> CeDriver w \<noteq> None \<and> CeDriver w' \<noteq> None"
  using ce_rest(2) [of D f w] by (auto simp: ce_def split: option.splits)

lemma start_connected:
  assumes "start_containers D lib ci van w = (w', Inr ())"
  shows "CeDriver w' \<noteq> None"
  using assms unfolding start_containers_def
  by (elim io_bind_InrE) (auto simp: io_wrap_Inr dest: ce_connected)

lemma create_connected:
  assumes "RouterCreate D lib ci options w = (w', Inr ())"
  shows "CeDriver w' \<noteq> None"
  using assms unfolding RouterCreate_def by (elim io_bind_InrE) (rule start_connected)

lemma created_site_found:
  fixes D :: "ce_kind \<Rightarrow> 'e Driver"
  assumes "RouterCreate D lib ci options w = (w1, Inr ())"
  shows "\<exists>options'. console_options (RandomId (ci_random ci)) options = Inr options' \<and> env w1 = env w
    \<and> (\<forall>w' :: 'e world. fs w' = fs w1 \<and> env w' = env w \<longrightarrow>
        SiteConfigInspect DefaultBridgeName w' = (w', Inr (Some \<lparr>sc_Spec = options', sc_UID = ci_uid ci\<rparr>)))"
proof -
  obtain options' where o: "console_options (RandomId (ci_random ci)) options = Inr options'" and
    site: "stored (env w) (site_path (env w) SitesPath @ ''/skupper0.json'')
      (Doc (enc_SiteConfig \<lparr>sc_Spec = options', sc_UID = ci_uid ci\<rparr>)) w1"
    using created_site [OF assms, of "env w"] by (auto simp: in_env_def)
  have "SiteConfigInspect DefaultBridgeName w' = (w', Inr (Some \<lparr>sc_Spec = options', sc_UID = ci_uid ci\<rparr>))"
    if "fs w' = fs w1 \<and> env w' = env w" for w' :: "'e world"
    using site that by (simp add: SiteConfigInspect_def site_file_def skupper_path_def site_path_def reads_def io_simps
        ReadFile_def DefaultBridgeName_def site_codec.ptr_round_trip enc_SiteConfig_not_null)
  with o site show ?thesis by (auto simp: reads_def in_env_def)
qed

lemma site_is_removed:
  assumes "site_client D w = (w1, Inr sc)" "denied (fs w) = {||}" and "\<forall>k. driver_calm (D k)"
  shows "\<exists>w2 errs. RouterRemove D w = (w2, Inr errs)
    \<and> (\<forall>q. below (skupper_path w HostPath) q \<longrightarrow> fs_read q (fs w2) = Inl (no_such_file q))
    \<and> SiteConfigInspect DefaultBridgeName w2 = (w2, Inl (no_such_file (site_file w DefaultBridgeName)))
    \<and> (\<forall>q. \<not> below (skupper_path w HostPath) q \<longrightarrow> fs_read q (fs w2) = fs_read q (fs w))"
proof -
  obtain w2 errs where run: "RouterRemove D w = (w2, Inr errs)"
    using removal_returns [OF assms(3,1) site_client_connects [OF assms(1)]] by blast
  from removal_run [OF run assms(1)]
  have f: "fs w2 = fst (fs_remove_all (skupper_path w HostPath) (fs w))" and e2: "env w2 = env w" by simp_all
  have gone: "fs_read q (fs w2) = Inl (no_such_file q)" if "below (skupper_path w HostPath) q" for q
    unfolding f by (rule read_removed [OF assms(2) that])
  have "below (skupper_path w HostPath) (site_file w DefaultBridgeName)"
    using below_site [of SitesPath "env w" "DefaultBridgeName @ ''.json''"]
    by (simp add: site_file_def skupper_path_def site_path_def)
  from gone [OF this]
  have "SiteConfigInspect DefaultBridgeName w2 = (w2, Inl (no_such_file (site_file w DefaultBridgeName)))"
    using e2 by (simp add: SiteConfigInspect_def io_simps ReadFile_def site_file_def skupper_path_def)
  moreover have "fs_read q (fs w2) = fs_read q (fs w)" if "\<not> below (skupper_path w HostPath) q" for q
    using that unfolding f by (simp add: fs_read_def fs_remove_all_def)
  ultimately show ?thesis using run gone by blast
qed

lemma created_is_removed:
  assumes "RouterCreate D lib ci options w = (w1, Inr ())" "denied (fs w1) = {||}"
    and "\<forall>k. driver_calm (D k)"
  shows "\<exists>w2 errs. RouterRemove D w1 = (w2, Inr errs)
    \<and> (\<forall>q. below (skupper_path w HostPath) q \<longrightarrow> fs_read q (fs w2) = Inl (no_such_file q))
    \<and> SiteConfigInspect DefaultBridgeName w2 = (w2, Inl (no_such_file (site_file w DefaultBridgeName)))
    \<and> (\<forall>q. \<not> below (skupper_path w HostPath) q \<longrightarrow> fs_read q (fs w2) = fs_read q (fs w1))"
proof -
  obtain sc where "SiteConfigInspect DefaultBridgeName w1 = (w1, Inr (Some sc))" and e: "env w1 = env w"
    using created_site_found [OF assms(1)] by auto
  then have "site_client D w1 = (w1, Inr sc)"
    using create_connected [OF assms(1)] by (simp add: site_client_def io_simps Init_def)
  from site_is_removed [OF this assms(2,3)] e show ?thesis by (simp add: skupper_path_def site_file_def)
qed

text \<open>
  Property C13. A site that was created can be removed, and removing it leaves nothing of it, provided no
  file is denied and the driver does not panic: the removal ends, afterwards no file of the site's
  directory can be read, the commands do not find a site, and the files outside of the directory are
  those there were.
\<close>

theorem create_then_remove:
  assumes "RouterCreate D lib ci options w = (w1, Inr ())" "denied (fs w1) = {||}"
    and "\<forall>k. driver_calm (D k)"
  shows "\<exists>w2 errs. RouterRemove D w1 = (w2, Inr errs)
    \<and> (\<forall>q. below (skupper_path w HostPath) q \<longrightarrow> fs_read q (fs w2) = Inl (no_such_file q))
    \<and> SiteConfigInspect DefaultBridgeName w2 = (w2, Inl (no_such_file (site_file w DefaultBridgeName)))
    \<and> (\<forall>q. \<not> below (skupper_path w HostPath) q \<longrightarrow> fs_read q (fs w2) = fs_read q (fs w1))"
  by (rule created_is_removed [OF assms])

section \<open>A failed connection\<close>

lemma fresh_site_empty:
  assumes "denied (fs w) = {||}" "in_env e w"
  shows "reads e (site_path e ServicesPath @ ''/'' @ x) (Inl (no_such_file (site_path e ServicesPath @ ''/'' @ x)))
    (fst (fresh_site uid options w))"
proof -
  let ?p = "site_path e ServicesPath @ ''/'' @ x"
  let ?G = "reads e ?p (Inl (no_such_file ?p))"
  have d: "site_path e SitesPath @ ''/'' @ y \<noteq> ?p" for y
    by (rule site_paths_differ) simp_all
  have "keeps ?G (SiteConfigCreate uid options)"
  proof (rule keepsI)
    fix w
    assume g: "?G w"
    have "keeps ?G (io_bind (WriteFile (site_path e SitesPath @ ''/skupper0.json'') c) (\<lambda>_. io_return sc))" for c sc
      using d [of "''skupper0.json''"] by (intro keeps_bind keeps_stored_WriteFile) auto
    from keepsD [OF this g] show "?G (fst (SiteConfigCreate uid options w))"
      by (simp add: SiteConfigCreate_def Let_def site_file_env [OF stored_env [OF g]] DefaultBridgeName_def)
  qed
  then have k: "keeps ?G (io_bind (at_path HostPath MkdirAll) (\<lambda>_. io_bind (at_path SitesPath Mkdir) (\<lambda>_. SiteConfigCreate uid options)))"
    by (intro keeps_bind keeps_stored_at keeping)
  let ?w = "w\<lparr>fs := fst (fs_remove_all (site_path e HostPath) (fs w))\<rparr>"
  have g: "?G ?w"
    using assms(2) read_removed [OF assms(1) below_site [of ServicesPath e x]]
    by (simp add: reads_def in_env_def)
  have "io_try (at_path HostPath RemoveAll) w = (?w, Inr (Inr ()))"
    using skupper_path_env [OF assms(2), of HostPath] assms(1)
    by (simp add: io_try_def at_path_def RemoveAll_def on_fs_def fs_remove_all_def stuck_def)
  then have "fresh_site uid options w = io_bind (at_path HostPath MkdirAll)
      (\<lambda>_. io_bind (at_path SitesPath Mkdir) (\<lambda>_. SiteConfigCreate uid options)) ?w"
    unfolding fresh_site_def by (rule io_bind_Inr)
  with keepsD [OF k g] show ?thesis by simp
qed

lemma on_fs_driver [simp]: "CeDriver (fst (on_fs f w)) = CeDriver w"
  by (simp add: on_fs_def split: prod.split)

lemma keeps_no_driver: "keeps (\<lambda>w :: 'e world. CeDriver w = None) (fresh_site uid options)"
proof -
  let ?N = "\<lambda>w :: 'e world. CeDriver w = None"
  have at: "keeps ?N (at_path p f)" if "\<And>q. keeps ?N (f q)" for p f
    using that by (simp add: keeps_def at_path_def)
  have fs: "keeps ?N (on_fs f)" for f by (simp add: keeps_def)
  have "keeps ?N (SiteConfigCreate uid options)"
  proof (rule keepsI)
    fix w
    assume n: "?N w"
    have "keeps ?N (io_bind (WriteFile p c) (\<lambda>_. io_return sc))" for p c sc
      unfolding WriteFile_def by (intro keeps_bind fs keeps_basic)
    from keepsD [OF this n] show "?N (fst (SiteConfigCreate uid options w))"
      unfolding SiteConfigCreate_def Let_def .
  qed
  then show ?thesis unfolding fresh_site_def RemoveAll_def MkdirAll_def Mkdir_def
    by (intro keeps_bind keeps_try at fs)
qed

lemma disconnected_rest:
  assumes "CeDriver w = None"
  shows "\<exists>e. io_bind (GetRouterSpecFromOpts D goos ord options siteId) (\<lambda>van. io_bind (pull_images D van) (f van)) w = (w, Inl e)"
  using assms by (cases "ss_SkupperName options = []")
    (simp_all add: GetRouterSpecFromOpts_def machine_name_def pull_images_def io_bind_def io_try_def ce_def nil_pointer_def Let_def)

text \<open>
  Property C40. Creating a site whose engine cannot be connected destroys the site there was: the
  failure of the connection is printed and the creation goes on, empties the directory of the site and
  fails for want of a driver; no definition of a service is left to read.
\<close>

theorem failed_connection_loses_site:
  assumes "Init D (ss_ContainerEngineDriver options) w = (w1, Inl err)" "\<forall>s. err \<noteq> Panic s"
    and "console_options (RandomId (ci_random ci)) options = Inr options'" "denied (fs w) = {||}"
  shows "(\<exists>e. snd (RouterCreate D lib ci options w) = Inl e)
    \<and> fs_read (services_file w) (fs (fst (RouterCreate D lib ci options w))) = Inl (no_such_file (services_file w))"
proof -
  have h: "host_of w1 = host_of w" using untouchedD [OF untouched_Init assms(1)] .
  have n: "CeDriver w1 = None"
    using assms(1) by (auto simp: Init_def connect_driver_def io_bind_def io_wrap_def on_engine_def set_driver_def
        split: if_splits prod.splits sum.splits)
  have sf: "services_file w = site_path (env w) ServicesPath @ ''/'' @ ''skupper-services''"
    by (simp add: services_file_def skupper_path_def site_path_def)
  have "io_try (Init D (ss_ContainerEngineDriver options)) w = (w1, Inr (Inl err))"
    using assms(1,2) by (cases err) (auto simp: io_try_def)
  then have run: "RouterCreate D lib ci options w = io_bind (fresh_site (ci_uid ci) options') (\<lambda>sc.
      io_bind (GetRouterSpecFromOpts D (ci_goos ci) (ci_sections ci) options' (sc_UID sc)) (\<lambda>van.
      io_bind (pull_images D van) (\<lambda>_. io_bind (make_directories ci van) (\<lambda>_.
      io_bind (write_site_files options' van) (\<lambda>_. start_containers D lib ci van))))) w1"
    using assms(3) by (simp add: RouterCreate_def io_bind_def)
  obtain w2 r where f: "fresh_site (ci_uid ci) options' w1 = (w2, r)" by fastforce
  have "denied (fs w1) = {||}" "in_env (env w) w1"
    using h assms(4) by (simp_all add: host_of_def in_env_def)
  from fresh_site_empty [OF this, of "''skupper-services''" "ci_uid ci" options']
  have g: "fs_read (services_file w) (fs w2) = Inl (no_such_file (services_file w))"
    unfolding sf f by (simp add: reads_def)
  have n2: "CeDriver w2 = None" using keeps_run [OF keeps_no_driver n f] .
  show ?thesis
  proof (cases r)
    case (Inl e)
    then show ?thesis unfolding run using f g by (simp add: io_bind_def)
  next
    case (Inr sc)
    have "\<exists>e. RouterCreate D lib ci options w = (w2, Inl e)"
      unfolding run io_bind_Inr [where m = "fresh_site (ci_uid ci) options'", OF f [unfolded Inr]]
      by (rule disconnected_rest [OF n2])
    with g show ?thesis by auto
  qed
qed

end
