(* ===== verification/Site_Creation.thy ===== *)
theory Site_Creation imports Router_Lifecycle_Laws Io_Total begin

text \<open>
  Creating a site comes through: on a machine where nothing is denied and with an engine that does what
  it is asked, \<open>RouterCreate\<close> ends without an error, whatever the options, the certificates and the
  orders of the loops. Along the way the directory of the site has exactly the entries listed here.
\<close>

section \<open>The engine and the machine\<close>

text \<open>
  An engine that can be reached, pulls images, creates networks and containers with a health check, as those
  of a site are, and starts what it created.
\<close>

definition engine_ready :: "(ce_kind \<Rightarrow> 'e Driver) \<Rightarrow> bool" where
  "engine_ready D \<longleftrightarrow> (\<forall>k s. (\<exists>s'. New (D k) s = (s', Inr ()))
     \<and> (\<forall>i opts. \<exists>s' x. ImagesPull (D k) i opts s = (s', Inr x))
     \<and> (\<forall>n opts. \<exists>s' x. NetworkCreate (D k) n opts s = (s', Inr x))
     \<and> (\<forall>opts. cb_HealthCheck (cco_ContainerConfig opts) \<noteq> None \<longrightarrow>
         (\<exists>s' x s''. ContainerCreate (D k) opts s = (s', Inr x) \<and> ContainerStart (D k) (ccr_ID x) s' = (s'', Inr ())))
     \<and> (\<forall>p. Engine_Driver.Info (D k) s \<noteq> Inl (Panic p)))"

lemma engine_readyD:
  assumes "engine_ready D"
  shows "\<exists>s'. New (D k) s = (s', Inr ())" "\<exists>s' x. ImagesPull (D k) i lo s = (s', Inr x)"
    "\<exists>s' x. NetworkCreate (D k) n no s = (s', Inr x)"
    "cb_HealthCheck (cco_ContainerConfig co) \<noteq> None \<Longrightarrow> \<exists>s' x s''. ContainerCreate (D k) co s = (s', Inr x) \<and> ContainerStart (D k) (ccr_ID x) s' = (s'', Inr ())"
    "Engine_Driver.Info (D k) s \<noteq> Inl (Panic p)"
  using assms by (simp_all add: engine_ready_def)

text \<open>No path is denied and no directory on the way to the site is a file.\<close>

definition machine_ready :: "(string \<Rightarrow> string) \<Rightarrow> 'e world \<Rightarrow> bool" where
  "machine_ready e w \<longleftrightarrow> in_env e w \<and> CeDriver w \<noteq> None \<and> denied (fs w) = {||}
     \<and> (\<forall>a \<in> set (ancestors [] (site_path e HostPath)). a \<noteq> site_path e HostPath \<longrightarrow> a |\<notin>| fmdom (files (fs w)))"

section \<open>The directory of the site\<close>

lemma runs_at: "(\<And>w. P w \<Longrightarrow> in_env e w) \<Longrightarrow> runs P (f (site_path e p)) Q \<Longrightarrow> runs P (at_path p f) Q"
  unfolding runs_def at_path_def using skupper_path_env by metis

abbreviation site_file_path :: "(string \<Rightarrow> string) \<Rightarrow> string" where
  "site_file_path e \<equiv> site_path e SitesPath @ ''/skupper0.json''"

lemma fresh_site_runs:
  "runs (machine_ready e) (fresh_site uid options)
     (\<lambda>sc. layout e {site_path e HostPath, site_path e SitesPath} {site_file_path e})"
proof -
  let ?h = "site_path e HostPath"
  let ?clean = "\<lambda>w. layout e {} {} w \<and> (\<forall>a \<in> set (ancestors [] ?h). a |\<notin>| fmdom (files (fs w)))"
  have 1: "runs (machine_ready e) (io_try (at_path HostPath RemoveAll)) (\<lambda>_. ?clean)"
    using ancestors_below [of _ ?h]
    by (intro runsI) (auto simp: machine_ready_def io_try_def at_path_def skupper_path_env RemoveAll_def on_fs_def
        fs_remove_all_def stuck_def layout_def in_env_def)
  have 2: "runs ?clean (at_path HostPath MkdirAll) (\<lambda>_. layout e {?h} {})"
  proof (rule runsI)
    fix w
    assume c: "?clean w"
    then have env: "in_env e w" and no: "\<forall>a \<in> set (ancestors [] ?h). a |\<notin>| fmdom (files (fs w))" "denied (fs w) = {||}"
      by (simp_all add: layout_def)
    have "?h \<in> set (ancestors [] ?h)" using ancestors_last [of "[]" ?h] host_path_ne by simp
    then have "q |\<in>| fset_of_list (ancestors [] ?h) \<longleftrightarrow> q = ?h" if "below ?h q" for q
      using that ancestors_below [of q ?h] by (auto simp: fset_of_list_elem)
    with c have "layout e {?h} {} (w\<lparr>fs := fs w\<lparr>dirs := dirs (fs w) |\<union>| fset_of_list (ancestors [] ?h)\<rparr>\<rparr>)"
      by (simp add: layout_def in_env_def)
    moreover have "fs_mkdir_all ?h (fs w) = (fs w\<lparr>dirs := dirs (fs w) |\<union>| fset_of_list (ancestors [] ?h)\<rparr>, Inr ())"
      using no by (simp add: fs_mkdir_all_def)
    ultimately show "\<exists>w' x. at_path HostPath MkdirAll w = (w', Inr x) \<and> layout e {?h} {} w'"
      using skupper_path_env [OF env, of HostPath] by (simp add: at_path_def MkdirAll_def on_fs_def)
  qed
  have 3: "runs (layout e {?h} {}) (at_path SitesPath Mkdir) (\<lambda>_. layout e (insert (site_path e SitesPath) {?h}) {})"
    by (rule runs_at, erule layout_env, rule Mkdir_runs) (auto simp: dirname_site_path)
  have 4: "runs (layout e {?h, site_path e SitesPath} {}) (SiteConfigCreate uid options)
     (\<lambda>sc. layout e {?h, site_path e SitesPath} {site_file_path e})"
  proof (rule runsI)
    fix w
    assume l: "layout e {?h, site_path e SitesPath} {} w"
    have "runs (layout e {?h, site_path e SitesPath} {}) (WriteFile (site_file_path e) c)
        (\<lambda>_. layout e {?h, site_path e SitesPath} {site_file_path e})" for c
      using dirname_below [of "''skupper0.json''" e SitesPath] child_differs [of SitesPath e "''skupper0.json''"]
        below_paths(2) [of e SitesPath "''skupper0.json''"]
      by (intro WriteFile_runs) (auto simp: slash_def)
    from runsD [OF this l] obtain w' u where
      "WriteFile (site_file_path e) (Doc (enc_SiteConfig \<lparr>sc_Spec = options, sc_UID = uid\<rparr>)) w = (w', Inr u)"
      "layout e {?h, site_path e SitesPath} {site_file_path e} w'" by blast
    then show "\<exists>w' x. SiteConfigCreate uid options w = (w', Inr x)
        \<and> layout e {?h, site_path e SitesPath} {site_file_path e} w'"
      using site_file_env [OF layout_env [OF l], of DefaultBridgeName]
      by (simp add: SiteConfigCreate_def Let_def DefaultBridgeName_def io_bind_def)
  qed
  show ?thesis unfolding fresh_site_def
    by (intro runs_bind [OF 1] runs_bind [OF 2] runs_bind [OF 3] runs_mono [OF 4]) (auto simp: insert_commute)
qed

text \<open>The loops that make directories.\<close>

lemma mkdirs_run:
  assumes "distinct (map fst es)" "\<forall>x \<in> set (map fst es). (\<exists>p. x = site_path e p \<and> p \<noteq> HostPath) \<and> x \<notin> S \<and> x \<notin> F"
    and "site_path e HostPath \<in> S"
  shows "runs (layout e S F) (io_each (\<lambda>(mnt, _). Mkdir mnt) es) (\<lambda>_. layout e (S \<union> set (map fst es)) F)"
  using assms
proof (induction es arbitrary: S)
  case (Cons x es)
  obtain m t where x: "x = (m, t)" by fastforce
  with Cons.prems have "runs (layout e S F) (Mkdir m) (\<lambda>_. layout e (insert m S) F)"
    by (intro Mkdir_runs) (auto simp: dirname_site_path)
  note first = this
  have "distinct (map fst es)" "site_path e HostPath \<in> insert m S"
    "\<forall>x \<in> set (map fst es). (\<exists>p. x = site_path e p \<and> p \<noteq> HostPath) \<and> x \<notin> insert m S \<and> x \<notin> F"
    using Cons.prems x by (auto simp del: site_path_inj) (metis fst_conv image_eqI)
  note rest = Cons.IH [OF this(1,3,2)]
  show ?case unfolding io_each.simps using x by (auto intro: runs_bind [OF first rest [simplified]])
qed (simp add: runs_return runs_def)

abbreviation volume :: "(string \<Rightarrow> string) \<Rightarrow> string \<Rightarrow> string" where
  "volume e v \<equiv> site_path e CertsPath @ ''/'' @ v"

lemma volumes_run:
  assumes "distinct vs" "\<forall>v \<in> set vs. slash \<notin> set v \<and> volume e v \<notin> S \<and> volume e v \<notin> F" "site_path e CertsPath \<in> S"
  shows "runs (layout e S F) (io_each (\<lambda>v. at_path CertsPath (\<lambda>p. Mkdir (p @ ''/'' @ v))) vs)
     (\<lambda>_. layout e (S \<union> volume e ` set vs) F)"
  using assms
proof (induction vs arbitrary: S)
  case (Cons v vs)
  have mk: "runs (layout e S F) (Mkdir (volume e v)) (\<lambda>_. layout e (insert (volume e v) S) F)"
    using Cons.prems dirname_below [of v e CertsPath] below_paths(2) [of e CertsPath v]
    by (intro Mkdir_runs) auto
  have first: "runs (layout e S F) (at_path CertsPath (\<lambda>p. Mkdir (p @ ''/'' @ v))) (\<lambda>_. layout e (insert (volume e v) S) F)"
    by (rule runs_at, erule layout_env) (rule mk)
  have "volume e u \<noteq> volume e v" if "u \<in> set vs" for u using that Cons.prems(1) by auto
  then have "\<forall>u \<in> set vs. slash \<notin> set u \<and> volume e u \<notin> insert (volume e v) S \<and> volume e u \<notin> F"
    "distinct vs" "site_path e CertsPath \<in> insert (volume e v) S"
    using Cons.prems by simp_all
  note rest = Cons.IH [OF this(2,1,3)]
  have "insert (volume e v) S \<union> volume e ` set vs = S \<union> volume e ` set (v # vs)" by auto
  with rest show ?case unfolding io_each.simps by (intro runs_bind [OF first]) simp
qed (simp add: runs_def)


text \<open>The site as the creation leaves it: its directories and the volumes, and some files.\<close>

definition built :: "(string \<Rightarrow> string) \<Rightarrow> string list \<Rightarrow> 'e world \<Rightarrow> bool" where
  "built e vs w \<longleftrightarrow> (\<exists>F. layout e (range (site_path e) \<union> volume e ` set vs) F w)"

lemma built_env: "built e vs w \<Longrightarrow> in_env e w"
  by (auto simp: built_def dest: layout_env)

lemma all_paths: "range (site_path e) = {site_path e HostPath, site_path e SitesPath, site_path e ServicesPath}
    \<union> site_path e ` {CertsPath, ConnectionsPath, ConfigPath, ConsoleUsersPath, SaslConfigPath}"
proof -
  have "p \<in> {HostPath, SitesPath, ServicesPath} \<union> {CertsPath, ConnectionsPath, ConfigPath, ConsoleUsersPath, SaslConfigPath}" for p
    by (cases p) simp_all
  then have "UNIV = {HostPath, SitesPath, ServicesPath} \<union> {CertsPath, ConnectionsPath, ConfigPath, ConsoleUsersPath, SaslConfigPath}"
    by blast
  then have "range (site_path e) = site_path e ` ({HostPath, SitesPath, ServicesPath} \<union> {CertsPath, ConnectionsPath, ConfigPath, ConsoleUsersPath, SaslConfigPath})"
    by (rule arg_cong)
  then show ?thesis by (simp only: image_Un image_insert image_empty)
qed

lemma mounts_dom: "fset (fmdom (transport_mounts (site_path e)))
    = site_path e ` {CertsPath, ConnectionsPath, ConfigPath, ConsoleUsersPath, SaslConfigPath}"
  by (auto simp: transport_mounts_def)

lemma volumes_plain: "v \<in> set (transport_volumes options) \<Longrightarrow> slash \<notin> set v"
  by (auto simp: transport_volumes_def slash_def split: if_splits)

lemma volumes_distinct: "distinct (transport_volumes options)"
  by (simp add: transport_volumes_def)

lemma make_directories_run:
  assumes "ds_Mounts (rs_Transport van) = transport_mounts (site_path e)"
    "ds_Volumes (rs_Transport van) = transport_volumes options" "\<forall>m. ranges_over (ci_mounts ci m) m"
  shows "runs (layout e {site_path e HostPath, site_path e SitesPath} {site_file_path e}) (make_directories ci van)
     (\<lambda>_. built e (transport_volumes options))"
proof -
  let ?S0 = "{site_path e HostPath, site_path e SitesPath}" and ?F = "{site_file_path e}"
  let ?es = "ci_mounts ci (transport_mounts (site_path e))"
  let ?vs = "transport_volumes options"
  note r = assms(3) [rule_format, of "transport_mounts (site_path e)"]
  have k: "set (map fst ?es) = site_path e ` {CertsPath, ConnectionsPath, ConfigPath, ConsoleUsersPath, SaslConfigPath}"
    using ranges_over_keys [OF r] mounts_dom by simp
  let ?S1 = "?S0 \<union> set (map fst ?es)"
  let ?S2 = "?S1 \<union> volume e ` set ?vs"
  have new: "site_path e q \<noteq> site_file_path e" for q
    using child_differs [of SitesPath e "''skupper0.json''" q] by auto
  have vol: "volume e v \<noteq> site_path e q" "volume e v \<noteq> site_file_path e" for v q
    using child_differs [of CertsPath e v q] site_paths_differ [of CertsPath SitesPath e v "''skupper0.json''"] by auto
  have 1: "runs (layout e ?S0 ?F) (io_each (\<lambda>(mnt, _). Mkdir mnt) ?es) (\<lambda>_. layout e ?S1 ?F)"
    using new by (intro mkdirs_run ranges_over_distinct [OF r]) (auto simp: k simp del: set_map)
  have 2: "runs (layout e ?S1 ?F) (io_each (\<lambda>v. at_path CertsPath (\<lambda>p. Mkdir (p @ ''/'' @ v))) ?vs) (\<lambda>_. layout e ?S2 ?F)"
  proof (rule volumes_run [OF volumes_distinct])
    show "\<forall>v \<in> set ?vs. slash \<notin> set v \<and> volume e v \<notin> ?S1 \<and> volume e v \<notin> ?F"
      unfolding k using volumes_plain vol by auto
  qed (simp add: k del: set_map)
  have all: "insert (site_path e ServicesPath) ?S2 = range (site_path e) \<union> volume e ` set ?vs"
    unfolding k all_paths by auto
  have "site_path e ServicesPath \<notin> ?S2" unfolding k using vol(1) [of _ ServicesPath] by (auto simp del: append_Cons) metis
  then have 3: "runs (layout e ?S2 ?F) (at_path ServicesPath Mkdir) (\<lambda>_. layout e (insert (site_path e ServicesPath) ?S2) ?F)"
    using new [of ServicesPath] by (rule_tac runs_at, erule_tac layout_env, rule_tac Mkdir_runs) (auto simp: dirname_site_path)
  show ?thesis unfolding make_directories_def assms(1,2)
    by (rule runs_bind [OF 1], rule runs_bind [OF 2], rule runs_mono [OF 3]) (simp, unfold built_def all, blast)
qed


section \<open>The rest of the creation\<close>

lemma site_write_runs:
  assumes "p \<noteq> HostPath" "p \<noteq> CertsPath" "slash \<notin> set x"
  shows "runs (built e vs) (at_path p (\<lambda>r. WriteFile (r @ ''/'' @ x) c)) (\<lambda>_. built e vs)"
proof -
  have n: "site_path e p @ ''/'' @ x \<notin> range (site_path e) \<union> volume e ` set vs"
    using child_differs [OF assms(1), of e x] site_paths_differ [of p CertsPath e x] assms by auto
  have "runs (layout e (range (site_path e) \<union> volume e ` set vs) F) (WriteFile (site_path e p @ ''/'' @ x) c)
      (\<lambda>_. layout e (range (site_path e) \<union> volume e ` set vs) (insert (site_path e p @ ''/'' @ x) F))" for F
    by (rule WriteFile_runs [OF n]) (simp_all only: dirname_below [OF assms(3)] below_paths, simp)
  then have wr: "runs (built e vs) (WriteFile (site_path e p @ ''/'' @ x) c) (\<lambda>_. built e vs)"
    unfolding built_def by (intro runs_ex) (rule runs_mono, assumption, assumption, blast)
  show ?thesis by (rule runs_at, erule built_env) (rule wr)
qed

lemma site_files_run:
  assumes "slash \<notin> set (ss_User options)"
  shows "runs (built e vs) (write_site_files options van) (\<lambda>_. built e vs)"
proof -
  have s: "slash \<notin> set ''skupper-services''" "slash \<notin> set ''qdrouterd.json''" "slash \<notin> set ''qdrouterd.conf''"
    by (simp_all add: slash_def)
  have 1: "runs (built e vs) (at_path ServicesPath (\<lambda>p. WriteFile (p @ ''/skupper-services'') c)) (\<lambda>_. built e vs)"
    and 2: "runs (built e vs) (at_path ConfigPath (\<lambda>p. WriteFile (p @ ''/qdrouterd.json'') c)) (\<lambda>_. built e vs)"
    and 3: "runs (built e vs) (at_path SaslConfigPath (\<lambda>p. WriteFile (p @ ''/qdrouterd.conf'') c)) (\<lambda>_. built e vs)"
    and 4: "runs (built e vs) (at_path ConsoleUsersPath (\<lambda>p. WriteFile (p @ ''/'' @ ss_User options) c)) (\<lambda>_. built e vs)" for c
    using site_write_runs [of ServicesPath, OF _ _ s(1), of e vs c] site_write_runs [of ConfigPath, OF _ _ s(2), of e vs c]
      site_write_runs [of SaslConfigPath, OF _ _ s(3), of e vs c] site_write_runs [of ConsoleUsersPath, OF _ _ assms, of e vs c]
    by simp_all
  show ?thesis unfolding write_site_files_def
    by (intro runs_bind [OF 1] runs_bind [OF 2] runs_if runs_bind [OF 3] 4 runs_return)
qed

text \<open>The certificates change files only and cannot stop the creation.\<close>

definition same_engine :: "'e \<Rightarrow> ce_kind \<Rightarrow> 'e world \<Rightarrow> bool" where
  "same_engine s k w \<longleftrightarrow> engine w = s \<and> CeDriver w = Some k \<and> denied (fs w) = {||}"

lemma keeps_engine [keeping]: "keeps (same_engine s k) (WriteFile p c)" "keeps (same_engine s k) (Mkdir p)"
  by (auto simp: keeps_def same_engine_def WriteFile_def Mkdir_def on_fs_def fs_write_def fs_mkdir_def split: prod.split)

lemma certificates_run: "runs (same_engine s k) (issue_certificates lib rng van) (\<lambda>_. same_engine s k)"
proof -
  have wc: "calm (write_certs msg d es)" "keeps (same_engine s k) (write_certs msg d es)" for msg d es
    unfolding write_certs_def by (intro calm_each keeps_each; auto intro: keeping)+
  have ca: "calm (ensureCA lib rng n)" "keeps (same_engine s k) (ensureCA lib rng n)" for n
  proof -
    have b: "calm (io_bind (io_wrap a (Mkdir p)) (\<lambda>_. io_bind (write_certs msg d es) (\<lambda>_. io_return x)))"
      "keeps (same_engine s k) (io_bind (io_wrap a (Mkdir p)) (\<lambda>_. io_bind (write_certs msg d es) (\<lambda>_. io_return x)))"
      for a p msg d es and x :: cert_data
      by (intro calm_bind calm_wrap wc calm_fs calm_return keeps_bind keeps_wrap keeping keeps_basic)+
    show "calm (ensureCA lib rng n)" "keeps (same_engine s k) (ensureCA lib rng n)"
      using b unfolding ensureCA_def Let_def calm_def keeps_def by blast+
  qed
  have gen: "calm (generateCredentials lib rng a n sub h j)" "keeps (same_engine s k) (generateCredentials lib rng a n sub h j)"
    for a n sub h j
  proof -
    have b: "calm (io_bind (write_certs msg d es) (\<lambda>_. if j then io_wrap m2 (WriteFile p c) else io_return ()))"
      "keeps (same_engine s k) (io_bind (write_certs msg d es) (\<lambda>_. if j then io_wrap m2 (WriteFile p c) else io_return ()))"
      for msg d es m2 p c
      using wc by (auto intro!: calm_bind calm_wrap keeps_bind keeps_wrap keeping)
    have "\<exists>dir es. generateCredentials lib rng a n sub h j w = io_bind (write_certs ''Failed to write certificate file'' dir es)
      (\<lambda>_. if j then io_wrap ''Failed to write connect file'' (WriteFile (dir @ ''/connect.json'') (Text ConnectJSON))
        else io_return ()) w" for w :: "'e world"
      unfolding generateCredentials_def Let_def by (cases "getCertData a w") auto
    with b show "calm (generateCredentials lib rng a n sub h j)" "keeps (same_engine s k) (generateCredentials lib rng a n sub h j)"
      unfolding calm_def keeps_def by metis+
  qed
  show ?thesis unfolding issue_certificates_def
    by (intro runs_bind [OF runs_each] runs_each runs_bind [OF runs_try] runs_return ca gen)
qed

lemma checked:
  "cb_HealthCheck (cco_ContainerConfig (getTransportContainerCreateOptions ms van)) \<noteq> None"
  "cb_HealthCheck (cco_ContainerConfig (getControllerContainerCreateOptions ms van)) \<noteq> None"
  by (simp_all add: getTransportContainerCreateOptions_def getControllerContainerCreateOptions_def)

lemma start_runs:
  assumes "engine_ready D"
  shows "runs (built e vs) (start_containers D lib ci van) (\<lambda>_ w. denied (fs w) = {||})"
proof (rule runsI)
  fix w :: "'a world"
  assume "built e vs w"
  then obtain k where k: "CeDriver w = Some k" "denied (fs w) = {||}" by (auto simp: built_def layout_def)
  note r = engine_readyD [OF assms]
  have create: "runs (same_engine s k) (ce D (\<lambda>d. ContainerCreate d co)) (\<lambda>x w. \<exists>s' s''. same_engine s' k w
      \<and> ContainerStart (D k) (ccr_ID x) s' = (s'', Inr ()))" if "cb_HealthCheck (cco_ContainerConfig co) \<noteq> None" for s co
    using r(4) [OF that, of k s] by (intro runsI) (auto simp: same_engine_def ce_def on_engine_def)
  have go: "runs (\<lambda>w. \<exists>s' s''. same_engine s' k w \<and> ContainerStart (D k) x s' = (s'', Inr ()))
      (ce D (\<lambda>d. ContainerStart d x)) (\<lambda>_ w. \<exists>s. same_engine s k w)" for x
    by (intro runsI) (auto simp: same_engine_def ce_def on_engine_def)
  have net: "runs (same_engine s k) (ce D (\<lambda>d. NetworkCreate d n no)) (\<lambda>_ w. \<exists>s. same_engine s k w)" for s n no
    using r(3) [of k n no s] by (intro runsI) (auto simp: same_engine_def ce_def on_engine_def)
  have certs: "runs (\<lambda>w. \<exists>s' s''. same_engine s' k w \<and> ContainerStart (D k) x s' = (s'', Inr ()))
     (issue_certificates lib (ci_certs ci) van)
     (\<lambda>_ w. \<exists>s' s''. same_engine s' k w \<and> ContainerStart (D k) x s' = (s'', Inr ()))" for x
    by (intro runs_ex runs_mono [OF runs_pure [OF certificates_run]]) auto
  have "runs (same_engine (engine w) k) (start_containers D lib ci van) (\<lambda>_ w. \<exists>s. same_engine s k w)"
    unfolding start_containers_def
    by (intro runs_bind [OF net] runs_bind [OF runs_ex [OF create [OF checked(1)]]] runs_bind [OF certs]
        runs_bind [OF runs_wrap [OF go]] runs_bind [OF runs_ex [OF create [OF checked(2)]]] runs_wrap [OF go])
  from runsD [OF this, of w] k show "\<exists>w' x. start_containers D lib ci van w = (w', Inr x) \<and> denied (fs w') = {||}"
    by (auto simp: same_engine_def)
qed


lemma spec_runs:
  assumes "engine_ready D"
  shows "runs (layout e S F) (GetRouterSpecFromOpts D goos ord options siteId) (\<lambda>van w. layout e S F w
    \<and> ds_Mounts (rs_Transport van) = transport_mounts (site_path e)
    \<and> ds_Volumes (rs_Transport van) = transport_volumes options)"
proof -
  have name: "runs (layout e S F) (machine_name D) (\<lambda>_. layout e S F)"
  proof (rule runsI)
    fix w :: "'a world"
    assume l: "layout e S F w"
    then obtain k where k: "CeDriver w = Some k" by (auto simp: layout_def)
    have w: "w\<lparr>engine := engine w\<rparr> = w" by simp
    show "\<exists>w' x. machine_name D w = (w', Inr x) \<and> layout e S F w'"
      using l k w engine_readyD(5) [OF assms, of k "engine w"]
      by (cases "Engine_Driver.Info (D k) (engine w)"; cases "projl (Engine_Driver.Info (D k) (engine w))")
        (auto simp: machine_name_def io_bind_def io_try_def ce_def on_engine_def)
  qed
  have "skupper_path w = site_path e" if "layout e S F w" for w :: "'a world"
    using skupper_path_env [OF layout_env [OF that]] by (rule ext)
  then have spec: "runs (layout e S F) (\<lambda>w. (w, Inr (f w)))
     (\<lambda>van w. layout e S F w \<and> (\<exists>v :: 'a world. van = f v \<and> skupper_path v = site_path e))" for f :: "'a world \<Rightarrow> RouterSpec"
    unfolding runs_def by fastforce
  show ?thesis unfolding GetRouterSpecFromOpts_def
    by (intro runs_bind [OF runs_if [OF name runs_return]] runs_mono [OF spec]) (auto simp: transport_spec_def Let_def)
qed

lemma pull_runs:
  assumes "engine_ready D"
  shows "runs (layout e S F) (pull_images D van) (\<lambda>_. layout e S F)"
  unfolding pull_images_def
  by (intro runs_bind [OF ce_runs] runs_return engine_readyD(2) [OF assms])

lemma init_runs:
  assumes "engine_ready D"
  shows "runs (\<lambda>w. machine_ready e (w\<lparr>CeDriver := Some Docker\<rparr>) \<and> (CeDriver w \<noteq> None \<or> ced \<in> {''docker'', ''podman''}))
    (io_try (Init D ced)) (\<lambda>_. machine_ready e)"
proof (rule runsI)
  fix w :: "'a world"
  assume w: "machine_ready e (w\<lparr>CeDriver := Some Docker\<rparr>) \<and> (CeDriver w \<noteq> None \<or> ced \<in> {''docker'', ''podman''})"
  have "\<exists>w'. Init D ced w = (w', Inr ()) \<and> machine_ready e w'"
  proof (cases "CeDriver w")
    case (Some k)
    then show ?thesis using w by (simp add: Init_def machine_ready_def in_env_def)
  next
    case None
    obtain s1 s2 where "New (D Docker) (engine w) = (s1, Inr ())" "New (D Podman) (engine w) = (s2, Inr ())"
      using engine_readyD(1) [OF assms] by metis
    with None w show ?thesis
      by (auto simp: Init_def connect_driver_def io_bind_def io_wrap_def on_engine_def set_driver_def machine_ready_def in_env_def)
  qed
  then show "\<exists>w' x. io_try (Init D ced) w = (w', Inr x) \<and> machine_ready e w'" by (auto simp: io_try_def)
qed

text \<open>The whole creation; the user of the console names a file.\<close>

lemma creation_runs:
  assumes "engine_ready D" "console_options (RandomId (ci_random ci)) options = Inr options'"
    "slash \<notin> set (ss_User options')" "\<forall>m. ranges_over (ci_mounts ci m) m"
  shows "runs (\<lambda>w. machine_ready e (w\<lparr>CeDriver := Some Docker\<rparr>)
      \<and> (CeDriver w \<noteq> None \<or> ss_ContainerEngineDriver options \<in> {''docker'', ''podman''}))
    (RouterCreate D lib ci options) (\<lambda>_ w. denied (fs w) = {||})"
proof -
  let ?S = "{site_path e HostPath, site_path e SitesPath}" and ?F = "{site_file_path e}"
  have make: "runs (\<lambda>w. layout e ?S ?F w \<and> ds_Mounts (rs_Transport van) = transport_mounts (site_path e)
      \<and> ds_Volumes (rs_Transport van) = transport_volumes options')
    (io_bind (pull_images D van) (\<lambda>_. make_directories ci van)) (\<lambda>_. built e (transport_volumes options'))" for van
    using make_directories_run [OF _ _ assms(4), of van e options'] pull_runs [OF assms(1), of e ?S ?F van]
    unfolding runs_def io_bind_def by fastforce
  have assoc: "io_bind (pull_images D van) (\<lambda>_. io_bind (make_directories ci van) k)
      = io_bind (io_bind (pull_images D van) (\<lambda>_. make_directories ci van)) k" for van and k :: "unit \<Rightarrow> ('e world, unit) io" and D
    by (rule ext) (simp add: io_bind_def split: prod.split sum.split)
  show ?thesis unfolding RouterCreate_def assoc
    by (intro runs_bind [OF init_runs [OF assms(1)]] runs_lift [OF assms(2)] runs_bind [OF fresh_site_runs]
        runs_bind [OF spec_runs [OF assms(1)]] runs_bind [OF make] runs_bind [OF site_files_run [OF assms(3)]] start_runs [OF assms(1)])
qed


end
