(* ===== verification/Docker_Contracts.thy ===== *)
theory Docker_Contracts imports Driver_Laws Site_Creation Controller_Laws begin

text \<open>
  The docker driver under the contracts that the rest of the development asks of a driver: where the library
  and the daemon behave, it does not panic in the calls of the removal of a site and of the controller, and
  it is ready for the creation of a site.
\<close>

section \<open>What is asked of the daemon\<close>

text \<open>
  \<open>daemon_sound\<close>: the library reports errors as values, what is listed has a name, and the two containers of
  the site, where they are shown, carry a health check and well-formed variables, as they were created.
\<close>

definition answers :: "'a result \<Rightarrow> bool" where
  "answers r \<longleftrightarrow> (case r of Inl (Panic _) \<Rightarrow> False | _ \<Rightarrow> True)"

definition daemon_sound :: "'e docker_api \<Rightarrow> bool" where
  "daemon_sound c \<longleftrightarrow> (\<forall>e n f a x.
      answers (snd (api_ContainerList c f a e)) \<and> answers (snd (api_ContainerInspect c n e))
    \<and> answers (snd (api_NetworkInspect c n e)) \<and> answers (snd (snd (api_NetworkConnect c n x e)))
    \<and> answers (snd (snd (api_ContainerStop c n e))) \<and> answers (snd (snd (api_ContainerRemove c n e)))
    \<and> answers (snd (snd (api_NetworkRemove c n e)))
    \<and> (\<forall>l. api_ContainerList c f a e = (False, Inr l) \<longrightarrow> (\<forall>k \<in> set l. dk_Names k \<noteq> []))
    \<and> (\<forall>j. n \<in> {TransportDeploymentName, ControllerDeploymentName} \<longrightarrow> api_ContainerInspect c n e = (False, Inr j)
        \<longrightarrow> can_show j))"

text \<open>\<open>daemon_up\<close>: the daemon can be reached in time and does what it is asked.\<close>

definition daemon_up :: "'e docker_api \<Rightarrow> bool" where
  "daemon_up c \<longleftrightarrow> (\<forall>e. (\<exists>e'. api_NewClient c e = (e', Inr ()))
    \<and> (\<forall>i. \<exists>e' es xs. api_ImagePull c i e = (e', Inr es) \<and> pull_stream es = Inr xs)
    \<and> (\<forall>n opts. \<exists>e' x. api_NetworkCreate c n opts e = (e', False, Inr x))
    \<and> (\<forall>spec. \<exists>e' cid e''. api_ContainerCreate c spec e = (e', Inr cid)
        \<and> api_ContainerStart c cid e' = (e'', False, Inr ()))
    \<and> answers (snd (api_Info c e)))"

section \<open>The calls that do not panic\<close>

lemma answers_simps [simp]: "answers (Inr x)" "answers (Inl (Err s))" "answers (Inl (Wrap s e))" "\<not> answers (Inl (Panic s))"
  by (simp_all add: answers_def)

lemma answers_iff: "answers r \<longleftrightarrow> (\<forall>s. r \<noteq> Inl (Panic s))"
  by (auto simp: answers_def split: sum.split error.split)

lemma answers_contextError: "answers (snd t) \<Longrightarrow> answers (contextError t)"
  by (cases t rule: contextError.cases) (simp_all add: operationTimeout_def)

lemma answers_rbind: "answers r \<Longrightarrow> (\<And>x. r = Inr x \<Longrightarrow> answers (f x)) \<Longrightarrow> answers (rbind r f)"
  by (cases r) (auto simp: answers_def)

lemma answers_timed_ask: "answers (snd (f e)) \<Longrightarrow> answers (timed_ask f e)"
  by (simp add: timed_ask_def answers_contextError)

lemma answers_timed_do: "answers (snd (snd (f e))) \<Longrightarrow> answers (snd (timed_do f e))"
proof -
  assume a: "answers (snd (snd (f e)))"
  obtain e' t where "f e = (e', t)" by (cases "f e")
  with a answers_contextError [of t] show ?thesis by (simp add: timed_do_def)
qed

lemmas answers_intros = answers_rbind answers_timed_ask answers_timed_do

lemma one_filter: "docker_filters (fmap_of_list [(k, [v])]) = Inr (fmap_of_list [(k, v)])"
proof -
  have "[] |\<notin>| fmran (fmupd k [v] fmempty)" by (auto simp: fmran'_alt_def [symmetric] elim!: fmran'E split: if_splits)
  moreover have "fmmap hd (fmupd k [v] fmempty) = fmupd k v fmempty" by (rule fmap_ext) simp
  ultimately show ?thesis by (simp add: docker_filters_def)
qed

lemma list_one_filter:
  "docker_ContainerList c \<lparr>clo_Filters = fmap_of_list [(k, [v])], clo_All = a\<rparr> e
    = rbind (timed_ask (api_ContainerList c (fmap_of_list [(k, v)]) a) e) (\<lambda>l. Inr (map docker_summary l))"
  unfolding docker_ContainerList_def by (simp only: ContainerListOptions.simps one_filter rbind_simps)

lemma driver_answers:
  assumes "daemon_sound c"
  shows "answers (docker_ContainerList c \<lparr>clo_Filters = fmap_of_list [(k, [v])], clo_All = a\<rparr> e)"
    and "docker_ContainerList c \<lparr>clo_Filters = fmap_of_list [(k, [v])], clo_All = a\<rparr> e = Inr cs \<Longrightarrow>
      \<forall>x \<in> set cs. csu_Names x \<noteq> []"
    and "n \<in> {TransportDeploymentName, ControllerDeploymentName} \<Longrightarrow> answers (docker_ContainerInspect c n e)"
    and "answers (docker_NetworkInspect c n e)" "answers (snd (docker_NetworkConnect c n x as e))"
    and "answers (snd (docker_ContainerStop c n e))" "answers (snd (docker_ContainerRemove c n e))"
    and "answers (snd (docker_NetworkRemove c n e))"
proof -
  note s = assms [unfolded daemon_sound_def, rule_format]
  show "answers (docker_ContainerList c \<lparr>clo_Filters = fmap_of_list [(k, [v])], clo_All = a\<rparr> e)"
    unfolding list_one_filter using s by (intro answers_intros) simp_all
  show "\<forall>x \<in> set cs. csu_Names x \<noteq> []"
    if "docker_ContainerList c \<lparr>clo_Filters = fmap_of_list [(k, [v])], clo_All = a\<rparr> e = Inr cs"
  proof -
    from that obtain l where "api_ContainerList c (fmap_of_list [(k, v)]) a e = (False, Inr l)" "cs = map docker_summary l"
      unfolding list_one_filter by (auto simp: timed_ask_def contextError_Inr)
    with s [of "fmap_of_list [(k, v)]" a e] show ?thesis by (simp add: docker_summary_def)
  qed
  show "answers (docker_ContainerInspect c n e)" if n: "n \<in> {TransportDeploymentName, ControllerDeploymentName}"
    unfolding docker_ContainerInspect_def
  proof (intro answers_intros)
    show "answers (snd (api_ContainerInspect c n e))" using s by blast
    fix j
    assume "timed_ask (api_ContainerInspect c n) e = Inr j"
    then have "api_ContainerInspect c n e = (False, Inr j)" by (simp add: timed_ask_def contextError_Inr)
    with assms n have "can_show j" unfolding daemon_sound_def by blast
    then show "answers (docker_inspection j)"
      using docker_inspection_cases [of j] by (auto split: sum.splits)
  qed
  show "answers (docker_NetworkInspect c n e)" unfolding docker_NetworkInspect_def
    using s by (intro answers_intros) simp_all
  show "answers (snd (docker_NetworkConnect c n x as e))" "answers (snd (docker_ContainerStop c n e))"
    "answers (snd (docker_ContainerRemove c n e))" "answers (snd (docker_NetworkRemove c n e))"
    unfolding docker_NetworkConnect_def docker_ContainerStop_def docker_ContainerRemove_def docker_NetworkRemove_def
    using s by (auto intro!: answers_intros)
qed

lemma docker_calm: "daemon_sound c \<Longrightarrow> driver_calm (DockerDriver rng c)"
  using driver_answers [of c]
  by (simp add: driver_calm_def calm_def answers_iff DockerDriver_def component_filter_def)

lemma docker_calm_engine: "daemon_sound c \<Longrightarrow> calm_engine (\<lambda>_. DockerDriver rng c)"
  using driver_answers [of c]
  by (simp add: calm_engine_def answers_iff DockerDriver_def proxy_filter_def)

section \<open>The calls that succeed\<close>

lemma docker_ready:
  assumes "daemon_up c"
  shows "engine_ready (\<lambda>_. DockerDriver rng c)"
proof -
  note u = assms [unfolded daemon_up_def, rule_format]
  have create: "\<exists>s' x s''. docker_ContainerCreate rng c opts s = (s', Inr x) \<and> docker_ContainerStart c (ccr_ID x) s' = (s'', Inr ())"
    if "cb_HealthCheck (cco_ContainerConfig opts) \<noteq> None" for opts s
  proof -
    from that obtain spec where "newDockerContainerSpec rng opts = Inr spec"
      by (auto simp: newDockerContainerSpec_def Let_def)
    moreover obtain e' cid e'' where "api_ContainerCreate c spec s = (e', Inr cid)"
      "api_ContainerStart c cid e' = (e'', False, Inr ())" using u [of s] by blast
    ultimately show ?thesis
      by (simp add: docker_ContainerCreate_def docker_ContainerStart_def timed_do_def io_bind_def)
  qed
  have pull: "\<exists>s' x. docker_ImagesPull c i opts s = (s', Inr x)" for i opts s
  proof -
    obtain e' es xs where "api_ImagePull c i s = (e', Inr es)" "pull_stream es = Inr xs" using u [of s] by blast
    then show ?thesis by (simp add: docker_ImagesPull_def io_bind_def)
  qed
  have net: "\<exists>s' x. docker_NetworkCreate c n opts s = (s', Inr x)" for n opts s
  proof -
    obtain e' x where "api_NetworkCreate c n bridge_network s = (e', False, Inr x)" using u [of s] by blast
    then show ?thesis by (cases x) (simp add: docker_NetworkCreate_def timed_do_def io_bind_def)
  qed
  have new: "\<exists>s'. docker_New c s = (s', Inr ())" for s
  proof -
    obtain e' where "api_NewClient c s = (e', Inr ())" using u [of s] by blast
    then show ?thesis by (simp add: docker_New_def io_wrap_def)
  qed
  have info: "docker_Info c s \<noteq> Inl (Panic p)" for s p
  proof -
    have "answers (docker_Info c s)" unfolding docker_Info_def using u [of s] by (intro answers_intros) simp_all
    then show ?thesis by (simp add: answers_iff)
  qed
  show ?thesis using create pull net new info by (simp add: engine_ready_def DockerDriver_def)
qed


lemma docker_creates_site:
  assumes "daemon_up c" "denied (fs w) = {||}"
    and "\<forall>a \<in> set (ancestors [] (skupper_path w HostPath)). a \<noteq> skupper_path w HostPath \<longrightarrow> a |\<notin>| fmdom (files (fs w))"
    and "ss_ContainerEngineDriver options = ''docker''"
    and "console_options (RandomId (ci_random ci)) options = Inr options'" "slash \<notin> set (ss_User options')"
    and "\<forall>m. ranges_over (ci_mounts ci m) m"
  shows "\<exists>w1. RouterCreate (\<lambda>_. DockerDriver rng c) lib ci options w = (w1, Inr ()) \<and> denied (fs w1) = {||}"
proof -
  have "machine_ready (env w) (w\<lparr>CeDriver := Some Docker\<rparr>)"
    using assms(2,3) by (simp add: machine_ready_def in_env_def skupper_path_def site_path_def)
  with runsD [OF creation_runs [OF docker_ready [OF assms(1)] assms(5-7)], of "env w" w] assms(4) show ?thesis by auto
qed

text \<open>
  On a docker daemon that is up, with nothing in the way on the disk, the life of a site can be
  lived: its creation comes through, its removal then ends, and no file of the site is left.
\<close>

theorem docker_site_life:
  assumes "daemon_sound c" "daemon_up c" "denied (fs w) = {||}"
    and "\<forall>a \<in> set (ancestors [] (skupper_path w HostPath)). a \<noteq> skupper_path w HostPath \<longrightarrow> a |\<notin>| fmdom (files (fs w))"
    and "ss_ContainerEngineDriver options = ''docker''"
    and "console_options (RandomId (ci_random ci)) options = Inr options'" "slash \<notin> set (ss_User options')"
    and "\<forall>m. ranges_over (ci_mounts ci m) m"
  shows "\<exists>w1 w2 errs. RouterCreate (\<lambda>_. DockerDriver rng c) lib ci options w = (w1, Inr ())
    \<and> RouterRemove (\<lambda>_. DockerDriver rng c) w1 = (w2, Inr errs)
    \<and> (\<forall>q. below (skupper_path w HostPath) q \<longrightarrow> fs_read q (fs w2) = Inl (no_such_file q))"
proof -
  obtain w1 where w1: "RouterCreate (\<lambda>_. DockerDriver rng c) lib ci options w = (w1, Inr ())" "denied (fs w1) = {||}"
    using docker_creates_site [OF assms(2-8)] by blast
  from created_is_removed [OF w1] docker_calm [OF assms(1)] w1(1) show ?thesis by blast
qed

end
