(* ===== verification/Cli_Program.thy ===== *)
theory Cli_Program imports Cli Docker_Contracts begin

text \<open>
  The program \<open>skupper-docker\<close> of \<open>cmd/skupper-exp/main.go\<close>: the commands with their flags and their
  defaults, the variables the flags are stored in, and \<open>main\<close>. Cobra parses the command line: here a
  command line is a command, the flags given with their values, and the arguments. As cobra documents, an
  unknown flag or arguments that the check of the command refuses end it with an error, before anything ran.
\<close>

section \<open>The commands\<close>

datatype verb = CmdInit | CmdDelete | CmdConnectionToken | CmdConnect | CmdDisconnect | CmdListConnectors
  | CmdCheckConnection | CmdStatus | CmdExpose | CmdUnexpose | CmdListExposed | CmdCreateService
  | CmdDeleteService | CmdBind | CmdUnbind | CmdVersion

definition root_commands :: "(string list \<times> verb) list" where
  "root_commands = [([''init''], CmdInit), ([''delete''], CmdDelete), ([''connection-token''], CmdConnectionToken),
     ([''connect''], CmdConnect), ([''disconnect''], CmdDisconnect), ([''list-connectors''], CmdListConnectors),
     ([''check-connection''], CmdCheckConnection), ([''status''], CmdStatus), ([''expose''], CmdExpose),
     ([''unexpose''], CmdUnexpose), ([''list-exposed''], CmdListExposed), ([''service'', ''create''], CmdCreateService),
     ([''service'', ''delete''], CmdDeleteService), ([''bind''], CmdBind), ([''unbind''], CmdUnbind),
     ([''version''], CmdVersion)]"

section \<open>The variables\<close>

record cli_vars =
  routerCreateOpts :: SiteConfigSpec
  clientIdentity :: string
  connectorCreateOpts :: ConnectorCreateOptions
  waitFor :: goint
  exposeOpts :: ServiceInterfaceCreateOptions
  unexposeAddress :: string
  serviceToCreate :: ServiceInterface
  targetPort :: goint
  protocol :: string
  cliMode :: string

text \<open>Registering the flags stores their defaults.\<close>

definition init_vars :: cli_vars where
  "init_vars = \<lparr>routerCreateOpts = zero_SiteConfigSpec\<lparr>ss_EnableServiceSync := True, ss_ContainerEngineDriver := ''docker''\<rparr>,
     clientIdentity = ''skupper'', connectorCreateOpts = \<lparr>co_Name = [], co_Cost = 1\<rparr>, waitFor = 1,
     exposeOpts = \<lparr>so_Protocol = ''tcp'', so_Address = [], so_Port = 0, so_TargetPort = 0, so_Headless = False\<rparr>,
     unexposeAddress = [], serviceToCreate = zero_ServiceInterface\<lparr>si_Protocol := ''tcp''\<rparr>,
     targetPort = 0, protocol = [], cliMode = ''container-engine''\<rparr>"

section \<open>The flags\<close>

datatype flag_value = FString string | FBool bool | FInt goint | FInt32 goint32

type_synonym setter = "flag_value \<Rightarrow> cli_vars \<Rightarrow> cli_vars option"

fun set_string :: "(string \<Rightarrow> cli_vars \<Rightarrow> cli_vars) \<Rightarrow> setter" where
  "set_string f (FString s) v = Some (f s v)"
| "set_string f _ v = None"

fun set_bool :: "(bool \<Rightarrow> cli_vars \<Rightarrow> cli_vars) \<Rightarrow> setter" where
  "set_bool f (FBool b) v = Some (f b v)"
| "set_bool f _ v = None"

fun set_int :: "(goint \<Rightarrow> cli_vars \<Rightarrow> cli_vars) \<Rightarrow> setter" where
  "set_int f (FInt n) v = Some (f n v)"
| "set_int f _ v = None"

fun set_int32 :: "(goint32 \<Rightarrow> cli_vars \<Rightarrow> cli_vars) \<Rightarrow> setter" where
  "set_int32 f (FInt32 n) v = Some (f n v)"
| "set_int32 f _ v = None"

definition opts_flag :: "('a \<Rightarrow> SiteConfigSpec \<Rightarrow> SiteConfigSpec) \<Rightarrow> 'a \<Rightarrow> cli_vars \<Rightarrow> cli_vars" where
  "opts_flag f x v = v\<lparr>routerCreateOpts := f x (routerCreateOpts v)\<rparr>"

definition init_flags :: "(string \<times> setter) list" where
  "init_flags = [(''id'', set_string (opts_flag (\<lambda>x o'. o'\<lparr>ss_SkupperName := x\<rparr>))),
     (''edge'', set_bool (opts_flag (\<lambda>x o'. o'\<lparr>ss_IsEdge := x\<rparr>))),
     (''enable-proxy-controller'', set_bool (opts_flag (\<lambda>x o'. o'\<lparr>ss_EnableController := x\<rparr>))),
     (''enable-service-sync'', set_bool (opts_flag (\<lambda>x o'. o'\<lparr>ss_EnableServiceSync := x\<rparr>))),
     (''enable-router-console'', set_bool (opts_flag (\<lambda>x o'. o'\<lparr>ss_EnableRouterConsole := x\<rparr>))),
     (''enable-console'', set_bool (opts_flag (\<lambda>x o'. o'\<lparr>ss_EnableConsole := x\<rparr>))),
     (''console-auth'', set_string (opts_flag (\<lambda>x o'. o'\<lparr>ss_AuthMode := x\<rparr>))),
     (''console-user'', set_string (opts_flag (\<lambda>x o'. o'\<lparr>ss_User := x\<rparr>))),
     (''console-password'', set_string (opts_flag (\<lambda>x o'. o'\<lparr>ss_Password := x\<rparr>))),
     (''publish-to-host'', set_bool (opts_flag (\<lambda>x o'. o'\<lparr>ss_MapToHost := x\<rparr>))),
     (''ce-driver'', set_string (opts_flag (\<lambda>x o'. o'\<lparr>ss_ContainerEngineDriver := x\<rparr>))),
     (''enable-trace-log'', set_bool (opts_flag (\<lambda>x o'. o'\<lparr>ss_TraceLog := x\<rparr>)))]"

definition connection_token_flags :: "(string \<times> setter) list" where
  "connection_token_flags = [(''client-identity'', set_string (\<lambda>x v. v\<lparr>clientIdentity := x\<rparr>))]"

definition connect_flags :: "(string \<times> setter) list" where
  "connect_flags = [(''connection-name'', set_string (\<lambda>x v. v\<lparr>connectorCreateOpts := (connectorCreateOpts v)\<lparr>co_Name := x\<rparr>\<rparr>)),
     (''cost'', set_int32 (\<lambda>x v. v\<lparr>connectorCreateOpts := (connectorCreateOpts v)\<lparr>co_Cost := x\<rparr>\<rparr>))]"

definition check_connection_flags :: "(string \<times> setter) list" where
  "check_connection_flags = [(''wait'', set_int (\<lambda>x v. v\<lparr>waitFor := x\<rparr>))]"

definition expose_flags :: "(string \<times> setter) list" where
  "expose_flags = [(''protocol'', set_string (\<lambda>x v. v\<lparr>exposeOpts := (exposeOpts v)\<lparr>so_Protocol := x\<rparr>\<rparr>)),
     (''address'', set_string (\<lambda>x v. v\<lparr>exposeOpts := (exposeOpts v)\<lparr>so_Address := x\<rparr>\<rparr>)),
     (''port'', set_int (\<lambda>x v. v\<lparr>exposeOpts := (exposeOpts v)\<lparr>so_Port := x\<rparr>\<rparr>)),
     (''target-port'', set_int (\<lambda>x v. v\<lparr>exposeOpts := (exposeOpts v)\<lparr>so_TargetPort := x\<rparr>\<rparr>))]"

definition unexpose_flags :: "(string \<times> setter) list" where
  "unexpose_flags = [(''address'', set_string (\<lambda>x v. v\<lparr>unexposeAddress := x\<rparr>))]"

definition create_service_flags :: "(string \<times> setter) list" where
  "create_service_flags = [(''mapping'', set_string (\<lambda>x v. v\<lparr>serviceToCreate := (serviceToCreate v)\<lparr>si_Protocol := x\<rparr>\<rparr>)),
     (''aggregate'', set_string (\<lambda>x v. v\<lparr>serviceToCreate := (serviceToCreate v)\<lparr>si_Aggregate := x\<rparr>\<rparr>)),
     (''event-channel'', set_bool (\<lambda>x v. v\<lparr>serviceToCreate := (serviceToCreate v)\<lparr>si_EventChannel := x\<rparr>\<rparr>))]"

definition bind_flags :: "(string \<times> setter) list" where
  "bind_flags = [(''protocol'', set_string (\<lambda>x v. v\<lparr>protocol := x\<rparr>)), (''target-port'', set_int (\<lambda>x v. v\<lparr>targetPort := x\<rparr>))]"

definition root_flags :: "(string \<times> setter) list" where
  "root_flags = [(''mode'', set_string (\<lambda>x v. v\<lparr>cliMode := x\<rparr>))]"

fun command_flags :: "verb \<Rightarrow> (string \<times> setter) list" where
  "command_flags CmdInit = init_flags"
| "command_flags CmdConnectionToken = connection_token_flags"
| "command_flags CmdConnect = connect_flags"
| "command_flags CmdCheckConnection = check_connection_flags"
| "command_flags CmdExpose = expose_flags"
| "command_flags CmdUnexpose = unexpose_flags"
| "command_flags CmdCreateService = create_service_flags"
| "command_flags CmdBind = bind_flags"
| "command_flags _ = []"

fun set_flags :: "(string \<times> setter) list \<Rightarrow> (string \<times> flag_value) list \<Rightarrow> cli_vars \<Rightarrow> cli_vars result" where
  "set_flags known [] v = Inr v"
| "set_flags known ((name, x) # given) v = (case map_of known name of
       None \<Rightarrow> Inl (Err (''unknown flag: --'' @ name))
     | Some assign \<Rightarrow> (case assign x v of None \<Rightarrow> Inl (Err (''invalid argument for --'' @ name))
         | Some v' \<Rightarrow> set_flags known given v'))"

section \<open>Running a command\<close>

text \<open>\<open>cobra.NoArgs\<close> and \<open>cobra.ExactArgs\<close>, as cobra documents them.\<close>

definition NoArgs :: "string list \<Rightarrow> unit result" where
  "NoArgs args = (case args of [] \<Rightarrow> Inr () | a # _ \<Rightarrow> Inl (Err (''unknown command '' @ a)))"

definition ExactArgs :: "nat \<Rightarrow> string list \<Rightarrow> unit result" where
  "ExactArgs n args = (if length args = n then Inr () else Inl (Err ''wrong number of arguments''))"

fun command_args :: "verb \<Rightarrow> string list \<Rightarrow> unit result" where
  "command_args CmdConnectionToken = ExactArgs 1"
| "command_args CmdConnect = ExactArgs 1"
| "command_args CmdDisconnect = ExactArgs 1"
| "command_args CmdCheckConnection = ExactArgs 1"
| "command_args CmdExpose = exposeTargetArgs"
| "command_args CmdUnexpose = exposeTargetArgs"
| "command_args CmdCreateService = createServiceArgs"
| "command_args CmdDeleteService = ExactArgs 1"
| "command_args CmdBind = bindArgs"
| "command_args CmdUnbind = bindArgs"
| "command_args _ = NoArgs"

text \<open>What the libraries and the loops over maps give, for all the commands.\<close>

record cli_inputs =
  cl_create :: create_inputs
  cl_certs :: CertsLib
  cl_services :: service_order
  cl_version :: string

fun command_body :: "(ce_kind \<Rightarrow> 'e Driver) \<Rightarrow> cli_inputs \<Rightarrow> cli_vars \<Rightarrow> verb \<Rightarrow> string list \<Rightarrow> 'e command" where
  "command_body D cl v CmdInit args = init_command D (cl_certs cl) (cl_create cl) (routerCreateOpts v)"
| "command_body D cl v CmdDelete args = delete_command D"
| "command_body D cl v CmdConnectionToken args = connection_token_command D (cl_certs cl) (clientIdentity v) (hd args)"
| "command_body D cl v CmdConnect args = connect_command D (cl_certs cl) (ci_certs (cl_create cl)) (ci_sections (cl_create cl))
     (cl_services cl) (connectorCreateOpts v) (hd args)"
| "command_body D cl v CmdDisconnect args = disconnect_command D (ci_sections (cl_create cl)) (cl_services cl) (hd args)"
| "command_body D cl v CmdListConnectors args = list_connectors_command D"
| "command_body D cl v CmdCheckConnection args = check_connection_command D (waitFor v) (hd args)"
| "command_body D cl v CmdStatus args = status_command D (cl_services cl)"
| "command_body D cl v CmdExpose args = expose_command D (exposeOpts v) args"
| "command_body D cl v CmdUnexpose args = unexpose_command D (unexposeAddress v) args"
| "command_body D cl v CmdListExposed args = list_exposed_command D (cl_services cl)"
| "command_body D cl v CmdCreateService args = create_service_command D (serviceToCreate v) args"
| "command_body D cl v CmdDeleteService args = delete_service_command D (hd args)"
| "command_body D cl v CmdBind args = bind_command D (protocol v) (targetPort v) args"
| "command_body D cl v CmdUnbind args = unbind_command D args"
| "command_body D cl v CmdVersion args = version_command (cl_version cl) D (cl_services cl)"

definition Execute ::
  "(ce_kind \<Rightarrow> 'e Driver) \<Rightarrow> cli_inputs \<Rightarrow> verb \<Rightarrow> (string \<times> flag_value) list \<Rightarrow> string list \<Rightarrow> 'e command" where
  "Execute D cl c flags args = (case set_flags (command_flags c @ root_flags) flags init_vars of
       Inl err \<Rightarrow> failed err
     | Inr v \<Rightarrow> run_command (command_args c) (command_body D cl v c) args)"

text \<open>
  The exit status with what was printed; a panic is status 2. \<open>isset\<close> says whether the environment has
  \<open>SKUPPER_TMPDIR\<close>.
\<close>

definition cli_main ::
  "(ce_kind \<Rightarrow> 'e Driver) \<Rightarrow> cli_inputs \<Rightarrow> bool \<Rightarrow> verb \<Rightarrow> (string \<times> flag_value) list \<Rightarrow> string list
    \<Rightarrow> 'e world \<Rightarrow> 'e world \<times> string \<times> nat" where
  "cli_main D cl isset c flags args w = (case Execute D cl c flags args (tmpdir_default isset w) of
       (w', Inl _) \<Rightarrow> (w', [], 2)
     | (w', Inr (out, Some err)) \<Rightarrow> (w', out, 1)
     | (w', Inr (out, None)) \<Rightarrow> (w', out, 0))"

section \<open>What the program does\<close>

lemma dispatch_unique: "distinct (map fst root_commands) \<and> distinct (map snd root_commands)
    \<and> (\<forall>c. c \<in> set (map snd root_commands))"
proof -
  have "c \<in> set (map snd root_commands)" for c by (cases c) (simp_all add: root_commands_def)
  then show ?thesis by (simp add: root_commands_def)
qed

lemma cli_main_init:
  assumes "RouterCreate D (cl_certs cl) (cl_create cl) (routerCreateOpts v) ((tmpdir_default isset w)\<lparr>CeDriver := None\<rparr>) = (w', Inr ())"
    and "set_flags (init_flags @ root_flags) flags init_vars = Inr v"
  shows "\<exists>out. cli_main D cl isset CmdInit flags [] w = (w', out, 0)"
  using assms by (simp add: cli_main_def Execute_def run_command_def NoArgs_def init_command_def on_value_def prints_def
      io_bind_apply io_try_apply)

lemma cli_main_delete:
  assumes "RouterRemove D ((tmpdir_default isset w)\<lparr>CeDriver := None\<rparr>) = (w', Inr errs)"
  shows "\<exists>out. cli_main D cl isset CmdDelete [] [] w = (w', out, if errs = [] then 0 else 1)"
  using assms by (cases errs) (simp_all add: cli_main_def Execute_def run_command_def NoArgs_def delete_command_def prints_def
      io_bind_apply)

text \<open>A new process has no client yet: it connects to the engine the configuration of the site names.\<close>

lemma connects_again:
  assumes "daemon_up c" "SiteConfigInspect DefaultBridgeName w = (w, Inr (Some sc))"
    and "ss_ContainerEngineDriver (sc_Spec sc) = ''docker''"
  shows "\<exists>w'. site_client (\<lambda>_. DockerDriver rng c) w = (w', Inr sc)"
proof (cases "CeDriver w")
  case None
  obtain e' where "New (DockerDriver rng c) (engine w) = (e', Inr ())"
    using engine_readyD(1) [OF docker_ready [OF assms(1)]] by blast
  with None assms(2,3) show ?thesis
    by (simp add: site_client_def io_simps Init_def connect_driver_def on_engine_def set_driver_def)
qed (use assms(2) in \<open>simp add: site_client_def io_simps Init_def\<close>)

lemma console_keeps_engine:
  "console_options rid options = Inr options' \<Longrightarrow> ss_ContainerEngineDriver options' = ss_ContainerEngineDriver options"
  by (auto simp: console_options_def Let_def split: if_splits)


end
