(* ===== verification/Lifecycle_Examples.thy ===== *)
theory Lifecycle_Examples imports Site_Creation Service_Laws begin

text \<open>
  A site that is created on the demo engine with an internal console, inspected and removed, on which
  the properties of the life of a site are applied.
\<close>

section \<open>The run\<close>

definition demo_lib :: CertsLib where
  "demo_lib = \<lparr>GetSecretContent = (\<lambda>f s. Inl (no_such_file f)),
     GenerateCACertificateData = (\<lambda>n _. fmap_of_list [(''tls.crt'', n)]),
     GenerateCertificateData = (\<lambda>n _ _ _. fmap_of_list [(''tls.crt'', n), (''tls.key'', ''key'')]),
     PutCertificateData = (\<lambda>_ _ _ _ s. s)\<rparr>"

definition demo_inputs :: create_inputs where
  "demo_inputs = \<lparr>ci_goos = ''linux'', ci_uid = ''site-9'', ci_random = [0, 1, 61, 62], ci_sections = sorted_order,
     ci_mounts = sorted_list_of_fmap, ci_certs = sorted_list_of_fmap\<rparr>"

definition demo_create :: SiteConfigSpec where
  "demo_create = zero_SiteConfigSpec\<lparr>ss_SkupperName := ''east'', ss_ContainerEngineDriver := ''docker'',
     ss_EnableConsole := True, ss_EnableRouterConsole := True\<rparr>"

definition demo_spec :: SiteConfigSpec where
  "demo_spec = demo_create\<lparr>ss_AuthMode := ''internal'', ss_User := ''admin'', ss_Password := ''ab9a''\<rparr>"

lemma demo_console: "console_options (RandomId (ci_random demo_inputs)) demo_create = Inr demo_spec"
  by (simp add: console_options_def demo_inputs_def demo_create_def demo_spec_def zero_SiteConfigSpec_def
      ConsoleAuthModeInternal_def RandomId_def alphanumerics_def)

lemma demo_ready: "engine_ready demo_D"
  by (simp add: engine_ready_def demo_driver_def demo_needs_def)

lemma demo_orders: "\<forall>r. valid_order (ci_sections demo_inputs r) r" "\<forall>m. ranges_over (ci_mounts demo_inputs m) m"
  by (simp_all add: demo_inputs_def valid_sorted_order ranges_over_sorted)

lemma demo_host: "GetSkupperPath [] HostPath = ''skupper''"
  by (simp add: GetSkupperPath_def Join_def Clean_def clean_step_def slash_def Let_def)

lemma demo_way:
  "\<forall>a \<in> set (ancestors [] (skupper_path demo_world HostPath)). a \<noteq> skupper_path demo_world HostPath
     \<longrightarrow> a |\<notin>| fmdom (files (fs demo_world))"
  by (simp add: demo_path demo_host slash_def)

lemma demo_basic: "denied (fs demo_world) = {||}" "CeDriver demo_world = Some Docker" "slash \<notin> set (ss_User demo_spec)"
  by (simp_all add: demo_world_def demo_fs_def demo_spec_def slash_def)

lemma demo_created:
  obtains w' where "RouterCreate demo_D demo_lib demo_inputs demo_create demo_world = (w', Inr ())" "denied (fs w') = {||}"
proof -
  have "machine_ready (env demo_world) (demo_world\<lparr>CeDriver := Some Docker\<rparr>)"
    using demo_way demo_basic by (simp add: machine_ready_def in_env_def skupper_path_def site_path_def)
  with runsD [OF creation_runs [OF demo_ready demo_console demo_basic(3) demo_orders(2)], of _ demo_world] demo_basic(2) that
  show thesis by auto
qed


lemma created_site_is_there_witness:
  "\<exists>w' :: demo world. SiteConfigInspect DefaultBridgeName w' = (w', Inr (Some \<lparr>sc_Spec = demo_spec, sc_UID = ''site-9''\<rparr>))
    \<and> services_of w' = Inr (Some fmempty)
    \<and> GetRouterConfigFromFile (skupper_path w' ConfigPath @ ''/qdrouterd.json'') w'
        = (w', Inr (Some (site_router demo_spec ''east'' ''site-9'')))"
proof -
  obtain w' where w': "RouterCreate demo_D demo_lib demo_inputs demo_create demo_world = (w', Inr ())"
    by (rule demo_created)
  have u: "ci_uid demo_inputs = ''site-9''" "ss_SkupperName demo_spec = ''east''"
    by (simp_all add: demo_inputs_def demo_spec_def demo_create_def)
  from created_site_is_there [OF w' demo_orders(1)] obtain options' name where
    "Inr demo_spec = (Inr options' :: SiteConfigSpec result)" "ss_SkupperName options' \<noteq> [] \<longrightarrow> name = ss_SkupperName options'"
    "SiteConfigInspect DefaultBridgeName w' = (w', Inr (Some \<lparr>sc_Spec = options', sc_UID = ''site-9''\<rparr>))"
    "services_of w' = Inr (Some fmempty)"
    "GetRouterConfigFromFile (skupper_path w' ConfigPath @ ''/qdrouterd.json'') w'
        = (w', Inr (Some (site_router options' name ''site-9'')))"
    unfolding demo_console u(1) by blast
  with u(2) show ?thesis by auto
qed

section \<open>Removal\<close>

lemma demo_calm: "\<forall>k. driver_calm (demo_D k)"
  by (auto simp: driver_calm_def demo_driver_def demo_needs_def demo_inspect_def calm_def no_such_container_def
      split: option.split)

lemma removal_goes_through_witness:
  "\<exists>w' errs. RouterRemove demo_D demo_world = (w', Inr errs) \<and> dirs (fs w') = {||} \<and> files (fs w') = fmempty"
proof -
  have "site_client demo_D demo_world = (demo_world, Inr demo_site)"
    by (rule site_client_ready [OF demo_SiteConfig]) (simp add: demo_basic(2))
  from removal_goes_through [OF demo_calm this] obtain w' errs where r: "RouterRemove demo_D demo_world = (w', Inr errs)"
    "fs w' = fst (fs_remove_all (skupper_path demo_world HostPath) (fs demo_world))" by blast
  have b: "below ''skupper'' (GetSkupperPath [] p)" "below ''skupper'' (GetSkupperPath [] p @ ''/'' @ x)" for p x
    using below_paths [of "\<lambda>_. []" p] by (simp_all add: site_path_def demo_host)
  have "dirs (fs w') = {||}" "files (fs w') = fmempty"
    using b(1) b(1) [of HostPath, unfolded demo_host] b(2) [of _ "''skupper0.json''"] b(2) [of _ "''skupper-services''"] b(2) [of _ "''qdrouterd.json''"] demo_host
    by (auto simp: r(2) [unfolded demo_path demo_host] fs_remove_all_def stuck_def demo_world_def demo_fs_def demo_dir_def
        fmlookup_of_list intro!: fmap_ext fset_eqI split: if_splits)
  with r(1) show ?thesis by blast
qed

lemma create_then_remove_witness:
  "\<exists>w' :: demo world. SiteConfigInspect DefaultBridgeName w' = (w', Inl (no_such_file (site_file demo_world DefaultBridgeName)))"
proof -
  obtain w' where "RouterCreate demo_D demo_lib demo_inputs demo_create demo_world = (w', Inr ())" "denied (fs w') = {||}"
    by (rule demo_created)
  from create_then_remove [OF this demo_calm] show ?thesis by blast
qed

section \<open>A failed connection\<close>

definition broken_D :: "ce_kind \<Rightarrow> demo Driver" where
  "broken_D = (\<lambda>_. demo_driver\<lparr>New := io_fail (Err ''cannot connect'')\<rparr>)"

lemma failed_connection_loses_site_witness:
  "\<exists>w :: demo world. services_of w = Inr (Some fmempty) \<and>
     fs_read (services_file w) (fs (fst (RouterCreate broken_D demo_lib demo_inputs demo_create w)))
       = Inl (no_such_file (services_file w))"
proof -
  let ?w = "demo_world\<lparr>CeDriver := None\<rparr>"
  have "Init broken_D (ss_ContainerEngineDriver demo_create) ?w
      = (?w, Inl (Wrap ''Error connecting to CE backend'' (Err ''cannot connect'')))"
    by (simp add: Init_def broken_D_def demo_create_def connect_driver_def io_simps on_engine_def rwrap_def)
  from failed_connection_loses_site [OF this _ demo_console]
  have "fs_read (services_file ?w) (fs (fst (RouterCreate broken_D demo_lib demo_inputs demo_create ?w)))
      = Inl (no_such_file (services_file ?w))"
    by (simp add: demo_basic(1))
  moreover have "services_of ?w = Inr (Some fmempty)"
    using demo_services by (simp add: services_of_def services_file_def skupper_path_def)
  ultimately show ?thesis by blast
qed


section \<open>The specification\<close>

lemma demo_listeners:
  "interior_listener |\<in>| fmran (Listeners (site_router demo_spec ''east'' ''site-9''))"
proof -
  have "fmlookup (Listeners (site_router demo_spec ''east'' ''site-9'')) ''interior-listener'' = Some interior_listener"
    by (simp add: site_router_def interior_listeners demo_spec_def demo_create_def zero_SiteConfigSpec_def)
  then show ?thesis by (rule fmranI)
qed

lemma router_admits_only_certified_witness:
  "l_Port interior_listener = InterRouterListenerPort \<and> l_SaslMechanisms interior_listener = ''EXTERNAL''
    \<and> l_SslProfile interior_listener |\<in>| fmdom (SslProfiles (site_router demo_spec ''east'' ''site-9''))"
  using router_admits_only_certified [OF demo_listeners] by (simp add: interior_listener_def zero_Listener_def)

lemma listening_ports_exposed_witness: "tcp_port InterRouterListenerPort |\<in>| transport_ports demo_spec"
  using listening_ports_exposed [OF demo_listeners] by (simp add: interior_listener_def zero_Listener_def)

lemma profiles_have_credentials_witness:
  "\<exists>cr \<in> set (site_credentials demo_spec). cr_Name cr = ''skupper-internal'' \<and> \<lparr>ca_Name = cr_CA cr\<rparr> \<in> set (site_authorities demo_spec)"
proof -
  have "fmlookup (SslProfiles (site_router demo_spec ''east'' ''site-9'')) ''skupper-internal'' = Some (site_profile ''skupper-internal'')"
    by (simp add: site_profiles demo_spec_def demo_create_def zero_SiteConfigSpec_def InterRouterProfile_def)
  from profiles_have_credentials [OF this, of demo_world] show ?thesis by blast
qed

end
