(* ===== verification/Driver_Examples.thy ===== *)
theory Driver_Examples imports Docker_Contracts Lifecycle_Examples begin

text \<open>
  A small docker daemon and a small podman service, and the properties of the drivers at concrete
  containers. No property rests on them.
\<close>

section \<open>Docker\<close>

definition demo_json :: "ContainerCreateConfig \<Rightarrow> ContainerJSON" where
  "demo_json spec = \<lparr>cj_ID = dcc_Name spec, cj_Path = [], cj_Args = [], cj_Status = ''created'',
     cj_Image = dc_Image (dcc_Config spec), cj_Name = dcc_Name spec,
     cj_Mounts = map (\<lambda>b. \<lparr>dm_Type = db_Type b, dm_Name = [], dm_Source = db_Source b,
       dm_Destination = db_Target b, dm_Driver = [], dm_Mode = [], dm_RW = True\<rparr>) (dh_Mounts (dcc_HostConfig spec)),
     cj_Config = dcc_Config spec, cj_Default = zero_EndpointSettings, cj_Networks = dcc_EndpointsConfig spec\<rparr>"

type_synonym daemon = "(string, ContainerJSON) fmap"

definition daemon_needs :: "string \<Rightarrow> (daemon \<Rightarrow> daemon) \<Rightarrow> daemon \<Rightarrow> daemon \<times> unit timed" where
  "daemon_needs name f e = (case fmlookup e name of
     None \<Rightarrow> (e, False, Inl (no_such_container name)) | Some _ \<Rightarrow> (f e, False, Inr ()))"

definition demo_docker :: "daemon docker_api" where
  "demo_docker = \<lparr>api_NewClient = io_return (), api_ImagePull = (\<lambda>_. io_return []),
     api_ImageInspect = (\<lambda>_ _. (False, Inl (Err []))), api_ImageList = (\<lambda>_. (False, Inr [])),
     api_ContainerCreate = (\<lambda>spec e. (fmupd (dcc_Name spec) (demo_json spec) e, Inr (dcc_Name spec))),
     api_ContainerStart = (\<lambda>name. daemon_needs name (\<lambda>e. e)),
     api_ContainerList = (\<lambda>_ _ _. (False, Inr [])),
     api_ContainerInspect = (\<lambda>name e. (False, case fmlookup e name of
        None \<Rightarrow> Inl (no_such_container name) | Some j \<Rightarrow> Inr j)),
     api_ContainerRestart = (\<lambda>name. daemon_needs name (\<lambda>e. e)),
     api_ContainerStop = (\<lambda>name. daemon_needs name (\<lambda>e. e)),
     api_ContainerRemove = (\<lambda>name. daemon_needs name (fmdrop name)),
     api_ExecCreate = (\<lambda>name _. io_return name),
     api_ExecAttach = (\<lambda>_. io_return (Inr (Text [], Text []))), api_ExecInspect = (\<lambda>_ _. Inr 0),
     api_NetworkCreate = (\<lambda>name _ e. (e, False, Inr (name, []))),
     api_NetworkInspect = (\<lambda>_ _. (False, Inr fmempty)),
     api_NetworkRemove = (\<lambda>_ e. (e, False, Inr ())), api_NetworkConnect = (\<lambda>_ _ e. (e, False, Inr ())),
     api_NetworkDisconnect = (\<lambda>_ _ _ e. (e, False, Inr ())),
     api_Info = (\<lambda>_. (False, Inl (Err []))), api_Retry = (\<lambda>_. io_return ())\<rparr>"

text \<open>A database with a health check and one without.\<close>

definition pg_config :: "HealthConfig option \<Rightarrow> ContainerCreateConfig" where
  "pg_config hc = \<lparr>dcc_Name = ''pg'', dcc_Config = \<lparr>dc_Hostname = ''pg'', dc_Image = ''postgres'',
       dc_Env = [''PGDATA=/data'', ''EMPTY=''], dc_Cmd = [''postgres''], dc_Healthcheck = hc,
       dc_Labels = fmempty, dc_ExposedPorts = {|''5432/tcp''|}\<rparr>,
     dcc_HostConfig = \<lparr>dh_Mounts = [\<lparr>db_Type = ''bind'', db_Source = ''/srv/pg'', db_Target = ''/data''\<rparr>],
       dh_Privileged = False\<rparr>,
     dcc_EndpointsConfig = fmap_of_list [(''bridge'', zero_EndpointSettings)]\<rparr>"

definition pg_check :: HealthConfig where
  "pg_check = \<lparr>hc_Test = [''CMD'', ''pg_isready''], hc_Interval = 30, hc_Timeout = 10, hc_StartPeriod = 5, hc_Retries = 3\<rparr>"

definition demo_daemon :: "HealthConfig option \<Rightarrow> daemon" where
  "demo_daemon hc = fmap_of_list [(''pg'', demo_json (pg_config hc))]"

definition demo_docker_world :: "daemon world" where
  "demo_docker_world = \<lparr>env = (\<lambda>_. []), fs = demo_fs, ifaces = (\<lambda>_. []), engine = demo_daemon None,
     CeDriver = Some Docker\<rparr>"

lemma demo_recreates:
  assumes "fmlookup e name = Some j" "docker_inspection j = Inr ci"
  shows "\<exists>e'. RecreateContainer name (DockerDriver rng demo_docker) e = (e', Inr ())"
proof -
  obtain hc where "cc_Healthcheck (cin_Config ci) = Some hc" using docker_inspection_Inr(5,6) [OF assms(2)] by force
  with assms show ?thesis
    by (simp add: RecreateContainer_def DockerDriver_def docker_ContainerInspect_def timed_ask_def
        docker_ContainerStop_def docker_ContainerRemove_def docker_ContainerCreate_def docker_ContainerStart_def
        timed_do_def demo_docker_def daemon_needs_def newDockerContainerSpec_def recreate_options_def Let_def
        io_bind_def io_wrap_def)
qed


lemma docker_env_read_back_witness:
  "env_vars (map env_var (sorted_list_of_fmap (fmap_of_list [(''A'', ''1=2''), (''B'', [])]))) fmempty
    = Inr (fmfilter (\<lambda>k. fmlookup (fmap_of_list [(''A'', ''1=2''), (''B'', [])]) k \<noteq> Some [])
        (fmap_of_list [(''A'', ''1=2''), (''B'', [])]))"
proof -
  have "\<forall>k. k |\<in>| fmdom (fmap_of_list [(''A'', ''1=2''), (''B'', [])]) \<longrightarrow> CHR ''='' \<notin> set k" by auto
  with docker_env_read_back [of sorted_list_of_fmap, OF ranges_over_sorted] show ?thesis by blast
qed

lemma docker_exposes_only_shown_witness:
  "fs (fst (ServiceInterfaceBind (\<lambda>_. DockerDriver sorted_list_of_fmap demo_docker)
      \<lparr>si_Address = ''db'', si_Protocol = ''tcp'', si_Port = 5432, si_EventChannel = False, si_Aggregate = [],
        si_Headless = None, si_Targets = [], si_Origin = [], si_Alias = []\<rparr> ''container'' ''pg'' ''tcp'' 0 demo_docker_world)) = demo_fs"
proof -
  have "\<not> can_show (demo_json (pg_config None))"
    by (simp add: can_show_def demo_json_def pg_config_def)
  moreover have "api_ContainerInspect demo_docker ''pg'' (engine demo_docker_world)
      = (False, Inr (demo_json (pg_config None)))"
    by (simp add: demo_docker_def demo_docker_world_def demo_daemon_def fmlookup_of_list)
  ultimately have "fs (fst (ServiceInterfaceBind (\<lambda>_. DockerDriver sorted_list_of_fmap demo_docker) s
      ''container'' ''pg'' ''tcp'' 0 demo_docker_world)) = fs demo_docker_world" for s
    using docker_exposes_only_shown [of demo_docker_world "\<lambda>_. DockerDriver sorted_list_of_fmap demo_docker"]
    by (simp add: demo_docker_world_def)
  then show ?thesis by (simp add: demo_docker_world_def)
qed

text \<open>A daemon that only shows containers that are well formed.\<close>

definition sound_docker :: "daemon docker_api" where
  "sound_docker = demo_docker\<lparr>api_ContainerInspect := (\<lambda>name e. (False, case fmlookup e name of
      None \<Rightarrow> Inl (no_such_container name)
    | Some j \<Rightarrow> if can_show j then Inr j else Inl (no_such_container name)))\<rparr>"

lemma sound_docker_sound: "daemon_sound sound_docker"
  by (auto simp: daemon_sound_def sound_docker_def demo_docker_def daemon_needs_def no_such_container_def split: option.split)

lemma sound_docker_up: "daemon_up sound_docker"
  by (simp add: daemon_up_def sound_docker_def demo_docker_def daemon_needs_def)


lemma docker_site_life_witness:
  "\<exists>w1 w2 errs. RouterCreate (\<lambda>_. DockerDriver sorted_list_of_fmap sound_docker) demo_lib demo_inputs demo_create demo_docker_world = (w1, Inr ())
    \<and> RouterRemove (\<lambda>_. DockerDriver sorted_list_of_fmap sound_docker) w1 = (w2, Inr errs)
    \<and> fs_read (site_file demo_docker_world DefaultBridgeName) (fs w2) = Inl (no_such_file (site_file demo_docker_world DefaultBridgeName))"
proof -
  have h: "denied (fs demo_docker_world) = {||}" "fs demo_docker_world = fs demo_world"
    "skupper_path demo_docker_world HostPath = skupper_path demo_world HostPath"
    by (simp_all add: demo_docker_world_def demo_world_def demo_fs_def skupper_path_def)
  have way: "\<forall>a \<in> set (ancestors [] (skupper_path demo_docker_world HostPath)). a \<noteq> skupper_path demo_docker_world HostPath
      \<longrightarrow> a |\<notin>| fmdom (files (fs demo_docker_world))"
    using demo_way h by simp
  have "below (skupper_path demo_docker_world HostPath) (site_file demo_docker_world DefaultBridgeName)"
    using below_site [of SitesPath "env demo_docker_world" "DefaultBridgeName @ ''.json''"]
    by (simp add: site_file_def skupper_path_def site_path_def)
  moreover have "ss_ContainerEngineDriver demo_create = ''docker''" by (simp add: demo_create_def)
  ultimately show ?thesis
    using docker_site_life [OF sound_docker_sound sound_docker_up h(1) way _ demo_console demo_basic(3) demo_orders(2)] by blast
qed

section \<open>Podman\<close>

type_synonym podman = "(string, InspectContainerData) fmap"

definition demo_data :: "SpecGenerator \<Rightarrow> InspectContainerData" where
  "demo_data spec = \<lparr>pi_ID = sg_Name spec, pi_Created = 0, pi_Path = [], pi_Args = [], pi_Image = sg_Image spec,
     pi_ImageName = sg_Image spec, pi_Name = sg_Name spec, pi_Gateway = [], pi_IPAddress = [], pi_IPPrefixLen = 0,
     pi_SecondaryIPAddresses = [], pi_Networks = fmap_of_list (map (\<lambda>n. (n, \<lparr>pn_Gateway = [], pn_IPAddress = [],
       pn_IPPrefixLen = 0\<rparr>)) (sg_CNINetworks spec))\<rparr>"

definition podman_needs :: "string \<Rightarrow> (podman \<Rightarrow> podman) \<Rightarrow> (podman, unit) io" where
  "podman_needs name f e = (case fmlookup e name of
     None \<Rightarrow> (e, Inl (no_such_container name)) | Some _ \<Rightarrow> (f e, Inr ()))"

definition demo_podman :: "podman podman_api" where
  "demo_podman = \<lparr>papi_NewConnection = (\<lambda>_. io_return ()), papi_GetImage = (\<lambda>_ _. Inl (Err [])),
     papi_Pull = (\<lambda>_. io_return []), papi_ImageList = (\<lambda>_. Inr []),
     papi_CreateWithSpec = (\<lambda>spec e. (fmupd (sg_Name spec) (demo_data spec) e, Inr (sg_Name spec))),
     papi_Start = (\<lambda>name. podman_needs name (\<lambda>e. e)), papi_Wait = (\<lambda>_ _. io_return ()),
     papi_List = (\<lambda>_ _. Inr []), papi_Inspect = (\<lambda>name e. case fmlookup e name of
        None \<Rightarrow> Inl (no_such_container name) | Some p \<Rightarrow> Inr p),
     papi_Restart = (\<lambda>name. podman_needs name (\<lambda>e. e)), papi_Stop = (\<lambda>name. podman_needs name (\<lambda>e. e)),
     papi_Remove = (\<lambda>name _ _. podman_needs name (fmdrop name)),
     papi_ExecCreate = (\<lambda>name _. io_return name), papi_ExecStartAndAttach = (\<lambda>_. io_return (Text [])),
     papi_ExecInspect = (\<lambda>_ _. Inr 0), papi_NetworkCreate = (\<lambda>_ _. io_return ()),
     papi_NetworkInspect = (\<lambda>name _. Inl (Err (''no such network '' @ name))),
     papi_NetworkRemove = (\<lambda>_ _. io_return ()), papi_NetworkConnect = (\<lambda>_ _ _. io_return ()),
     papi_NetworkDisconnect = (\<lambda>_ _ _. io_return ())\<rparr>"

definition router_data :: InspectContainerData where
  "router_data = demo_data \<lparr>sg_Name = TransportDeploymentName, sg_Command = [],
     sg_Env = fmap_of_list [(''SKUPPER_SITE_ID'', ''site-1'')], sg_Mounts = [], sg_Image = ''router'',
     sg_Privileged = True, sg_CNINetworks = [''skupper-network'']\<rparr>"

definition demo_podman_world :: "podman world" where
  "demo_podman_world = \<lparr>env = (\<lambda>_. []), fs = demo_fs, ifaces = (\<lambda>_. []),
     engine = fmap_of_list [(TransportDeploymentName, router_data)], CeDriver = Some Podman\<rparr>"

abbreviation podman_D :: "ce_kind \<Rightarrow> podman Driver" where
  "podman_D \<equiv> \<lambda>_. PodmanDriver sorted_list_of_fmap demo_podman"

lemma podman_recreates_nothing_witness:
  "\<exists>e1 e2 cid spec. papi_CreateWithSpec demo_podman spec e1 = (e2, Inr cid)
    \<and> sg_Name spec = TransportDeploymentName \<and> sg_Image spec = [] \<and> sg_Env spec = fmempty"
proof -
  have "fmlookup (engine demo_podman_world) TransportDeploymentName = Some router_data"
    by (simp add: demo_podman_world_def fmlookup_of_list)
  then have "\<exists>e'. RecreateContainer TransportDeploymentName (PodmanDriver sorted_list_of_fmap demo_podman)
      (engine demo_podman_world) = (e', Inr ())"
    by (simp add: RecreateContainer_def PodmanDriver_def podman_ContainerInspect_def podman_ContainerStop_def
        podman_ContainerRemove_def podman_ContainerCreate_def podman_ContainerStart_def demo_podman_def
        podman_needs_def newPodmanContainerSpec_def recreate_options_def Let_def io_bind_def io_wrap_def)
  then obtain e' where "RecreateContainer TransportDeploymentName (PodmanDriver sorted_list_of_fmap demo_podman)
      (engine demo_podman_world) = (e', Inr ())" ..
  from podman_recreates_nothing [OF this] show ?thesis by blast
qed

lemma podman_has_no_status_witness:
  "snd (RouterInspect podman_D sorted_list_of_fmap demo_podman_world) \<noteq> Inr \<lparr>ri_Status = \<lparr>st_Mode = ''interior'',
     st_State = ''running'', st_ConnectedSites = \<lparr>cs_Direct = 0, cs_Indirect = 0, cs_Total = 0, cs_Warnings = []\<rparr>, st_BindingsCount = 0\<rparr>,
     ri_TransportVersion = ''no-image'', ri_ControllerVersion = ''no-image'', ri_ExposedServices = 0\<rparr>"
  by (rule podman_has_no_status) (simp_all add: demo_podman_world_def)

lemma podman_removal_needs_network_witness:
  "fs (fst (RouterRemove podman_D demo_podman_world)) = demo_fs"
proof -
  have "\<forall>e. \<exists>err. papi_NetworkInspect demo_podman ''skupper-network'' e = Inl err" by (simp add: demo_podman_def)
  from podman_removal_needs_network [of demo_podman_world podman_D, OF _ refl this] show ?thesis
    by (simp add: demo_podman_world_def)
qed

end
