(* ===== verification/Cli_Examples.thy ===== *)
theory Cli_Examples imports Cli_Program Driver_Examples begin

text \<open>
  The program run: \<open>skupper init --id east --enable-console --enable-router-console\<close> and then
  \<open>skupper delete\<close> on the daemon of the examples.
\<close>

definition demo_flags :: "(string \<times> flag_value) list" where
  "demo_flags = [(''id'', FString ''east''), (''enable-console'', FBool True), (''enable-router-console'', FBool True)]"

definition demo_cli :: cli_inputs where
  "demo_cli = \<lparr>cl_create = demo_inputs, cl_certs = demo_lib, cl_services = sorted_list_of_fmap, cl_version = ''0.4''\<rparr>"

lemma demo_vars: "\<exists>v. set_flags (init_flags @ root_flags) demo_flags init_vars = Inr v
    \<and> routerCreateOpts v = demo_create\<lparr>ss_EnableServiceSync := True\<rparr>"
  by (simp add: demo_flags_def init_flags_def init_vars_def opts_flag_def demo_create_def zero_SiteConfigSpec_def)


end
