(* ===== verification/Spec2Isabelle.thy ===== *)
theory Spec2Isabelle imports Router_Proxy Connection_Examples Shared_File Site_Convergence Docker_Access_Laws Plugins
  Controller_Main Cli_Examples begin

text \<open>
  Skupper on a single container engine: a model of the client library, the command line, the service
  controller, the router configuration and the engine drivers of the repository.

  \<^bold>\<open>The program.\<close> A site is a directory on the host and two containers, a router and a controller.
  The command line (\<open>cmd/skupper-exp\<close>) calls the client library (\<open>client/\<close>), which writes the directory
  and calls a container engine through the interface \<open>driver.Driver\<close>. The directory holds the
  site configuration, the configuration of the router (\<open>qdrouterd.json\<close>), certificates, a directory for each
  connection to another site, and the definitions of the services (\<open>skupper-services\<close>). The controller
  (\<open>cmd/service-controller\<close>) watches the definitions, keeps bindings for them, attaches the
  containers they name, and exchanges the definitions with the controllers of other sites. The file of the
  definitions is all that the client and the controller share.

  \<^bold>\<open>Theories and code.\<close>
  \<^item> \<open>Prelude\<close>, \<open>Json\<close>: machine integers, errors, the packages \<open>strings\<close>, \<open>strconv\<close> and \<open>encoding/json\<close>,
    Go maps as finite maps and loops over them.
  \<^item> \<open>Api_Types\<close>, \<open>Site_Types\<close>: \<open>api/types/\<close>, each record with its encoder and decoder; the locale \<open>json_codec\<close> is
    the contract of such a pair.
  \<^item> \<open>Go_World\<close>: the state every program acts on (environment, files, network interfaces, engine, driver), the
    functions of \<open>os\<close> and \<open>ioutil\<close> on it, and the locale \<open>file_store\<close> of the laws of reading and writing.
  \<^item> \<open>Router_Config\<close>, \<open>Router_Codec\<close>, \<open>Router_Marshal\<close>, \<open>Router_Proxy\<close>: \<open>pkg/qdr/qdr.go\<close>.
    \<open>Router_Mgmt\<close>: \<open>pkg/qdr/mgmt.go\<close> and \<open>RecreateContainer\<close>.
  \<^item> \<open>Engine_Driver\<close>: \<open>driver/driver.go\<close>; the interface is a record of functions on the state of the engine.
    \<open>Docker_Driver\<close>: \<open>driver/docker.go\<close>. \<open>Podman_Driver\<close>: \<open>driver/podman.go\<close>. \<open>Plugins\<close>: the same drivers as
    plug-ins, \<open>plug-ins/\<close>, and \<open>init2\<close>, which would load them.
  \<^item> \<open>Docker_Wrapper\<close>: \<open>pkg/docker/libdocker/\<close>, an interface to docker and the client behind it. \<open>Docker_Access\<close>:
    \<open>pkg/docker/\<close>, \<open>pkg/qdr/container.go\<close> and what else of \<open>pkg/qdr\<close> and the controller is written on that interface.
  \<^item> \<open>Client_Base\<close>: \<open>client/client.go\<close> and \<open>client/site_config_*.go\<close>. \<open>Client_Services\<close>:
    \<open>client/serviceinterface_*.go\<close>. \<open>Connectors\<close>: \<open>client/connector_*.go\<close>. \<open>Router_Spec\<close>, \<open>Site_Certs\<close> and
    \<open>Router_Lifecycle\<close>: \<open>client/router_*.go\<close>.
  \<^item> \<open>Service_Bindings\<close>: \<open>cmd/service-controller/bridges.go\<close>. \<open>Service_Sync\<close>: \<open>service_sync.go\<close> there.
    \<open>Service_Controller\<close>: \<open>controller.go\<close> there. \<open>Controller_Main\<close>: \<open>main.go\<close> there, and the loops of the goroutines.
  \<^item> \<open>Cli\<close>: the commands of \<open>cmd/skupper-exp/main.go\<close>. \<open>Cli_Program\<close>: their flags and defaults, and \<open>main\<close>.

  Definitions carry the names of the code. An operation with a receiver is a function on the state it changes:
  the methods of \<open>VanClient\<close> are programs \<open>('e world, 'a) io\<close>, those of \<open>Controller\<close> handlers of a
  \<open>node\<close>, a controller's state with the world of its container. A program returns the world it leaves and a
  value or an error; a panic is an error that no caller handles. An error does not undo what was done.
\<close>

text \<open>
  \<^bold>\<open>What the lemmas show.\<close>
  \<^item> Router configuration: what is marshalled is read back, for every order of the loops over its maps;
    everything read is well formed; the configuration of a proxy has exactly the connectors its targets ask for
    (\<open>Router_Marshal\<close>, \<open>Router_Proxy\<close>).
  \<^item> Services: the contract \<open>service_edit\<close> (\<open>Client_Services\<close>) says that an operation changes the definitions by
    one function or changes no file; the five operations of the client are its interpretations and \<open>Service_Laws\<close>
    derives what they store and their round trips. \<open>Service_Registry\<close> states the registry as an abstract step
    relation; the operations refine it and inherit its invariant.
  \<^item> Life cycle: \<open>Io_Triples\<close> (partial) and \<open>Io_Total\<close> (total correctness) carry \<open>Router_Lifecycle_Laws\<close> and
    \<open>Site_Creation\<close>: a creation comes through, what it leaves, what a removal takes away, what a failed
    connection destroys. \<open>Router_Spec_Laws\<close>: listeners, ports and certificates of the router.
  \<^item> Connections: names, what a connection adds, that a disconnection restores it (\<open>Connector_Laws\<close>).
  \<^item> Controller: \<open>Sync_Laws\<close> for the exchange, \<open>Controller_Laws\<close> for the bindings, the containers and the
    reachable states (\<open>Transitions\<close>). \<open>Controller_Main\<close>: with what the program speaks to the router, and how the
    exchange ends.
  \<^item> Several sites: \<open>Site_To_Site\<close> composes the client of one site with the two controllers. \<open>Site_Network\<close> is a step
    relation of any number of sites, with announcements lost, repeated and overtaken, and has the invariant that no
    site is told of a service its origin did not have. \<open>Site_Convergence\<close>: the order in which announcements arrive makes
    no difference unless two sites claim an address.
  \<^item> One site: \<open>Shared_File\<close> takes the operations on the definitions apart into their read and their write and lets
    the halves interleave: a race invents nothing, but it can lose a service.
  \<^item> Command line: accepted arguments, \<open>expose\<close> and \<open>unexpose\<close>, \<open>check-connection\<close> (\<open>Cli_Laws\<close>), and the life of a site
    from \<open>init\<close> to \<open>delete\<close>, two runs of the program (\<open>Cli_Program\<close>).
  \<^item> Drivers: \<open>Driver_Laws\<close> has what docker and podman do to the programs above, \<open>Docker_Contracts\<close> that the docker
    driver meets the contracts the other properties ask of a driver, for a daemon that behaves. \<open>Docker_Access_Laws\<close>:
    the earlier access to docker asks for the same containers, and what it does otherwise.
  \<^item> \<open>Demo_Engine\<close> and the theories \<open>..._Examples\<close> apply the properties to concrete sites.

  \<^bold>\<open>Bounds.\<close> No fuel is used: every loop of the code that is modelled is over a list, a map or a number of
  rounds. \<open>retry\<close> has the five attempts of \<open>RouterInspect\<close>, \<open>check_loop\<close> the rounds \<open>check-connection\<close> is asked
  to wait. Integers of the code are words of their width, ports and counters \<open>64 word\<close>; times are integers of
  nanoseconds. A loop over a map takes the order of its visits as an argument, and the properties hold for every order.

  \<^bold>\<open>Parameters.\<close> The container engine: a driver, or for \<open>DockerDriver\<close> and \<open>PodmanDriver\<close> the client
  libraries \<open>docker_api\<close> and \<open>podman_api\<close>, whose calls may fail in any way a hypothesis does not exclude. The package
  \<open>certs\<close> of the project skupper (\<open>CertsLib\<close>). Fresh identifiers, random bytes and clocks.

  \<^bold>\<open>Not modelled.\<close> The text of JSON documents: a file that was written by \<open>json.Marshal\<close> is its tree. Paths are
  literal, so \<open>..\<close> and links are not resolved. The goroutines of the controller run as a sequence of atomic
  handlers, where the code shares its maps between them without a lock. The AMQP connection of the
  exchange is the answers of its library and the messages that arrive, the watching of a file its events, a command line
  the flags and arguments that were parsed; log output is left out. A write of a file is one
  step: a reader that sees it half written is not modelled. The types of \<open>pkg/service\<close>, which nothing uses;
  \<open>validateIPAddress\<close>, \<open>validateTargetHost\<close> and \<open>IsImageNotFoundError\<close>, which nothing calls; constants nothing reads.
\<close>

end
